(* ===== verification/Prelude.thy ===== *)
theory Prelude
  imports Main "HOL-Library.Word"
begin

text \<open>
  Shared vocabulary of the development: machine integers, Go errors and panics as values, and
  a state monad for Go functions. A Go function that may return an error or panic is a
  function from the state to a result and the state it leaves behind: the state changes made
  before an error or a panic stay visible, as they do in Go. The collections
  \<open>keeps_rules\<close> and \<open>inv_rules\<close> hold the structural rules with which the component
  theories prove that an operation leaves a part of the state alone or preserves an
  invariant.
\<close>

named_theorems keeps_rules \<open>frame rules: an operation leaves an observation of the state unchanged\<close>
named_theorems inv_rules \<open>preservation rules: an operation preserves a predicate of the state\<close>
named_theorems go_simps \<open>evaluation of the Go monad on a state\<close>

section \<open>Machine integers and bytes\<close>

type_synonym u8 = "8 word"
type_synonym u16 = "16 word"
type_synonym u32 = "32 word"
type_synonym u64 = "64 word"
type_synonym bytes = "8 word list"

section \<open>Errors, panics and results\<close>

text \<open>
  \<open>Errno\<close> is a \<open>syscall.Errno\<close>; the sentinel errors of the sources are constructors of
  their own, since Go compares them by identity; \<open>Errorf\<close> and \<open>ErrorfW\<close> are
  \<open>fmt.Errorf\<close> without and with a \<open>%w\<close> verb, with the format string, the numeric operands,
  the string operands and the wrapped error.
\<close>

datatype goerror =
    Errno u64
  | EOF
  | ErrUnexpectedEOF
  | ErrExit
  | ErrUnknownHypercall
  | ErrUnexpectedExitReason
  | ErrDebug
  | ErrNew string
  | Errorf string "u64 list"
  | ErrorfW string "u64 list" "string list" goerror

text \<open>\<open>errors.Is\<close>: the error itself or one it wraps is the target.\<close>

fun errors_Is :: "goerror \<Rightarrow> goerror \<Rightarrow> bool" where
  "errors_Is (ErrorfW f ns ss e) t \<longleftrightarrow> ErrorfW f ns ss e = t \<or> errors_Is e t"
| "errors_Is e t \<longleftrightarrow> e = t"

datatype gopanic =
    IndexOutOfRange
  | SliceBoundsOutOfRange
  | NilDereference
  | MakeSliceOutOfRange
  | NegativeWaitGroup
  | PanicErr goerror

datatype 'a res = Ok 'a | Err goerror | Panic gopanic

type_synonym ('s, 'a) go = "'s \<Rightarrow> 'a res \<times> 's"

section \<open>The monad of Go functions\<close>

definition ret :: "'a \<Rightarrow> ('s, 'a) go" where
  "ret x s = (Ok x, s)"

definition throw :: "goerror \<Rightarrow> ('s, 'a) go" where
  "throw e s = (Err e, s)"

definition panic :: "gopanic \<Rightarrow> ('s, 'a) go" where
  "panic p s = (Panic p, s)"

definition gets :: "('s \<Rightarrow> 'a) \<Rightarrow> ('s, 'a) go" where
  "gets f s = (Ok (f s), s)"

definition modify :: "('s \<Rightarrow> 's) \<Rightarrow> ('s, unit) go" where
  "modify f s = (Ok (), f s)"

text \<open>Sequencing: an error return or a panic ends the function.\<close>

definition bnd :: "('s, 'a) go \<Rightarrow> ('a \<Rightarrow> ('s, 'b) go) \<Rightarrow> ('s, 'b) go" where
  "bnd m f s =
     (case m s of
        (Ok x, s') \<Rightarrow> f x s'
      | (Err e, s') \<Rightarrow> (Err e, s')
      | (Panic p, s') \<Rightarrow> (Panic p, s'))"

text \<open>The caller inspects the returned error itself; a panic still propagates.\<close>

definition attempt :: "('s, 'a) go \<Rightarrow> ('s, goerror + 'a) go" where
  "attempt m s =
     (case m s of
        (Ok x, s') \<Rightarrow> (Ok (Inr x), s')
      | (Err e, s') \<Rightarrow> (Ok (Inl e), s')
      | (Panic p, s') \<Rightarrow> (Panic p, s'))"

text \<open>\<open>if err != nil { return ..., err }\<close>\<close>

definition check :: "goerror option \<Rightarrow> ('s, unit) go" where
  "check e = (case e of None \<Rightarrow> ret () | Some err \<Rightarrow> throw err)"

text \<open>\<open>if err != nil { return fmt.Errorf("...: %w", err) }\<close>\<close>

definition check_wrap :: "string \<Rightarrow> goerror option \<Rightarrow> ('s, unit) go" where
  "check_wrap f e = (case e of None \<Rightarrow> ret () | Some err \<Rightarrow> throw (ErrorfW f [] [] err))"

text \<open>An expression \<open>xs[i]\<close>: Go panics when the index is out of range.\<close>

definition index :: "'a list \<Rightarrow> nat \<Rightarrow> ('s, 'a) go" where
  "index xs i = (if i < length xs then ret (xs ! i) else panic IndexOutOfRange)"

text \<open>A loop over a list whose body may fail.\<close>

fun for_each :: "'a list \<Rightarrow> ('a \<Rightarrow> ('s, unit) go) \<Rightarrow> ('s, unit) go" where
  "for_each [] f = ret ()"
| "for_each (x # xs) f = bnd (f x) (\<lambda>_. for_each xs f)"

lemma ret_apply [go_simps]: "ret x s = (Ok x, s)" by (simp add: ret_def)
lemma throw_apply [go_simps]: "throw e s = (Err e, s)" by (simp add: throw_def)
lemma panic_apply [go_simps]: "panic p s = (Panic p, s)" by (simp add: panic_def)
lemma gets_apply [go_simps]: "gets f s = (Ok (f s), s)" by (simp add: gets_def)
lemma modify_apply [go_simps]: "modify f s = (Ok (), f s)" by (simp add: modify_def)

lemma bnd_Ok [go_simps]: "m s = (Ok x, s') \<Longrightarrow> bnd m f s = f x s'" by (simp add: bnd_def)
lemma bnd_Err [go_simps]: "m s = (Err e, s') \<Longrightarrow> bnd m f s = (Err e, s')" by (simp add: bnd_def)
lemma bnd_Panic [go_simps]: "m s = (Panic p, s') \<Longrightarrow> bnd m f s = (Panic p, s')"
  by (simp add: bnd_def)

lemma bnd_ret [simp]: "bnd (ret x) f = f x" by (simp add: bnd_def ret_def fun_eq_iff)
lemma bnd_throw [simp]: "bnd (throw e) f = throw e" by (simp add: bnd_def throw_def fun_eq_iff)
lemma bnd_panic [simp]: "bnd (panic p) f = panic p" by (simp add: bnd_def panic_def fun_eq_iff)
lemma bnd_gets [go_simps]: "bnd (gets g) f s = f (g s) s" by (simp add: bnd_def gets_def)
lemma bnd_modify [go_simps]: "bnd (modify g) f s = f () (g s)" by (simp add: bnd_def modify_def)

lemma bnd_right_unit [simp]: "bnd m ret = m"
  by (simp add: bnd_def ret_def fun_eq_iff split: prod.splits res.splits)

lemma bnd_assoc: "bnd (bnd m f) g = bnd m (\<lambda>x. bnd (f x) g)"
  by (simp add: bnd_def fun_eq_iff split: prod.splits res.splits)

lemma check_None [simp]: "check None = ret ()" by (simp add: check_def)
lemma check_Some [simp]: "check (Some e) = throw e" by (simp add: check_def)
lemma check_wrap_None [simp]: "check_wrap f None = ret ()" by (simp add: check_wrap_def)
lemma check_wrap_Some [simp]: "check_wrap f (Some e) = throw (ErrorfW f [] [] e)"
  by (simp add: check_wrap_def)

lemma bnd_OkE:
  assumes "bnd m f s = (Ok y, t)"
  obtains x s' where "m s = (Ok x, s')" "f x s' = (Ok y, t)"
  using assms by (auto simp: bnd_def split: prod.splits res.splits)

lemma check_OkD [dest!]: "check e s = (Ok u, t) \<Longrightarrow> e = None \<and> t = s"
  by (cases e) (auto simp: go_simps)

lemma check_wrap_OkD [dest!]: "check_wrap f e s = (Ok u, t) \<Longrightarrow> e = None \<and> t = s"
  by (cases e) (auto simp: go_simps)

lemma index_OkD [dest!]: "index xs i s = (Ok x, t) \<Longrightarrow> i < length xs \<and> x = xs ! i \<and> t = s"
  by (auto simp: index_def go_simps split: if_splits)

lemma index_in [simp]: "i < length xs \<Longrightarrow> index xs i = ret (xs ! i)"
  by (simp add: index_def)

lemma index_out [simp]: "\<not> i < length xs \<Longrightarrow> index xs i = panic IndexOutOfRange"
  by (simp add: index_def)

section \<open>Frames and invariants\<close>

text \<open>\<open>keeps f m\<close>: however \<open>m\<close> ends, the observation \<open>f\<close> of the state is unchanged.\<close>

definition keeps :: "('s \<Rightarrow> 'b) \<Rightarrow> ('s, 'a) go \<Rightarrow> bool" where
  "keeps f m \<longleftrightarrow> (\<forall>s. f (snd (m s)) = f s)"

text \<open>\<open>preserves I m\<close>: however \<open>m\<close> ends, the predicate \<open>I\<close> still holds.\<close>

definition preserves :: "('s \<Rightarrow> bool) \<Rightarrow> ('s, 'a) go \<Rightarrow> bool" where
  "preserves I m \<longleftrightarrow> (\<forall>s. I s \<longrightarrow> I (snd (m s)))"

lemma keepsD: "keeps f m \<Longrightarrow> m s = (r, t) \<Longrightarrow> f t = f s"
  by (auto simp: keeps_def dest: spec [where x = s])

lemma preservesD: "preserves I m \<Longrightarrow> I s \<Longrightarrow> m s = (r, t) \<Longrightarrow> I t"
  by (auto simp: preserves_def dest: spec [where x = s])

lemma keeps_preserves: "keeps f m \<Longrightarrow> preserves (\<lambda>s. P (f s)) m"
  by (simp add: keeps_def preserves_def)

lemma keeps_ret [keeps_rules]: "keeps f (ret x)" by (simp add: keeps_def ret_def)
lemma keeps_throw [keeps_rules]: "keeps f (throw e)" by (simp add: keeps_def throw_def)
lemma keeps_panic [keeps_rules]: "keeps f (panic p)" by (simp add: keeps_def panic_def)
lemma keeps_gets [keeps_rules]: "keeps f (gets g)" by (simp add: keeps_def gets_def)
lemma keeps_check [keeps_rules]: "keeps f (check e)"
  by (cases e) (simp_all add: keeps_rules)
lemma keeps_check_wrap [keeps_rules]: "keeps f (check_wrap g e)"
  by (cases e) (simp_all add: keeps_rules)
lemma keeps_index [keeps_rules]: "keeps f (index xs i)"
  by (simp add: index_def keeps_rules)

lemma keeps_modify: "(\<And>s. f (g s) = f s) \<Longrightarrow> keeps f (modify g)"
  by (simp add: keeps_def modify_def)

lemma keeps_bnd [keeps_rules]:
  assumes "keeps f m" and "\<And>x. keeps f (g x)"
  shows "keeps f (bnd m g)"
  using assms by (simp add: keeps_def bnd_def split: prod.splits res.splits) (metis snd_conv)

lemma keeps_attempt [keeps_rules]: "keeps f m \<Longrightarrow> keeps f (attempt m)"
  by (simp add: keeps_def attempt_def split: prod.splits res.splits) (metis snd_conv)

lemma keeps_if [keeps_rules]:
  "(b \<Longrightarrow> keeps f m) \<Longrightarrow> (\<not> b \<Longrightarrow> keeps f n) \<Longrightarrow> keeps f (if b then m else n)"
  by simp

lemma keeps_option [keeps_rules]:
  "keeps f m \<Longrightarrow> (\<And>x. keeps f (g x)) \<Longrightarrow> keeps f (case v of None \<Rightarrow> m | Some x \<Rightarrow> g x)"
  by (cases v) simp_all

lemma keeps_sum [keeps_rules]:
  "(\<And>x. keeps f (g x)) \<Longrightarrow> (\<And>x. keeps f (k x)) \<Longrightarrow>
   keeps f (case v of Inl x \<Rightarrow> g x | Inr x \<Rightarrow> k x)"
  by (cases v) simp_all

lemma keeps_prod [keeps_rules]:
  "(\<And>x y. keeps f (g x y)) \<Longrightarrow> keeps f (case v of (x, y) \<Rightarrow> g x y)"
  by (cases v) simp

lemma keeps_prod_app [keeps_rules]:
  "(\<And>x y. keeps f (g x y z)) \<Longrightarrow> keeps f ((case v of (x, y) \<Rightarrow> g x y) z)"
  by (cases v) simp

lemma keeps_for_each [keeps_rules]: "(\<And>x. keeps f (g x)) \<Longrightarrow> keeps f (for_each xs g)"
  by (induction xs) (simp_all add: keeps_rules)

lemma preserves_ret [inv_rules]: "preserves f (ret x)" by (simp add: preserves_def ret_def)
lemma preserves_throw [inv_rules]: "preserves f (throw e)" by (simp add: preserves_def throw_def)
lemma preserves_panic [inv_rules]: "preserves f (panic p)" by (simp add: preserves_def panic_def)
lemma preserves_gets [inv_rules]: "preserves f (gets g)" by (simp add: preserves_def gets_def)
lemma preserves_check [inv_rules]: "preserves f (check e)"
  by (cases e) (simp_all add: inv_rules)
lemma preserves_index [inv_rules]: "preserves f (index xs i)"
  by (simp add: index_def inv_rules)

lemma preserves_modify: "(\<And>s. I s \<Longrightarrow> I (g s)) \<Longrightarrow> preserves I (modify g)"
  by (simp add: preserves_def modify_def)

lemma preserves_bnd [inv_rules]:
  assumes "preserves I m" and "\<And>x. preserves I (g x)"
  shows "preserves I (bnd m g)"
  unfolding preserves_def
proof (intro allI impI)
  fix s assume "I s"
  obtain r t where m: "m s = (r, t)" by (cases "m s")
  with assms(1) \<open>I s\<close> have "I t" by (blast dest: preservesD)
  with m assms(2) show "I (snd (bnd m g s))"
    by (cases r) (auto simp: go_simps preserves_def)
qed

lemma snd_attempt [simp]: "snd (attempt m s) = snd (m s)"
  by (simp add: attempt_def split: prod.splits res.splits)

text \<open>What was read from a good state satisfies what the invariant says of it.\<close>

lemma preserves_gets_bnd:
  "(\<And>s. I s \<Longrightarrow> preserves I (k (g s))) \<Longrightarrow> preserves I (bnd (gets g) k)"
  by (simp add: preserves_def bnd_gets)

lemma preserves_attempt [inv_rules]: "preserves I m \<Longrightarrow> preserves I (attempt m)"
  by (simp add: preserves_def)

lemma preserves_if [inv_rules]:
  "(b \<Longrightarrow> preserves I m) \<Longrightarrow> (\<not> b \<Longrightarrow> preserves I n) \<Longrightarrow> preserves I (if b then m else n)"
  by simp

lemma preserves_option [inv_rules]:
  "preserves I m \<Longrightarrow> (\<And>x. preserves I (g x)) \<Longrightarrow>
   preserves I (case v of None \<Rightarrow> m | Some x \<Rightarrow> g x)"
  by (cases v) simp_all

lemma preserves_sum [inv_rules]:
  "(\<And>x. preserves I (g x)) \<Longrightarrow> (\<And>x. preserves I (k x)) \<Longrightarrow>
   preserves I (case v of Inl x \<Rightarrow> g x | Inr x \<Rightarrow> k x)"
  by (cases v) simp_all

lemma preserves_prod [inv_rules]:
  "(\<And>x y. preserves I (g x y)) \<Longrightarrow> preserves I (case v of (x, y) \<Rightarrow> g x y)"
  by (cases v) simp

lemma preserves_prod_app [inv_rules]:
  "(\<And>x y. preserves I (g x y z)) \<Longrightarrow> preserves I ((case v of (x, y) \<Rightarrow> g x y) z)"
  by (cases v) simp

lemma preserves_for_each [inv_rules]:
  "(\<And>x. preserves I (g x)) \<Longrightarrow> preserves I (for_each xs g)"
  by (induction xs) (simp_all add: inv_rules)

text \<open>\<open>same I m n\<close>: from a state where \<open>I\<close> holds, \<open>m\<close> and \<open>n\<close> cannot be told apart.\<close>

definition same :: "('s \<Rightarrow> bool) \<Rightarrow> ('s, 'a) go \<Rightarrow> ('s, 'a) go \<Rightarrow> bool" where
  "same I m n \<longleftrightarrow> (\<forall>s. I s \<longrightarrow> m s = n s)"

named_theorems same_rules \<open>structural rules for operations that cannot be told apart\<close>

lemma sameD: "same I m n \<Longrightarrow> I s \<Longrightarrow> m s = n s"
  by (simp add: same_def)

lemma same_refl [simp, same_rules]: "same I m m" by (simp add: same_def)

lemma same_bnd [same_rules]:
  assumes "same I m m'" and "preserves I m" and "\<And>x. same I (k x) (k' x)"
  shows "same I (bnd m k) (bnd m' k')"
  unfolding same_def
proof (intro allI impI)
  fix s assume "I s"
  obtain r t where m: "m s = (r, t)" by (cases "m s")
  with assms(2) \<open>I s\<close> have "I t" by (blast dest: preservesD)
  moreover from sameD [OF assms(1) \<open>I s\<close>] m have "m' s = (r, t)" by simp
  ultimately show "bnd m k s = bnd m' k' s"
    using m assms(3) by (cases r) (auto simp: go_simps same_def)
qed

lemma same_gets_bnd:
  "(\<And>s. I s \<Longrightarrow> same I (k (g s)) (k' (g s))) \<Longrightarrow> same I (bnd (gets g) k) (bnd (gets g) k')"
  by (simp add: same_def bnd_gets)

lemma same_attempt [same_rules]: "same I m n \<Longrightarrow> same I (attempt m) (attempt n)"
  by (simp add: same_def attempt_def)

lemma same_if [same_rules]:
  "(b \<Longrightarrow> same I m m') \<Longrightarrow> (\<not> b \<Longrightarrow> same I n n') \<Longrightarrow> same I (if b then m else n) (if b then m' else n')"
  by simp

lemma same_option [same_rules]:
  "same I m m' \<Longrightarrow> (\<And>x. same I (g x) (g' x)) \<Longrightarrow>
   same I (case v of None \<Rightarrow> m | Some x \<Rightarrow> g x) (case v of None \<Rightarrow> m' | Some x \<Rightarrow> g' x)"
  by (cases v) simp_all

lemma same_sum [same_rules]:
  "(\<And>x. same I (g x) (g' x)) \<Longrightarrow> (\<And>x. same I (k x) (k' x)) \<Longrightarrow>
   same I (case v of Inl x \<Rightarrow> g x | Inr x \<Rightarrow> k x) (case v of Inl x \<Rightarrow> g' x | Inr x \<Rightarrow> k' x)"
  by (cases v) simp_all

lemma same_prod [same_rules]:
  "(\<And>x y. same I (g x y) (g' x y)) \<Longrightarrow> same I (case v of (x, y) \<Rightarrow> g x y) (case v of (x, y) \<Rightarrow> g' x y)"
  by (cases v) simp

section \<open>Lists as memories\<close>

text \<open>Overwriting a memory from an offset on, where the bytes fit.\<close>

definition mem_write :: "nat \<Rightarrow> 'a list \<Rightarrow> 'a list \<Rightarrow> 'a list" where
  "mem_write off bs m = take off m @ bs @ drop (off + length bs) m"

definition mem_read :: "nat \<Rightarrow> nat \<Rightarrow> 'a list \<Rightarrow> 'a list" where
  "mem_read off n m = take n (drop off m)"

lemma length_mem_write [simp]: "off + length bs \<le> length m \<Longrightarrow> length (mem_write off bs m) = length m"
  by (simp add: mem_write_def)

lemma length_mem_read [simp]: "off + n \<le> length m \<Longrightarrow> length (mem_read off n m) = n"
  by (simp add: mem_read_def)

lemma nth_mem_write:
  "off + length bs \<le> length m \<Longrightarrow> i < length m \<Longrightarrow>
   mem_write off bs m ! i = (if off \<le> i \<and> i < off + length bs then bs ! (i - off) else m ! i)"
  by (auto simp: mem_write_def nth_append min_def)

lemma mem_write_Nil [simp]: "mem_write off [] m = m"
  by (simp add: mem_write_def)

lemma mem_read_write_same [simp]:
  "off + length bs \<le> length m \<Longrightarrow> mem_read off (length bs) (mem_write off bs m) = bs"
  by (simp add: mem_read_def mem_write_def)

text \<open>Storing from an offset on; what would lie beyond the end of the memory is dropped.\<close>

definition mem_store :: "nat \<Rightarrow> 'a list \<Rightarrow> 'a list \<Rightarrow> 'a list" where
  "mem_store off bs m = mem_write off (take (length m - off) bs) m"

lemma length_mem_store [simp]: "length (mem_store off bs m) = length m"
  by (cases "off \<le> length m") (auto simp: mem_store_def mem_write_def)

lemma mem_store_fits [simp]: "off + length bs \<le> length m \<Longrightarrow> mem_store off bs m = mem_write off bs m"
  by (simp add: mem_store_def)

end
