(* ===== verification/Capability.thy ===== *)
theory Capability
  imports Prelude
begin

text \<open>
  \<open>kvm/capability.go\<close>: the KVM capabilities by the names and numbers of the source. The type is
  an 8-bit number; \<open>CheckExtension\<close> of theory \<open>Arch\<close> passes one to the kernel.
\<close>

type_synonym Capability = u8

text \<open>The table in two halves, the numbers that fit into seven bits and the others.\<close>

definition low_capabilities :: "(string \<times> Capability) list" where
  "low_capabilities =
    [(''CapIRQChip'', 0), (''CapHLT'', 1), (''CapMMUShadowCacheControl'', 2), (''CapUserMemory'', 3),
    (''CapSetTSSAddr'', 4), (''CapVAPIC'', 6), (''CapEXTCPUID'', 7), (''CapClockSource'', 8),
    (''CapNRVCPUS'', 9), (''CapNRMemSlots'', 10), (''CapPIT'', 11), (''CapNopIODelay'', 12),
    (''CapPVMMU'', 13), (''CapMPState'', 14), (''CapCoalescedMMIO'', 15), (''CapSyncMMU'', 16),
    (''CapIOMMU'', 18), (''CapDestroyMemoryRegionWorks'', 21), (''CapUserNMI'', 22),
    (''CapSetGuestDebug'', 23), (''CapReinjectControl'', 24), (''CapIRQRouting'', 25),
    (''CapIRQInjectStatus'', 26), (''CapAssignDevIRQ'', 29), (''CapJoinMemoryRegionsWorks'', 30),
    (''CapMCE'', 31), (''CapIRQFD'', 32), (''CapPIT2'', 33), (''CapSetBootCPUID'', 34),
    (''CapPITState2'', 35), (''CapIOEventFD'', 36), (''CapSetIdentityMapAddr'', 37), (''CapXENHVM'', 38),
    (''CapAdjustClock'', 39), (''CapInternalErrorData'', 40), (''CapVCPUEvents'', 41), (''CapS390PSW'', 42),
    (''CapPPCSegState'', 43), (''CapHyperV'', 44), (''CapHyperVVAPIC'', 45), (''CapHyperVSPIN'', 46),
    (''CapPCISEgment'', 47), (''CapPPCPairedSingles'', 48), (''CapINTRShadow'', 49), (''CapDebugRegs'', 50),
    (''CapX86RobustSinglestep'', 51), (''CapPPCOSI'', 52), (''CapPPCUnsetIRQ'', 53), (''CapEnableCap'', 54),
    (''CapXSave'', 55), (''CapXCRS'', 56), (''CapPPCGetPVInfo'', 57), (''CapPPCIRQLevel'', 58),
    (''CapASYNCPF'', 59), (''CapTSCControl'', 60), (''CapGetTSCkHz'', 61), (''CapPPCBookeSREGS'', 62),
    (''CapSPAPRTCE'', 63), (''CapPPCSMT'', 64), (''CapPPCRMA'', 65), (''CapMAXVCPUS'', 66),
    (''CapPPCHIOR'', 67), (''CapPPCPAPR'', 68), (''CapSWTLB'', 69), (''CapONEREG'', 70),
    (''CapS390GMap'', 71), (''CapTSCDeadlineTimer'', 72), (''CapS390UControl'', 73), (''CapSyncRegs'', 74),
    (''CapPCI23'', 75), (''CapKVMClockCtrl'', 76), (''CapSignalMSI'', 77), (''CapPPCGetSMMUInfo'', 78),
    (''CapS390COW'', 79), (''CapPPCAllocHTAB'', 80), (''CapReadOnlyMem'', 81), (''CapIRQFDResample'', 82),
    (''CapPPCBokkeWatchdog'', 83), (''CapPPCHTABFD'', 84), (''CapS390CSSSupport'', 85), (''CapPPCEPR'', 86),
    (''CapARMPSCI'', 87), (''CapARMSetDeviceAddr'', 88), (''CapDeviceCtrl'', 89), (''CapIRQMPIC'', 90),
    (''CapPPCRTAS'', 91), (''CapIRQXICS'', 92), (''CapARMEL132BIT'', 93), (''CapSPAPRMultiTCE'', 94),
    (''CapEXTEmulCPUID'', 95), (''CapHyperVTIME'', 96), (''CapIOAPICPolarityIgnored'', 97),
    (''CapEnableCAPVM'', 98), (''CapS390IRQCHIP'', 99), (''CapIOEVENTFDNoLength'', 100),
    (''CapVMAttributes'', 101), (''CapARMPSCI02'', 102), (''CapPPCFixupHCALL'', 103),
    (''CapPPCEnableHCALL'', 104), (''CapCheckExtentionVM'', 105), (''CapS390UserSIGP'', 106),
    (''CapS390VectorRegisters'', 107), (''CapS390MemOp'', 108), (''CapS390UserSTSI'', 109),
    (''CapS390SKEYS'', 110), (''CapMIPSFPU'', 111), (''CapMIPSMSA'', 112), (''CapS390InjectIRQ'', 113),
    (''CapS390IRQState'', 114), (''CapPPCHWRNG'', 115), (''CapDisableQuirks'', 116), (''CapX86SMM'', 117),
    (''CapMultiAddressSpace'', 118), (''CapGuestDebugHWBPS'', 119), (''CapGuestDebugHWWPS'', 120),
    (''CapSplitIRQChip'', 121), (''CapIOEventFDAnyLength'', 122), (''CapHyperVSYNIC'', 123),
    (''CapS390RI'', 124), (''CapSPAPRTCE64'', 125), (''CapARMPMUV3'', 126), (''CapVCPUAttributes'', 127)]"

definition high_capabilities :: "(string \<times> Capability) list" where
  "high_capabilities =
    [(''CapMAXVCPUID'', 128), (''CapX2APICAPI'', 129), (''CapS390UserINSTR0'', 130), (''CapMSIDEVID'', 131),
    (''CapPPCHTM'', 132), (''CapSPAPRResizeHPT'', 133), (''CapPPCMMURADIX'', 134),
    (''CapPPCMMUHASHV3'', 135), (''CapImmediateExit'', 136), (''CapMIPSVZ'', 137), (''CapMIPSTE'', 138),
    (''CapMIPS64BIT'', 139), (''CapS390GS'', 140), (''CapS390AIS'', 141), (''CapSPAPRTCEVFIO'', 142),
    (''CapX86DisableExits'', 143), (''CapARMUserIRQ'', 144), (''CapS390CMMAMigration'', 145),
    (''CapPPCFWNMI'', 146), (''CapPPCSMTPossible'', 147), (''CapHyperVSYNIC2'', 148),
    (''CapHyperVVPIndex'', 149), (''CapS390AISMigration'', 150), (''CapPPCGetCPUChar'', 151),
    (''CapS390BPB'', 152), (''CapGETMSRFeatures'', 153), (''CapHyperVEventFD'', 154),
    (''CapHyperVTLBFlush'', 155), (''CapS390HPage1M'', 156), (''CapNestedState'', 157),
    (''CapARMInjectSErrorESR'', 158), (''CapMSRPlatformInfo'', 159), (''CapPPCNestedHV'', 160),
    (''CapHyperVSendIPI'', 161), (''CapCoalescedPIO'', 162), (''CapHyperVEnlightenedVMCS'', 163),
    (''CapExceptionPayload'', 164), (''CapARMVMIPASize'', 165), (''CapManualDirtyLogProtect'', 166),
    (''CapHyerVCPUID'', 167), (''CapManualDirtyLogProtect2'', 168), (''CapPPCIRQXive'', 169),
    (''CapARMSVE'', 170), (''CapARMPTRAuthAddress'', 171), (''CapARMPTRAuthGeneric'', 172),
    (''CapPMUEventFilter'', 173), (''CapARMIRQLineLayout2'', 174), (''CapHyperVDirectTLBFlush'', 175),
    (''CapPPCGuestDebugSStep'', 176), (''CapARMNISVToUser'', 177), (''CapARMInjectEXTDABT'', 178),
    (''CapS390VCPUResets'', 179), (''CapS390Protected'', 180), (''CapPPCSecureGuest'', 181),
    (''CapHALTPoll'', 182), (''CapASYNCPFInt'', 183), (''CapLastCPU'', 184),
    (''CapSmallerMaxPhyAddr'', 185), (''CapS390DIAG318'', 186), (''CapStealTime'', 187),
    (''CapX86UserSpaceMSR'', 188), (''CapX86MSRFilter'', 189), (''CapEnforcePVFeatureCPUID'', 190),
    (''CapSysHyperVCPUID'', 191), (''CapDirtyLogRing'', 192), (''CapX86BusLockExit'', 193),
    (''CapPPCDAWR1'', 194), (''CapSetGuestDebug2'', 195), (''CapSGXAttribute'', 196),
    (''CapVMCopyEncContextFrom'', 197), (''CapPTPKVM'', 198), (''CapHyperVEnforceCPUID'', 199),
    (''CapSREGS2'', 200), (''CapEXitHyperCall'', 201), (''CapPPCRPTInvalidate'', 202),
    (''CapBinaryStatsFD'', 203), (''CapExitOnEmulationFailure'', 204), (''CapARMMTE'', 205),
    (''CapVMMoveEncContextFrom'', 206), (''CapVMGPABits'', 207), (''CapXSave2'', 208),
    (''CapSysAttributes'', 209), (''CapPPCAILMode3'', 210), (''CapS390MemOpExtention'', 211),
    (''CapPMUCapability'', 212), (''CapDisableQuirks2'', 213), (''CapVMTSCControl'', 214),
    (''CapSystemEventData'', 215), (''CapARMSystemSuspend'', 216), (''CapS390ProtectedDump'', 217),
    (''CapX86TripleFaultEvent'', 218), (''CapX86NotifyVMExit'', 219), (''CapVMDisableNXHugePages'', 220),
    (''CapS390ZPCIOP'', 221), (''CapS390CPUTOPOLOGY'', 222), (''CapDirtyLogRingACQRel'', 223)]"

definition capabilities :: "(string \<times> Capability) list" where
  "capabilities = low_capabilities @ high_capabilities"

lemmas capabilities_defs = capabilities_def low_capabilities_def high_capabilities_def

text \<open>The two capabilities that the set-up of an arm64 machine asks for.\<close>

abbreviation (input) CapARMPMUV3 :: Capability where "CapARMPMUV3 \<equiv> 126"
abbreviation (input) CapARMVMIPASize :: Capability where "CapARMVMIPASize \<equiv> 165"

lemma capabilities_used:
  "(''CapARMPMUV3'', CapARMPMUV3) \<in> set capabilities" "(''CapARMVMIPASize'', CapARMVMIPASize) \<in> set capabilities"
  by (simp_all add: capabilities_defs)

text \<open>The numbers increase strictly, so no two names share one.\<close>

lemma capabilities_increasing: "sorted_wrt (<) (map snd capabilities)"
proof -
  have "successively (<) (map snd capabilities)" by (simp add: capabilities_defs)
  then show ?thesis by (simp add: successively_conv_sorted_wrt)
qed

lemma capabilities_distinct: "distinct (map snd capabilities)"
  using capabilities_increasing by (simp add: strict_sorted_iff)

end
