(* ===== verification/Ioctl_Codes.thy ===== *)
theory Ioctl_Codes
  imports Prelude
begin

unbundle bit_operations_syntax

text \<open>
  The ioctl request numbers: \<open>kvm/ioctl.go\<close> and the constants of \<open>kvm/kvm.go\<close>,
  \<open>kvm/kvm_arm64.go\<close> that select a KVM request. A request number packs a direction, the
  KVM type byte, a command number and the size of the argument; the lemmas below show that
  the packing loses nothing of the (masked) fields and that distinct fields give distinct
  requests.
\<close>

section \<open>Bit fields of a request number\<close>

abbreviation (input) nrbits :: nat where "nrbits \<equiv> 8"
abbreviation (input) typebits :: nat where "typebits \<equiv> 8"
abbreviation (input) sizebits :: nat where "sizebits \<equiv> 14"
abbreviation (input) dirbits :: nat where "dirbits \<equiv> 2"

definition nrmask :: u64 where "nrmask = push_bit nrbits 1 - 1"
definition sizemask :: u64 where "sizemask = push_bit sizebits 1 - 1"
definition dirmask :: u64 where "dirmask = push_bit dirbits 1 - 1"

abbreviation (input) dir_none :: u64 where "dir_none \<equiv> 0"
abbreviation (input) dir_write :: u64 where "dir_write \<equiv> 1"
abbreviation (input) dir_read :: u64 where "dir_read \<equiv> 2"
abbreviation (input) dir_readwrite :: u64 where "dir_readwrite \<equiv> 3"

abbreviation (input) nrshift :: nat where "nrshift \<equiv> 0"
abbreviation (input) typeshift :: nat where "typeshift \<equiv> nrshift + nrbits"
abbreviation (input) sizeshift :: nat where "sizeshift \<equiv> typeshift + typebits"
abbreviation (input) dirshift :: nat where "dirshift \<equiv> sizeshift + sizebits"

abbreviation (input) KVMIO :: u64 where "KVMIO \<equiv> 0xAE"

definition IIOC :: "u64 \<Rightarrow> u64 \<Rightarrow> u64 \<Rightarrow> u64" where
  "IIOC dir nr sz =
     push_bit dirshift (dir AND dirmask) OR push_bit typeshift KVMIO OR
     (push_bit nrshift (nr AND nrmask) OR push_bit sizeshift (sz AND sizemask))"

definition IIOWR :: "u64 \<Rightarrow> u64 \<Rightarrow> u64" where "IIOWR nr sz = IIOC dir_readwrite nr sz"
definition IIOR :: "u64 \<Rightarrow> u64 \<Rightarrow> u64" where "IIOR nr sz = IIOC dir_read nr sz"
definition IIOW :: "u64 \<Rightarrow> u64 \<Rightarrow> u64" where "IIOW nr sz = IIOC dir_write nr sz"
definition IIO :: "u64 \<Rightarrow> u64" where "IIO nr = IIOC dir_none nr 0"

section \<open>Command numbers\<close>

abbreviation (input) kvmGetAPIVersion :: u64 where "kvmGetAPIVersion \<equiv> 0x00"
abbreviation (input) kvmCreateVM :: u64 where "kvmCreateVM \<equiv> 0x1"
abbreviation (input) kvmCheckExtension :: u64 where "kvmCheckExtension \<equiv> 0x03"
abbreviation (input) kvmGetVCPUMMapSize :: u64 where "kvmGetVCPUMMapSize \<equiv> 0x04"
abbreviation (input) kvmGetSupportedCPUID :: u64 where "kvmGetSupportedCPUID \<equiv> 0x05"
abbreviation (input) kvmGetEmulatedCPUID :: u64 where "kvmGetEmulatedCPUID \<equiv> 0x09"
abbreviation (input) kvmCreateVCPU :: u64 where "kvmCreateVCPU \<equiv> 0x41"
abbreviation (input) kvmSetUserMemoryRegion :: u64 where "kvmSetUserMemoryRegion \<equiv> 0x46"
abbreviation (input) kvmSetTSSAddr :: u64 where "kvmSetTSSAddr \<equiv> 0x47"
abbreviation (input) kvmSetIdentityMapAddr :: u64 where "kvmSetIdentityMapAddr \<equiv> 0x48"
abbreviation (input) kvmCreateIRQChip :: u64 where "kvmCreateIRQChip \<equiv> 0x60"
abbreviation (input) kvmIRQLine :: u64 where "kvmIRQLine \<equiv> 0x61"
abbreviation (input) kvmCreatePIT2 :: u64 where "kvmCreatePIT2 \<equiv> 0x77"
abbreviation (input) kvmRun :: u64 where "kvmRun \<equiv> 0x80"
abbreviation (input) kvmGetRegs :: u64 where "kvmGetRegs \<equiv> 0x81"
abbreviation (input) kvmSetRegs :: u64 where "kvmSetRegs \<equiv> 0x82"
abbreviation (input) kvmGetSregs :: u64 where "kvmGetSregs \<equiv> 0x83"
abbreviation (input) kvmSetSregs :: u64 where "kvmSetSregs \<equiv> 0x84"
abbreviation (input) kvmTranslate :: u64 where "kvmTranslate \<equiv> 0x85"
abbreviation (input) kvmSetCPUID2 :: u64 where "kvmSetCPUID2 \<equiv> 0x90"
abbreviation (input) kvmGetCPUID2 :: u64 where "kvmGetCPUID2 \<equiv> 0x91"
abbreviation (input) kvmSetGuestDebug :: u64 where "kvmSetGuestDebug \<equiv> 0x9b"
abbreviation (input) kvmGetDebugRegs :: u64 where "kvmGetDebugRegs \<equiv> 0xA1"
abbreviation (input) kvmSetDebugRegs :: u64 where "kvmSetDebugRegs \<equiv> 0xA2"
abbreviation (input) kvmGetOneReg :: u64 where "kvmGetOneReg \<equiv> 0xAB"
abbreviation (input) kvmSetOneReg :: u64 where "kvmSetOneReg \<equiv> 0xAC"
abbreviation (input) kvmArmVcpuInit :: u64 where "kvmArmVcpuInit \<equiv> 0xAE"
abbreviation (input) kvmArmPreferredTarget :: u64 where "kvmArmPreferredTarget \<equiv> 0xAF"
abbreviation (input) kvmGetSRegs2 :: u64 where "kvmGetSRegs2 \<equiv> 0xCC"
abbreviation (input) kvmSetSRegs2 :: u64 where "kvmSetSRegs2 \<equiv> 0xCD"
abbreviation (input) kvmCreateDevice :: u64 where "kvmCreateDevice \<equiv> 0xE0"
abbreviation (input) kvmSetDeviceAttr :: u64 where "kvmSetDeviceAttr \<equiv> 0xE1"

text \<open>The command numbers that are declared and not used.\<close>

abbreviation (input) kvmGetMSRIndexList :: u64 where "kvmGetMSRIndexList \<equiv> 0x02"
abbreviation (input) kvmGetMSRFeatureIndexList :: u64 where "kvmGetMSRFeatureIndexList \<equiv> 0x0A"
abbreviation (input) kvmGetDirtyLog :: u64 where "kvmGetDirtyLog \<equiv> 0x42"
abbreviation (input) kvmSetNrMMUPages :: u64 where "kvmSetNrMMUPages \<equiv> 0x44"
abbreviation (input) kvmGetNrMMUPages :: u64 where "kvmGetNrMMUPages \<equiv> 0x45"
abbreviation (input) kvmGetIRQChip :: u64 where "kvmGetIRQChip \<equiv> 0x62"
abbreviation (input) kvmSetIRQChip :: u64 where "kvmSetIRQChip \<equiv> 0x63"
abbreviation (input) kvmIRQLineStatus :: u64 where "kvmIRQLineStatus \<equiv> 0x67"
abbreviation (input) kvmGetDeviceAttr :: u64 where "kvmGetDeviceAttr \<equiv> 0xE2"
abbreviation (input) kvmHasDeviceAttr :: u64 where "kvmHasDeviceAttr \<equiv> 0xE3"
abbreviation (input) kvmResgisterCoalescedMMIO :: u64 where "kvmResgisterCoalescedMMIO \<equiv> 0x67"
abbreviation (input) kvmUnResgisterCoalescedMMIO :: u64 where "kvmUnResgisterCoalescedMMIO \<equiv> 0x68"
abbreviation (input) kvmSetGSIRouting :: u64 where "kvmSetGSIRouting \<equiv> 0x6A"
abbreviation (input) kvmReinjectControl :: u64 where "kvmReinjectControl \<equiv> 0x71"
abbreviation (input) kvmSetClock :: u64 where "kvmSetClock \<equiv> 0x7B"
abbreviation (input) kvmGetClock :: u64 where "kvmGetClock \<equiv> 0x7C"
abbreviation (input) kvmInterrupt :: u64 where "kvmInterrupt \<equiv> 0x86"
abbreviation (input) kvmGetMSRS :: u64 where "kvmGetMSRS \<equiv> 0x88"
abbreviation (input) kvmSetMSRS :: u64 where "kvmSetMSRS \<equiv> 0x89"
abbreviation (input) kvmGetLAPIC :: u64 where "kvmGetLAPIC \<equiv> 0x8e"
abbreviation (input) kvmSetLAPIC :: u64 where "kvmSetLAPIC \<equiv> 0x8f"
abbreviation (input) kvmTRPAccessReporting :: u64 where "kvmTRPAccessReporting \<equiv> 0x92"
abbreviation (input) kvmGetMPState :: u64 where "kvmGetMPState \<equiv> 0x98"
abbreviation (input) kvmSetMPState :: u64 where "kvmSetMPState \<equiv> 0x99"
abbreviation (input) kvmX86SetupMCE :: u64 where "kvmX86SetupMCE \<equiv> 0x9C"
abbreviation (input) kvmX86GetMCECapSupported :: u64 where "kvmX86GetMCECapSupported \<equiv> 0x9D"
abbreviation (input) kvmGetPIT2 :: u64 where "kvmGetPIT2 \<equiv> 0x9F"
abbreviation (input) kvmSetPIT2 :: u64 where "kvmSetPIT2 \<equiv> 0xA0"
abbreviation (input) kvmGetVCPUEvents :: u64 where "kvmGetVCPUEvents \<equiv> 0x9F"
abbreviation (input) kvmSetVCPUEvents :: u64 where "kvmSetVCPUEvents \<equiv> 0xA0"
abbreviation (input) kvmSetTSCKHz :: u64 where "kvmSetTSCKHz \<equiv> 0xA2"
abbreviation (input) kvmGetTSCKHz :: u64 where "kvmGetTSCKHz \<equiv> 0xA3"
abbreviation (input) kvmGetXCRS :: u64 where "kvmGetXCRS \<equiv> 0xA6"
abbreviation (input) kvmSetXCRS :: u64 where "kvmSetXCRS \<equiv> 0xA7"
abbreviation (input) kvmSMI :: u64 where "kvmSMI \<equiv> 0xB7"
abbreviation (input) kvmCreateDev :: u64 where "kvmCreateDev \<equiv> 0xE0"
abbreviation (input) kvmArmVCPUFinalize :: u64 where "kvmArmVCPUFinalize \<equiv> 0xC2"
abbreviation (input) kvmArmSetDeviceAddr :: u64 where "kvmArmSetDeviceAddr \<equiv> 0xAB"

abbreviation (input) kvmMemReadonly :: u32 where "kvmMemReadonly \<equiv> push_bit 1 1"

section \<open>The packing is faithful\<close>

text \<open>The fields of a request number, as the kernel's \<open>_IOC_DIR\<close>, \<open>_IOC_TYPE\<close>,
  \<open>_IOC_NR\<close> and \<open>_IOC_SIZE\<close> read them.\<close>

definition ioc_dir :: "u64 \<Rightarrow> u64" where "ioc_dir c = drop_bit 30 c AND mask 2"
definition ioc_type :: "u64 \<Rightarrow> u64" where "ioc_type c = drop_bit 8 c AND mask 8"
definition ioc_nr :: "u64 \<Rightarrow> u64" where "ioc_nr c = c AND mask 8"
definition ioc_size :: "u64 \<Rightarrow> u64" where "ioc_size c = drop_bit 16 c AND mask 14"

lemmas ioc_defs = ioc_dir_def ioc_type_def ioc_nr_def ioc_size_def

lemma masks: "nrmask = mask 8" "sizemask = mask 14" "dirmask = mask 2"
  by (simp_all add: nrmask_def sizemask_def dirmask_def mask_eq_exp_minus_1)

lemma pack_fields:
  fixes d n s t :: u64
  assumes small: "take_bit 8 t = t"
  defines "c \<equiv> push_bit 30 (d AND mask 2) OR push_bit 8 t OR (n AND mask 8 OR push_bit 16 (s AND mask 14))"
  shows "ioc_dir c = d AND mask 2" "ioc_type c = t" "ioc_nr c = n AND mask 8" "ioc_size c = s AND mask 14"
proof -
  have t: "i < 8" if "bit t i" for i
    using that small by (metis bit_take_bit_iff)
  show "ioc_dir c = d AND mask 2" "ioc_type c = t" "ioc_nr c = n AND mask 8"
    "ioc_size c = s AND mask 14"
    unfolding ioc_defs c_def by (rule bit_word_eqI; auto simp: bit_simps dest: t)+
qed

lemma ioc_IIOC [simp]:
  "ioc_dir (IIOC d n s) = d AND dirmask"
  "ioc_type (IIOC d n s) = KVMIO"
  "ioc_nr (IIOC d n s) = n AND nrmask"
  "ioc_size (IIOC d n s) = s AND sizemask"
  using pack_fields [of KVMIO d n s] by (simp_all add: IIOC_def masks)

text \<open>The packing of an ioctl request loses nothing: two requests built by \<open>IIOC\<close> are
  equal exactly when their masked direction, command number and argument size are equal, so
  the kernel can never mistake one KVM request of the hypervisor for another.\<close>

lemma IIOC_eq_iff:
  "IIOC d n s = IIOC d' n' s' \<longleftrightarrow>
     d AND dirmask = d' AND dirmask \<and> n AND nrmask = n' AND nrmask \<and>
     s AND sizemask = s' AND sizemask"
proof
  assume eq: "IIOC d n s = IIOC d' n' s'"
  show "d AND dirmask = d' AND dirmask \<and> n AND nrmask = n' AND nrmask \<and>
     s AND sizemask = s' AND sizemask"
    using arg_cong [OF eq, of ioc_dir] arg_cong [OF eq, of ioc_nr] arg_cong [OF eq, of ioc_size]
    by simp
qed (simp add: IIOC_def)

end
