(* ===== verification/Bytes.thy ===== *)
theory Bytes
  imports Prelude
begin

text \<open>
  Little-endian encodings. The structures that the hypervisor hands to the kernel by address
  (\<open>unsafe.Pointer(&x)\<close>) are byte sequences laid out by the Go compiler on the 64-bit
  little-endian targets amd64 and arm64; \<open>binary.LittleEndian\<close> and \<open>binary.Read\<close>/\<open>Write\<close>
  use the same encodings. The locale \<open>codec\<close> is the contract of one such structure: how
  many bytes it has, that decoding an encoding gives the value back and that encoding what
  was decoded gives the bytes back.
\<close>

named_theorems codec_simps \<open>decoding what was encoded\<close>
named_theorems codec_lens \<open>lengths of encodings\<close>

section \<open>Numbers\<close>

primrec le_bytes :: "nat \<Rightarrow> nat \<Rightarrow> bytes" where
  "le_bytes 0 x = []"
| "le_bytes (Suc n) x = word_of_nat (x mod 256) # le_bytes n (x div 256)"

fun le_val :: "bytes \<Rightarrow> nat" where
  "le_val [] = 0"
| "le_val (b # bs) = unat b + 256 * le_val bs"

lemma le_bytes_numeral:
  "le_bytes (numeral k) x = word_of_nat (x mod 256) # le_bytes (pred_numeral k) (x div 256)"
  by (simp add: numeral_eq_Suc [of k])

lemma length_le_bytes [simp]: "length (le_bytes n x) = n"
  by (induction n arbitrary: x) auto

lemma unat_byte [simp]: "unat (word_of_nat (x mod 256) :: u8) = x mod 256"
  by (simp add: unat_of_nat)

lemma le_val_le_bytes: "le_val (le_bytes n x) = x mod 256 ^ n"
proof (induction n arbitrary: x)
  case (Suc n)
  have "x mod (256 * 256 ^ n) = 256 * (x div 256 mod 256 ^ n) + x mod 256"
    by (rule mod_mult2_eq)
  with Suc show ?case by simp
qed simp

lemma unat_u8_less [simp]: "unat (b :: u8) < 256"
  using unsigned_less [of b] by simp

lemma le_bytes_le_val [simp]: "le_bytes (length bs) (le_val bs) = bs"
proof (induction bs)
  case (Cons b bs)
  have "(unat b + 256 * le_val bs) mod 256 = unat b" "(unat b + 256 * le_val bs) div 256 = le_val bs"
    by simp_all
  with Cons show ?case by simp
qed simp

lemma le_val_zeros: "le_val (replicate n 0) = 0"
  by (induction n) simp_all

lemma le_val_bound: "le_val bs < 256 ^ length bs"
proof (induction bs)
  case (Cons b bs)
  have "unat b < 256" "le_val bs + 1 \<le> 256 ^ length bs" using Cons by simp_all
  then show ?case by (simp only: le_val.simps length_Cons power_Suc)
qed simp

lemma unat_mod_size [simp]: "unat (w :: 'a :: len word) mod 2 ^ LENGTH('a) = unat w"
  by (rule mod_less) (rule unsigned_less)

section \<open>Machine words\<close>

definition le8 :: "u8 \<Rightarrow> bytes" where "le8 w = le_bytes 1 (unat w)"
definition le16 :: "u16 \<Rightarrow> bytes" where "le16 w = le_bytes 2 (unat w)"
definition le32 :: "u32 \<Rightarrow> bytes" where "le32 w = le_bytes 4 (unat w)"
definition le64 :: "u64 \<Rightarrow> bytes" where "le64 w = le_bytes 8 (unat w)"

definition rd8 :: "bytes \<Rightarrow> u8" where "rd8 bs = word_of_nat (le_val (take 1 bs))"
definition rd16 :: "bytes \<Rightarrow> u16" where "rd16 bs = word_of_nat (le_val (take 2 bs))"
definition rd32 :: "bytes \<Rightarrow> u32" where "rd32 bs = word_of_nat (le_val (take 4 bs))"
definition rd64 :: "bytes \<Rightarrow> u64" where "rd64 bs = word_of_nat (le_val (take 8 bs))"

lemmas le_defs = le8_def le16_def le32_def le64_def
lemmas rd_defs = rd8_def rd16_def rd32_def rd64_def

lemma length_le [simp, codec_lens]:
  "length (le8 a) = 1" "length (le16 b) = 2" "length (le32 c) = 4" "length (le64 d) = 8"
  by (simp_all add: le_defs)

lemma rd_le [simp, codec_simps]:
  "rd8 (le8 a @ r) = a" "rd16 (le16 b @ r) = b" "rd32 (le32 c @ r) = c" "rd64 (le64 d @ r) = d"
  using unat_mod_size [of a] unat_mod_size [of b] unat_mod_size [of c] unat_mod_size [of d]
  by (simp_all add: le_defs rd_defs le_val_le_bytes)

lemma unat_word_of_nat_le_val:
  assumes "256 ^ length bs = (2 :: nat) ^ LENGTH('a)"
  shows "unat (word_of_nat (le_val bs) :: 'a :: len word) = le_val bs"
  using le_val_bound [of bs] assms by (simp add: unat_of_nat take_bit_eq_mod)

lemma le_rd:
  "1 \<le> length bs \<Longrightarrow> le8 (rd8 bs) = take 1 bs"
  "2 \<le> length bs \<Longrightarrow> le16 (rd16 bs) = take 2 bs"
  "4 \<le> length bs \<Longrightarrow> le32 (rd32 bs) = take 4 bs"
  "8 \<le> length bs \<Longrightarrow> le64 (rd64 bs) = take 8 bs"
  using le_bytes_le_val [of "take 1 bs"] le_bytes_le_val [of "take 2 bs"]
    le_bytes_le_val [of "take 4 bs"] le_bytes_le_val [of "take 8 bs"]
  by (simp_all add: le_defs rd_defs unat_word_of_nat_le_val)

section \<open>Sequential decoding\<close>

text \<open>Each reader returns the value and the bytes after it.\<close>

definition get8 :: "bytes \<Rightarrow> u8 \<times> bytes" where "get8 bs = (rd8 bs, drop 1 bs)"
definition get16 :: "bytes \<Rightarrow> u16 \<times> bytes" where "get16 bs = (rd16 bs, drop 2 bs)"
definition get32 :: "bytes \<Rightarrow> u32 \<times> bytes" where "get32 bs = (rd32 bs, drop 4 bs)"
definition get64 :: "bytes \<Rightarrow> u64 \<times> bytes" where "get64 bs = (rd64 bs, drop 8 bs)"

lemmas get_defs = get8_def get16_def get32_def get64_def

text \<open>An array field: \<open>n\<close> elements one after the other.\<close>

fun getn :: "(bytes \<Rightarrow> 'a \<times> bytes) \<Rightarrow> nat \<Rightarrow> bytes \<Rightarrow> 'a list \<times> bytes" where
  "getn g 0 bs = ([], bs)"
| "getn g (Suc n) bs = (let (x, bs) = g bs; (xs, bs) = getn g n bs in (x # xs, bs))"

lemma get_le [simp, codec_simps]:
  "get8 (le8 a @ r) = (a, r)" "get16 (le16 b @ r) = (b, r)"
  "get32 (le32 c @ r) = (c, r)" "get64 (le64 d @ r) = (d, r)"
  by (simp_all add: get_defs)

text \<open>Reading consumes exactly the bytes that writing the value produces.\<close>

definition reads :: "(bytes \<Rightarrow> 'a \<times> bytes) \<Rightarrow> ('a \<Rightarrow> bytes) \<Rightarrow> nat \<Rightarrow> bool" where
  "reads g e n \<longleftrightarrow>
     (\<forall>bs. snd (g bs) = drop n bs \<and> (n \<le> length bs \<longrightarrow> e (fst (g bs)) = take n bs))"

lemma reads_snd: "reads g e n \<Longrightarrow> snd (g bs) = drop n bs"
  by (simp add: reads_def)

lemma reads_fst: "reads g e n \<Longrightarrow> n \<le> length bs \<Longrightarrow> e (fst (g bs)) = take n bs"
  by (simp add: reads_def)

lemma reads_get:
  "reads get8 le8 1" "reads get16 le16 2" "reads get32 le32 4" "reads get64 le64 8"
  by (auto simp: reads_def get_defs le_rd)

lemma reads_getn:
  assumes "reads g e n"
  shows "reads (getn g k) (\<lambda>xs. concat (map e xs)) (k * n)"
  unfolding reads_def
proof (intro allI conjI impI)
  fix bs
  show "snd (getn g k bs) = drop (k * n) bs"
    by (induction k arbitrary: bs)
      (simp_all add: split_beta Let_def reads_snd [OF assms] add.commute)
  show "concat (map e (fst (getn g k bs))) = take (k * n) bs" if "k * n \<le> length bs"
    using that
  proof (induction k arbitrary: bs)
    case (Suc k)
    then have "k * n \<le> length (drop n bs)" "n \<le> length bs" by simp_all
    with Suc.IH [of "drop n bs"] show ?case
      by (simp add: split_beta Let_def reads_snd [OF assms] reads_fst [OF assms] take_add)
  qed simp
qed

text \<open>Two neighbouring pieces of a byte sequence are one piece.\<close>

lemma take_drop_join [codec_simps]: "m = n + k \<Longrightarrow> take n (drop k bs) @ drop m bs = drop k bs"
  by (metis append_take_drop_id drop_drop)

lemma take_take_join [codec_simps]:
  "m = n + k \<Longrightarrow> take n (drop k bs) @ take j (drop m bs) = take (n + j) (drop k bs)"
  by (simp add: take_add)

lemma take_take_join0 [codec_simps]: "take n bs @ take j (drop n bs) = take (n + j) bs"
  by (simp add: take_add)

lemma take_take_join_app [codec_simps]:
  "m = n + k \<Longrightarrow> take n (drop k bs) @ take j (drop m bs) @ r = take (n + j) (drop k bs) @ r"
  "take n bs @ take j (drop n bs) @ r = take (n + j) bs @ r"
  by (simp_all add: take_add)

lemma length_getn: "length (fst (getn g n bs)) = n"
    by (induction n arbitrary: bs) (auto simp: split_beta Let_def)

lemma getn_concat [codec_simps]:
  assumes "\<And>x r. g (e x @ r) = (x, r)" and "n = length xs"
  shows "getn g n (concat (map e xs) @ r) = (xs, r)"
  using assms(2) by (induction xs arbitrary: n) (auto simp: assms(1))

section \<open>The contract of an encoded structure\<close>

locale codec =
  fixes enc :: "'a \<Rightarrow> bytes"
    and dec :: "bytes \<Rightarrow> 'a \<times> bytes"
    and wf :: "'a \<Rightarrow> bool"
    and size_of :: nat
  assumes dec_enc: "wf x \<Longrightarrow> dec (enc x @ r) = (x, r)"
    and length_enc: "wf x \<Longrightarrow> length (enc x) = size_of"
    and dec_reads: "reads dec enc size_of"
    and dec_wf: "wf (fst (dec bs))"
begin

lemma roundtrip: "wf x \<Longrightarrow> fst (dec (enc x)) = x"
  using dec_enc [of x "[]"] by simp

lemma enc_inject: "wf x \<Longrightarrow> wf y \<Longrightarrow> enc x = enc y \<Longrightarrow> x = y"
  by (metis roundtrip)

lemma snd_dec: "snd (dec bs) = drop size_of bs"
  by (rule reads_snd [OF dec_reads])

lemma dec_prefix: "size_of \<le> length bs \<Longrightarrow> enc (fst (dec bs)) = take size_of bs"
  by (rule reads_fst [OF dec_reads])

lemma enc_dec: "length bs = size_of \<Longrightarrow> enc (fst (dec bs)) = bs"
  by (simp add: dec_prefix)

end

end
