(* ===== verification/Host.thy ===== *)
theory Host
  imports Bytes
begin

text \<open>
  The state of the running hypervisor and its boundary with the host. The state holds the
  Go objects (\<open>Machine\<close>, \<open>vm\<close>, \<open>vcpu\<close>, the handler object) and the memory that the
  process shares with the kernel: the guest RAM mapping and the \<open>kvm_run\<close> pages. What lies
  outside the process is a world of an arbitrary type that only the functions of a
  \<open>host\<close> record can inspect or change; every definition that makes a system call takes that
  record as an argument, so the theorems hold for every kernel.
\<close>

section \<open>The structures of the hypervisor\<close>

text \<open>\<open>kvm/kvm.go\<close>, \<open>RunData\<close>: the mapped \<open>kvm_run\<close> page of a virtual CPU.\<close>

record RunData =
  RequestInterruptWindow :: u8
  ImmediateExit :: u8
  RunData_pad :: "u8 list"
  ExitReason :: u32
  ReadyForInterruptInjection :: u8
  IfFlag :: u8
  RunFlags :: u16
  RunCr8 :: u64
  RunApicBase :: u64
  RunDataArea :: "u64 list"

record vcpu =
  vcpu_fd :: u64

text \<open>
  \<open>kvm/vm.go\<close>, \<open>vm\<close>. A memory mapping is the bytes it holds and the address of the first.
\<close>

record vm =
  vm_fd :: u64
  mem :: bytes
  mem_addr :: u64
  sys :: bytes
  sys_addr :: u64
  vcpus :: "vcpu list"

text \<open>\<open>kvm/machine.go\<close>, \<open>Machine\<close>; a nil element of \<open>runs\<close> is \<open>None\<close>. The handler is
  the object in the \<open>handler\<close> field of the whole state.\<close>

record Machine =
  kvmfd :: u64
  irqfd :: u64
  machine_vm :: vm
  runs :: "RunData option list"

record ('w, 'c) st =
  world :: 'w
  machine :: Machine
  handler :: 'c

section \<open>System calls\<close>

text \<open>
  The argument of an ioctl: a number, a pointer to a structure, or a pointer to a structure
  whose last field is a pointer to further bytes (\<open>KvmOneReg.addr\<close>, \<open>DeviceAttr.addr\<close>).
  The outcome: the return value and errno of the raw system call, the bytes the kernel
  stored through the pointer, and the stores to guest RAM and to the \<open>kvm_run\<close> pages made
  while the call ran. Stores can only hit existing bytes: a mapping does not change its
  length.
\<close>

datatype ioarg = IoVal u64 | IoPtr bytes | IoRef bytes bytes

record ioctl_out =
  io_r :: u64
  io_errno :: u64
  io_buf :: bytes
  io_ram :: "(nat \<times> u8) list"
  io_run :: "(nat \<times> RunData) list"

record stat_t =
  st_size :: u64
  st_mode :: u32
  st_mtim_sec :: u64
  st_mtim_nsec :: u64
  st_uid :: u32
  st_gid :: u32
  st_dev :: u64
  st_rdev :: u64
  st_ino :: u64

text \<open>
  The host, as the Go runtime presents it. A failing call gives \<open>Inl\<close> of the error; \<open>read\<close>
  and \<open>getdents\<close> give the bytes the kernel delivered, at most as many as the buffer holds.
  \<open>fmt_err\<close> is the text that \<open>%v\<close> prints for an error; \<open>x86_disasm\<close> is the external
  disassembler package.
\<close>

record 'w host =
  sys_ioctl :: "u64 \<Rightarrow> u64 \<Rightarrow> ioarg \<Rightarrow> bytes \<Rightarrow> RunData option list \<Rightarrow> 'w \<Rightarrow> ioctl_out \<times> 'w"
  sys_open :: "string \<Rightarrow> u64 \<Rightarrow> u32 \<Rightarrow> 'w \<Rightarrow> (goerror + u64) \<times> 'w"
  sys_read :: "u64 \<Rightarrow> nat \<Rightarrow> 'w \<Rightarrow> (goerror + bytes) \<times> 'w"
  sys_write :: "u64 \<Rightarrow> bytes \<Rightarrow> 'w \<Rightarrow> (goerror + nat) \<times> 'w"
  sys_lseek :: "u64 \<Rightarrow> u64 \<Rightarrow> u64 \<Rightarrow> 'w \<Rightarrow> (goerror + u64) \<times> 'w"
  sys_fstat :: "u64 \<Rightarrow> 'w \<Rightarrow> (goerror + stat_t) \<times> 'w"
  sys_getdents :: "u64 \<Rightarrow> nat \<Rightarrow> 'w \<Rightarrow> (goerror + bytes) \<times> 'w"
  sys_time :: "'w \<Rightarrow> (u64 \<times> u64) \<times> 'w"
  sys_getwd :: "'w \<Rightarrow> (goerror + string) \<times> 'w"
  sys_mmap :: "u64 \<Rightarrow> nat \<Rightarrow> 'w \<Rightarrow> (goerror + u64) \<times> 'w"
  sys_mmap_run :: "u64 \<Rightarrow> u64 \<Rightarrow> 'w \<Rightarrow> (goerror + RunData) \<times> 'w"
  sys_pagesize :: nat
  sys_log :: "string \<Rightarrow> 'w \<Rightarrow> 'w"
  fmt_err :: "goerror \<Rightarrow> string"
  x86_disasm :: "bytes \<Rightarrow> u64 \<Rightarrow> goerror + string"

section \<open>Access to the state\<close>

abbreviation the_vm :: "('w, 'c) st \<Rightarrow> vm" where
  "the_vm s \<equiv> machine_vm (machine s)"

abbreviation ram :: "('w, 'c) st \<Rightarrow> bytes" where
  "ram s \<equiv> mem (the_vm s)"

definition map_machine :: "(Machine \<Rightarrow> Machine) \<Rightarrow> ('w, 'c) st \<Rightarrow> ('w, 'c) st" where
  "map_machine f s = s\<lparr>machine := f (machine s)\<rparr>"

definition map_vm :: "(vm \<Rightarrow> vm) \<Rightarrow> ('w, 'c) st \<Rightarrow> ('w, 'c) st" where
  "map_vm f = map_machine (\<lambda>m. m\<lparr>machine_vm := f (machine_vm m)\<rparr>)"

definition map_ram :: "(bytes \<Rightarrow> bytes) \<Rightarrow> ('w, 'c) st \<Rightarrow> ('w, 'c) st" where
  "map_ram f = map_vm (\<lambda>v. v\<lparr>mem := f (mem v)\<rparr>)"

lemma map_machine_simps [simp]:
  "world (map_machine f s) = world s" "machine (map_machine f s) = f (machine s)"
  "handler (map_machine f s) = handler s"
  by (simp_all add: map_machine_def)

lemma map_vm_simps [simp]:
  "world (map_vm g s) = world s" "the_vm (map_vm g s) = g (the_vm s)"
  "handler (map_vm g s) = handler s" "runs (machine (map_vm g s)) = runs (machine s)"
  "kvmfd (machine (map_vm g s)) = kvmfd (machine s)" "irqfd (machine (map_vm g s)) = irqfd (machine s)"
  by (simp_all add: map_vm_def)

lemma map_ram_simps [simp]:
  "world (map_ram g s) = world s" "ram (map_ram g s) = g (ram s)"
  "handler (map_ram g s) = handler s" "runs (machine (map_ram g s)) = runs (machine s)"
  "vcpus (the_vm (map_ram g s)) = vcpus (the_vm s)" "vm_fd (the_vm (map_ram g s)) = vm_fd (the_vm s)"
  "kvmfd (machine (map_ram g s)) = kvmfd (machine s)" "irqfd (machine (map_ram g s)) = irqfd (machine s)"
  "mem_addr (the_vm (map_ram g s)) = mem_addr (the_vm s)"
  by (simp_all add: map_ram_def)

text \<open>A call into the host that leaves the process alone.\<close>

definition host_call :: "('w \<Rightarrow> 'a \<times> 'w) \<Rightarrow> (('w, 'c) st, 'a) go" where
  "host_call f s = (let (r, w) = f (world s) in (Ok r, s\<lparr>world := w\<rparr>))"

definition host_try :: "('w \<Rightarrow> (goerror + 'a) \<times> 'w) \<Rightarrow> (('w, 'c) st, 'a) go" where
  "host_try f = bnd (host_call f) (\<lambda>r. case r of Inl e \<Rightarrow> throw e | Inr x \<Rightarrow> ret x)"

text \<open>An operation on the RAM bytes alone.\<close>

definition on_ram :: "(bytes, 'a) go \<Rightarrow> (('w, 'c) st, 'a) go" where
  "on_ram f s = (case f (ram s) of (r, b) \<Rightarrow> (r, map_ram (\<lambda>_. b) s))"

text \<open>\<open>fmt.Fprintf(os.Stderr, ...)\<close>, whose result is ignored.\<close>

definition eprint :: "'w host \<Rightarrow> string \<Rightarrow> (('w, 'c) st, unit) go" where
  "eprint h msg = bnd (host_call (sys_write h 2 (map (\<lambda>c. word_of_nat (of_char c)) msg))) (\<lambda>_. ret ())"

text \<open>\<open>fmt.Printf(...)\<close>, to the standard output, and what \<open>%v\<close> prints for an \<open>error\<close>.\<close>

definition oprint :: "'w host \<Rightarrow> string \<Rightarrow> (('w, 'c) st, unit) go" where
  "oprint h msg = bnd (host_call (sys_write h 1 (map (\<lambda>c. word_of_nat (of_char c)) msg))) (\<lambda>_. ret ())"

definition fmt_v :: "'w host \<Rightarrow> goerror option \<Rightarrow> string" where
  "fmt_v h err = (case err of None \<Rightarrow> ''<nil>'' | Some e \<Rightarrow> fmt_err h e)"

section \<open>ioctl\<close>

definition apply_stores :: "(nat \<times> 'a) list \<Rightarrow> 'a list \<Rightarrow> 'a list" where
  "apply_stores us xs = fold (\<lambda>(i, x) ys. ys[i := x]) us xs"

definition apply_run_stores ::
  "(nat \<times> RunData) list \<Rightarrow> RunData option list \<Rightarrow> RunData option list" where
  "apply_run_stores us rs =
     fold (\<lambda>(i, r) qs. if i < length qs \<and> qs ! i \<noteq> None then qs[i := Some r] else qs) us rs"

text \<open>The kernel overwrites a prefix of the buffer behind the pointer.\<close>

definition overlay :: "'a list \<Rightarrow> 'a list \<Rightarrow> 'a list" where
  "overlay new old = take (length old) new @ drop (length new) old"

fun ioarg_buf :: "ioarg \<Rightarrow> bytes" where
  "ioarg_buf (IoVal v) = []"
| "ioarg_buf (IoPtr b) = b"
| "ioarg_buf (IoRef hdr inner) = inner"

text \<open>\<open>kvm/ioctl.go\<close>, \<open>Ioctl\<close>: the result value, the error (nil is \<open>None\<close>) and what the
  buffer behind the argument holds afterwards.\<close>

definition Ioctl ::
  "'w host \<Rightarrow> u64 \<Rightarrow> u64 \<Rightarrow> ioarg \<Rightarrow> (('w, 'c) st, (u64 \<times> goerror option) \<times> bytes) go" where
  "Ioctl h fd op arg s =
     (let (out, w) = sys_ioctl h fd op arg (ram s) (runs (machine s)) (world s);
          s' = map_machine (\<lambda>m. m\<lparr>runs := apply_run_stores (io_run out) (runs m)\<rparr>)
                 (map_ram (apply_stores (io_ram out)) (s\<lparr>world := w\<rparr>))
      in (Ok ((io_r out, if io_errno out \<noteq> 0 then Some (Errno (io_errno out)) else None),
              overlay (io_buf out) (ioarg_buf arg)), s'))"

text \<open>\<open>_, err := Ioctl(...); return err\<close>\<close>

definition Ioctl_err :: "'w host \<Rightarrow> u64 \<Rightarrow> u64 \<Rightarrow> ioarg \<Rightarrow> (('w, 'c) st, unit) go" where
  "Ioctl_err h fd op arg = bnd (Ioctl h fd op arg) (\<lambda>((_, err), _). check err)"

text \<open>\<open>return Ioctl(...)\<close>: the value or the error.\<close>

definition Ioctl_val :: "'w host \<Rightarrow> u64 \<Rightarrow> u64 \<Rightarrow> ioarg \<Rightarrow> (('w, 'c) st, u64) go" where
  "Ioctl_val h fd op arg = bnd (Ioctl h fd op arg) (\<lambda>((r, err), _). bnd (check err) (\<lambda>_. ret r))"

lemma length_apply_stores [simp]: "length (apply_stores us xs) = length xs"
  unfolding apply_stores_def by (induction us arbitrary: xs) auto

lemma length_apply_run_stores [simp]: "length (apply_run_stores us rs) = length rs"
  unfolding apply_run_stores_def by (induction us arbitrary: rs) auto

lemma apply_stores_Nil [simp]: "apply_stores [] xs = xs" by (simp add: apply_stores_def)
lemma apply_run_stores_Nil [simp]: "apply_run_stores [] rs = rs" by (simp add: apply_run_stores_def)

lemma apply_run_stores_None_iff:
  "i < length rs \<Longrightarrow> apply_run_stores us rs ! i = None \<longleftrightarrow> rs ! i = None"
  unfolding apply_run_stores_def
  by (induction us arbitrary: rs) (auto simp: nth_list_update split: if_splits)

lemma length_overlay [simp]: "length (overlay new old) = length old"
  by (simp add: overlay_def)

lemma overlay_full [simp]: "length new = length old \<Longrightarrow> overlay new old = new"
  by (simp add: overlay_def)

lemma overlay_Nil [simp]: "overlay [] old = old" "overlay new [] = []"
  by (simp_all add: overlay_def)

section \<open>What no system call changes\<close>

text \<open>
  The process-private part of the machine: everything but the contents of the guest RAM and
  of the \<open>kvm_run\<close> pages, which the kernel writes.
\<close>

definition shape :: "('w, 'c) st \<Rightarrow> u64 \<times> u64 \<times> vm \<times> bool list" where
  "shape s = (kvmfd (machine s), irqfd (machine s),
     (the_vm s)\<lparr>mem := replicate (length (ram s)) 0\<rparr>, map (\<lambda>r. r = None) (runs (machine s)))"

lemma shape_eqD:
  assumes "shape t = shape s"
  shows "length (ram t) = length (ram s)" "vcpus (the_vm t) = vcpus (the_vm s)"
    "vm_fd (the_vm t) = vm_fd (the_vm s)" "length (runs (machine t)) = length (runs (machine s))"
    "kvmfd (machine t) = kvmfd (machine s)" "irqfd (machine t) = irqfd (machine s)"
proof -
  from assms have m: "(the_vm t)\<lparr>mem := replicate (length (ram t)) 0\<rparr> =
      (the_vm s)\<lparr>mem := replicate (length (ram s)) 0\<rparr>"
    and r: "map (\<lambda>r. r = None) (runs (machine t)) = map (\<lambda>r. r = None) (runs (machine s))"
    by (simp_all add: shape_def)
  show "length (ram t) = length (ram s)" "vcpus (the_vm t) = vcpus (the_vm s)"
    "vm_fd (the_vm t) = vm_fd (the_vm s)"
    using arg_cong [OF m, of "\<lambda>v. length (mem v)"] arg_cong [OF m, of vcpus]
      arg_cong [OF m, of vm_fd] by simp_all
  show "length (runs (machine t)) = length (runs (machine s))"
    using arg_cong [OF r, of length] by simp
  show "kvmfd (machine t) = kvmfd (machine s)" "irqfd (machine t) = irqfd (machine s)"
    using assms by (simp_all add: shape_def)
qed

lemma shape_world [simp]: "shape (s\<lparr>world := w\<rparr>) = shape s" by (simp add: shape_def)
lemma shape_handler [simp]: "shape (s\<lparr>handler := c\<rparr>) = shape s" by (simp add: shape_def)

lemma shape_map_ram [simp]: "length (f (ram s)) = length (ram s) \<Longrightarrow> shape (map_ram f s) = shape s"
  by (simp add: shape_def map_ram_def map_vm_def)

lemma apply_run_stores_shape:
  "map (\<lambda>r. r = None) (apply_run_stores us rs) = map (\<lambda>r. r = None) rs"
  by (rule nth_equalityI) (auto simp: apply_run_stores_None_iff)

lemma keeps_shape_Ioctl [keeps_rules]: "keeps shape (Ioctl h fd op arg)"
  by (simp add: keeps_def Ioctl_def split_beta Let_def)
    (simp add: shape_def map_ram_def map_vm_def apply_run_stores_shape)

lemma keeps_handler_Ioctl [keeps_rules]: "keeps handler (Ioctl h fd op arg)"
  by (simp add: keeps_def Ioctl_def split_beta Let_def)

lemma keeps_Ioctl_err [keeps_rules]: "keeps f (Ioctl h fd op arg) \<Longrightarrow> keeps f (Ioctl_err h fd op arg)"
  unfolding Ioctl_err_def by (intro keeps_rules)

lemma keeps_Ioctl_val [keeps_rules]:
  "keeps f (Ioctl h fd op arg) \<Longrightarrow> keeps f (Ioctl_val h fd op arg)"
  unfolding Ioctl_val_def by (intro keeps_rules)

lemma keeps_host_call [keeps_rules]:
  "keeps shape (host_call g)" "keeps handler (host_call g)" "keeps machine (host_call g)"
  by (simp_all add: keeps_def host_call_def split_beta Let_def)

lemma keeps_host_try [keeps_rules]: "keeps f (host_call g) \<Longrightarrow> keeps f (host_try g)"
  unfolding host_try_def by (intro keeps_rules)

lemma Ioctl_errno:
  "Ioctl h fd op arg s = (Ok ((r, err), b), t) \<Longrightarrow> err = None \<or> (\<exists>n. err = Some (Errno n))"
  by (auto simp: Ioctl_def split_beta Let_def split: if_splits)

lemma Ioctl_buf_length:
  "Ioctl h fd op arg s = (Ok (x, b), t) \<Longrightarrow> length b = length (ioarg_buf arg)"
  by (auto simp: Ioctl_def split_beta Let_def)

lemma keeps_eprint [keeps_rules]:
  "keeps shape (eprint h msg)" "keeps handler (eprint h msg)" "keeps machine (eprint h msg)"
  "keeps shape (oprint h msg)" "keeps handler (oprint h msg)" "keeps machine (oprint h msg)"
  unfolding eprint_def oprint_def by (intro keeps_rules)+

lemma keeps_handler_on_ram [keeps_rules]: "keeps handler (on_ram f)" "keeps world (on_ram f)"
  by (simp_all add: keeps_def on_ram_def split: prod.splits)

lemma keeps_shape_on_ram:
  "(\<And>b. length (snd (f b)) = length b) \<Longrightarrow> keeps shape (on_ram f)"
  by (simp add: keeps_def on_ram_def split: prod.splits) (metis shape_map_ram snd_conv)

text \<open>The result of an ioctl is never an error or a panic of the wrapper itself.\<close>


section \<open>A concrete host\<close>

text \<open>
  A host without a world, for concrete runs: every ioctl has the given outcome, opening a
  file gives descriptor 7, reading gives the end of the file, and the working directory is
  \<open>/w\<close>. The state has one virtual CPU and a RAM of \<open>n\<close> zero bytes.
\<close>

definition blank_run :: RunData where
  "blank_run = \<lparr>RequestInterruptWindow = 0, ImmediateExit = 0, RunData_pad = replicate 6 0, ExitReason = 0,
     ReadyForInterruptInjection = 0, IfFlag = 0, RunFlags = 0, RunCr8 = 0, RunApicBase = 0,
     RunDataArea = replicate 32 0\<rparr>"

definition still_host :: "ioctl_out \<Rightarrow> unit host" where
  "still_host out =
     \<lparr>sys_ioctl = (\<lambda>fd op arg m rs w. (out, w)),
      sys_open = (\<lambda>p fl md w. (Inr 7, w)),
      sys_read = (\<lambda>fd n w. (Inr [], w)),
      sys_write = (\<lambda>fd b w. (Inr (length b), w)),
      sys_lseek = (\<lambda>fd off wh w. (Inr off, w)),
      sys_fstat = (\<lambda>fd w. (Inl (Errno 9), w)),
      sys_getdents = (\<lambda>fd n w. (Inr [], w)),
      sys_time = (\<lambda>w. ((1000, 5), w)),
      sys_getwd = (\<lambda>w. (Inr ''/w'', w)),
      sys_mmap = (\<lambda>n p w. (Inr 4096, w)),
      sys_mmap_run = (\<lambda>fd n w. (Inr blank_run, w)),
      sys_pagesize = 16,
      sys_log = (\<lambda>msg w. w),
      fmt_err = (\<lambda>e. ''error''),
      x86_disasm = (\<lambda>b pc. Inl EOF)\<rparr>"

lemma still_host_simps [simp]:
  "sys_ioctl (still_host out) fd op arg m rs w = (out, w)" "sys_open (still_host out) p fl md w = (Inr 7, w)"
  "sys_read (still_host out) fd n w = (Inr [], w)" "sys_write (still_host out) fd b w = (Inr (length b), w)"
  "sys_time (still_host out) w = ((1000, 5), w)" "sys_getwd (still_host out) w = (Inr ''/w'', w)"
  "sys_lseek (still_host out) fd off wh w = (Inr off, w)" "sys_mmap (still_host out) k p' w = (Inr 4096, w)"
  "sys_mmap_run (still_host out) fd k w = (Inr blank_run, w)" "sys_pagesize (still_host out) = 16"
  by (simp_all add: still_host_def)

definition outcome :: "u64 \<Rightarrow> u64 \<Rightarrow> bytes \<Rightarrow> ioctl_out" where
  "outcome r errno buf = \<lparr>io_r = r, io_errno = errno, io_buf = buf, io_ram = [], io_run = []\<rparr>"

definition blank_state :: "nat \<Rightarrow> 'c \<Rightarrow> (unit, 'c) st" where
  "blank_state n c =
     \<lparr>world = (),
      machine = \<lparr>kvmfd = 3, irqfd = 0,
        machine_vm = \<lparr>vm_fd = 4, mem = replicate n 0, mem_addr = 4096, sys = replicate 16 0, sys_addr = 8192,
          vcpus = [\<lparr>vcpu_fd = 5\<rparr>]\<rparr>,
        runs = [Some blank_run]\<rparr>,
      handler = c\<rparr>"

abbreviation ok_host :: "unit host" where "ok_host \<equiv> still_host (outcome 0 0 [])"

lemma unit_world [simp]: "s\<lparr>world := u\<rparr> = (s :: (unit, 'c) st)"
  by (cases s) simp

lemma still_Ioctl [simp]:
  "Ioctl (still_host (outcome r 0 [])) fd op arg s = (Ok ((r, None), ioarg_buf arg), s)"
  by (simp add: Ioctl_def outcome_def map_ram_def map_vm_def map_machine_def)

lemma still_print [simp]: "eprint (still_host out) msg s = (Ok (), s)" "oprint (still_host out) msg s = (Ok (), s)"
  by (simp_all add: eprint_def oprint_def go_simps host_call_def)

end
