(* ===== verification/Regs_Amd64.thy ===== *)
theory Regs_Amd64
  imports Ioctl_Codes Host
begin

text \<open>
  \<open>kvm/regs_amd64.go\<close>: the register structures of an amd64 virtual CPU, their memory layout
  (as \<open>unsafe.Pointer\<close> exposes it to the kernel, blank fields included) and the operations
  that read and write them.
\<close>

section \<open>General purpose registers\<close>

record Regs =
  Rax :: u64
  Rbx :: u64
  Rcx :: u64
  Rdx :: u64
  Rsi :: u64
  Rdi :: u64
  Rsp :: u64
  Rbp :: u64
  R8 :: u64
  R9 :: u64
  R10 :: u64
  R11 :: u64
  R12 :: u64
  R13 :: u64
  R14 :: u64
  R15 :: u64
  Rip :: u64
  Rflags :: u64

definition enc_Regs :: "Regs \<Rightarrow> bytes" where
  "enc_Regs r = le64 (Rax r) @ le64 (Rbx r) @ le64 (Rcx r) @ le64 (Rdx r) @ le64 (Rsi r) @
     le64 (Rdi r) @ le64 (Rsp r) @ le64 (Rbp r) @ le64 (R8 r) @ le64 (R9 r) @ le64 (R10 r) @
     le64 (R11 r) @ le64 (R12 r) @ le64 (R13 r) @ le64 (R14 r) @ le64 (R15 r) @ le64 (Rip r) @
     le64 (Rflags r)"

definition dec_Regs :: "bytes \<Rightarrow> Regs \<times> bytes" where
  "dec_Regs bs =
     (let (ax, bs) = get64 bs; (bx, bs) = get64 bs; (cx, bs) = get64 bs; (dx, bs) = get64 bs;
          (si, bs) = get64 bs; (di, bs) = get64 bs; (sp, bs) = get64 bs; (bp, bs) = get64 bs;
          (r8, bs) = get64 bs; (r9, bs) = get64 bs; (r10, bs) = get64 bs; (r11, bs) = get64 bs;
          (r12, bs) = get64 bs; (r13, bs) = get64 bs; (r14, bs) = get64 bs; (r15, bs) = get64 bs;
          (ip, bs) = get64 bs; (fl, bs) = get64 bs
      in (\<lparr>Rax = ax, Rbx = bx, Rcx = cx, Rdx = dx, Rsi = si, Rdi = di, Rsp = sp, Rbp = bp,
           R8 = r8, R9 = r9, R10 = r10, R11 = r11, R12 = r12, R13 = r13, R14 = r14, R15 = r15,
           Rip = ip, Rflags = fl\<rparr>, bs))"

abbreviation (input) sizeof_Regs :: nat where "sizeof_Regs \<equiv> 144"

interpretation regs: codec enc_Regs dec_Regs "\<lambda>_. True" sizeof_Regs
  by unfold_locales
    (simp_all add: enc_Regs_def dec_Regs_def reads_def get_defs le_rd codec_simps Let_def)

section \<open>Special registers\<close>

text \<open>The blank byte of \<open>Segment\<close> and the blank words of \<open>Descriptor\<close> and \<open>DebugRegs\<close>
  travel with the structure: the kernel fills them and gets them back.\<close>

record Segment =
  Base :: u64
  Limit :: u32
  Selector :: u16
  Typ :: u8
  Present :: u8
  Dpl :: u8
  Db :: u8
  S :: u8
  L :: u8
  G :: u8
  AVL :: u8
  Unusable :: u8
  Segment_pad :: u8

definition enc_Segment :: "Segment \<Rightarrow> bytes" where
  "enc_Segment g = le64 (Base g) @ le32 (Limit g) @ le16 (Selector g) @ le8 (Typ g) @
     le8 (Present g) @ le8 (Dpl g) @ le8 (Db g) @ le8 (S g) @ le8 (L g) @ le8 (G g) @
     le8 (AVL g) @ le8 (Unusable g) @ le8 (Segment_pad g)"

definition dec_Segment :: "bytes \<Rightarrow> Segment \<times> bytes" where
  "dec_Segment bs =
     (let (b, bs) = get64 bs; (l, bs) = get32 bs; (sel, bs) = get16 bs; (ty, bs) = get8 bs;
          (p, bs) = get8 bs; (dpl, bs) = get8 bs; (db, bs) = get8 bs; (s, bs) = get8 bs;
          (lb, bs) = get8 bs; (g, bs) = get8 bs; (avl, bs) = get8 bs; (un, bs) = get8 bs;
          (pad, bs) = get8 bs
      in (\<lparr>Base = b, Limit = l, Selector = sel, Typ = ty, Present = p, Dpl = dpl, Db = db, S = s,
           L = lb, G = g, AVL = avl, Unusable = un, Segment_pad = pad\<rparr>, bs))"

abbreviation (input) sizeof_Segment :: nat where "sizeof_Segment \<equiv> 24"

interpretation segment: codec enc_Segment dec_Segment "\<lambda>_. True" sizeof_Segment
  by unfold_locales
    (simp_all add: enc_Segment_def dec_Segment_def reads_def get_defs le_rd codec_simps Let_def)

record Descriptor =
  DescBase :: u64
  DescLimit :: u16
  Desc_pad :: "u16 list"

definition enc_Descriptor :: "Descriptor \<Rightarrow> bytes" where
  "enc_Descriptor d = le64 (DescBase d) @ le16 (DescLimit d) @ concat (map le16 (Desc_pad d))"

definition dec_Descriptor :: "bytes \<Rightarrow> Descriptor \<times> bytes" where
  "dec_Descriptor bs =
     (let (b, bs) = get64 bs; (l, bs) = get16 bs; (pad, bs) = getn get16 3 bs
      in (\<lparr>DescBase = b, DescLimit = l, Desc_pad = pad\<rparr>, bs))"

definition wf_Descriptor :: "Descriptor \<Rightarrow> bool" where
  "wf_Descriptor d \<longleftrightarrow> length (Desc_pad d) = 3"

abbreviation (input) sizeof_Descriptor :: nat where "sizeof_Descriptor \<equiv> 16"

lemma length_concat_le [simp, codec_lens]:
  "length (concat (map le16 ws)) = 2 * length ws" "length (concat (map le64 vs)) = 8 * length vs"
  "length (concat (map le32 us)) = 4 * length us" "length (concat (map le8 bs)) = length bs"
  by (induction ws, simp_all, induction vs, simp_all, induction us, simp_all, induction bs, simp_all)

lemmas getn_snd = reads_snd [OF reads_getn, OF reads_get(1)] reads_snd [OF reads_getn, OF reads_get(2)]
  reads_snd [OF reads_getn, OF reads_get(3)] reads_snd [OF reads_getn, OF reads_get(4)]
lemmas getn_fst = reads_fst [OF reads_getn, OF reads_get(1)] reads_fst [OF reads_getn, OF reads_get(2)]
  reads_fst [OF reads_getn, OF reads_get(3)] reads_fst [OF reads_getn, OF reads_get(4)]
lemmas getn_le = getn_concat [OF get_le(1)] getn_concat [OF get_le(2)] getn_concat [OF get_le(3)]
  getn_concat [OF get_le(4)]
lemmas getn_simps = getn_snd getn_fst getn_le length_getn

lemma getn_concat_end:
  "n = length ws \<Longrightarrow> getn get16 n (concat (map le16 ws)) = (ws, [])"
  "n = length vs \<Longrightarrow> getn get64 n (concat (map le64 vs)) = (vs, [])"
  using getn_concat [OF get_le(2), of n ws "[]"] getn_concat [OF get_le(4), of n vs "[]"] by simp_all

interpretation descriptor: codec enc_Descriptor dec_Descriptor wf_Descriptor sizeof_Descriptor
  by unfold_locales
    (simp_all add: enc_Descriptor_def dec_Descriptor_def wf_Descriptor_def reads_def get_defs le_rd
      codec_simps Let_def split_beta getn_simps)

abbreviation (input) numInterrupts :: nat where "numInterrupts \<equiv> 0x100"

record Sregs =
  Cs :: Segment
  Ds :: Segment
  Es :: Segment
  Fs :: Segment
  Gs :: Segment
  Ss :: Segment
  Tr :: Segment
  Ldt :: Segment
  Gdt :: Descriptor
  Idt :: Descriptor
  Cr0 :: u64
  Cr2 :: u64
  Cr3 :: u64
  Cr4 :: u64
  Cr8 :: u64
  Efer :: u64
  ApicBase :: u64
  InterruptBitmap :: "u64 list"

definition enc_Sregs :: "Sregs \<Rightarrow> bytes" where
  "enc_Sregs s = enc_Segment (Cs s) @ enc_Segment (Ds s) @ enc_Segment (Es s) @ enc_Segment (Fs s) @
     enc_Segment (Gs s) @ enc_Segment (Ss s) @ enc_Segment (Tr s) @ enc_Segment (Ldt s) @
     enc_Descriptor (Gdt s) @ enc_Descriptor (Idt s) @ le64 (Cr0 s) @ le64 (Cr2 s) @ le64 (Cr3 s) @
     le64 (Cr4 s) @ le64 (Cr8 s) @ le64 (Efer s) @ le64 (ApicBase s) @
     concat (map le64 (InterruptBitmap s))"

definition dec_Sregs :: "bytes \<Rightarrow> Sregs \<times> bytes" where
  "dec_Sregs bs =
     (let (cs, bs) = dec_Segment bs; (ds, bs) = dec_Segment bs; (es, bs) = dec_Segment bs;
          (fs, bs) = dec_Segment bs; (gs, bs) = dec_Segment bs; (ss, bs) = dec_Segment bs;
          (tr, bs) = dec_Segment bs; (ldt, bs) = dec_Segment bs; (gdt, bs) = dec_Descriptor bs;
          (idt, bs) = dec_Descriptor bs; (cr0, bs) = get64 bs; (cr2, bs) = get64 bs;
          (cr3, bs) = get64 bs; (cr4, bs) = get64 bs; (cr8, bs) = get64 bs; (efer, bs) = get64 bs;
          (apic, bs) = get64 bs; (bm, bs) = getn get64 ((numInterrupts + 63) div 64) bs
      in (\<lparr>Cs = cs, Ds = ds, Es = es, Fs = fs, Gs = gs, Ss = ss, Tr = tr, Ldt = ldt, Gdt = gdt,
           Idt = idt, Cr0 = cr0, Cr2 = cr2, Cr3 = cr3, Cr4 = cr4, Cr8 = cr8, Efer = efer,
           ApicBase = apic, InterruptBitmap = bm\<rparr>, bs))"

definition wf_Sregs :: "Sregs \<Rightarrow> bool" where
  "wf_Sregs s \<longleftrightarrow> wf_Descriptor (Gdt s) \<and> wf_Descriptor (Idt s) \<and> length (InterruptBitmap s) = (numInterrupts + 63) div 64"

abbreviation (input) sizeof_Sregs :: nat where "sizeof_Sregs \<equiv> 312"

lemmas sreg_part_simps = segment.snd_dec descriptor.snd_dec segment.dec_prefix descriptor.dec_prefix
  segment.dec_enc [OF TrueI] descriptor.dec_enc segment.length_enc [OF TrueI] descriptor.length_enc
  descriptor.dec_wf

interpretation sregs: codec enc_Sregs dec_Sregs wf_Sregs sizeof_Sregs
  by unfold_locales
    (simp_all add: enc_Sregs_def dec_Sregs_def wf_Sregs_def reads_def get_defs le_rd
      codec_simps Let_def split_beta getn_simps sreg_part_simps getn_concat_end)

record SRegs2 =
  Cs2 :: Segment
  Ds2 :: Segment
  Es2 :: Segment
  Fs2 :: Segment
  Gs2 :: Segment
  Ss2 :: Segment
  Tr2 :: Segment
  Ldt2 :: Segment
  Gdt2 :: Descriptor
  Idt2 :: Descriptor
  S2Cr0 :: u64
  S2Cr2 :: u64
  S2Cr3 :: u64
  S2Cr4 :: u64
  S2Cr8 :: u64
  Efer2 :: u64
  ApicBase2 :: u64
  S2Flags :: u64
  PdPtrs :: "u64 list"

definition enc_SRegs2 :: "SRegs2 \<Rightarrow> bytes" where
  "enc_SRegs2 s = enc_Segment (Cs2 s) @ enc_Segment (Ds2 s) @ enc_Segment (Es2 s) @
     enc_Segment (Fs2 s) @ enc_Segment (Gs2 s) @ enc_Segment (Ss2 s) @ enc_Segment (Tr2 s) @
     enc_Segment (Ldt2 s) @ enc_Descriptor (Gdt2 s) @ enc_Descriptor (Idt2 s) @ le64 (S2Cr0 s) @
     le64 (S2Cr2 s) @ le64 (S2Cr3 s) @ le64 (S2Cr4 s) @ le64 (S2Cr8 s) @ le64 (Efer2 s) @
     le64 (ApicBase2 s) @ le64 (S2Flags s) @ concat (map le64 (PdPtrs s))"

definition dec_SRegs2 :: "bytes \<Rightarrow> SRegs2 \<times> bytes" where
  "dec_SRegs2 bs =
     (let (cs, bs) = dec_Segment bs; (ds, bs) = dec_Segment bs; (es, bs) = dec_Segment bs;
          (fs, bs) = dec_Segment bs; (gs, bs) = dec_Segment bs; (ss, bs) = dec_Segment bs;
          (tr, bs) = dec_Segment bs; (ldt, bs) = dec_Segment bs; (gdt, bs) = dec_Descriptor bs;
          (idt, bs) = dec_Descriptor bs; (cr0, bs) = get64 bs; (cr2, bs) = get64 bs;
          (cr3, bs) = get64 bs; (cr4, bs) = get64 bs; (cr8, bs) = get64 bs; (efer, bs) = get64 bs;
          (apic, bs) = get64 bs; (fl, bs) = get64 bs; (pd, bs) = getn get64 4 bs
      in (\<lparr>Cs2 = cs, Ds2 = ds, Es2 = es, Fs2 = fs, Gs2 = gs, Ss2 = ss, Tr2 = tr, Ldt2 = ldt,
           Gdt2 = gdt, Idt2 = idt, S2Cr0 = cr0, S2Cr2 = cr2, S2Cr3 = cr3, S2Cr4 = cr4, S2Cr8 = cr8,
           Efer2 = efer, ApicBase2 = apic, S2Flags = fl, PdPtrs = pd\<rparr>, bs))"

definition wf_SRegs2 :: "SRegs2 \<Rightarrow> bool" where
  "wf_SRegs2 s \<longleftrightarrow> wf_Descriptor (Gdt2 s) \<and> wf_Descriptor (Idt2 s) \<and> length (PdPtrs s) = 4"

abbreviation (input) sizeof_SRegs2 :: nat where "sizeof_SRegs2 \<equiv> 320"

interpretation sregs2: codec enc_SRegs2 dec_SRegs2 wf_SRegs2 sizeof_SRegs2
  by unfold_locales
    (simp_all add: enc_SRegs2_def dec_SRegs2_def wf_SRegs2_def reads_def get_defs le_rd
      codec_simps Let_def split_beta getn_simps sreg_part_simps getn_concat_end)

record DebugRegs =
  DbRegs :: "u64 list"
  Dr6 :: u64
  Dr7 :: u64
  DebugFlags :: u64
  DebugRegs_pad :: "u64 list"

definition enc_DebugRegs :: "DebugRegs \<Rightarrow> bytes" where
  "enc_DebugRegs d = concat (map le64 (DbRegs d)) @ le64 (Dr6 d) @ le64 (Dr7 d) @
     le64 (DebugFlags d) @ concat (map le64 (DebugRegs_pad d))"

definition dec_DebugRegs :: "bytes \<Rightarrow> DebugRegs \<times> bytes" where
  "dec_DebugRegs bs =
     (let (db, bs) = getn get64 4 bs; (d6, bs) = get64 bs; (d7, bs) = get64 bs;
          (fl, bs) = get64 bs; (pad, bs) = getn get64 9 bs
      in (\<lparr>DbRegs = db, Dr6 = d6, Dr7 = d7, DebugFlags = fl, DebugRegs_pad = pad\<rparr>, bs))"

definition wf_DebugRegs :: "DebugRegs \<Rightarrow> bool" where
  "wf_DebugRegs d \<longleftrightarrow> length (DbRegs d) = 4 \<and> length (DebugRegs_pad d) = 9"

abbreviation (input) sizeof_DebugRegs :: nat where "sizeof_DebugRegs \<equiv> 128"

interpretation debugregs: codec enc_DebugRegs dec_DebugRegs wf_DebugRegs sizeof_DebugRegs
  by unfold_locales
    (simp_all add: enc_DebugRegs_def dec_DebugRegs_def wf_DebugRegs_def reads_def get_defs le_rd
      codec_simps Let_def split_beta getn_simps getn_concat_end)

section \<open>Reading and writing registers\<close>

text \<open>
  A getter passes the address of a zeroed structure and returns what the kernel left there
  together with the error: \<open>GetPc\<close> uses the structure even when the error is not nil.
\<close>

definition GetRegs :: "'w host \<Rightarrow> vcpu \<Rightarrow> (('w, 'c) st, Regs \<times> goerror option) go" where
  "GetRegs h v =
     bnd (Ioctl h (vcpu_fd v) (IIOR kvmGetRegs (word_of_nat sizeof_Regs))
            (IoPtr (replicate sizeof_Regs 0)))
       (\<lambda>((_, err), buf). ret (fst (dec_Regs buf), err))"

definition SetRegs :: "'w host \<Rightarrow> vcpu \<Rightarrow> Regs \<Rightarrow> (('w, 'c) st, unit) go" where
  "SetRegs h v regs =
     Ioctl_err h (vcpu_fd v) (IIOW kvmSetRegs (word_of_nat sizeof_Regs)) (IoPtr (enc_Regs regs))"

definition GetSregs :: "'w host \<Rightarrow> vcpu \<Rightarrow> (('w, 'c) st, Sregs \<times> goerror option) go" where
  "GetSregs h v =
     bnd (Ioctl h (vcpu_fd v) (IIOR kvmGetSregs (word_of_nat sizeof_Sregs))
            (IoPtr (replicate sizeof_Sregs 0)))
       (\<lambda>((_, err), buf). ret (fst (dec_Sregs buf), err))"

definition SetSregs :: "'w host \<Rightarrow> vcpu \<Rightarrow> Sregs \<Rightarrow> (('w, 'c) st, unit) go" where
  "SetSregs h v sregs =
     Ioctl_err h (vcpu_fd v) (IIOW kvmSetSregs (word_of_nat sizeof_Sregs)) (IoPtr (enc_Sregs sregs))"

definition GetDebugRegs ::
  "'w host \<Rightarrow> vcpu \<Rightarrow> DebugRegs \<Rightarrow> (('w, 'c) st, DebugRegs \<times> goerror option) go" where
  "GetDebugRegs h v dregs =
     bnd (Ioctl h (vcpu_fd v) (IIOR kvmGetDebugRegs (word_of_nat sizeof_DebugRegs))
            (IoPtr (enc_DebugRegs dregs)))
       (\<lambda>((_, err), buf). ret (fst (dec_DebugRegs buf), err))"

definition SetDebugRegs :: "'w host \<Rightarrow> vcpu \<Rightarrow> DebugRegs \<Rightarrow> (('w, 'c) st, unit) go" where
  "SetDebugRegs h v dregs =
     Ioctl_err h (vcpu_fd v) (IIOW kvmSetDebugRegs (word_of_nat sizeof_DebugRegs))
       (IoPtr (enc_DebugRegs dregs))"

definition GetSRegs2 ::
  "'w host \<Rightarrow> vcpu \<Rightarrow> SRegs2 \<Rightarrow> (('w, 'c) st, SRegs2 \<times> goerror option) go" where
  "GetSRegs2 h v sreg =
     bnd (Ioctl h (vcpu_fd v) (IIOR kvmGetSRegs2 (word_of_nat sizeof_SRegs2))
            (IoPtr (enc_SRegs2 sreg)))
       (\<lambda>((_, err), buf). ret (fst (dec_SRegs2 buf), err))"

definition SetSRegs2 :: "'w host \<Rightarrow> vcpu \<Rightarrow> SRegs2 \<Rightarrow> (('w, 'c) st, unit) go" where
  "SetSRegs2 h v sreg =
     Ioctl_err h (vcpu_fd v) (IIOW kvmSetSRegs2 (word_of_nat sizeof_SRegs2))
       (IoPtr (enc_SRegs2 sreg))"

definition amd64_GetPc :: "'w host \<Rightarrow> vcpu \<Rightarrow> (('w, 'c) st, u64) go" where
  "amd64_GetPc h v = bnd (GetRegs h v) (\<lambda>(r, _). ret (Rip r))"

section \<open>Initial register values\<close>

definition boot_regs :: "u64 \<Rightarrow> u64 \<Rightarrow> u64 \<Rightarrow> u64 \<Rightarrow> Regs \<Rightarrow> Regs" where
  "boot_regs rip argc argv memsz regs =
     regs\<lparr>Rflags := 2, Rip := rip, Rdi := memsz, Rsi := argc, R15 := argv\<rparr>"

definition initRegs ::
  "'w host \<Rightarrow> vcpu \<Rightarrow> u64 \<Rightarrow> u64 \<Rightarrow> u64 \<Rightarrow> u64 \<Rightarrow> (('w, 'c) st, unit) go" where
  "initRegs h v rip argc argv memsz =
     bnd (GetRegs h v) (\<lambda>(regs, err). bnd (check err) (\<lambda>_.
       SetRegs h v (boot_regs rip argc argv memsz regs)))"

abbreviation (input) CR0xPE :: u64 where "CR0xPE \<equiv> 1"
abbreviation (input) CR0xMP :: u64 where "CR0xMP \<equiv> push_bit 1 1"
abbreviation (input) CR0xEM :: u64 where "CR0xEM \<equiv> push_bit 2 1"
abbreviation (input) CR0xPG :: u64 where "CR0xPG \<equiv> push_bit 31 1"
abbreviation (input) CR4xOSFXSR :: u64 where "CR4xOSFXSR \<equiv> push_bit 9 1"
abbreviation (input) CR4xOSXMMEXCPT :: u64 where "CR4xOSXMMEXCPT \<equiv> push_bit 10 1"

text \<open>The remaining bits of the control registers, of EFER and of page table entries.\<close>

abbreviation (input) CR0xTS :: u64 where "CR0xTS \<equiv> push_bit 3 1"
abbreviation (input) CR0xET :: u64 where "CR0xET \<equiv> push_bit 4 1"
abbreviation (input) CR0xNE :: u64 where "CR0xNE \<equiv> push_bit 5 1"
abbreviation (input) CR0xWP :: u64 where "CR0xWP \<equiv> push_bit 16 1"
abbreviation (input) CR0xAM :: u64 where "CR0xAM \<equiv> push_bit 18 1"
abbreviation (input) CR0xNW :: u64 where "CR0xNW \<equiv> push_bit 29 1"
abbreviation (input) CR0xCD :: u64 where "CR0xCD \<equiv> push_bit 30 1"
abbreviation (input) CR4xVME :: u64 where "CR4xVME \<equiv> 1"
abbreviation (input) CR4xPVI :: u64 where "CR4xPVI \<equiv> push_bit 1 1"
abbreviation (input) CR4xTSD :: u64 where "CR4xTSD \<equiv> push_bit 2 1"
abbreviation (input) CR4xDE :: u64 where "CR4xDE \<equiv> push_bit 3 1"
abbreviation (input) CR4xPSE :: u64 where "CR4xPSE \<equiv> push_bit 4 1"
abbreviation (input) CR4xPAE :: u64 where "CR4xPAE \<equiv> push_bit 5 1"
abbreviation (input) CR4xMCE :: u64 where "CR4xMCE \<equiv> push_bit 6 1"
abbreviation (input) CR4xPGE :: u64 where "CR4xPGE \<equiv> push_bit 7 1"
abbreviation (input) CR4xPCE :: u64 where "CR4xPCE \<equiv> push_bit 8 1"
abbreviation (input) CR4xUMIP :: u64 where "CR4xUMIP \<equiv> push_bit 11 1"
abbreviation (input) CR4xVMXE :: u64 where "CR4xVMXE \<equiv> push_bit 13 1"
abbreviation (input) CR4xSMXE :: u64 where "CR4xSMXE \<equiv> push_bit 14 1"
abbreviation (input) CR4xFSGSBASE :: u64 where "CR4xFSGSBASE \<equiv> push_bit 16 1"
abbreviation (input) CR4xPCIDE :: u64 where "CR4xPCIDE \<equiv> push_bit 17 1"
abbreviation (input) CR4xOSXSAVE :: u64 where "CR4xOSXSAVE \<equiv> push_bit 18 1"
abbreviation (input) CR4xSMEP :: u64 where "CR4xSMEP \<equiv> push_bit 20 1"
abbreviation (input) CR4xSMAP :: u64 where "CR4xSMAP \<equiv> push_bit 21 1"
abbreviation (input) EFERxSCE :: u64 where "EFERxSCE \<equiv> 1"
abbreviation (input) EFERxLME :: u64 where "EFERxLME \<equiv> push_bit 8 1"
abbreviation (input) EFERxLMA :: u64 where "EFERxLMA \<equiv> push_bit 10 1"
abbreviation (input) EFERxNXE :: u64 where "EFERxNXE \<equiv> push_bit 11 1"
abbreviation (input) PDE64xPRESENT :: u64 where "PDE64xPRESENT \<equiv> 1"
abbreviation (input) PDE64xRW :: u64 where "PDE64xRW \<equiv> push_bit 1 1"
abbreviation (input) PDE64xUSER :: u64 where "PDE64xUSER \<equiv> push_bit 2 1"
abbreviation (input) PDE64xACCESSED :: u64 where "PDE64xACCESSED \<equiv> push_bit 5 1"
abbreviation (input) PDE64xDIRTY :: u64 where "PDE64xDIRTY \<equiv> push_bit 6 1"
abbreviation (input) PDE64xPS :: u64 where "PDE64xPS \<equiv> push_bit 7 1"
abbreviation (input) PDE64xG :: u64 where "PDE64xG \<equiv> push_bit 8 1"

definition flat_segment :: "Segment \<Rightarrow> Segment" where
  "flat_segment g = g\<lparr>Base := 0, Limit := 0xFFFFFFFF, G := 1\<rparr>"

definition boot_sregs :: "Sregs \<Rightarrow> Sregs" where
  "boot_sregs sregs =
     sregs\<lparr>Cs := (flat_segment (Cs sregs))\<lparr>Db := 1\<rparr>, Ds := flat_segment (Ds sregs),
           Fs := flat_segment (Fs sregs), Gs := flat_segment (Gs sregs),
           Es := flat_segment (Es sregs), Ss := (flat_segment (Ss sregs))\<lparr>Db := 1\<rparr>,
           Cr0 := ((Cr0 sregs OR 1) AND 0xfffb) OR CR0xMP,
           Cr4 := CR4xOSFXSR OR CR4xOSXMMEXCPT\<rparr>"

definition initSregs :: "'w host \<Rightarrow> vcpu \<Rightarrow> (('w, 'c) st, unit) go" where
  "initSregs h v =
     bnd (GetSregs h v) (\<lambda>(sregs, err). bnd (check err) (\<lambda>_. SetSregs h v (boot_sregs sregs)))"

section \<open>Frames\<close>

lemma keeps_regs_ops [keeps_rules]:
  "keeps shape (GetRegs h v)" "keeps handler (GetRegs h v)"
  "keeps shape (SetRegs h v r)" "keeps handler (SetRegs h v r)"
  "keeps shape (GetSregs h v)" "keeps handler (GetSregs h v)"
  "keeps shape (SetSregs h v sr)" "keeps handler (SetSregs h v sr)"
  unfolding GetRegs_def SetRegs_def GetSregs_def SetSregs_def by (intro keeps_rules)+

lemma keeps_init_ops [keeps_rules]:
  "keeps shape (initRegs h v rip argc argv msz)" "keeps handler (initRegs h v rip argc argv msz)"
  "keeps shape (initSregs h v)" "keeps handler (initSregs h v)"
  "keeps shape (amd64_GetPc h v)" "keeps handler (amd64_GetPc h v)"
  unfolding initRegs_def initSregs_def amd64_GetPc_def by (intro keeps_rules)+

section \<open>Properties\<close>

text \<open>What the kernel is handed when a structure read before is written back with some
  fields replaced: every other byte is the byte the kernel supplied.\<close>

lemma enc_Regs_Rax:
  assumes "length buf = sizeof_Regs"
  shows "enc_Regs ((fst (dec_Regs buf))\<lparr>Rax := r\<rparr>) = le64 r @ drop 8 buf"
proof -
  have "enc_Regs (fst (dec_Regs buf)) = le64 (Rax (fst (dec_Regs buf))) @ drop 8 (enc_Regs (fst (dec_Regs buf)))"
    by (simp add: enc_Regs_def)
  moreover have "enc_Regs (x\<lparr>Rax := r\<rparr>) = le64 r @ drop 8 (enc_Regs x)" for x
    by (simp add: enc_Regs_def)
  ultimately show ?thesis using regs.enc_dec [OF assms] by simp
qed

text \<open>Where the structures have their fields: the offsets of the compiler's layout, which is the layout of
  the kernel's \<open>struct kvm_segment\<close>, \<open>kvm_dtable\<close> and \<open>kvm_sregs\<close>.\<close>

definition segment_at :: "bytes \<Rightarrow> Segment" where
  "segment_at b = \<lparr>Base = rd64 b, Limit = rd32 (drop 8 b), Selector = rd16 (drop 12 b), Typ = rd8 (drop 14 b),
     Present = rd8 (drop 15 b), Dpl = rd8 (drop 16 b), Db = rd8 (drop 17 b), S = rd8 (drop 18 b), L = rd8 (drop 19 b),
     G = rd8 (drop 20 b), AVL = rd8 (drop 21 b), Unusable = rd8 (drop 22 b), Segment_pad = rd8 (drop 23 b)\<rparr>"

definition descriptor_at :: "bytes \<Rightarrow> Descriptor" where
  "descriptor_at b = \<lparr>DescBase = rd64 b, DescLimit = rd16 (drop 8 b),
     Desc_pad = [rd16 (drop 10 b), rd16 (drop 12 b), rd16 (drop 14 b)]\<rparr>"

definition sregs_at :: "bytes \<Rightarrow> Sregs" where
  "sregs_at b = \<lparr>Cs = segment_at b, Ds = segment_at (drop 24 b), Es = segment_at (drop 48 b), Fs = segment_at (drop 72 b),
     Gs = segment_at (drop 96 b), Ss = segment_at (drop 120 b), Tr = segment_at (drop 144 b), Ldt = segment_at (drop 168 b),
     Gdt = descriptor_at (drop 192 b), Idt = descriptor_at (drop 208 b), Cr0 = rd64 (drop 224 b), Cr2 = rd64 (drop 232 b),
     Cr3 = rd64 (drop 240 b), Cr4 = rd64 (drop 248 b), Cr8 = rd64 (drop 256 b), Efer = rd64 (drop 264 b),
     ApicBase = rd64 (drop 272 b),
     InterruptBitmap = [rd64 (drop 280 b), rd64 (drop 288 b), rd64 (drop 296 b), rd64 (drop 304 b)]\<rparr>"

lemma dec_Segment_at: "fst (dec_Segment b) = segment_at b"
  by (simp add: dec_Segment_def segment_at_def get_defs Let_def)

lemma dec_Descriptor_at: "fst (dec_Descriptor b) = descriptor_at b"
  by (simp add: dec_Descriptor_def descriptor_at_def get_defs Let_def numeral_3_eq_3)

lemma getn_4: "fst (getn get64 4 b) = [rd64 b, rd64 (drop 8 b), rd64 (drop 16 b), rd64 (drop 24 b)]"
  by (simp add: numeral_eq_Suc get_defs Let_def)

lemma dec_Sregs_at: "length b = sizeof_Sregs \<Longrightarrow> fst (dec_Sregs b) = sregs_at b"
  by (simp add: dec_Sregs_def sregs_at_def Let_def split_beta dec_Segment_at dec_Descriptor_at segment.snd_dec
      descriptor.snd_dec get_defs getn_4)

text \<open>C37. The special registers survive the trip from the kernel and back: what \<open>GetSregs\<close> returns has every
  field at its offset in the 312 bytes of the kernel's answer (\<open>sregs_at\<close>), and passing it to \<open>SetSregs\<close> hands
  the kernel exactly those bytes again, blank fields included.\<close>

theorem sregs_layout_roundtrip:
  assumes "Ioctl h (vcpu_fd v) (IIOR kvmGetSregs 312) (IoPtr (replicate 312 0)) s = (Ok ((r, err), buf), t)"
  shows "GetSregs h v s = (Ok (sregs_at buf, err), t) \<and>
    SetSregs h v (sregs_at buf) u = Ioctl_err h (vcpu_fd v) (IIOW kvmSetSregs 312) (IoPtr buf) u"
proof -
  have "length buf = 312" using Ioctl_buf_length [OF assms] by simp
  from dec_Sregs_at [OF this] sregs.enc_dec [OF this] assms show ?thesis
    by (simp add: GetSregs_def SetSregs_def go_simps)
qed

theorem sregs_layout_roundtrip_witness:
  "GetSregs ok_host \<lparr>vcpu_fd = 5\<rparr> (blank_state 8 ()) = (Ok (sregs_at (replicate 312 0), None), blank_state 8 ())"
  using sregs_layout_roundtrip [of ok_host "\<lparr>vcpu_fd = 5\<rparr>" "blank_state 8 ()" 0 None "replicate 312 0" "blank_state 8 ()" "blank_state 8 ()"]
  by simp

lemma boot_Cr0_bits:
  "bit (((c :: u64) OR 1) AND 0xfffb OR 2) i \<longleftrightarrow> i = 0 \<or> i = 1 \<or> 3 \<le> i \<and> i < 16 \<and> bit c i"
proof -
  have "bit (mask 16 AND NOT (push_bit 2 1) :: u64) i \<longleftrightarrow> i = 0 \<or> i = 1 \<or> 3 \<le> i \<and> i < 16"
    unfolding bit_and_iff bit_not_iff bit_mask_iff bit_push_bit_iff bit_1_iff by auto
  also have "(mask 16 AND NOT (push_bit 2 1) :: u64) = 0xfffb" by (simp add: mask_eq_exp_minus_1)
  finally have m: "bit (0xfffb :: u64) i \<longleftrightarrow> i = 0 \<or> i = 1 \<or> 3 \<le> i \<and> i < 16" .
  have "bit (push_bit 1 1 :: u64) i \<longleftrightarrow> i = 1" unfolding bit_push_bit_iff bit_1_iff by auto
  then have "bit (2 :: u64) i \<longleftrightarrow> i = 1" by simp
  with m show ?thesis by (auto simp: bit_or_iff bit_and_iff bit_1_iff)
qed

text \<open>C36. The boot state of an amd64 virtual CPU: whatever special registers \<open>sr0\<close> the kernel reports,
  \<open>initSregs\<close> sets registers \<open>sr\<close> in protected mode, without paging, with the FPU monitored and not
  emulated and bits 3 to 15 of \<open>CR0\<close> as they were, with SSE enabled, and with the six code and data segments
  flat: base 0, a limit of 4 GiB in pages, 32-bit code and stack, their other fields as they were.
  All other registers are those that the kernel reported.\<close>

theorem boot_sregs_protected_mode:
  assumes "GetSregs h v s = (Ok (sr0, None), t)"
  shows "\<exists>sr. initSregs h v s = SetSregs h v sr t \<and>
    (\<forall>i. bit (Cr0 sr) i \<longleftrightarrow> i = 0 \<or> i = 1 \<or> 3 \<le> i \<and> i < 16 \<and> bit (Cr0 sr0) i) \<and>
    sr = sr0\<lparr>Cr0 := Cr0 sr, Cr4 := 0x600,
      Cs := (Cs sr0)\<lparr>Base := 0, Limit := 0xFFFFFFFF, Db := 1, G := 1\<rparr>,
      Ds := (Ds sr0)\<lparr>Base := 0, Limit := 0xFFFFFFFF, G := 1\<rparr>,
      Es := (Es sr0)\<lparr>Base := 0, Limit := 0xFFFFFFFF, G := 1\<rparr>,
      Fs := (Fs sr0)\<lparr>Base := 0, Limit := 0xFFFFFFFF, G := 1\<rparr>,
      Gs := (Gs sr0)\<lparr>Base := 0, Limit := 0xFFFFFFFF, G := 1\<rparr>,
      Ss := (Ss sr0)\<lparr>Base := 0, Limit := 0xFFFFFFFF, Db := 1, G := 1\<rparr>\<rparr>"
  using assms
  by (intro exI [of _ "boot_sregs sr0"])
    (simp add: initSregs_def go_simps, simp add: boot_sregs_def flat_segment_def boot_Cr0_bits [simplified])

theorem boot_sregs_protected_mode_witness:
  "\<exists>sr. initSregs ok_host \<lparr>vcpu_fd = 5\<rparr> (blank_state 8 ()) = SetSregs ok_host \<lparr>vcpu_fd = 5\<rparr> sr (blank_state 8 ()) \<and>
     bit (Cr0 sr) 0 \<and> \<not> bit (Cr0 sr) 31"
proof -
  have "GetSregs ok_host \<lparr>vcpu_fd = 5\<rparr> (blank_state 8 ()) = (Ok (fst (dec_Sregs (replicate 312 0)), None), blank_state 8 ())"
    by (simp add: GetSregs_def go_simps)
  from boot_sregs_protected_mode [OF this] show ?thesis by force
qed

end
