(* ===== verification/Go_Lib.thy ===== *)
theory Go_Lib
  imports Bytes
begin

text \<open>
  The parts of Go's standard library that the sources rely on for their results:
  \<open>strings.HasPrefix\<close>, \<open>strings.Split\<close>, \<open>path/filepath\<close> on Unix (\<open>Clean\<close>, \<open>Join\<close>,
  \<open>IsAbs\<close>), \<open>strconv\<close> on decimal numbers, \<open>io.ReadFull\<close>, and the conversion between
  strings and byte slices. Go strings are byte sequences; they are modelled as \<open>string\<close>,
  whose characters are bytes.
\<close>

section \<open>Strings and bytes\<close>

definition bytes_of_string :: "string \<Rightarrow> bytes" where
  "bytes_of_string s = map (\<lambda>c. word_of_nat (of_char c)) s"

definition string_of_bytes :: "bytes \<Rightarrow> string" where
  "string_of_bytes bs = map (\<lambda>b. char_of (unat b)) bs"

lemma unat_of_char [simp]: "unat (word_of_nat (of_char c) :: u8) = of_char c"
  by (simp add: unat_of_nat)

lemma string_of_bytes_of_string [simp]: "string_of_bytes (bytes_of_string s) = s"
  by (induction s) (simp_all add: string_of_bytes_def bytes_of_string_def)

lemma bytes_of_string_of_bytes [simp]: "bytes_of_string (string_of_bytes bs) = bs"
  by (induction bs) (simp_all add: string_of_bytes_def bytes_of_string_def)

lemma length_string_bytes [simp]:
  "length (bytes_of_string s) = length s" "length (string_of_bytes bs) = length bs"
  by (simp_all add: bytes_of_string_def string_of_bytes_def)

definition strings_HasPrefix :: "string \<Rightarrow> string \<Rightarrow> bool" where
  "strings_HasPrefix s p \<longleftrightarrow> length p \<le> length s \<and> take (length p) s = p"

lemma HasPrefix_iff: "strings_HasPrefix s p \<longleftrightarrow> (\<exists>r. s = p @ r)"
  by (auto simp: strings_HasPrefix_def) (metis append_take_drop_id)

fun strings_Split :: "char \<Rightarrow> string \<Rightarrow> string list" where
  "strings_Split d [] = [[]]"
| "strings_Split d (c # cs) =
     (if c = d then [] # strings_Split d cs
      else case strings_Split d cs of x # xs \<Rightarrow> (c # x) # xs | [] \<Rightarrow> [[c]])"

fun strings_Join :: "char \<Rightarrow> string list \<Rightarrow> string" where
  "strings_Join d [] = []"
| "strings_Join d [x] = x"
| "strings_Join d (x # y # ys) = x @ d # strings_Join d (y # ys)"

lemma Split_nonempty [simp]: "strings_Split d s \<noteq> []"
  by (induction s) (auto split: list.splits)

lemma Split_free: "c \<in> set (strings_Split d s) \<Longrightarrow> d \<notin> set c"
proof (induction s arbitrary: c)
  case (Cons a s)
  then show ?case by (cases "strings_Split d s") (auto split: if_splits)
qed simp

lemma Join_Split [simp]: "strings_Join d (strings_Split d s) = s"
proof (induction s)
  case (Cons a s)
  then show ?case
    by (cases "strings_Split d s"; cases "tl (strings_Split d s)") (auto split: list.splits)
qed simp

lemma Split_append:
  "d \<notin> set x \<Longrightarrow> strings_Split d (x @ d # s) = x # strings_Split d s"
  by (induction x) auto

lemma Split_single: "d \<notin> set x \<Longrightarrow> strings_Split d x = [x]"
  by (induction x) auto

lemma Split_Join:
  "cs \<noteq> [] \<Longrightarrow> \<forall>c \<in> set cs. d \<notin> set c \<Longrightarrow> strings_Split d (strings_Join d cs) = cs"
  by (induction d cs rule: strings_Join.induct) (auto simp: Split_append Split_single)

section \<open>Paths\<close>

abbreviation (input) slash :: char where "slash \<equiv> CHR ''/''"

text \<open>
  \<open>filepath.Clean\<close> works through the elements of the path and keeps the ones retained so
  far on a stack: empty elements and \<open>.\<close> vanish, \<open>..\<close> removes the element before it, and at
  the front of a rooted path \<open>..\<close> vanishes too.
\<close>

fun clean_elems :: "bool \<Rightarrow> string list \<Rightarrow> string list \<Rightarrow> string list" where
  "clean_elems rooted st [] = rev st"
| "clean_elems rooted st (c # cs) =
     (if c = [] \<or> c = ''.'' then clean_elems rooted st cs
      else if c = ''..'' then
        (case st of
           [] \<Rightarrow> clean_elems rooted (if rooted then [] else [c]) cs
         | e # rest \<Rightarrow> clean_elems rooted (if e = ''..'' then c # st else rest) cs)
      else clean_elems rooted (c # st) cs)"

definition filepath_IsAbs :: "string \<Rightarrow> bool" where
  "filepath_IsAbs p \<longleftrightarrow> strings_HasPrefix p ''/''"

definition filepath_Clean :: "string \<Rightarrow> string" where
  "filepath_Clean p =
     (if p = [] then ''.''
      else let rooted = filepath_IsAbs p;
               elems = clean_elems rooted [] (strings_Split slash p)
           in if rooted then slash # strings_Join slash elems
              else if elems = [] then ''.'' else strings_Join slash elems)"

definition filepath_Join :: "string \<Rightarrow> string \<Rightarrow> string" where
  "filepath_Join a b =
     (if a \<noteq> [] then filepath_Clean (a @ slash # b)
      else if b \<noteq> [] then filepath_Clean b else [])"

text \<open>The elements of a cleaned rooted path name real directory entries.\<close>

definition plain_elem :: "string \<Rightarrow> bool" where
  "plain_elem c \<longleftrightarrow> c \<noteq> [] \<and> c \<noteq> ''.'' \<and> c \<noteq> ''..'' \<and> slash \<notin> set c"

definition clean_abs :: "string \<Rightarrow> bool" where
  "clean_abs p \<longleftrightarrow> p = ''/'' \<or> (filepath_IsAbs p \<and> (\<forall>c \<in> set (strings_Split slash (tl p)). plain_elem c))"

lemma plain_elem_dots [simp]: "\<not> plain_elem ''..''" by (simp add: plain_elem_def)

lemma clean_elems_plain:
  assumes "\<forall>c \<in> set cs. slash \<notin> set c" and "list_all plain_elem st"
  shows "list_all plain_elem (clean_elems True st cs)"
  using assms
proof (induction cs arbitrary: st)
  case (Cons a cs)
  have IH: "list_all plain_elem (clean_elems True st' cs)" if "list_all plain_elem st'" for st'
    using Cons that by simp
  consider "a = [] \<or> a = ''.''" | "a = ''..''" | "plain_elem a"
    using Cons.prems(1) by (auto simp: plain_elem_def)
  then show ?case
  proof cases
    case 2
    then show ?thesis using Cons.prems(2) by (cases st) (auto intro: IH)
  next
    case 3
    then have "clean_elems True st (a # cs) = clean_elems True (a # st) cs"
      by (simp add: plain_elem_def)
    with 3 show ?thesis using Cons.prems(2) by (simp add: IH)
  qed (use Cons.prems(2) in \<open>auto intro: IH\<close>)
qed simp

lemma IsAbs_Cons [simp]: "filepath_IsAbs (c # p) \<longleftrightarrow> c = slash" "\<not> filepath_IsAbs []"
  by (auto simp: filepath_IsAbs_def HasPrefix_iff)

lemma IsAbs_append: "filepath_IsAbs p \<Longrightarrow> filepath_IsAbs (p @ q)"
  by (auto simp: filepath_IsAbs_def HasPrefix_iff)

lemma Clean_abs: "filepath_IsAbs p \<Longrightarrow> clean_abs (filepath_Clean p)"
proof -
  assume abs: "filepath_IsAbs p"
  define es where "es = clean_elems True [] (strings_Split slash p)"
  have plain: "\<forall>c \<in> set es. plain_elem c"
    using clean_elems_plain [of "strings_Split slash p" "[]"] Split_free [of _ slash p]
    by (auto simp: es_def list_all_iff)
  from abs have eq: "filepath_Clean p = slash # strings_Join slash es"
    by (cases p) (auto simp: filepath_Clean_def es_def Let_def)
  show ?thesis
  proof (cases "es = []")
    case False
    then have "strings_Split slash (strings_Join slash es) = es"
      using plain by (intro Split_Join) (auto simp: plain_elem_def)
    with plain show ?thesis by (simp add: eq clean_abs_def)
  qed (simp add: eq clean_abs_def)
qed

lemma Join_abs: "filepath_IsAbs a \<Longrightarrow> clean_abs (filepath_Join a b)"
  using Clean_abs [OF IsAbs_append, of a "slash # b"] by (cases a) (auto simp: filepath_Join_def)

text \<open>The elements of a rooted path, and what a common prefix of two paths means for them: the
  elements of the shorter one, the last of them possibly extended, then any others.\<close>

definition path_elems :: "string \<Rightarrow> string list" where
  "path_elems p = strings_Split slash (tl p)"

lemma Split_app:
  "strings_Split d (a @ b) =
   butlast (strings_Split d a) @ (last (strings_Split d a) @ hd (strings_Split d b)) # tl (strings_Split d b)"
proof (induction a)
  case Nil
  show ?case by simp
next
  case (Cons c a)
  then show ?case
    by (cases "strings_Split d a"; cases "tl (strings_Split d a)") (auto simp: neq_Nil_conv split: list.splits)
qed

lemma Join_app:
  "es \<noteq> [] \<Longrightarrow> \<exists>r. strings_Join d (butlast es @ (last es @ x) # ys) = strings_Join d es @ r"
proof (induction d es rule: strings_Join.induct)
  case (2 d e)
  show ?case by (cases ys) auto
next
  case (3 d e e' es)
  then obtain r where "strings_Join d (butlast (e' # es) @ (last (e' # es) @ x) # ys) = strings_Join d (e' # es) @ r"
    by blast
  moreover have "strings_Join d (butlast (e # e' # es) @ (last (e # e' # es) @ x) # ys) =
      e @ d # strings_Join d (butlast (e' # es) @ (last (e' # es) @ x) # ys)"
    by (cases es) auto
  ultimately show ?case by simp
qed simp

lemma prefix_elems:
  assumes "filepath_IsAbs p" and "filepath_IsAbs q"
  shows "(\<exists>r. q = p @ r) \<longleftrightarrow>
    (\<exists>x ys. path_elems q = butlast (path_elems p) @ (last (path_elems p) @ x) # ys)"
proof
  assume "\<exists>r. q = p @ r"
  then obtain r where "q = p @ r" ..
  with assms(1) have "tl q = tl p @ r" by (cases p) auto
  then show "\<exists>x ys. path_elems q = butlast (path_elems p) @ (last (path_elems p) @ x) # ys"
    by (auto simp: path_elems_def Split_app)
next
  assume "\<exists>x ys. path_elems q = butlast (path_elems p) @ (last (path_elems p) @ x) # ys"
  then obtain x ys where eq: "path_elems q = butlast (path_elems p) @ (last (path_elems p) @ x) # ys" by blast
  have "path_elems p \<noteq> []" by (simp add: path_elems_def)
  then obtain r where "strings_Join slash (path_elems q) = strings_Join slash (path_elems p) @ r"
    using Join_app [of "path_elems p" slash x ys] unfolding eq by blast
  then have "tl q = tl p @ r" by (simp add: path_elems_def)
  with assms show "\<exists>r. q = p @ r" by (cases p; cases q) auto
qed

section \<open>Decimal numbers\<close>

definition is_digit :: "char \<Rightarrow> bool" where
  "is_digit c \<longleftrightarrow> 48 \<le> (of_char c :: nat) \<and> (of_char c :: nat) \<le> 57"

definition digit_val :: "char \<Rightarrow> nat" where
  "digit_val c = of_char c - 48"

definition dec_val :: "string \<Rightarrow> nat" where
  "dec_val s = foldl (\<lambda>n c. 10 * n + digit_val c) 0 s"

text \<open>\<open>strconv.Atoi\<close> on a string of decimal digits: the empty string is a syntax error, a
  value beyond the largest \<open>int\<close> a range error.\<close>

definition strconv_Atoi :: "string \<Rightarrow> goerror + nat" where
  "strconv_Atoi s =
     (if s = [] \<or> \<not> list_all is_digit s then Inl (ErrNew ''invalid syntax'')
      else if dec_val s < 2 ^ 63 then Inr (dec_val s) else Inl (ErrNew ''value out of range''))"

fun dec_string :: "nat \<Rightarrow> string" where
  "dec_string n =
     (if n < 10 then [char_of (48 + n)] else dec_string (n div 10) @ [char_of (48 + n mod 10)])"

declare dec_string.simps [simp del]

definition strconv_FormatInt10 :: "int \<Rightarrow> string" where
  "strconv_FormatInt10 i = (if i < 0 then CHR ''-'' # dec_string (nat (- i)) else dec_string (nat i))"

text \<open>The \<open>%#x\<close> verb of \<open>fmt\<close>.\<close>

fun hex_digits :: "nat \<Rightarrow> string" where
  "hex_digits n =
     (let d = n mod 16; c = char_of (if d < 10 then 48 + d else 87 + d)
      in if n < 16 then [c] else hex_digits (n div 16) @ [c])"

declare hex_digits.simps [simp del]

definition fmt_hex :: "u64 \<Rightarrow> string" where
  "fmt_hex x = ''0x'' @ hex_digits (unat x)"

lemma dec_val_snoc: "dec_val (s @ [c]) = 10 * dec_val s + digit_val c"
  by (simp add: dec_val_def)

lemma dec_digit: "d < 10 \<Longrightarrow> is_digit (char_of (48 + d)) \<and> digit_val (char_of (48 + d)) = d"
  by (simp add: is_digit_def digit_val_def)

lemma dec_string_digits: "list_all is_digit (dec_string n) \<and> dec_string n \<noteq> [] \<and> dec_val (dec_string n) = n"
proof (induction n rule: dec_string.induct)
  case (1 n)
  show ?case
  proof (cases "n < 10")
    case True
    then show ?thesis
      using dec_digit [of n] by (subst (1 2 3) dec_string.simps) (simp add: dec_val_def)
  next
    case False
    with 1 dec_digit [of "n mod 10"] show ?thesis
      by (subst (1 2 3) dec_string.simps) (simp add: dec_val_snoc)
  qed
qed

lemma Atoi_dec_string: "n < 2 ^ 63 \<Longrightarrow> strconv_Atoi (dec_string n) = Inr n"
  using dec_string_digits [of n] by (simp add: strconv_Atoi_def)

section \<open>Reading from a buffer\<close>

text \<open>\<open>io.ReadFull\<close> on a \<open>bytes.Buffer\<close>: exactly \<open>n\<close> bytes, or an error that tells an
  exhausted buffer from a short one.\<close>

definition io_ReadFull :: "nat \<Rightarrow> bytes \<Rightarrow> goerror + bytes \<times> bytes" where
  "io_ReadFull n bs =
     (if n = 0 then Inr ([], bs)
      else if bs = [] then Inl EOF
      else if length bs < n then Inl ErrUnexpectedEOF
      else Inr (take n bs, drop n bs))"

end
