(* ===== verification/Cpuid.thy ===== *)
theory Cpuid
  imports Regs_Amd64 Go_Lib
begin

text \<open>
  \<open>kvm/cpuid_amd64.go\<close> and \<open>initCPUID\<close> of \<open>kvm/machine_amd64.go\<close>: the list of CPUID
  leaves that the hypervisor asks of the kernel, edits and installs in each virtual CPU.
\<close>

section \<open>The structures and their encodings\<close>

record CPUIDEntry2 =
  Function :: u32
  Index :: u32
  EntryFlags :: u32
  Eax :: u32
  Ebx :: u32
  Ecx :: u32
  Edx :: u32
  EntryPadding :: "u32 list"

record CPUID =
  Nent :: u32
  CPUIDPadding :: u32
  Entries :: "CPUIDEntry2 list"

definition enc_CPUIDEntry2 :: "CPUIDEntry2 \<Rightarrow> bytes" where
  "enc_CPUIDEntry2 e = le32 (Function e) @ le32 (Index e) @ le32 (EntryFlags e) @ le32 (Eax e) @
     le32 (Ebx e) @ le32 (Ecx e) @ le32 (Edx e) @ concat (map le32 (EntryPadding e))"

definition dec_CPUIDEntry2 :: "bytes \<Rightarrow> CPUIDEntry2 \<times> bytes" where
  "dec_CPUIDEntry2 bs =
     (let (fn, bs) = get32 bs; (ix, bs) = get32 bs; (fl, bs) = get32 bs; (a, bs) = get32 bs;
          (b, bs) = get32 bs; (c, bs) = get32 bs; (d, bs) = get32 bs; (pad, bs) = getn get32 3 bs
      in (\<lparr>Function = fn, Index = ix, EntryFlags = fl, Eax = a, Ebx = b, Ecx = c, Edx = d,
           EntryPadding = pad\<rparr>, bs))"

definition wf_CPUIDEntry2 :: "CPUIDEntry2 \<Rightarrow> bool" where
  "wf_CPUIDEntry2 e \<longleftrightarrow> length (EntryPadding e) = 3"

abbreviation (input) sizeof_CPUIDEntry2 :: nat where "sizeof_CPUIDEntry2 \<equiv> 40"

interpretation cpuidentry: codec enc_CPUIDEntry2 dec_CPUIDEntry2 wf_CPUIDEntry2 sizeof_CPUIDEntry2
  by unfold_locales
    (simp_all add: enc_CPUIDEntry2_def dec_CPUIDEntry2_def wf_CPUIDEntry2_def reads_def get_defs le_rd
      codec_simps Let_def split_beta getn_simps)

definition zero_entry :: CPUIDEntry2 where
  "zero_entry = \<lparr>Function = 0, Index = 0, EntryFlags = 0, Eax = 0, Ebx = 0, Ecx = 0, Edx = 0,
     EntryPadding = [0, 0, 0]\<rparr>"

text \<open>\<open>(c *CPUID) Bytes\<close>: writing to a \<open>bytes.Buffer\<close> never fails.\<close>

definition CPUID_Bytes :: "CPUID \<Rightarrow> bytes" where
  "CPUID_Bytes c = le32 (Nent c) @ le32 (CPUIDPadding c) @ concat (map enc_CPUIDEntry2 (Entries c))"

text \<open>\<open>NewCPUID\<close>: a buffer that ends right after the two header words is accepted and gives
  zero entries; one that ends inside the entries is refused.\<close>

definition NewCPUID :: "bytes \<Rightarrow> goerror + CPUID" where
  "NewCPUID data =
     (case io_ReadFull 4 data of
        Inl err \<Rightarrow> Inl err
      | Inr (nb, buf) \<Rightarrow>
          (case io_ReadFull 4 buf of
             Inl err \<Rightarrow> Inl err
           | Inr (pb, buf) \<Rightarrow>
               (let n = unat (rd32 nb)
                in case io_ReadFull (sizeof_CPUIDEntry2 * n) buf of
                     Inl err \<Rightarrow>
                       (if errors_Is err EOF
                        then Inr \<lparr>Nent = rd32 nb, CPUIDPadding = rd32 pb, Entries = replicate n zero_entry\<rparr>
                        else Inl err)
                   | Inr (eb, _) \<Rightarrow>
                       Inr \<lparr>Nent = rd32 nb, CPUIDPadding = rd32 pb,
                            Entries = fst (getn dec_CPUIDEntry2 n eb)\<rparr>)))"

section \<open>The ioctls\<close>

text \<open>\<open>unsafe.Sizeof(kvmCPUID)\<close> is the size of the pointer, eight bytes: the size of the
  fixed part of the kernel's structure.\<close>

definition cpuid_ioctl :: "'w host \<Rightarrow> u64 \<Rightarrow> u64 \<Rightarrow> CPUID \<Rightarrow> (('w, 'c) st, CPUID) go" where
  "cpuid_ioctl h fd op c =
     bnd (Ioctl h fd op (IoPtr (CPUID_Bytes c))) (\<lambda>((_, err), data).
     bnd (check err) (\<lambda>_.
       case NewCPUID data of Inl e \<Rightarrow> throw e | Inr c' \<Rightarrow> ret c'))"

definition GetSupportedCPUID :: "'w host \<Rightarrow> CPUID \<Rightarrow> (('w, 'c) st, CPUID) go" where
  "GetSupportedCPUID h c =
     bnd (gets (kvmfd \<circ> machine)) (\<lambda>fd. cpuid_ioctl h fd (IIOWR kvmGetSupportedCPUID 8) c)"

definition GetEmulatedCPUID :: "'w host \<Rightarrow> CPUID \<Rightarrow> (('w, 'c) st, CPUID) go" where
  "GetEmulatedCPUID h c =
     bnd (gets (kvmfd \<circ> machine)) (\<lambda>fd. cpuid_ioctl h fd (IIOWR kvmGetEmulatedCPUID 8) c)"

definition GetCPUID2 :: "'w host \<Rightarrow> vcpu \<Rightarrow> CPUID \<Rightarrow> (('w, 'c) st, CPUID) go" where
  "GetCPUID2 h v c = cpuid_ioctl h (vcpu_fd v) (IIOWR kvmGetCPUID2 8) c"

definition SetCPUID2 :: "'w host \<Rightarrow> vcpu \<Rightarrow> CPUID \<Rightarrow> (('w, 'c) st, unit) go" where
  "SetCPUID2 h v c = Ioctl_err h (vcpu_fd v) (IIOW kvmSetCPUID2 8) (IoPtr (CPUID_Bytes c))"

section \<open>Editing the leaves\<close>

abbreviation (input) CPUIDFeatures :: u32 where "CPUIDFeatures \<equiv> 0x40000001"
abbreviation (input) CPUIDSignature :: u32 where "CPUIDSignature \<equiv> 0x40000000"
abbreviation (input) CPUIDFuncPerMon :: u32 where "CPUIDFuncPerMon \<equiv> 0x0A"

definition edit_entry :: "CPUIDEntry2 \<Rightarrow> CPUIDEntry2" where
  "edit_entry e =
     (if Function e = CPUIDFuncPerMon then e\<lparr>Eax := 0\<rparr>
      else if Function e = CPUIDSignature
      then e\<lparr>Eax := CPUIDFeatures, Ebx := 0x4b4d564b, Ecx := 0x564b4d56, Edx := 0x4d\<rparr>
      else e)"

text \<open>The loop \<open>for i := 0; i < int(cpuid.Nent); i++\<close> over \<open>cpuid.Entries[i]\<close>.\<close>

fun edit_entries :: "nat \<Rightarrow> CPUIDEntry2 list \<Rightarrow> (('w, 'c) st, CPUIDEntry2 list) go" where
  "edit_entries 0 es = ret es"
| "edit_entries (Suc n) [] = panic IndexOutOfRange"
| "edit_entries (Suc n) (e # es) = bnd (edit_entries n es) (\<lambda>es'. ret (edit_entry e # es'))"

definition initCPUID :: "'w host \<Rightarrow> nat \<Rightarrow> (('w, 'c) st, unit) go" where
  "initCPUID h cpu =
     bnd (GetSupportedCPUID h \<lparr>Nent = 100, CPUIDPadding = 0, Entries = replicate 100 zero_entry\<rparr>)
       (\<lambda>cpuid.
     bnd (edit_entries (unat (Nent cpuid)) (Entries cpuid)) (\<lambda>es.
     bnd (gets (vcpus \<circ> the_vm)) (\<lambda>vs.
     bnd (index vs cpu) (\<lambda>v. SetCPUID2 h v (cpuid\<lparr>Entries := es\<rparr>)))))"

section \<open>Frames\<close>

lemma keeps_edit_entries [keeps_rules]: "keeps f (edit_entries n es)"
  by (induction n es rule: edit_entries.induct) (auto intro!: keeps_rules)

lemma keeps_cpuid [keeps_rules]:
  "keeps shape (initCPUID h cpu)" "keeps handler (initCPUID h cpu)"
  unfolding initCPUID_def GetSupportedCPUID_def cpuid_ioctl_def SetCPUID2_def
  by (intro keeps_rules)+

section \<open>Properties\<close>

definition wf_CPUID :: "CPUID \<Rightarrow> bool" where
  "wf_CPUID c \<longleftrightarrow> length (Entries c) = unat (Nent c) \<and> list_all wf_CPUIDEntry2 (Entries c)"

lemma length_enc_entries:
  "list_all wf_CPUIDEntry2 es \<Longrightarrow> length (concat (map enc_CPUIDEntry2 es)) = 40 * length es"
  by (induction es) (simp_all add: cpuidentry.length_enc)

lemma getn_enc_entries:
  "list_all wf_CPUIDEntry2 es \<Longrightarrow>
   getn dec_CPUIDEntry2 (length es) (concat (map enc_CPUIDEntry2 es) @ r) = (es, r)"
  by (induction es) (simp_all add: cpuidentry.dec_enc)

lemma ReadFull_append: "length bs = n \<Longrightarrow> io_ReadFull n (bs @ r) = Inr (bs, r)"
  by (cases "n = 0") (auto simp: io_ReadFull_def)

lemma NewCPUID_length: "NewCPUID data = Inr c \<Longrightarrow> length (Entries c) = unat (Nent c)"
  by (auto simp: NewCPUID_def Let_def length_getn split: sum.splits prod.splits if_splits)

lemma NewCPUID_of_Bytes:
  assumes wf: "wf_CPUID c"
  shows "NewCPUID (CPUID_Bytes c @ rest) = Inr c"
proof -
  have len: "length (concat (map enc_CPUIDEntry2 (Entries c))) = 40 * unat (Nent c)"
    and get: "getn dec_CPUIDEntry2 (unat (Nent c)) (concat (map enc_CPUIDEntry2 (Entries c))) = (Entries c, [])"
    using wf length_enc_entries [of "Entries c"] getn_enc_entries [of "Entries c" "[]"]
    by (simp_all add: wf_CPUID_def)
  have "io_ReadFull (40 * unat (Nent c)) (concat (map enc_CPUIDEntry2 (Entries c)) @ rest) =
      Inr (concat (map enc_CPUIDEntry2 (Entries c)), rest)"
    using len by (rule ReadFull_append)
  with get show ?thesis
    using rd_le(3) [of "Nent c" "[]"] rd_le(3) [of "CPUIDPadding c" "[]"]
    by (simp add: NewCPUID_def CPUID_Bytes_def ReadFull_append)
qed

text \<open>C38. Parsing the kernel's buffer recovers the leaves: a well-formed list of leaves that
  was serialised, also at the front of a larger buffer, is read back unchanged, and every
  list that \<open>NewCPUID\<close> accepts has exactly \<open>Nent\<close> entries.\<close>

theorem NewCPUID_Bytes:
  "(wf_CPUID c \<longrightarrow> NewCPUID (CPUID_Bytes c @ rest) = Inr c) \<and>
   (\<forall>data c'. NewCPUID data = Inr c' \<longrightarrow> length (Entries c') = unat (Nent c'))"
  using NewCPUID_of_Bytes NewCPUID_length by blast

definition sample_cpuid :: CPUID where
  "sample_cpuid = \<lparr>Nent = 2, CPUIDPadding = 0,
     Entries = [zero_entry\<lparr>Function := 0x0A, Eax := 7\<rparr>, zero_entry\<lparr>Function := 0x40000000\<rparr>]\<rparr>"

lemma wf_sample_cpuid: "wf_CPUID sample_cpuid" "unat (Nent sample_cpuid) = 2"
  by (simp_all add: wf_CPUID_def sample_cpuid_def wf_CPUIDEntry2_def zero_entry_def)

theorem NewCPUID_Bytes_witness:
  "NewCPUID (CPUID_Bytes sample_cpuid @ [1, 2]) = Inr sample_cpuid"
  using NewCPUID_Bytes [of sample_cpuid "[1, 2]"] wf_sample_cpuid(1) by simp

lemma edit_entries_ok: "n = length es \<Longrightarrow> edit_entries n es s = (Ok (map edit_entry es), s)"
  by (induction n es rule: edit_entries.induct) (auto simp: go_simps)

definition leaf_ok :: "CPUIDEntry2 \<Rightarrow> CPUIDEntry2 \<Rightarrow> bool" where
  "leaf_ok e e' \<longleftrightarrow>
     (if Function e = 0x0A then e' = e\<lparr>Eax := 0\<rparr>
      else if Function e = 0x40000000 then
        e' = e\<lparr>Eax := 0x40000001, Ebx := Ebx e', Ecx := Ecx e', Edx := Edx e'\<rparr> \<and>
        string_of_bytes (le32 (Ebx e') @ le32 (Ecx e') @ le32 (Edx e')) =
          ''KVMKVMKVM'' @ [CHR 0x00, CHR 0x00, CHR 0x00]
      else e' = e)"

lemma signature_text:
  "string_of_bytes (le32 0x4b4d564b @ le32 0x564b4d56 @ le32 0x4d) =
     ''KVMKVMKVM'' @ [CHR 0x00, CHR 0x00, CHR 0x00]"
  by (simp add: le32_def le_bytes_numeral string_of_bytes_def char_of_def bit_0)

lemma leaf_ok_edit: "leaf_ok e (edit_entry e)"
  using signature_text by (simp add: leaf_ok_def edit_entry_def del: append.simps)

text \<open>The request: room for 100 leaves, all zero.\<close>

lemma le32_zero: "le32 0 = replicate 4 0"
proof -
  have "replicate 4 (0 :: u8) = [0, 0, 0, 0]" by (simp add: numeral_eq_Suc)
  then show ?thesis by (simp add: le32_def le_bytes_numeral)
qed

lemma enc_zero_entry: "enc_CPUIDEntry2 zero_entry = replicate 40 0"
  unfolding enc_CPUIDEntry2_def zero_entry_def CPUIDEntry2.select_convs
  by (simp only: list.map concat.simps append_Nil2 le32_zero replicate_add [symmetric]) simp

lemma enc_zero_entries: "concat (map enc_CPUIDEntry2 (replicate n zero_entry)) = replicate (n * 40) 0"
  by (induction n) (simp_all add: enc_zero_entry replicate_add)

lemma cpuid_request:
  "CPUID_Bytes \<lparr>Nent = 100, CPUIDPadding = 0, Entries = replicate 100 zero_entry\<rparr> = le32 100 @ replicate 4004 0"
proof -
  have "replicate 4 0 @ replicate (100 * 40) 0 = (replicate 4004 0 :: bytes)" by (simp only: replicate_add [symmetric]) simp
  then show ?thesis by (simp only: CPUID_Bytes_def CPUID.select_convs enc_zero_entries le32_zero)
qed

text \<open>C39. The leaves a guest sees: \<open>initCPUID\<close> asks the kernel for the supported leaves with room for 100, and
  when the answer starts with the serialised leaves \<open>c\<close> it installs in the virtual CPU, serialised the same
  way, as many leaves in the same order: the performance-monitoring leaf with \<open>EAX\<close> zeroed, the hypervisor
  leaf spelling \<open>KVMKVMKVM\<close> with the feature leaf as its maximum, and every other leaf unchanged (\<open>leaf_ok\<close>).\<close>

theorem initCPUID_leaves:
  assumes "Ioctl h (kvmfd (machine s)) (IIOWR kvmGetSupportedCPUID 8) (IoPtr (le32 100 @ replicate 4004 0)) s =
      (Ok ((r, None), CPUID_Bytes c @ rest), t)"
    and "wf_CPUID c" and "cpu < length (vcpus (the_vm s))"
  shows "\<exists>es. initCPUID h cpu s =
      Ioctl_err h (vcpu_fd (vcpus (the_vm s) ! cpu)) (IIOW kvmSetCPUID2 8) (IoPtr (CPUID_Bytes (c\<lparr>Entries := es\<rparr>))) t \<and>
    list_all2 leaf_ok (Entries c) es"
proof -
  have "shape t = shape s" using keepsD [OF keeps_shape_Ioctl assms(1)] .
  then have "vcpus (the_vm t) = vcpus (the_vm s)" by (rule shape_eqD)
  with assms cpuid_request edit_entries_ok [of "unat (Nent c)" "Entries c" t] NewCPUID_of_Bytes [OF assms(2), of rest]
  have "initCPUID h cpu s = Ioctl_err h (vcpu_fd (vcpus (the_vm s) ! cpu)) (IIOW kvmSetCPUID2 8)
      (IoPtr (CPUID_Bytes (c\<lparr>Entries := map edit_entry (Entries c)\<rparr>))) t"
    by (simp add: initCPUID_def GetSupportedCPUID_def cpuid_ioctl_def SetCPUID2_def go_simps wf_CPUID_def)
  then show ?thesis
    using leaf_ok_edit by (intro exI [of _ "map edit_entry (Entries c)"]) (simp add: list_all2_map2 list_all2_same)
qed

text \<open>A host that answers with the two leaves of the example.\<close>

abbreviation cpuid_host :: "unit host" where "cpuid_host \<equiv> still_host (outcome 0 0 (CPUID_Bytes sample_cpuid))"

lemma length_sample_cpuid: "length (CPUID_Bytes sample_cpuid) = 88"
  using length_enc_entries [of "Entries sample_cpuid"] wf_sample_cpuid
  by (simp add: CPUID_Bytes_def wf_CPUID_def)

theorem initCPUID_leaves_witness:
  "\<exists>es. initCPUID cpuid_host 0 (blank_state 8 ()) =
      Ioctl_err cpuid_host 5 (IIOW kvmSetCPUID2 8) (IoPtr (CPUID_Bytes (sample_cpuid\<lparr>Entries := es\<rparr>))) (blank_state 8 ()) \<and>
    list_all2 leaf_ok (Entries sample_cpuid) es"
proof -
  have "Ioctl cpuid_host (kvmfd (machine (blank_state 8 ()))) (IIOWR kvmGetSupportedCPUID 8) (IoPtr (le32 100 @ replicate 4004 0))
      (blank_state 8 ()) = (Ok ((0, None), CPUID_Bytes sample_cpuid @ drop 88 (le32 100 @ replicate 4004 0)), blank_state 8 ())"
    by (simp add: Ioctl_def outcome_def overlay_def length_sample_cpuid map_ram_def map_vm_def map_machine_def)
  from initCPUID_leaves [OF this wf_sample_cpuid(1), of 0] show ?thesis by (simp add: blank_state_def)
qed

end
