(* ===== verification/Vcpu.thy ===== *)
theory Vcpu
  imports Ioctl_Codes Host
begin

text \<open>
  \<open>kvm/vcpu.go\<close>, \<open>kvm/debug.go\<close> and \<open>kvm/regs_arm64.go\<close>: running a virtual CPU, single
  stepping it, and the one-register interface of arm64.
\<close>

section \<open>Running\<close>

abbreviation (input) EAGAIN :: goerror where "EAGAIN \<equiv> Errno 11"
abbreviation (input) EINTR :: goerror where "EINTR \<equiv> Errno 4"

definition vcpu_Run :: "'w host \<Rightarrow> vcpu \<Rightarrow> (('w, 'c) st, unit) go" where
  "vcpu_Run h v =
     bnd (Ioctl h (vcpu_fd v) (IIO kvmRun) (IoVal 0)) (\<lambda>((_, err), _).
       case err of
         None \<Rightarrow> ret ()
       | Some e \<Rightarrow> if errors_Is e EAGAIN \<or> errors_Is e EINTR then ret () else throw e)"

section \<open>Single stepping\<close>

record debugControl =
  Control :: u32
  debugControl_pad :: u32
  DebugReg :: "u64 list"

definition enc_debugControl :: "debugControl \<Rightarrow> bytes" where
  "enc_debugControl d = le32 (Control d) @ le32 (debugControl_pad d) @ concat (map le64 (DebugReg d))"

abbreviation (input) sizeof_debugControl :: nat where "sizeof_debugControl \<equiv> 72"

definition vcpu_SingleStep :: "'w host \<Rightarrow> bool \<Rightarrow> vcpu \<Rightarrow> (('w, 'c) st, unit) go" where
  "vcpu_SingleStep h onoff v =
     (let Enable = 1; SingleStep = 2;
          debug = \<lparr>Control = Enable OR SingleStep, debugControl_pad = 0, DebugReg = replicate 8 0\<rparr>;
          debug = (if \<not> onoff then debug\<lparr>Control := 0\<rparr> else debug)
      in Ioctl_err h (vcpu_fd v) (IIOW kvmSetGuestDebug (word_of_nat sizeof_debugControl))
           (IoPtr (enc_debugControl debug)))"

section \<open>arm64 registers\<close>

record UserRegs =
  UserRegs_Regs :: "u64 list"
  Sp :: u64
  Pc :: u64
  PState :: u64
  SpEl1 :: u64
  ElrEl1 :: u64

text \<open>\<open>unsafe.Offsetof\<close> of the fields of \<open>UserRegs\<close>, whose first field is 31 words long.\<close>

definition offsetof_Regs :: u64 where "offsetof_Regs = 0"
definition offsetof_Pc :: u64 where "offsetof_Pc = 31 * 8 + 8"

abbreviation (input) kvmRegArm64 :: u64 where "kvmRegArm64 \<equiv> 0x6000000000000000"
abbreviation (input) kvmRegSizeU64 :: u64 where "kvmRegSizeU64 \<equiv> 0x0030000000000000"
abbreviation (input) kvmRegArmCoprocShift :: nat where "kvmRegArmCoprocShift \<equiv> 16"
abbreviation (input) kvmRegArmCore :: u64 where "kvmRegArmCore \<equiv> push_bit kvmRegArmCoprocShift 0x0010"

definition core_reg_id :: "u64 \<Rightarrow> u64" where
  "core_reg_id offset = kvmRegArm64 OR kvmRegSizeU64 OR kvmRegArmCore OR offset"

definition pc_id :: u64 where "pc_id = core_reg_id (offsetof_Pc div 4)"
definition reg_id :: "nat \<Rightarrow> u64" where
  "reg_id i = core_reg_id ((offsetof_Regs + word_of_nat i * 8) div 4)"

abbreviation (input) sizeof_KvmOneReg :: nat where "sizeof_KvmOneReg \<equiv> 16"

definition arm64_setReg :: "'w host \<Rightarrow> vcpu \<Rightarrow> u64 \<Rightarrow> u64 \<Rightarrow> (('w, 'c) st, unit) go" where
  "arm64_setReg h v i val =
     bnd (Ioctl h (vcpu_fd v) (IIOW kvmSetOneReg (word_of_nat sizeof_KvmOneReg))
            (IoRef (le64 i) (le64 val)))
       (\<lambda>((_, err), _). check_wrap ''KVM_SET_ONE_REG: %w'' err)"

definition arm64_getReg :: "'w host \<Rightarrow> vcpu \<Rightarrow> u64 \<Rightarrow> (('w, 'c) st, u64) go" where
  "arm64_getReg h v i =
     bnd (Ioctl h (vcpu_fd v) (IIOW kvmGetOneReg (word_of_nat sizeof_KvmOneReg))
            (IoRef (le64 i) (le64 0)))
       (\<lambda>((_, err), val).
          case err of
            Some e \<Rightarrow> panic (PanicErr (ErrorfW ''KVM_GET_ONE_REG: %w'' [] [] e))
          | None \<Rightarrow> ret (rd64 val))"

definition arm64_SetPc :: "'w host \<Rightarrow> vcpu \<Rightarrow> u64 \<Rightarrow> (('w, 'c) st, unit) go" where
  "arm64_SetPc h v pc = arm64_setReg h v pc_id pc"

definition arm64_SetReg :: "'w host \<Rightarrow> vcpu \<Rightarrow> nat \<Rightarrow> u64 \<Rightarrow> (('w, 'c) st, unit) go" where
  "arm64_SetReg h v i val = arm64_setReg h v (reg_id i) val"

definition arm64_GetPc :: "'w host \<Rightarrow> vcpu \<Rightarrow> (('w, 'c) st, u64) go" where
  "arm64_GetPc h v = arm64_getReg h v pc_id"

definition arm64_GetReg :: "'w host \<Rightarrow> vcpu \<Rightarrow> nat \<Rightarrow> (('w, 'c) st, u64) go" where
  "arm64_GetReg h v i = arm64_getReg h v (reg_id i)"

section \<open>Frames\<close>

lemma keeps_vcpu_Run [keeps_rules]:
  "keeps shape (vcpu_Run h v)" "keeps handler (vcpu_Run h v)"
  unfolding vcpu_Run_def by (intro keeps_rules)+

lemma keeps_vcpu_SingleStep [keeps_rules]:
  "keeps shape (vcpu_SingleStep h b v)" "keeps handler (vcpu_SingleStep h b v)"
  unfolding vcpu_SingleStep_def Let_def by (intro keeps_rules)+

lemma keeps_arm64_regs [keeps_rules]:
  "keeps shape (arm64_SetPc h v pc)" "keeps handler (arm64_SetPc h v pc)"
  "keeps shape (arm64_SetReg h v i x)" "keeps handler (arm64_SetReg h v i x)"
  "keeps shape (arm64_GetPc h v)" "keeps handler (arm64_GetPc h v)"
  "keeps shape (arm64_GetReg h v i)" "keeps handler (arm64_GetReg h v i)"
  unfolding arm64_SetPc_def arm64_SetReg_def arm64_GetPc_def arm64_GetReg_def
    arm64_setReg_def arm64_getReg_def
  by (intro keeps_rules)+

section \<open>Properties\<close>

text \<open>The identifiers with which the arm64 code addresses the program counter and the 31
  general registers of a virtual CPU are pairwise different, so setting one register never
  names another, and they are the KVM identifiers of 64-bit core registers.\<close>

lemma arm64_reg_ids_distinct:
  "distinct (pc_id # map reg_id [0..<31]) \<and>
   list_all (\<lambda>i. drop_bit 16 i = 0x603000000010) (pc_id # map reg_id [0..<31])"
  by code_simp

text \<open>A signal never stops a virtual CPU: when the kernel reports \<open>EINTR\<close> or \<open>EAGAIN\<close>
  from \<open>KVM_RUN\<close>, \<open>Run\<close> succeeds; every other error number is returned to the caller.\<close>

lemma vcpu_Run_errno:
  assumes "Ioctl h (vcpu_fd v) (IIO kvmRun) (IoVal 0) s = (Ok ((r, err), b), t)"
  shows "vcpu_Run h v s =
    (case err of
       None \<Rightarrow> (Ok (), t)
     | Some e \<Rightarrow> if e = Errno 4 \<or> e = Errno 11 then (Ok (), t) else (Err e, t))"
proof -
  from assms have "err = None \<or> (\<exists>n. err = Some (Errno n))" by (rule Ioctl_errno)
  with assms show ?thesis by (auto simp: vcpu_Run_def go_simps split: option.splits)
qed

end
