(* ===== verification/Irq.thy ===== *)
theory Irq
  imports Ioctl_Codes Host
begin

text \<open>
  Interrupt controllers: \<open>kvm/irq_amd64.go\<close> (the in-kernel PIC, IOAPIC and PIT) and
  \<open>kvm/irq_arm64.go\<close> (the GICv3 device), and the injection of an interrupt line level.
\<close>

section \<open>amd64\<close>

record PITConfig =
  PIT_flags :: u32
  PIT_pad :: "u32 list"

definition enc_PITConfig :: "PITConfig \<Rightarrow> bytes" where
  "enc_PITConfig p = le32 (PIT_flags p) @ concat (map le32 (PIT_pad p))"

abbreviation (input) sizeof_PITConfig :: nat where "sizeof_PITConfig \<equiv> 64"

definition amd64_createIrqController :: "'w host \<Rightarrow> (('w, 'c) st, unit) go" where
  "amd64_createIrqController h =
     bnd (gets (vm_fd \<circ> the_vm)) (\<lambda>fd.
     bnd (Ioctl h fd (IIO kvmCreateIRQChip) (IoVal 0)) (\<lambda>((_, err), _).
     bnd (check_wrap ''KVM_CREATE_IRQCHIP: %w'' err) (\<lambda>_.
     bnd (Ioctl h fd (IIOW kvmCreatePIT2 (word_of_nat sizeof_PITConfig))
            (IoPtr (enc_PITConfig \<lparr>PIT_flags = 0, PIT_pad = replicate 15 0\<rparr>))) (\<lambda>((_, err), _).
     check_wrap ''KVM_CREATE_PIT2: %w'' err))))"

definition amd64_finalizeIrqController :: "(('w, 'c) st, unit) go" where
  "amd64_finalizeIrqController = ret ()"

record IrqLevel =
  irq :: u32
  level :: u32

definition enc_IrqLevel :: "IrqLevel \<Rightarrow> bytes" where
  "enc_IrqLevel l = le32 (irq l) @ le32 (level l)"

definition dec_IrqLevel :: "bytes \<Rightarrow> IrqLevel \<times> bytes" where
  "dec_IrqLevel bs = (let (i, bs) = get32 bs; (l, bs) = get32 bs in (\<lparr>irq = i, level = l\<rparr>, bs))"

abbreviation (input) sizeof_IrqLevel :: nat where "sizeof_IrqLevel \<equiv> 8"

interpretation irqlevel: codec enc_IrqLevel dec_IrqLevel "\<lambda>_. True" sizeof_IrqLevel
  by unfold_locales
    (simp_all add: enc_IrqLevel_def dec_IrqLevel_def reads_def get_defs le_rd codec_simps Let_def)

definition irq_line :: "'w host \<Rightarrow> IrqLevel \<Rightarrow> (('w, 'c) st, unit) go" where
  "irq_line h lvl =
     bnd (gets (vm_fd \<circ> the_vm)) (\<lambda>fd.
     bnd (Ioctl h fd (IIOW kvmIRQLine (word_of_nat sizeof_IrqLevel)) (IoPtr (enc_IrqLevel lvl)))
       (\<lambda>((_, err), _). check_wrap ''KVM_IRQ_LINE: %w'' err))"

definition amd64_InjectIrq :: "'w host \<Rightarrow> u32 \<Rightarrow> u32 \<Rightarrow> (('w, 'c) st, unit) go" where
  "amd64_InjectIrq h i lv = irq_line h \<lparr>irq = i, level = lv\<rparr>"

section \<open>arm64\<close>

abbreviation (input) GIC_BASE :: u64 where "GIC_BASE \<equiv> 0x100000"
abbreviation (input) GIC_DIST_BASE :: u64 where "GIC_DIST_BASE \<equiv> GIC_BASE"
abbreviation (input) GIC_DIST_SIZE :: u64 where "GIC_DIST_SIZE \<equiv> 0x10000"
abbreviation (input) GIC_REDIST_CPUI_BASE :: u64 where
  "GIC_REDIST_CPUI_BASE \<equiv> GIC_DIST_BASE + GIC_DIST_SIZE"

abbreviation (input) GIC_REDIST_CPUI_SIZE :: u64 where "GIC_REDIST_CPUI_SIZE \<equiv> 0x20000"

abbreviation (input) KVM_DEV_ARM_VGIC_GRP_ADDR :: u32 where "KVM_DEV_ARM_VGIC_GRP_ADDR \<equiv> 0"
abbreviation (input) KVM_VGIC_V2_ADDR_TYPE_DIST :: u64 where "KVM_VGIC_V2_ADDR_TYPE_DIST \<equiv> 0"
abbreviation (input) KVM_VGIC_V2_ADDR_TYPE_CPU :: u64 where "KVM_VGIC_V2_ADDR_TYPE_CPU \<equiv> 1"
abbreviation (input) KVM_VGIC_V3_ADDR_TYPE_DIST :: u64 where "KVM_VGIC_V3_ADDR_TYPE_DIST \<equiv> 2"
abbreviation (input) KVM_VGIC_V3_ADDR_TYPE_REDIST :: u64 where "KVM_VGIC_V3_ADDR_TYPE_REDIST \<equiv> 3"
abbreviation (input) KVM_DEV_TYPE_ARM_VGIC_V2 :: u32 where "KVM_DEV_TYPE_ARM_VGIC_V2 \<equiv> 5"
abbreviation (input) KVM_DEV_TYPE_ARM_VGIC_V3 :: u32 where "KVM_DEV_TYPE_ARM_VGIC_V3 \<equiv> 7"
abbreviation (input) KVM_DEV_ARM_VGIC_CTRL_INIT :: u64 where "KVM_DEV_ARM_VGIC_CTRL_INIT \<equiv> 0"
abbreviation (input) KVM_DEV_ARM_VGIC_GRP_NR_IRQS :: u32 where "KVM_DEV_ARM_VGIC_GRP_NR_IRQS \<equiv> 3"
abbreviation (input) KVM_DEV_ARM_VGIC_GRP_CTRL :: u32 where "KVM_DEV_ARM_VGIC_GRP_CTRL \<equiv> 4"

datatype IrqType = GICv2 | GICv3

record CreateDevice =
  dev_typ :: u32
  dev_fd :: u32
  dev_flags :: u32

definition enc_CreateDevice :: "CreateDevice \<Rightarrow> bytes" where
  "enc_CreateDevice d = le32 (dev_typ d) @ le32 (dev_fd d) @ le32 (dev_flags d)"

definition dec_CreateDevice :: "bytes \<Rightarrow> CreateDevice \<times> bytes" where
  "dec_CreateDevice bs =
     (let (t, bs) = get32 bs; (f, bs) = get32 bs; (fl, bs) = get32 bs
      in (\<lparr>dev_typ = t, dev_fd = f, dev_flags = fl\<rparr>, bs))"

abbreviation (input) sizeof_CreateDevice :: nat where "sizeof_CreateDevice \<equiv> 12"

interpretation createdevice: codec enc_CreateDevice dec_CreateDevice "\<lambda>_. True" sizeof_CreateDevice
  by unfold_locales
    (simp_all add: enc_CreateDevice_def dec_CreateDevice_def reads_def get_defs le_rd codec_simps Let_def)

text \<open>\<open>DeviceAttr\<close>: flags, group and attribute, then a pointer to the value.\<close>

definition DeviceAttr_hdr :: "u32 \<Rightarrow> u32 \<Rightarrow> u64 \<Rightarrow> bytes" where
  "DeviceAttr_hdr flags grp attr = le32 flags @ le32 grp @ le64 attr"

abbreviation (input) sizeof_DeviceAttr :: nat where "sizeof_DeviceAttr \<equiv> 24"

definition arm64_createDevice :: "'w host \<Rightarrow> IrqType \<Rightarrow> (('w, 'c) st, unit) go" where
  "arm64_createDevice h ty =
     (let device = \<lparr>dev_typ = KVM_DEV_TYPE_ARM_VGIC_V3, dev_fd = 0, dev_flags = 0\<rparr>;
          distAttr = IoRef (DeviceAttr_hdr 0 KVM_DEV_ARM_VGIC_GRP_ADDR KVM_VGIC_V3_ADDR_TYPE_DIST) (le64 GIC_DIST_BASE);
          redistAttr = IoRef (DeviceAttr_hdr 0 KVM_DEV_ARM_VGIC_GRP_ADDR KVM_VGIC_V3_ADDR_TYPE_REDIST) (le64 GIC_REDIST_CPUI_BASE);
          set_attr = IIOW kvmSetDeviceAttr (word_of_nat sizeof_DeviceAttr)
      in bnd (gets (vm_fd \<circ> the_vm)) (\<lambda>fd.
         bnd (Ioctl h fd (IIOWR kvmCreateDevice (word_of_nat sizeof_CreateDevice))
                (IoPtr (enc_CreateDevice device))) (\<lambda>((_, err), buf).
         bnd (check_wrap ''KVM_CREATE_DEVICE: %w'' err) (\<lambda>_.
         (let irqf = ucast (dev_fd (fst (dec_CreateDevice buf))) in
         bnd (modify (map_machine (\<lambda>m. m\<lparr>irqfd := irqf\<rparr>))) (\<lambda>_.
         bnd (case ty of
                GICv3 \<Rightarrow> bnd (Ioctl h irqf set_attr distAttr) (\<lambda>((_, err), _). ret err)
              | GICv2 \<Rightarrow> ret None) (\<lambda>err.
         bnd (check_wrap ''GIC distributor: %w'' err) (\<lambda>_.
         bnd (Ioctl h irqf set_attr redistAttr) (\<lambda>((_, err), _).
         check_wrap ''GIC redistributor: %w'' err)))))))))"

definition arm64_createIrqChip :: "(('w, 'c) st, unit) go" where
  "arm64_createIrqChip = throw (ErrNew ''GICv2: unimplemented'')"

definition arm64_createIrqController :: "'w host \<Rightarrow> (('w, 'c) st, unit) go" where
  "arm64_createIrqController h =
     (let ty = GICv3
      in bnd (attempt (arm64_createDevice h ty)) (\<lambda>r.
           case r of
             Inl err \<Rightarrow> if ty = GICv2 then arm64_createIrqChip else throw err
           | Inr _ \<Rightarrow> ret ()))"

definition arm64_finalizeIrqController :: "'w host \<Rightarrow> (('w, 'c) st, unit) go" where
  "arm64_finalizeIrqController h =
     bnd (gets (irqfd \<circ> machine)) (\<lambda>fd.
     bnd (Ioctl h fd (IIOW kvmSetDeviceAttr (word_of_nat sizeof_DeviceAttr))
            (IoRef (DeviceAttr_hdr 0 KVM_DEV_ARM_VGIC_GRP_CTRL KVM_DEV_ARM_VGIC_CTRL_INIT) []))
       (\<lambda>((_, err), _). check_wrap ''VGIC_INIT_ATTR: %w'' err))"

definition arm64_irq_code :: "u32 \<Rightarrow> u32" where
  "arm64_irq_code i =
     (let irqType = (if i \<le> 31 then 2 else if i \<le> 1019 then 1 else 0)
      in push_bit 24 irqType OR i)"

definition arm64_InjectIrq :: "'w host \<Rightarrow> u32 \<Rightarrow> u32 \<Rightarrow> (('w, 'c) st, unit) go" where
  "arm64_InjectIrq h i lv = irq_line h \<lparr>irq = arm64_irq_code i, level = lv\<rparr>"

section \<open>Frames\<close>

lemma keeps_irq_line [keeps_rules]:
  "keeps shape (irq_line h l)" "keeps handler (irq_line h l)"
  unfolding irq_line_def by (intro keeps_rules)+

lemma keeps_InjectIrq [keeps_rules]:
  "keeps shape (amd64_InjectIrq h i l)" "keeps handler (amd64_InjectIrq h i l)"
  "keeps shape (arm64_InjectIrq h i l)" "keeps handler (arm64_InjectIrq h i l)"
  unfolding amd64_InjectIrq_def arm64_InjectIrq_def by (intro keeps_rules)+

lemma keeps_amd64_irq_controller [keeps_rules]:
  "keeps shape (amd64_createIrqController h)" "keeps handler (amd64_createIrqController h)"
  "keeps shape amd64_finalizeIrqController" "keeps handler amd64_finalizeIrqController"
  unfolding amd64_createIrqController_def amd64_finalizeIrqController_def by (intro keeps_rules)+

section \<open>Properties\<close>

lemma small_bits: "i < 2 ^ 24 \<Longrightarrow> take_bit 24 i = (i :: u32)"
  by (simp add: take_bit_eq_mask less_mask_eq)

text \<open>The arm64 interrupt number handed to \<open>KVM_IRQ_LINE\<close> keeps the interrupt number in
  its low 24 bits and carries type 2 for a private interrupt (0 to 31), type 1 for a shared
  one (32 to 1019), and no other.\<close>

lemma arm64_irq_code_fields:
  assumes "i \<le> 1019"
  shows "take_bit 24 (arm64_irq_code i) = i \<and>
    drop_bit 24 (arm64_irq_code i) = (if i \<le> 31 then 2 else 1)"
proof -
  have "i < 2 ^ 24" using assms by (simp add: word_less_nat_alt word_le_nat_alt)
  then have i: "take_bit 24 i = i" by (rule small_bits)
  then have d: "drop_bit 24 i = 0" by (metis drop_bit_take_bit diff_self_eq_0 take_bit_0)
  have "take_bit 24 (push_bit 24 t OR i) = i" "drop_bit 24 (push_bit 24 t OR i) = t"
    if "t = 1 \<or> t = 2" for t :: u32
    using that i d by (auto simp: take_bit_or drop_bit_or)
  with assms show ?thesis by (simp add: arm64_irq_code_def)
qed

end
