(* ===== verification/Addr.thy ===== *)
theory Addr
  imports Prelude
begin

text \<open>
  Guest address arithmetic: the physical memory map of \<open>kvm/vm.go\<close> and the translation
  between kernel virtual addresses and guest physical addresses of \<open>kvm/kvm_amd64.go\<close> and
  \<open>kvm/kvm_arm64.go\<close>. All addresses are 64-bit and wrap around.
\<close>

abbreviation (input) physSysBase :: u64 where "physSysBase \<equiv> 0x00004000"
abbreviation (input) physRamBase :: u64 where "physRamBase \<equiv> 0x40000000"
abbreviation (input) physKernBase :: u64 where "physKernBase \<equiv> 0x40008000"

abbreviation (input) amd64_kernBase :: u64 where "amd64_kernBase \<equiv> 0xffff800000000000"
abbreviation (input) amd64_kernTextBase :: u64 where "amd64_kernTextBase \<equiv> 0xffffffff80000000"
abbreviation (input) arm64_kernBase :: u64 where "arm64_kernBase \<equiv> 0xffff000000000000"

definition amd64_ka2pa :: "u64 \<Rightarrow> u64" where
  "amd64_ka2pa ka =
     (if ka \<ge> amd64_kernTextBase then ka - amd64_kernTextBase
      else if ka \<ge> amd64_kernBase then ka - amd64_kernBase
      else ka)"

definition amd64_pa2ka :: "u64 \<Rightarrow> u64" where
  "amd64_pa2ka pa = pa + amd64_kernBase"

definition arm64_ka2pa :: "u64 \<Rightarrow> u64" where
  "arm64_ka2pa ka = (if ka \<ge> arm64_kernBase then ka - arm64_kernBase else ka)"

definition arm64_pa2ka :: "u64 \<Rightarrow> u64" where
  "arm64_pa2ka pa = pa + arm64_kernBase"

lemma amd64_ka2pa_pa2ka: "pa < 0x7fff80000000 \<Longrightarrow> amd64_ka2pa (amd64_pa2ka pa) = pa"
proof -
  assume "pa < 0x7fff80000000"
  then have "unat pa < 0x7fff80000000" by (simp add: word_less_nat_alt)
  then have "unat (pa + amd64_kernBase) = unat pa + 0xffff800000000000"
    by (simp add: unat_word_ariths)
  with \<open>unat pa < 0x7fff80000000\<close> show ?thesis
    by (simp add: amd64_ka2pa_def amd64_pa2ka_def word_le_nat_alt)
qed

lemma arm64_ka2pa_pa2ka: "pa < 0x1000000000000 \<Longrightarrow> arm64_ka2pa (arm64_pa2ka pa) = pa"
proof -
  assume "pa < 0x1000000000000"
  then have "unat pa < 0x1000000000000" by (simp add: word_less_nat_alt)
  then have "unat (pa + arm64_kernBase) = unat pa + 0xffff000000000000"
    by (simp add: unat_word_ariths)
  then show ?thesis by (simp add: arm64_ka2pa_def arm64_pa2ka_def word_le_nat_alt)
qed

text \<open>Pointers that the hypervisor hands to the guest kernel come back to the same
  physical address: below the point where the direct map of amd64 meets the kernel text
  window (and below the whole upper half on arm64), translating a physical address to a
  kernel address and back is the identity.\<close>

lemma ka2pa_pa2ka:
  "(pa < 0x7fff80000000 \<longrightarrow> amd64_ka2pa (amd64_pa2ka pa) = pa) \<and>
   (pa < 0x1000000000000 \<longrightarrow> arm64_ka2pa (arm64_pa2ka pa) = pa)"
  using amd64_ka2pa_pa2ka arm64_ka2pa_pa2ka by blast

end
