(* ===== verification/Guest_Memory.thy ===== *)
theory Guest_Memory
  imports Addr Host
begin

text \<open>
  Access to guest RAM from the hypervisor: \<open>Slice\<close>, \<open>SliceEnd\<close> and \<open>ReadAt\<close> of
  \<open>kvm/machine.go\<close>. A Go slice of the RAM mapping aliases the mapping; it is modelled by its
  two bounds, and reading or writing through it acts on the RAM of the state.
\<close>

record slice =
  lo :: nat
  hi :: nat

definition slice_len :: "slice \<Rightarrow> nat" where
  "slice_len sl = hi sl - lo sl"

definition slice_bytes :: "slice \<Rightarrow> (('w, 'c) st, bytes) go" where
  "slice_bytes sl = gets (\<lambda>s. mem_read (lo sl) (slice_len sl) (ram s))"

text \<open>Storing \<open>bs\<close> at the start of the slice; whatever does not fit is dropped, as by \<open>copy\<close>.\<close>

definition slice_store :: "slice \<Rightarrow> bytes \<Rightarrow> (('w, 'c) st, unit) go" where
  "slice_store sl bs = modify (map_ram (mem_store (lo sl) (take (slice_len sl) bs)))"

text \<open>\<open>m.vm.mem[lo:hi]\<close>; the capacity of the mapping is its length.\<close>

definition ram_slice :: "u64 \<Rightarrow> u64 \<Rightarrow> (('w, 'c) st, slice) go" where
  "ram_slice l h =
     bnd (gets (length \<circ> ram)) (\<lambda>n.
       if unat l \<le> unat h \<and> unat h \<le> n then ret \<lparr>lo = unat l, hi = unat h\<rparr>
       else panic SliceBoundsOutOfRange)"

definition SliceEnd :: "u64 \<Rightarrow> (('w, 'c) st, slice) go" where
  "SliceEnd start =
     bnd (gets (length \<circ> ram)) (\<lambda>n.
       if unat (start - physRamBase) \<le> n then ret \<lparr>lo = unat (start - physRamBase), hi = n\<rparr>
       else panic SliceBoundsOutOfRange)"

definition Slice :: "u64 \<Rightarrow> u64 \<Rightarrow> (('w, 'c) st, slice) go" where
  "Slice start end = ram_slice (start - physRamBase) (end - physRamBase)"

text \<open>\<open>binary.LittleEndian.PutUint64(b, v)\<close> panics on a slice shorter than eight bytes.\<close>

definition PutUint64 :: "slice \<Rightarrow> u64 \<Rightarrow> (('w, 'c) st, unit) go" where
  "PutUint64 sl v =
     (if slice_len sl < 8 then panic IndexOutOfRange else slice_store sl (le64 v))"

text \<open>\<open>ReadAt\<close> over a \<open>bytes.Reader\<close>: the bytes read and the error.\<close>

definition ReadAt :: "nat \<Rightarrow> u64 \<Rightarrow> (('w, 'c) st, bytes \<times> goerror option) go" where
  "ReadAt n off =
     bnd (gets ram) (\<lambda>m.
     (let o' = sint (off - physRamBase)
      in if o' < 0 then ret ([], Some (ErrNew ''bytes.Reader.ReadAt: negative offset''))
         else if int (length m) \<le> o' then ret ([], Some EOF)
         else let b = mem_read (nat o') n m
              in ret (b, if length b < n then Some EOF else None)))"

section \<open>Frames\<close>

lemma keeps_slices [keeps_rules]:
  "keeps f (Slice a b)" "keeps f (SliceEnd a)" "keeps f (slice_bytes sl)" "keeps f (ReadAt n off)"
  unfolding Slice_def SliceEnd_def ram_slice_def slice_bytes_def ReadAt_def Let_def
  by (intro keeps_rules)+

lemma keeps_handler_store [keeps_rules]:
  "keeps handler (slice_store sl bs)" "keeps handler (PutUint64 sl v)"
  "keeps world (slice_store sl bs)" "keeps world (PutUint64 sl v)"
  "keeps shape (slice_store sl bs)" "keeps shape (PutUint64 sl v)"
  unfolding slice_store_def PutUint64_def by (auto intro!: keeps_rules keeps_modify)

text \<open>A slice of the current RAM: stores through it stay inside the mapping.\<close>

definition slice_in :: "slice \<Rightarrow> ('w, 'c) st \<Rightarrow> bool" where
  "slice_in sl s \<longleftrightarrow> lo sl \<le> hi sl \<and> hi sl \<le> length (ram s)"

lemma store_fits: "slice_in sl s \<Longrightarrow> lo sl + length (take (slice_len sl) bs) \<le> length (ram s)"
  by (auto simp: slice_in_def slice_len_def)

lemma slice_store_in:
  "slice_in sl s \<Longrightarrow>
   slice_store sl bs s = (Ok (), map_ram (mem_write (lo sl) (take (slice_len sl) bs)) s)"
  using store_fits [of sl s bs] by (simp add: slice_store_def go_simps map_ram_def map_vm_def map_machine_def)

section \<open>Properties\<close>

lemma unat_minus_base:
  fixes a :: u64
  shows "unat (a - physRamBase) = (if 0x40000000 \<le> unat a then unat a - 0x40000000
     else 2 ^ 64 - 0x40000000 + unat a)"
proof (cases "0x40000000 \<le> unat a")
  case True
  then have "physRamBase \<le> a" by (simp add: word_le_nat_alt)
  then show ?thesis using True by (simp add: unat_sub)
next
  case False
  then have "unat (a - physRamBase) = (unat a + (2 ^ 64 - 0x40000000)) mod 2 ^ 64"
    by (simp add: unat_sub_if' word_le_nat_alt)
  with False show ?thesis by simp
qed

text \<open>A range of guest physical addresses that lies in RAM, and its offset there.\<close>

definition ram_off :: "u64 \<Rightarrow> nat" where
  "ram_off pa = unat pa - 0x40000000"

definition guest_range :: "('w, 'c) st \<Rightarrow> u64 \<Rightarrow> nat \<Rightarrow> bool" where
  "guest_range s pa n \<longleftrightarrow>
     0x40000000 \<le> unat pa \<and> ram_off pa + n \<le> length (ram s) \<and> length (ram s) \<le> 2 ^ 62"

lemma Slice_range:
  assumes "guest_range s pa (unat n)"
  shows "Slice pa (pa + n) s = (Ok \<lparr>lo = ram_off pa, hi = ram_off pa + unat n\<rparr>, s)"
proof -
  have "unat pa + unat n < 2 ^ 64" using assms by (auto simp: guest_range_def ram_off_def)
  then have "unat (pa + n) = unat pa + unat n" by (simp add: unat_word_ariths)
  with assms show ?thesis
    by (auto simp: guest_range_def ram_off_def Slice_def ram_slice_def go_simps unat_minus_base)
qed

lemma SliceEnd_range:
  "guest_range s pa 0 \<Longrightarrow> SliceEnd pa s = (Ok \<lparr>lo = ram_off pa, hi = length (ram s)\<rparr>, s)"
  by (simp add: guest_range_def ram_off_def SliceEnd_def go_simps unat_minus_base)

text \<open>Operations on a slice that \<open>Slice\<close> gave, as reads and writes of RAM.\<close>

lemma range_store [go_simps]:
  "guest_range s pa n \<Longrightarrow> length bs \<le> n \<Longrightarrow>
   slice_store \<lparr>lo = ram_off pa, hi = ram_off pa + n\<rparr> bs s = (Ok (), map_ram (mem_write (ram_off pa) bs) s)"
  by (subst slice_store_in) (simp_all add: slice_in_def guest_range_def slice_len_def)

lemma range_bytes [go_simps]:
  "slice_bytes \<lparr>lo = ram_off pa, hi = ram_off pa + n\<rparr> s = (Ok (mem_read (ram_off pa) n (ram s)), s)"
  by (simp add: slice_bytes_def slice_len_def go_simps)

lemma range_PutUint64 [go_simps]:
  "guest_range s pa 8 \<Longrightarrow>
   PutUint64 \<lparr>lo = ram_off pa, hi = ram_off pa + 8\<rparr> v s = (Ok (), map_ram (mem_write (ram_off pa) (le64 v)) s)"
  by (simp add: PutUint64_def slice_len_def range_store)

lemma guest_range_write:
  "guest_range s pa (length bs) \<Longrightarrow>
   guest_range (map_ram (mem_write (ram_off pa) bs) s) pb k \<longleftrightarrow> guest_range s pb k"
  by (simp add: guest_range_def)

lemma guest_range_world [simp]: "guest_range (s\<lparr>world := w\<rparr>) pa n \<longleftrightarrow> guest_range s pa n"
  by (simp add: guest_range_def)

text \<open>C11. \<open>Slice\<close> is memory safe: for a guest RAM of at most \<open>2^63\<close> bytes it returns a view
  of RAM exactly when the requested physical range starts at or above the RAM base, is not
  reversed and ends inside RAM, wrap-around of the 64-bit addresses included; in every other
  case it panics, and it never changes the state.\<close>

theorem Slice_ok_iff:
  assumes "length (ram s) \<le> 2 ^ 63"
  shows "Slice a b s =
    (if 0x40000000 \<le> unat a \<and> unat a \<le> unat b \<and> unat b \<le> 0x40000000 + length (ram s)
     then (Ok \<lparr>lo = unat a - 0x40000000, hi = unat b - 0x40000000\<rparr>, s)
     else (Panic SliceBoundsOutOfRange, s))"
  using assms by (auto simp: Slice_def ram_slice_def go_simps unat_minus_base)

theorem Slice_ok_iff_witness:
  "Slice 0x40000004 0x4000000c (blank_state 16 ()) = (Ok \<lparr>lo = 4, hi = 12\<rparr>, blank_state 16 ()) \<and>
   Slice 0x40000004 0x40000011 (blank_state 16 ()) = (Panic SliceBoundsOutOfRange, blank_state 16 ())"
  using Slice_ok_iff [of "blank_state 16 ()" "0x40000004"] by (simp add: blank_state_def)

end
