(* ===== verification/Arch.thy ===== *)
theory Arch
  imports Capability Cpuid Vcpu Irq Guest_Memory
begin

text \<open>
  The architecture interface. \<open>kvm/machine.go\<close>, \<open>kvm/vm.go\<close> and \<open>kvm/argv.go\<close> are compiled
  together with either the amd64 or the arm64 files, which define the same names; the
  record \<open>arch\<close> collects those names, \<open>amd64\<close> and \<open>arm64\<close> are its two values. The locale
  \<open>machine_arch\<close> states what the portable code may rely on: the run-time operations leave
  the shape of the machine and the handler object alone, the exchange of a hypercall adds
  nothing to what the handler does, and kernel pointers translate back.
\<close>

type_synonym ('w, 'c) hyper =
  "nat \<Rightarrow> u64 \<Rightarrow> u64 \<Rightarrow> u64 \<Rightarrow> u64 \<Rightarrow> u64 \<Rightarrow> u64 \<Rightarrow> u64 \<Rightarrow> (('w, 'c) st, u64) go"

record ('w, 'c) arch =
  ka2pa :: "u64 \<Rightarrow> u64"
  pa2ka :: "u64 \<Rightarrow> u64"
  SignalIRQ :: u32
  createVM :: "u64 \<Rightarrow> (('w, 'c) st, u64) go"
  vm_init :: "(('w, 'c) st, unit) go"
  machine_init :: "(('w, 'c) st, unit) go"
  createIrqController :: "(('w, 'c) st, unit) go"
  finalizeIrqController :: "(('w, 'c) st, unit) go"
  SetupRegs :: "u64 \<Rightarrow> u64 \<Rightarrow> u64 \<Rightarrow> (('w, 'c) st, unit) go"
  hypercall :: "('w, 'c) hyper \<Rightarrow> nat \<Rightarrow> (('w, 'c) st, unit) go"
  VtoP :: "nat \<Rightarrow> u64 \<Rightarrow> (('w, 'c) st, u64) go"
  InjectIrq :: "u32 \<Rightarrow> u32 \<Rightarrow> (('w, 'c) st, unit) go"
  vcpu_GetPc :: "vcpu \<Rightarrow> (('w, 'c) st, u64) go"
  Inst :: "nat \<Rightarrow> (('w, 'c) st, u64 \<times> string) go"

section \<open>amd64\<close>

text \<open>\<open>kvm/kvm_amd64.go\<close> and \<open>kvm/machine_amd64.go\<close>. \<open>SetIdentityMapAddr\<close> announces an
  eight-byte argument and passes the address of a four-byte variable.\<close>

abbreviation (input) kvmIdentityMapStart :: u32 where "kvmIdentityMapStart \<equiv> 0x10000"
abbreviation (input) kvmIdentityMapSize :: u32 where "kvmIdentityMapSize \<equiv> push_bit 10 4"
abbreviation (input) kvmTSSStart :: u32 where "kvmTSSStart \<equiv> kvmIdentityMapStart + kvmIdentityMapSize"

definition identity_map_request :: "u32 \<Rightarrow> u64 \<times> ioarg" where
  "identity_map_request addr = (IIOW kvmSetIdentityMapAddr 8, IoPtr (le32 addr))"

definition SetIdentityMapAddr :: "'w host \<Rightarrow> u32 \<Rightarrow> (('w, 'c) st, unit) go" where
  "SetIdentityMapAddr h addr =
     bnd (gets (vm_fd \<circ> the_vm)) (\<lambda>fd.
     (case identity_map_request addr of (op, arg) \<Rightarrow> Ioctl_err h fd op arg))"

definition setTSSAddr :: "'w host \<Rightarrow> u32 \<Rightarrow> (('w, 'c) st, unit) go" where
  "setTSSAddr h addr =
     bnd (gets (vm_fd \<circ> the_vm)) (\<lambda>fd. Ioctl_err h fd (IIO kvmSetTSSAddr) (IoVal (ucast addr)))"

text \<open>The same request under the name of \<open>vm_amd64.go\<close>, which nothing calls.\<close>

definition SetTSSAddr :: "'w host \<Rightarrow> u32 \<Rightarrow> (('w, 'c) st, unit) go" where
  "SetTSSAddr h addr =
     bnd (gets (vm_fd \<circ> the_vm)) (\<lambda>fd. Ioctl_err h fd (IIO kvmSetTSSAddr) (IoVal (ucast addr)))"

definition amd64_vm_init :: "'w host \<Rightarrow> (('w, 'c) st, unit) go" where
  "amd64_vm_init h =
     bnd (SetIdentityMapAddr h kvmIdentityMapStart) (\<lambda>_. setTSSAddr h kvmTSSStart)"

definition amd64_machine_init :: "'w host \<Rightarrow> (('w, 'c) st, unit) go" where
  "amd64_machine_init h =
     bnd (gets (length \<circ> runs \<circ> machine)) (\<lambda>n. for_each [0..<n] (initCPUID h))"

definition amd64_SetupRegs :: "'w host \<Rightarrow> u64 \<Rightarrow> u64 \<Rightarrow> u64 \<Rightarrow> (('w, 'c) st, unit) go" where
  "amd64_SetupRegs h rip argc argv =
     bnd (gets (vcpus \<circ> the_vm)) (\<lambda>vs. for_each vs (\<lambda>cpu.
       bnd (gets (length \<circ> ram)) (\<lambda>n.
       bnd (initRegs h cpu rip argc argv (word_of_nat n)) (\<lambda>_. initSregs h cpu))))"

definition amd64_hypercall :: "'w host \<Rightarrow> ('w, 'c) hyper \<Rightarrow> nat \<Rightarrow> (('w, 'c) st, unit) go" where
  "amd64_hypercall h hyp cpu =
     bnd (gets (vcpus \<circ> the_vm)) (\<lambda>vs.
     bnd (index vs cpu) (\<lambda>v.
     bnd (GetRegs h v) (\<lambda>(regs, err).
     bnd (check err) (\<lambda>_.
     bnd (hyp cpu (Rax regs) (Rdi regs) (Rsi regs) (Rdx regs) (Rcx regs) (R8 regs) (R9 regs)) (\<lambda>r0.
     SetRegs h v (regs\<lparr>Rax := r0\<rparr>))))))"

record Translation =
  LinearAddress :: u64
  PhysicalAddress :: u64
  Valid :: u8
  Writeable :: u8
  Usermode :: u8
  Translation_pad :: "u8 list"

definition enc_Translation :: "Translation \<Rightarrow> bytes" where
  "enc_Translation t = le64 (LinearAddress t) @ le64 (PhysicalAddress t) @ le8 (Valid t) @
     le8 (Writeable t) @ le8 (Usermode t) @ concat (map le8 (Translation_pad t))"

definition dec_Translation :: "bytes \<Rightarrow> Translation \<times> bytes" where
  "dec_Translation bs =
     (let (la, bs) = get64 bs; (pa, bs) = get64 bs; (va, bs) = get8 bs; (wr, bs) = get8 bs;
          (us, bs) = get8 bs; (pad, bs) = getn get8 5 bs
      in (\<lparr>LinearAddress = la, PhysicalAddress = pa, Valid = va, Writeable = wr, Usermode = us,
           Translation_pad = pad\<rparr>, bs))"

definition wf_Translation :: "Translation \<Rightarrow> bool" where
  "wf_Translation t \<longleftrightarrow> length (Translation_pad t) = 5"

abbreviation (input) sizeof_Translation :: nat where "sizeof_Translation \<equiv> 24"

interpretation translation: codec enc_Translation dec_Translation wf_Translation sizeof_Translation
  by unfold_locales
    (simp_all add: enc_Translation_def dec_Translation_def wf_Translation_def reads_def get_defs le_rd
      codec_simps Let_def split_beta getn_simps)

definition Translate :: "'w host \<Rightarrow> vcpu \<Rightarrow> Translation \<Rightarrow> (('w, 'c) st, Translation \<times> goerror option) go" where
  "Translate h v t =
     bnd (Ioctl h (vcpu_fd v) (IIOWR kvmTranslate (word_of_nat sizeof_Translation))
            (IoPtr (enc_Translation t)))
       (\<lambda>((_, err), buf). ret (fst (dec_Translation buf), err))"

definition amd64_VtoP :: "'w host \<Rightarrow> nat \<Rightarrow> u64 \<Rightarrow> (('w, 'c) st, u64) go" where
  "amd64_VtoP h cpu v =
     bnd (gets (vcpus \<circ> the_vm)) (\<lambda>vs.
     bnd (index vs cpu) (\<lambda>vc.
     bnd (Translate h vc \<lparr>LinearAddress = v, PhysicalAddress = 0, Valid = 0, Writeable = 0,
            Usermode = 0, Translation_pad = replicate 5 0\<rparr>) (\<lambda>(t, err).
       case err of Some e \<Rightarrow> panic (PanicErr e) | None \<Rightarrow> ret (PhysicalAddress t))))"

definition amd64_createVM :: "'w host \<Rightarrow> u64 \<Rightarrow> (('w, 'c) st, u64) go" where
  "amd64_createVM h fd = Ioctl_val h fd (IIO kvmCreateVM) (IoVal 0)"

text \<open>\<open>kvm/debug_amd64.go\<close>; \<open>ReadBytes\<close> of \<open>kvm/machine.go\<close> is the composition of \<open>VtoP\<close> and
  \<open>ReadAt\<close>.\<close>

definition ReadBytes ::
  "(nat \<Rightarrow> u64 \<Rightarrow> (('w, 'c) st, u64) go) \<Rightarrow> nat \<Rightarrow> nat \<Rightarrow> u64 \<Rightarrow> (('w, 'c) st, bytes \<times> goerror option) go" where
  "ReadBytes vtop cpu n vaddr = bnd (vtop cpu vaddr) (\<lambda>pa. ReadAt n pa)"

definition amd64_Inst :: "'w host \<Rightarrow> nat \<Rightarrow> (('w, 'c) st, u64 \<times> string) go" where
  "amd64_Inst h cpu =
     bnd (gets (vcpus \<circ> the_vm)) (\<lambda>vs.
     bnd (index vs cpu) (\<lambda>v.
     bnd (GetRegs h v) (\<lambda>(r, err).
     bnd (check_wrap ''Inst:Getregs:%w'' err) (\<lambda>_.
     bnd (ReadBytes (amd64_VtoP h) cpu 16 (Rip r)) (\<lambda>(insn, err).
       case err of
         Some e \<Rightarrow> throw (ErrorfW ''reading PC at #%x:%w'' [Rip r] [] e)
       | None \<Rightarrow>
           (case x86_disasm h insn (Rip r) of
              Inl e \<Rightarrow> throw (ErrorfW ''decoding %#02x:%w'' (map ucast insn) [] e)
            | Inr d \<Rightarrow> ret (Rip r, d)))))))"

definition amd64 :: "'w host \<Rightarrow> ('w, 'c) arch" where
  "amd64 h =
     \<lparr>ka2pa = amd64_ka2pa, pa2ka = amd64_pa2ka, SignalIRQ = 1,
      createVM = amd64_createVM h, vm_init = amd64_vm_init h, machine_init = amd64_machine_init h,
      createIrqController = amd64_createIrqController h,
      finalizeIrqController = amd64_finalizeIrqController,
      SetupRegs = amd64_SetupRegs h, hypercall = amd64_hypercall h, VtoP = amd64_VtoP h,
      InjectIrq = amd64_InjectIrq h, vcpu_GetPc = amd64_GetPc h, Inst = amd64_Inst h\<rparr>"

section \<open>arm64\<close>

text \<open>\<open>kvm/kvm_arm64.go\<close>, \<open>kvm/machine_arm64.go\<close> and \<open>CheckExtension\<close> of
  \<open>kvm/capability.go\<close>.\<close>

abbreviation (input) kvmArmVCPUPSCI0_2 :: nat where "kvmArmVCPUPSCI0_2 \<equiv> 2"
abbreviation (input) kvmArmVCPUPMUV3 :: nat where "kvmArmVCPUPMUV3 \<equiv> 2"

definition CheckExtension :: "'w host \<Rightarrow> u64 \<Rightarrow> u8 \<Rightarrow> (('w, 'c) st, u64) go" where
  "CheckExtension h fd c = Ioctl_val h fd (IIO kvmCheckExtension) (IoVal (ucast c))"

definition arm64_createVM :: "'w host \<Rightarrow> u64 \<Rightarrow> (('w, 'c) st, u64) go" where
  "arm64_createVM h fd =
     bnd (attempt (CheckExtension h fd CapARMVMIPASize)) (\<lambda>r.
       case r of
         Inl err \<Rightarrow> throw (ErrorfW ''ARM_VM_IPA_SIZE: %w'' [] [] err)
       | Inr ipa \<Rightarrow> Ioctl_val h fd (IIO kvmCreateVM) (IoVal (ipa AND 0xff)))"

record VcpuInit =
  target :: u32
  features :: "u32 list"

definition enc_VcpuInit :: "VcpuInit \<Rightarrow> bytes" where
  "enc_VcpuInit v = le32 (target v) @ concat (map le32 (features v))"

definition dec_VcpuInit :: "bytes \<Rightarrow> VcpuInit \<times> bytes" where
  "dec_VcpuInit bs =
     (let (t, bs) = get32 bs; (fs, bs) = getn get32 7 bs in (\<lparr>target = t, features = fs\<rparr>, bs))"

definition wf_VcpuInit :: "VcpuInit \<Rightarrow> bool" where
  "wf_VcpuInit v \<longleftrightarrow> length (features v) = 7"

abbreviation (input) sizeof_VcpuInit :: nat where "sizeof_VcpuInit \<equiv> 32"

interpretation vcpuinit: codec enc_VcpuInit dec_VcpuInit wf_VcpuInit sizeof_VcpuInit
  by unfold_locales
    (simp_all add: enc_VcpuInit_def dec_VcpuInit_def wf_VcpuInit_def reads_def get_defs le_rd
      codec_simps Let_def split_beta getn_simps)

text \<open>The feature words of a new virtual CPU, given what \<open>CheckExtension\<close> said.\<close>

definition arm64_features :: "goerror + u64 \<Rightarrow> VcpuInit \<Rightarrow> VcpuInit" where
  "arm64_features ext i =
     (let i = i\<lparr>features := (features i)[0 := features i ! 0 OR push_bit kvmArmVCPUPSCI0_2 1]\<rparr>
      in case ext of
           Inr ok \<Rightarrow>
             (if ok = 1
              then i\<lparr>features := (features i)[0 := features i ! 0 OR push_bit kvmArmVCPUPMUV3 1]\<rparr>
              else i)
         | Inl _ \<Rightarrow> i)"

abbreviation (input) arm64_vm_init :: "(('w, 'c) st, unit) go" where "arm64_vm_init \<equiv> ret ()"

definition arm64_machine_init :: "'w host \<Rightarrow> (('w, 'c) st, unit) go" where
  "arm64_machine_init h =
     bnd (gets machine) (\<lambda>m.
     bnd (Ioctl h (vm_fd (machine_vm m)) (IIOR kvmArmPreferredTarget (word_of_nat sizeof_VcpuInit))
            (IoPtr (replicate sizeof_VcpuInit 0))) (\<lambda>((_, err), buf).
     bnd (check_wrap ''KVM_ARM_PREFERRED_TARGET: %w'' err) (\<lambda>_.
     bnd (attempt (CheckExtension h (kvmfd m) CapARMPMUV3)) (\<lambda>ext.
     (let ini = arm64_features ext (fst (dec_VcpuInit buf))
      in for_each (vcpus (machine_vm m)) (\<lambda>v.
           bnd (Ioctl h (vcpu_fd v) (IIOW kvmArmVcpuInit (word_of_nat sizeof_VcpuInit))
                  (IoPtr (enc_VcpuInit ini)))
             (\<lambda>((_, err), _). check_wrap ''KVM_ARM_VCPU_INIT: %w'' err)))))))"

definition arm64_SetupRegs :: "'w host \<Rightarrow> u64 \<Rightarrow> u64 \<Rightarrow> u64 \<Rightarrow> (('w, 'c) st, unit) go" where
  "arm64_SetupRegs h pc argc argv =
     bnd (gets (vcpus \<circ> the_vm)) (\<lambda>vs. for_each vs (\<lambda>cpu.
       bnd (arm64_SetPc h cpu pc) (\<lambda>_.
       bnd (gets (length \<circ> ram)) (\<lambda>n.
       bnd (arm64_SetReg h cpu 0 (word_of_nat n)) (\<lambda>_.
       bnd (arm64_SetReg h cpu 1 argc) (\<lambda>_.
       arm64_SetReg h cpu 2 argv))))))"

definition arm64_hypercall :: "'w host \<Rightarrow> ('w, 'c) hyper \<Rightarrow> nat \<Rightarrow> (('w, 'c) st, unit) go" where
  "arm64_hypercall h hyp cpu =
     bnd (gets (vcpus \<circ> the_vm)) (\<lambda>vs.
     bnd (index vs cpu) (\<lambda>v.
     bnd (arm64_GetReg h v 8) (\<lambda>num.
     bnd (arm64_GetReg h v 0) (\<lambda>a0.
     bnd (arm64_GetReg h v 1) (\<lambda>a1.
     bnd (arm64_GetReg h v 2) (\<lambda>a2.
     bnd (arm64_GetReg h v 3) (\<lambda>a3.
     bnd (arm64_GetReg h v 4) (\<lambda>a4.
     bnd (arm64_GetReg h v 5) (\<lambda>a5.
     bnd (hyp cpu num a0 a1 a2 a3 a4 a5) (\<lambda>r0.
     arm64_SetReg h v 0 r0))))))))))"

definition arm64_VtoP :: "nat \<Rightarrow> u64 \<Rightarrow> (('w, 'c) st, u64) go" where
  "arm64_VtoP cpu v = ret (arm64_ka2pa v)"

definition arm64_Inst :: "nat \<Rightarrow> (('w, 'c) st, u64 \<times> string) go" where
  "arm64_Inst cpu = ret (0, [])"

definition arm64 :: "'w host \<Rightarrow> ('w, 'c) arch" where
  "arm64 h =
     \<lparr>ka2pa = arm64_ka2pa, pa2ka = arm64_pa2ka, SignalIRQ = 16,
      createVM = arm64_createVM h, vm_init = arm64_vm_init, machine_init = arm64_machine_init h,
      createIrqController = arm64_createIrqController h,
      finalizeIrqController = arm64_finalizeIrqController h,
      SetupRegs = arm64_SetupRegs h, hypercall = arm64_hypercall h, VtoP = arm64_VtoP,
      InjectIrq = arm64_InjectIrq h, vcpu_GetPc = arm64_GetPc h, Inst = arm64_Inst\<rparr>"

section \<open>The contract\<close>

text \<open>A view of the state that only the handler object and the shape of the machine determine.\<close>

abbreviation view :: "('w, 'c) st \<Rightarrow> 'c \<times> u64 \<times> u64 \<times> vm \<times> bool list" where
  "view s \<equiv> (handler s, shape s)"

locale machine_arch =
  fixes A :: "('w, 'c) arch"
  assumes VtoP_view: "keeps view (VtoP A cpu v)"
    and InjectIrq_view: "keeps view (InjectIrq A i l)"
    and GetPc_view: "keeps view (vcpu_GetPc A vc)"
    and SetupRegs_view: "keeps view (SetupRegs A pc argc argv)"
    and Inst_view: "keeps view (Inst A cpu)"
    and hypercall_view:
      "(\<And>n a0 a1 a2 a3 a4 a5. preserves (\<lambda>s. Q (view s)) (hyp cpu n a0 a1 a2 a3 a4 a5)) \<Longrightarrow>
       preserves (\<lambda>s. Q (view s)) (hypercall A hyp cpu)"
    and hypercall_same:
      "(\<And>n a0 a1 a2 a3 a4 a5.
          same (\<lambda>s. Q (view s)) (hyp cpu n a0 a1 a2 a3 a4 a5) (hyp' cpu n a0 a1 a2 a3 a4 a5)) \<Longrightarrow>
       (\<And>n a0 a1 a2 a3 a4 a5. preserves (\<lambda>s. Q (view s)) (hyp cpu n a0 a1 a2 a3 a4 a5)) \<Longrightarrow>
       same (\<lambda>s. Q (view s)) (hypercall A hyp cpu) (hypercall A hyp' cpu)"
    and ka2pa_pa2ka_low: "pa < 0x400000000000 \<Longrightarrow> ka2pa A (pa2ka A pa) = pa"
begin

lemmas arch_keeps = VtoP_view InjectIrq_view GetPc_view SetupRegs_view Inst_view

lemma arch_frame [keeps_rules]:
  "keeps handler (VtoP A cpu v)" "keeps shape (VtoP A cpu v)"
  "keeps handler (InjectIrq A i l)" "keeps shape (InjectIrq A i l)"
  "keeps handler (vcpu_GetPc A vc)" "keeps shape (vcpu_GetPc A vc)"
  "keeps handler (Inst A cpu)" "keeps shape (Inst A cpu)"
  using VtoP_view InjectIrq_view GetPc_view Inst_view by (simp_all add: keeps_def)

lemma arch_preserves [inv_rules]:
  "preserves (\<lambda>s. Q (view s)) (VtoP A cpu v)" "preserves (\<lambda>s. Q (view s)) (InjectIrq A i l)"
  "preserves (\<lambda>s. Q (view s)) (vcpu_GetPc A vc)" "preserves (\<lambda>s. Q (view s)) (Inst A cpu)"
  by (rule keeps_preserves, rule arch_keeps)+

end

lemma keeps_view: "keeps handler m \<Longrightarrow> keeps shape m \<Longrightarrow> keeps view m"
  by (simp add: keeps_def)

lemma preserves_view: "keeps handler m \<Longrightarrow> keeps shape m \<Longrightarrow> preserves (\<lambda>s. Q (view s)) m"
  by (rule keeps_preserves) (rule keeps_view)

lemma keeps_amd64_VtoP [keeps_rules]:
  "keeps shape (amd64_VtoP h cpu v)" "keeps handler (amd64_VtoP h cpu v)"
  unfolding amd64_VtoP_def Translate_def by (intro keeps_rules)+

lemma keeps_amd64_Inst [keeps_rules]:
  "keeps shape (amd64_Inst h cpu)" "keeps handler (amd64_Inst h cpu)"
  unfolding amd64_Inst_def ReadBytes_def by (intro keeps_rules)+

lemma keeps_SetupRegs [keeps_rules]:
  "keeps shape (amd64_SetupRegs h a b c)" "keeps handler (amd64_SetupRegs h a b c)"
  "keeps shape (arm64_SetupRegs h a b c)" "keeps handler (arm64_SetupRegs h a b c)"
  unfolding amd64_SetupRegs_def arm64_SetupRegs_def by (intro keeps_rules)+

lemma word_less_trans_num: "(pa :: u64) < 0x400000000000 \<Longrightarrow> pa < 0x7fff80000000"
  "(pa :: u64) < 0x400000000000 \<Longrightarrow> pa < 0x1000000000000"
  by (erule less_trans, simp)+

interpretation on_amd64: machine_arch "amd64 h"
proof unfold_locales
  fix Q and hyp :: "('a, 'b) hyper" and cpu
  assume hyp: "\<And>n a0 a1 a2 a3 a4 a5. preserves (\<lambda>s. Q (view s)) (hyp cpu n a0 a1 a2 a3 a4 a5)"
  show "preserves (\<lambda>s. Q (view s)) (hypercall (amd64 h) hyp cpu)"
    unfolding amd64_def arch.simps amd64_hypercall_def
    by (intro inv_rules hyp preserves_view keeps_rules)
  fix hyp' :: "('a, 'b) hyper"
  assume same: "\<And>n a0 a1 a2 a3 a4 a5.
    same (\<lambda>s. Q (view s)) (hyp cpu n a0 a1 a2 a3 a4 a5) (hyp' cpu n a0 a1 a2 a3 a4 a5)"
  show "same (\<lambda>s. Q (view s)) (hypercall (amd64 h) hyp cpu) (hypercall (amd64 h) hyp' cpu)"
    unfolding amd64_def arch.simps amd64_hypercall_def
    by (intro same same_rules inv_rules hyp preserves_view keeps_rules)
qed (auto simp: amd64_def amd64_ka2pa_pa2ka word_less_trans_num intro!: keeps_view keeps_rules)

interpretation on_arm64: machine_arch "arm64 h"
proof unfold_locales
  fix Q and hyp :: "('a, 'b) hyper" and cpu
  assume hyp: "\<And>n a0 a1 a2 a3 a4 a5. preserves (\<lambda>s. Q (view s)) (hyp cpu n a0 a1 a2 a3 a4 a5)"
  show "preserves (\<lambda>s. Q (view s)) (hypercall (arm64 h) hyp cpu)"
    unfolding arm64_def arch.simps arm64_hypercall_def
    by (intro inv_rules hyp preserves_view keeps_rules)
  fix hyp' :: "('a, 'b) hyper"
  assume same: "\<And>n a0 a1 a2 a3 a4 a5.
    same (\<lambda>s. Q (view s)) (hyp cpu n a0 a1 a2 a3 a4 a5) (hyp' cpu n a0 a1 a2 a3 a4 a5)"
  show "same (\<lambda>s. Q (view s)) (hypercall (arm64 h) hyp cpu) (hypercall (arm64 h) hyp' cpu)"
    unfolding arm64_def arch.simps arm64_hypercall_def
    by (intro same same_rules inv_rules hyp preserves_view keeps_rules)
qed (auto simp: arm64_def arm64_ka2pa_pa2ka word_less_trans_num arm64_VtoP_def arm64_Inst_def
      intro!: keeps_view keeps_rules)

text \<open>The build's choice between the two.\<close>

datatype isa = AMD64 | ARM64

fun arch_of :: "isa \<Rightarrow> 'w host \<Rightarrow> ('w, 'c) arch" where
  "arch_of AMD64 h = amd64 h"
| "arch_of ARM64 h = arm64 h"

interpretation on_isa: machine_arch "arch_of isa h"
  by (cases isa) (simp_all add: on_amd64.machine_arch_axioms on_arm64.machine_arch_axioms)

section \<open>Properties\<close>

lemma amd64_hypercall_eq:
  assumes "cpu < length (vcpus (the_vm s))" and "fd = vcpu_fd (vcpus (the_vm s) ! cpu)"
    and "Ioctl h fd (IIOR kvmGetRegs 144) (IoPtr (replicate 144 0)) s = (Ok ((r, None), buf), t)"
    and "hyp cpu (rd64 buf) (rd64 (drop 40 buf)) (rd64 (drop 32 buf)) (rd64 (drop 24 buf)) (rd64 (drop 16 buf))
      (rd64 (drop 64 buf)) (rd64 (drop 72 buf)) t = (Ok r0, u)"
  shows "amd64_hypercall h hyp cpu s = Ioctl_err h fd (IIOW kvmSetRegs 144) (IoPtr (le64 r0 @ drop 8 buf)) u"
proof -
  have len: "length buf = 144" using Ioctl_buf_length [OF assms(3)] by simp
  have get: "GetRegs h (vcpus (the_vm s) ! cpu) s = (Ok (fst (dec_Regs buf), None), t)"
    using assms(2,3) by (simp add: GetRegs_def go_simps)
  let ?r = "fst (dec_Regs buf)"
  have fields: "Rax ?r = rd64 buf" "Rdi ?r = rd64 (drop 40 buf)" "Rsi ?r = rd64 (drop 32 buf)" "Rdx ?r = rd64 (drop 24 buf)"
    "Rcx ?r = rd64 (drop 16 buf)" "R8 ?r = rd64 (drop 64 buf)" "R9 ?r = rd64 (drop 72 buf)"
    by (simp_all add: dec_Regs_def get_defs Let_def)
  show ?thesis
    using assms(1,2,4) get
    by (simp add: amd64_hypercall_def go_simps fields SetRegs_def enc_Regs_Rax [OF len])
qed

text \<open>C31. The exchange of a hypercall on amd64: the handler gets the number from \<open>RAX\<close> and its six
  arguments from \<open>RDI\<close>, \<open>RSI\<close>, \<open>RDX\<close>, \<open>RCX\<close>, \<open>R8\<close>, \<open>R9\<close> of the register block the kernel
  returned, and what is written back is that very block with only its first eight bytes,
  \<open>RAX\<close>, replaced by the result.\<close>

theorem amd64_hypercall_exchange:
  assumes "cpu < length (vcpus (the_vm s))" and "fd = vcpu_fd (vcpus (the_vm s) ! cpu)"
    and "Ioctl h fd (IIOR kvmGetRegs 144) (IoPtr (replicate 144 0)) s = (Ok ((r, None), buf), t)"
    and "hyp cpu (rd64 buf) (rd64 (drop 40 buf)) (rd64 (drop 32 buf)) (rd64 (drop 24 buf)) (rd64 (drop 16 buf))
      (rd64 (drop 64 buf)) (rd64 (drop 72 buf)) t = (Ok r0, u)"
  shows "amd64_hypercall h hyp cpu s = Ioctl_err h fd (IIOW kvmSetRegs 144) (IoPtr (le64 r0 @ drop 8 buf)) u"
  using assms by (rule amd64_hypercall_eq)

theorem amd64_hypercall_exchange_witness:
  "amd64_hypercall ok_host (\<lambda>cpu n a0 a1 a2 a3 a4 a5. ret (n + 7)) 0 (blank_state 8 ()) =
   Ioctl_err ok_host 5 (IIOW kvmSetRegs 144) (IoPtr (le64 7 @ drop 8 (replicate 144 0))) (blank_state 8 ())"
proof (rule amd64_hypercall_exchange)
  show "0 < length (vcpus (the_vm (blank_state 8 ())))" "5 = vcpu_fd (vcpus (the_vm (blank_state 8 ())) ! 0)"
    by (simp_all add: blank_state_def)
  show "Ioctl ok_host 5 (IIOR kvmGetRegs 144) (IoPtr (replicate 144 0)) (blank_state 8 ()) =
      (Ok ((0, None), replicate 144 0), blank_state 8 ())" by simp
  show "ret (rd64 (replicate 144 0) + 7) (blank_state 8 ()) = (Ok 7, blank_state 8 ())"
    by (simp add: ret_def rd64_def le_val_zeros)
qed

text \<open>A failing hypercall handler leaves the guest's registers alone: when the handler returns an
  error, the exchange returns the same error and no register is written.\<close>

lemma hypercall_error_stops:
  assumes "cpu < length (vcpus (the_vm s))"
    and "GetRegs h (vcpus (the_vm s) ! cpu) s = (Ok (regs, None), t)"
    and "hyp cpu (Rax regs) (Rdi regs) (Rsi regs) (Rdx regs) (Rcx regs) (R8 regs) (R9 regs) t = (Err e, u)"
  shows "amd64_hypercall h hyp cpu s = (Err e, u)"
  using assms by (simp add: amd64_hypercall_def go_simps)

text \<open>The identity map request announces more than it passes: its ioctl number says that the
  kernel reads eight bytes, but the buffer behind the pointer has four.\<close>

lemma identity_map_request_size:
  "ioc_size (fst (identity_map_request addr)) = 8 \<and> length (ioarg_buf (snd (identity_map_request addr))) = 4"
  by (simp add: identity_map_request_def IIOW_def sizemask_def)

text \<open>The performance-monitoring feature of an arm64 virtual CPU is never requested: whether or
  not the kernel reports the extension, the feature words are the same, because the feature's
  bit number is that of the power-state interface.\<close>

lemma arm64_features_ignore_pmu: "arm64_features (Inr 1) i = arm64_features (Inr 0) i"
proof (cases "features i")
  case Nil
  then show ?thesis by (simp add: arm64_features_def Let_def)
next
  case (Cons x xs)
  then show ?thesis by (simp add: arm64_features_def Let_def or.assoc)
qed

end
