(* ===== verification/Argv.thy ===== *)
theory Argv
  imports Addr Go_Lib
begin

text \<open>
  \<open>kvm/argv.go\<close>: the argument vector of the guest kernel, written at the bottom of guest
  RAM. The operations act on the byte slice \<open>physMem\<close>, which is the state of the monad
  here; the reference \<open>argv_image\<close> says which bytes a successful or failing call leaves.
\<close>

section \<open>The operations\<close>

text \<open>\<open>copy(physMem[off:], b)\<close> and \<open>binary.LittleEndian.PutUint64(physMem[off:], p)\<close>: the
  slice expression panics when \<open>off\<close> is beyond the end, \<open>copy\<close> stops at the end, and
  \<open>PutUint64\<close> panics when fewer than eight bytes remain.\<close>

definition copy_at :: "u64 \<Rightarrow> bytes \<Rightarrow> (bytes, unit) go" where
  "copy_at off b m =
     (if unat off \<le> length m then (Ok (), mem_store (unat off) b m)
      else (Panic SliceBoundsOutOfRange, m))"

definition PutUint64_at :: "u64 \<Rightarrow> u64 \<Rightarrow> (bytes, unit) go" where
  "PutUint64_at off p m =
     (if \<not> unat off \<le> length m then (Panic SliceBoundsOutOfRange, m)
      else if length m - unat off < 8 then (Panic IndexOutOfRange, m)
      else (Ok (), mem_write (unat off) (le64 p) m))"

fun argv_strings :: "(u64 \<Rightarrow> u64) \<Rightarrow> string list \<Rightarrow> u64 \<Rightarrow> u64 list \<Rightarrow> (bytes, u64 list \<times> u64) go" where
  "argv_strings pa2ka [] off argp = ret (argp, off)"
| "argv_strings pa2ka (a # args) off argp =
     (let b = bytes_of_string a @ [0]
      in bnd (copy_at off b) (\<lambda>_.
         argv_strings pa2ka args (off + word_of_nat (length b)) (argp @ [pa2ka (physRamBase + off)])))"

fun argv_ptrs :: "u64 list \<Rightarrow> u64 \<Rightarrow> (bytes, u64) go" where
  "argv_ptrs [] off = ret off"
| "argv_ptrs (p # argp) off = bnd (PutUint64_at off p) (\<lambda>_. argv_ptrs argp (off + 8))"

definition argv_WriteAt :: "(u64 \<Rightarrow> u64) \<Rightarrow> string list \<Rightarrow> u64 \<Rightarrow> (bytes, u64) go" where
  "argv_WriteAt pa2ka args off =
     bnd (argv_strings pa2ka args off []) (\<lambda>(argp, off).
     (let argp = argp @ [0]; argv = off
      in bnd (argv_ptrs argp off) (\<lambda>off.
         if physRamBase + off > physKernBase then throw (ErrNew ''argv too large'')
         else ret (pa2ka (physRamBase + argv)))))"

section \<open>The reference image\<close>

definition cstr :: "string \<Rightarrow> bytes" where
  "cstr a = bytes_of_string a @ [0]"

definition strs_size :: "string list \<Rightarrow> nat" where
  "strs_size args = sum_list (map (\<lambda>a. length a + 1) args)"

text \<open>The offset of the \<open>i\<close>-th string.\<close>

definition str_off :: "string list \<Rightarrow> nat \<Rightarrow> nat" where
  "str_off args i = strs_size (take i args)"

definition argv_size :: "string list \<Rightarrow> nat" where
  "argv_size args = strs_size args + 8 * (length args + 1)"

definition argv_image :: "(u64 \<Rightarrow> u64) \<Rightarrow> string list \<Rightarrow> bytes" where
  "argv_image pa2ka args =
     concat (map cstr args) @
     concat (map le64 (map (\<lambda>i. pa2ka (physRamBase + word_of_nat (str_off args i))) [0..<length args] @ [0]))"

lemma length_cstr [simp]: "length (cstr a) = length a + 1" by (simp add: cstr_def)

lemma length_concat_cstr [simp]: "length (concat (map cstr args)) = strs_size args"
  by (induction args) (simp_all add: strs_size_def)

lemma length_concat_le64 [simp]: "length (concat (map le64 ps)) = 8 * length ps"
  by (induction ps) simp_all

lemma length_argv_image [simp]: "length (argv_image f args) = argv_size args"
  unfolding argv_image_def argv_size_def length_append length_concat_cstr length_concat_le64 by simp

lemma strs_size_simps [simp]: "strs_size [] = 0" "strs_size (a # args) = length a + 1 + strs_size args"
  by (simp_all add: strs_size_def)

section \<open>Writing produces the image\<close>

lemma mem_write_append:
  "off + length a + length b \<le> length m \<Longrightarrow>
   mem_write (off + length a) b (mem_write off a m) = mem_write off (a @ b) m"
  by (simp add: mem_write_def ac_simps)

lemma unat_of_nat_small: "n < 2 ^ 64 \<Longrightarrow> unat (word_of_nat n :: u64) = n"
  by (simp add: unat_of_nat)

lemma argv_strings_image:
  assumes "o' + strs_size args \<le> length m" and "o' + strs_size args < 2 ^ 64"
  shows "argv_strings f args (word_of_nat o') argp m =
    (Ok (argp @ map (\<lambda>i. f (physRamBase + word_of_nat (o' + str_off args i))) [0..<length args],
         word_of_nat (o' + strs_size args)), mem_write o' (concat (map cstr args)) m)"
  using assms
proof (induction args arbitrary: o' argp m)
  case Nil
  then show ?case by (simp add: ret_def)
next
  case (Cons a args)
  let ?b = "bytes_of_string a @ [0 :: u8]"
  from Cons.prems have o': "unat (word_of_nat o' :: u64) = o'" by (intro unat_of_nat_small) simp
  have cp: "copy_at (word_of_nat o') ?b m = (Ok (), mem_write o' (cstr a) m)"
    using Cons.prems by (simp add: copy_at_def o' cstr_def)
  have step: "word_of_nat o' + word_of_nat (length ?b) = (word_of_nat (o' + (length a + 1)) :: u64)"
    by simp
  have "mem_write (o' + (length a + 1)) (concat (map cstr args)) (mem_write o' (cstr a) m) =
      mem_write o' (concat (map cstr (a # args))) m"
    using mem_write_append [of o' "cstr a" "concat (map cstr args)" m] Cons.prems by simp
  moreover have "map (\<lambda>i. f (physRamBase + word_of_nat (o' + str_off (a # args) i))) [0..<length (a # args)] =
      f (physRamBase + word_of_nat o') #
      map (\<lambda>i. f (physRamBase + word_of_nat (o' + (length a + 1) + str_off args i))) [0..<length args]"
    by (simp add: map_upt_Suc str_off_def add.assoc del: upt_Suc)
  ultimately show ?case
    using Cons.prems
    by (simp only: argv_strings.simps Let_def bnd_def cp prod.case res.case step)
      (subst Cons.IH; simp add: add.assoc)
qed

lemma argv_ptrs_image:
  assumes "o' + 8 * length ps \<le> length m" and "o' + 8 * length ps < 2 ^ 64"
  shows "argv_ptrs ps (word_of_nat o') m =
    (Ok (word_of_nat (o' + 8 * length ps)), mem_write o' (concat (map le64 ps)) m)"
  using assms
proof (induction ps arbitrary: o' m)
  case Nil
  then show ?case by (simp add: ret_def)
next
  case (Cons p ps)
  from Cons.prems have o': "unat (word_of_nat o' :: u64) = o'" by (intro unat_of_nat_small) simp
  have put: "PutUint64_at (word_of_nat o') p m = (Ok (), mem_write o' (le64 p) m)"
    using Cons.prems by (simp add: PutUint64_at_def o')
  have step: "word_of_nat o' + 8 = (word_of_nat (o' + 8) :: u64)" by simp
  have "mem_write (o' + 8) (concat (map le64 ps)) (mem_write o' (le64 p) m) =
      mem_write o' (concat (map le64 (p # ps))) m"
    using mem_write_append [of o' "le64 p" "concat (map le64 ps)" m] Cons.prems by simp
  then show ?case
    using Cons.prems by (simp only: argv_ptrs.simps bnd_def put prod.case res.case step) (subst Cons.IH; simp)
qed

lemma argv_WriteAt_image:
  assumes fit: "argv_size args \<le> length m" and small: "argv_size args < 2 ^ 32"
  shows "argv_WriteAt f args 0 m =
    (if argv_size args \<le> 0x8000 then Ok (f (physRamBase + word_of_nat (strs_size args)))
     else Err (ErrNew ''argv too large''), mem_write 0 (argv_image f args) m)"
proof -
  define ps where "ps = map (\<lambda>i. f (physRamBase + word_of_nat (str_off args i))) [0..<length args] @ [0]"
  have strs: "argv_strings f args 0 [] m =
      (Ok (map (\<lambda>i. f (physRamBase + word_of_nat (str_off args i))) [0..<length args],
        word_of_nat (strs_size args)), mem_write 0 (concat (map cstr args)) m)"
    using argv_strings_image [of 0 args m f "[]"] fit small by (simp add: argv_size_def)
  have ps: "length ps = length args + 1" "argv_image f args = concat (map cstr args) @ concat (map le64 ps)"
    by (simp_all add: ps_def argv_image_def)
  have ptrs: "argv_ptrs ps (word_of_nat (strs_size args)) (mem_write 0 (concat (map cstr args)) m) =
      (Ok (word_of_nat (argv_size args)), mem_write 0 (argv_image f args) m)"
    using argv_ptrs_image [of "strs_size args" ps "mem_write 0 (concat (map cstr args)) m"] fit small
      mem_write_append [of 0 "concat (map cstr args)" "concat (map le64 ps)" m]
    unfolding argv_size_def ps(2) by (simp add: ps(1))
  have "unat (physRamBase + word_of_nat (argv_size args)) = 0x40000000 + argv_size args"
    using small by (simp add: unat_word_ariths unat_of_nat_small)
  then have le: "physRamBase + word_of_nat (argv_size args) > physKernBase \<longleftrightarrow> \<not> argv_size args \<le> 0x8000"
    by (simp add: word_less_nat_alt not_le)
  show ?thesis
    using strs ptrs by (auto simp: argv_WriteAt_def go_simps Let_def ps_def le)
qed

lemma argv_strings_Ok:
  "argv_strings f args (word_of_nat o') argp m = (Ok (ps, off), m') \<Longrightarrow>
   off = word_of_nat (o' + strs_size args) \<and> length ps = length argp + length args \<and> length m' = length m"
proof (induction args arbitrary: o' argp m)
  case (Cons a args)
  let ?b = "bytes_of_string a @ [0 :: u8]"
  from Cons.prems obtain m1 where m1: "copy_at (word_of_nat o') ?b m = (Ok (), m1)"
    and rest: "argv_strings f args (word_of_nat (o' + length ?b)) (argp @ [f (physRamBase + word_of_nat o')]) m1 = (Ok (ps, off), m')"
    by (auto simp: Let_def add.assoc add.commute add.left_commute elim!: bnd_OkE)
  from m1 have "length m1 = length m" by (auto simp: copy_at_def split: if_splits)
  with Cons.IH [OF rest] show ?case by (simp add: add.assoc)
qed (simp add: go_simps)

lemma argv_ptrs_Ok:
  "argv_ptrs ps (word_of_nat o') m = (Ok off, m') \<Longrightarrow> ps \<noteq> [] \<Longrightarrow> o' + 8 * length ps < 2 ^ 64 \<Longrightarrow>
   o' + 8 * length ps \<le> length m"
proof (induction ps arbitrary: o' m)
  case (Cons p ps)
  from Cons.prems(3) have o': "unat (word_of_nat o' :: u64) = o'" by (intro unat_of_nat_small) simp
  from Cons.prems(1) obtain m1 where m1: "PutUint64_at (word_of_nat o') p m = (Ok (), m1)"
    and rest: "argv_ptrs ps (word_of_nat (o' + 8)) m1 = (Ok off, m')" by (auto elim!: bnd_OkE)
  from m1 have "o' + 8 \<le> length m" "length m1 = length m"
    by (auto simp: PutUint64_at_def o' split: if_splits)
  with Cons.IH [OF rest] Cons.prems(3) show ?case by (cases ps) auto
qed simp

text \<open>A successful call wrote the whole image: an argument vector that does not fit into the memory is a panic.\<close>

lemma argv_WriteAt_Ok:
  assumes "argv_WriteAt f args 0 m = (Ok addr, m')" and "argv_size args < 2 ^ 32"
  shows "argv_size args \<le> length m" "addr = f (physRamBase + word_of_nat (strs_size args))"
    "m' = mem_write 0 (argv_image f args) m"
proof -
  from assms(1) obtain ps off m1 off' where strs: "argv_strings f args 0 [] m = (Ok (ps, off), m1)"
    and ptrs: "argv_ptrs (ps @ [0]) off m1 = (Ok off', m')"
    by (auto simp: argv_WriteAt_def Let_def go_simps elim!: bnd_OkE split: if_splits)
  from argv_strings_Ok [of f args 0 "[]" m ps off m1] strs
  have st: "off = word_of_nat (strs_size args)" "length ps = length args" "length m1 = length m" by simp_all
  from argv_ptrs_Ok [of "ps @ [0]" "strs_size args" m1 off' m'] ptrs assms(2) st
  show fit: "argv_size args \<le> length m" by (simp add: argv_size_def)
  from argv_WriteAt_image [OF fit assms(2), of f] assms(1)
  show "addr = f (physRamBase + word_of_nat (strs_size args))" "m' = mem_write 0 (argv_image f args) m"
    by (auto split: if_splits)
qed

section \<open>Reading the vector back\<close>

lemma drop_cstrs: "drop (str_off args i) (concat (map cstr args) @ r) = concat (map cstr (drop i args)) @ r"
proof -
  have "concat (map cstr args) = concat (map cstr (take i args)) @ concat (map cstr (drop i args))"
    by (metis append_take_drop_id concat_append map_append)
  then show ?thesis by (simp add: str_off_def)
qed

lemma drop_ptrs: "i \<le> length ps \<Longrightarrow> drop (8 * i) (concat (map le64 ps) @ r) = concat (map le64 (drop i ps)) @ r"
proof -
  assume i: "i \<le> length ps"
  have "concat (map le64 ps) = concat (map le64 (take i ps)) @ concat (map le64 (drop i ps))"
    by (metis append_take_drop_id concat_append map_append)
  with i show ?thesis by simp
qed

lemma takeWhile_cstr: "CHR 0x00 \<notin> set a \<Longrightarrow> takeWhile (\<lambda>b. b \<noteq> 0) (cstr a @ r) = bytes_of_string a"
proof (induction a)
  case (Cons c a)
  then have "c \<noteq> CHR 0x00" by auto
  then have "(of_char c :: nat) \<noteq> of_char (CHR 0x00)" by (simp only: of_char_eq_iff simp_thms)
  then have "unat (word_of_nat (of_char c) :: u8) \<noteq> 0" by simp
  then have "word_of_nat (of_char c) \<noteq> (0 :: u8)" by (metis unat_0)
  with Cons show ?case by (simp add: cstr_def bytes_of_string_def)
qed (simp add: cstr_def bytes_of_string_def)

lemma nth_ptr:
  "i < length ps \<Longrightarrow> rd64 (drop (8 * i) (concat (map le64 ps) @ r)) = ps ! i"
proof -
  assume i: "i < length ps"
  then have "drop i ps = ps ! i # drop (Suc i) ps" by (simp add: Cons_nth_drop_Suc)
  with i drop_ptrs [of i ps r] show ?thesis by simp
qed

text \<open>C29. The guest finds its arguments: after a successful call the vector lies at the returned
  kernel address, entry \<open>i\<close> of it is the kernel address of a NUL-terminated copy of argument
  \<open>i\<close>, the vector ends with a null pointer, and RAM above it is untouched. The call succeeds
  when strings and pointers fit into RAM and into the 32 KiB below the kernel.\<close>

theorem argv_readback:
  assumes "argv_size args \<le> length m" and "argv_size args \<le> 0x8000"
    and "\<forall>a \<in> set args. CHR 0x00 \<notin> set a" and "i < length args"
  shows "\<exists>m'. argv_WriteAt pa2ka args 0 m = (Ok (pa2ka (physRamBase + word_of_nat (strs_size args))), m') \<and>
    rd64 (drop (strs_size args + 8 * i) m') = pa2ka (physRamBase + word_of_nat (str_off args i)) \<and>
    takeWhile (\<lambda>b. b \<noteq> 0) (drop (str_off args i) m') = bytes_of_string (args ! i) \<and>
    rd64 (drop (strs_size args + 8 * length args) m') = 0 \<and>
    drop (argv_size args) m' = drop (argv_size args) m \<and> length m' = length m"
proof -
  define ps where "ps = map (\<lambda>i. pa2ka (physRamBase + word_of_nat (str_off args i))) [0..<length args] @ [0]"
  define m' where "m' = mem_write 0 (argv_image pa2ka args) m"
  have m': "m' = concat (map cstr args) @ concat (map le64 ps) @ drop (argv_size args) m"
    using length_argv_image [of pa2ka args] by (simp add: m'_def mem_write_def argv_image_def ps_def del: length_argv_image)
  have tail: "drop (strs_size args) m' = concat (map le64 ps) @ drop (argv_size args) m" by (simp add: m')
  have "rd64 (drop (strs_size args + 8 * j) m') = ps ! j" if "j \<le> length args" for j
  proof -
    have "drop (strs_size args + 8 * j) m' = drop (8 * j) (drop (strs_size args) m')" by (simp add: add.commute)
    moreover have "j < length ps" using that by (simp add: ps_def)
    ultimately show ?thesis by (simp only: tail nth_ptr)
  qed
  moreover have "takeWhile (\<lambda>b. b \<noteq> 0) (drop (str_off args i) m') = bytes_of_string (args ! i)"
  proof -
    have "drop i args = args ! i # drop (Suc i) args" using assms(4) by (simp add: Cons_nth_drop_Suc)
    moreover have "CHR 0x00 \<notin> set (args ! i)" using assms(3,4) by simp
    ultimately show ?thesis
      unfolding m' drop_cstrs by (simp add: takeWhile_cstr)
  qed
  moreover have "drop (argv_size args) m' = drop (argv_size args) m" "length m' = length m"
    using assms(1) by (simp_all add: m'_def mem_write_def)
  moreover have "argv_WriteAt pa2ka args 0 m = (Ok (pa2ka (physRamBase + word_of_nat (strs_size args))), m')"
    using argv_WriteAt_image [of args m pa2ka] assms(1,2) by (simp add: m'_def)
  ultimately show ?thesis using assms(4) by (intro exI [of _ m']) (simp add: ps_def nth_append)
qed

theorem argv_readback_witness:
  "\<exists>m'. argv_WriteAt amd64_pa2ka [''a'', ''bc''] 0 (replicate 64 0) = (Ok (amd64_pa2ka 0x40000005), m') \<and>
     takeWhile (\<lambda>b. b \<noteq> 0) (drop 2 m') = bytes_of_string ''bc''"
  using argv_readback [of "[''a'', ''bc'']" "replicate 64 0" 1 amd64_pa2ka]
  by (auto simp: argv_size_def str_off_def numeral_2_eq_2)

text \<open>C30. Arguments that do not fit below the kernel are refused with an error, but only after
  they were written: when RAM is large enough for them, the bytes beyond the limit have
  already overwritten the start of the loaded kernel.\<close>

theorem argv_too_large:
  assumes "argv_size args \<le> length m" and "0x8000 < argv_size args" and "argv_size args < 2 ^ 32"
  shows "argv_WriteAt pa2ka args 0 m = (Err (ErrNew ''argv too large''), mem_write 0 (argv_image pa2ka args) m)"
  using argv_WriteAt_image [OF assms(1,3)] assms(2) by simp

theorem argv_too_large_witness:
  "fst (argv_WriteAt amd64_pa2ka [replicate 40000 (CHR ''x'')] 0 (replicate 50000 0)) = Err (ErrNew ''argv too large'')"
  using argv_too_large [of "[replicate 40000 (CHR ''x'')]" "replicate 50000 0" amd64_pa2ka]
  by (simp add: argv_size_def)

end
