(* ===== verification/Exit_Type.thy ===== *)
theory Exit_Type
  imports Go_Lib
begin

text \<open>
  The exit reasons of \<open>kvm/kvm.go\<close> and their names, \<open>kvm/exittype_string.go\<close>. The generated
  code cuts the names out of two concatenated strings by index tables; the reference table
  below is the list of the constants' own names.
\<close>

section \<open>The constants\<close>

type_synonym ExitType = u64

abbreviation (input) ExitUnknown :: ExitType where "ExitUnknown \<equiv> 0"
abbreviation (input) ExitException :: ExitType where "ExitException \<equiv> 1"
abbreviation (input) ExitIO :: ExitType where "ExitIO \<equiv> 2"
abbreviation (input) ExitHypercall :: ExitType where "ExitHypercall \<equiv> 3"
abbreviation (input) ExitDebug :: ExitType where "ExitDebug \<equiv> 4"
abbreviation (input) ExitHlt :: ExitType where "ExitHlt \<equiv> 5"
abbreviation (input) ExitMMIO :: ExitType where "ExitMMIO \<equiv> 6"
abbreviation (input) ExitIRQWindowOpen :: ExitType where "ExitIRQWindowOpen \<equiv> 7"
abbreviation (input) ExitShutdown :: ExitType where "ExitShutdown \<equiv> 8"
abbreviation (input) ExitFailEntry :: ExitType where "ExitFailEntry \<equiv> 9"
abbreviation (input) ExitIntr :: ExitType where "ExitIntr \<equiv> 10"
abbreviation (input) ExitSetTPR :: ExitType where "ExitSetTPR \<equiv> 11"
abbreviation (input) ExitTPRAccess :: ExitType where "ExitTPRAccess \<equiv> 12"
abbreviation (input) ExitDCR :: ExitType where "ExitDCR \<equiv> 15"
abbreviation (input) ExitNMI :: ExitType where "ExitNMI \<equiv> 16"
abbreviation (input) ExitInternalError :: ExitType where "ExitInternalError \<equiv> 17"

section \<open>The generated stringer\<close>

text \<open>The indices that the anonymous function of the generated file applies to an array of one element.
  They are constants, and the compiler accepts the file only when each of them is in range; a
  difference that would be negative is huge as a word, so it is out of range here too.\<close>

definition ExitType_indices :: "ExitType list" where
  "ExitType_indices =
     [ExitUnknown - 0, ExitException - 1, ExitIO - 2, ExitHypercall - 3, ExitDebug - 4, ExitHlt - 5, ExitMMIO - 6,
      ExitIRQWindowOpen - 7, ExitShutdown - 8, ExitFailEntry - 9, ExitIntr - 10, ExitSetTPR - 11, ExitTPRAccess - 12,
      ExitDCR - 15, ExitNMI - 16, ExitInternalError - 17]"

lemma ExitType_indices_in_range: "list_all (\<lambda>i. unat i < 1) ExitType_indices"
  by (simp add: ExitType_indices_def)

definition ExitType_name_0 :: string where
  "ExitType_name_0 = ''ExitUnknownExitExceptionExitIOExitHypercallExitDebugExitHltExitMMIOExitIRQWindowOpenExitShutdownExitFailEntryExitIntrExitSetTPRExitTPRAccess''"

definition ExitType_name_1 :: string where
  "ExitType_name_1 = ''ExitDCRExitNMIExitInternalError''"

definition ExitType_index_0 :: "nat list" where
  "ExitType_index_0 = [0, 11, 24, 30, 43, 52, 59, 67, 84, 96, 109, 117, 127, 140]"

definition ExitType_index_1 :: "nat list" where
  "ExitType_index_1 = [0, 7, 14, 31]"

definition substring :: "string \<Rightarrow> nat \<Rightarrow> nat \<Rightarrow> string" where
  "substring s lo hi = take (hi - lo) (drop lo s)"

definition ExitType_String :: "ExitType \<Rightarrow> string" where
  "ExitType_String i =
     (if i \<le> 12 then
        substring ExitType_name_0 (ExitType_index_0 ! unat i) (ExitType_index_0 ! unat (i + 1))
      else if 15 \<le> i \<and> i \<le> 17 then
        (let i = i - 15
         in substring ExitType_name_1 (ExitType_index_1 ! unat i) (ExitType_index_1 ! unat (i + 1)))
      else ''ExitType('' @ strconv_FormatInt10 (sint i) @ '')'')"

section \<open>Properties\<close>

definition exit_names :: "(ExitType \<times> string) list" where
  "exit_names =
     [(ExitUnknown, ''ExitUnknown''), (ExitException, ''ExitException''), (ExitIO, ''ExitIO''),
      (ExitHypercall, ''ExitHypercall''), (ExitDebug, ''ExitDebug''), (ExitHlt, ''ExitHlt''),
      (ExitMMIO, ''ExitMMIO''), (ExitIRQWindowOpen, ''ExitIRQWindowOpen''),
      (ExitShutdown, ''ExitShutdown''), (ExitFailEntry, ''ExitFailEntry''),
      (ExitIntr, ''ExitIntr''), (ExitSetTPR, ''ExitSetTPR''), (ExitTPRAccess, ''ExitTPRAccess''),
      (ExitDCR, ''ExitDCR''), (ExitNMI, ''ExitNMI''), (ExitInternalError, ''ExitInternalError'')]"

text \<open>The generated \<open>String\<close> method agrees with the constants: for each of the sixteen
  exit reasons it cuts out exactly the constant's own name.\<close>

lemma ExitType_String_names:
  "list_all (\<lambda>(i, n). ExitType_String i = n) exit_names"
  by (simp add: exit_names_def ExitType_String_def substring_def ExitType_name_0_def
      ExitType_name_1_def ExitType_index_0_def ExitType_index_1_def)

end
