(* ===== verification/Machine_Ops.thy ===== *)
theory Machine_Ops
  imports Arch Argv Exit_Type
begin

text \<open>
  \<open>kvm/vm.go\<close>, \<open>kvm/memory.go\<close> and \<open>kvm/machine.go\<close>: creating a virtual machine, loading the
  guest kernel, and the loop that runs a virtual CPU. The loops that a guest can keep
  running forever are partial functions: \<open>None\<close> is not returning.
\<close>

section \<open>Creating a virtual machine\<close>

definition getAPIVersion :: "'w host \<Rightarrow> u64 \<Rightarrow> (('w, 'c) st, u64) go" where
  "getAPIVersion h fd = Ioctl_val h fd (IIO kvmGetAPIVersion) (IoVal 0)"

definition getVCPUMMmapSize :: "'w host \<Rightarrow> u64 \<Rightarrow> (('w, 'c) st, u64) go" where
  "getVCPUMMmapSize h fd = Ioctl_val h fd (IIO kvmGetVCPUMMapSize) (IoVal 0)"

definition wrap_err :: "string \<Rightarrow> ('s, 'a) go \<Rightarrow> ('s, 'a) go" where
  "wrap_err f m =
     bnd (attempt m) (\<lambda>r. case r of Inl e \<Rightarrow> throw (ErrorfW f [] [] e) | Inr x \<Rightarrow> ret x)"

text \<open>\<open>NewVM\<close>; the new \<open>vm\<close> becomes the \<open>machine_vm\<close> of the state. Protection 3 is
  read and write, 0 is none; a new anonymous mapping holds zeros.\<close>

definition NewVM :: "'w host \<Rightarrow> ('w, 'c) arch \<Rightarrow> u64 \<Rightarrow> u64 \<Rightarrow> (('w, 'c) st, unit) go" where
  "NewVM h A fd memSize =
     bnd (getAPIVersion h fd) (\<lambda>v.
     if v \<noteq> 12 then throw (Errorf ''KVM_GET_API_VERSION: got %d, expected 12'' [v])
     else
     bnd (wrap_err ''KVM_CREATE_VM: %w'' (createVM A fd)) (\<lambda>vmfd.
     bnd (wrap_err ''mmap: %w'' (host_try (sys_mmap h memSize 3))) (\<lambda>ma.
     bnd (wrap_err ''mmap: %w'' (host_try (sys_mmap h (word_of_nat (sys_pagesize h)) 0))) (\<lambda>sa.
     modify (map_vm (\<lambda>_. \<lparr>vm_fd = vmfd, mem = replicate (unat memSize) 0, mem_addr = ma,
       sys = replicate (sys_pagesize h) 0, sys_addr = sa, vcpus = []\<rparr>))))))"

record UserspaceMemoryRegion =
  Slot :: u32
  RegionFlags :: u32
  GuestPhysAddr :: u64
  MemorySize :: u64
  UserspaceAddr :: u64

definition enc_Region :: "UserspaceMemoryRegion \<Rightarrow> bytes" where
  "enc_Region r = le32 (Slot r) @ le32 (RegionFlags r) @ le64 (GuestPhysAddr r) @
     le64 (MemorySize r) @ le64 (UserspaceAddr r)"

definition dec_Region :: "bytes \<Rightarrow> UserspaceMemoryRegion \<times> bytes" where
  "dec_Region bs =
     (let (sl, bs) = get32 bs; (fl, bs) = get32 bs; (ga, bs) = get64 bs; (sz, bs) = get64 bs;
          (ua, bs) = get64 bs
      in (\<lparr>Slot = sl, RegionFlags = fl, GuestPhysAddr = ga, MemorySize = sz, UserspaceAddr = ua\<rparr>, bs))"

abbreviation (input) sizeof_Region :: nat where "sizeof_Region \<equiv> 32"

interpretation region: codec enc_Region dec_Region "\<lambda>_. True" sizeof_Region
  by unfold_locales
    (simp_all add: enc_Region_def dec_Region_def reads_def get_defs le_rd codec_simps Let_def)

definition SetUserspaceMemoryRegion :: "'w host \<Rightarrow> UserspaceMemoryRegion \<Rightarrow> (('w, 'c) st, unit) go" where
  "SetUserspaceMemoryRegion h region =
     bnd (gets (vm_fd \<circ> the_vm)) (\<lambda>fd.
       Ioctl_err h fd (IIOW kvmSetUserMemoryRegion (word_of_nat sizeof_Region)) (IoPtr (enc_Region region)))"

text \<open>The two memory slots of a virtual machine; \<open>&mem[0]\<close> panics on an empty mapping.\<close>

definition ram_region :: "vm \<Rightarrow> UserspaceMemoryRegion" where
  "ram_region v = \<lparr>Slot = 0, RegionFlags = 0, GuestPhysAddr = physRamBase,
     MemorySize = word_of_nat (length (mem v)), UserspaceAddr = mem_addr v\<rparr>"

definition sys_region :: "vm \<Rightarrow> UserspaceMemoryRegion" where
  "sys_region v = \<lparr>Slot = 1, RegionFlags = kvmMemReadonly, GuestPhysAddr = physSysBase,
     MemorySize = word_of_nat (length (sys v)), UserspaceAddr = sys_addr v\<rparr>"

definition initMemory :: "'w host \<Rightarrow> (('w, 'c) st, unit) go" where
  "initMemory h =
     bnd (gets the_vm) (\<lambda>v.
     bnd (index (mem v) 0) (\<lambda>_.
     bnd (wrap_err ''KVM_SET_USERSPACE_MEMORY_REGION: %w'' (SetUserspaceMemoryRegion h (ram_region v))) (\<lambda>_.
     bnd (index (sys v) 0) (\<lambda>_.
     wrap_err ''KVM_SET_USERSPACE_MEMORY_REGION: %w'' (SetUserspaceMemoryRegion h (sys_region v))))))"

definition addVCPU :: "'w host \<Rightarrow> (('w, 'c) st, unit) go" where
  "addVCPU h =
     bnd (gets the_vm) (\<lambda>v.
     bnd (Ioctl_val h (vm_fd v) (IIO kvmCreateVCPU) (IoVal (word_of_nat (length (vcpus v))))) (\<lambda>fd.
     modify (map_vm (\<lambda>v. v\<lparr>vcpus := vcpus v @ [\<lparr>vcpu_fd = fd\<rparr>]\<rparr>))))"

text \<open>Mapping the \<open>kvm_run\<close> page of a virtual CPU; \<open>syscall.Mmap\<close> refuses a length that is
  not positive with \<open>EINVAL\<close>.\<close>

definition map_run :: "'w host \<Rightarrow> u64 \<Rightarrow> nat \<Rightarrow> (('w, 'c) st, unit) go" where
  "map_run h mmapSize cpu =
     bnd (gets (vcpus \<circ> the_vm)) (\<lambda>vs.
     bnd (index vs cpu) (\<lambda>v.
     if sint mmapSize \<le> 0 then throw (Errno 22)
     else
     bnd (host_try (sys_mmap_run h (vcpu_fd v) mmapSize)) (\<lambda>r.
     modify (map_machine (\<lambda>m. m\<lparr>runs := (runs m)[cpu := Some r]\<rparr>)))))"

definition NewMachine :: "'w host \<Rightarrow> ('w, 'c) arch \<Rightarrow> string \<Rightarrow> nat \<Rightarrow> u64 \<Rightarrow> (('w, 'c) st, unit) go" where
  "NewMachine h A kvmPath ncpus memSize =
     bnd (host_try (sys_open h kvmPath 2 0x1a4)) (\<lambda>fd.
     bnd (NewVM h A fd memSize) (\<lambda>_.
     bnd (vm_init A) (\<lambda>_.
     bnd (getVCPUMMmapSize h fd) (\<lambda>mmapSize.
     bnd (modify (map_machine (\<lambda>m. m\<lparr>kvmfd := fd, irqfd := 0, runs := replicate ncpus None\<rparr>))) (\<lambda>_.
     bnd (createIrqController A) (\<lambda>_.
     bnd (for_each [0..<ncpus] (\<lambda>cpu. bnd (addVCPU h) (\<lambda>_. map_run h mmapSize cpu))) (\<lambda>_.
     bnd (machine_init A) (\<lambda>_.
     bnd (initMemory h) (\<lambda>_.
     finalizeIrqController A)))))))))"

section \<open>Loading the guest kernel\<close>

text \<open>
  What \<open>debug/elf\<close> makes of the kernel image: the entry point and the program headers, each
  with the bytes that the file delivers from its offset on and the error of a read that asks for more: \<open>EOF\<close>
  at the end of the file, or the error of a failed read. \<open>file_ReadAt\<close> is \<open>os.File.ReadAt\<close> from the
  program's offset, and \<open>prog_ReadAt\<close> is \<open>Prog.ReadAt(b, 0)\<close> with a buffer of \<open>n\<close> bytes: an
  \<open>io.SectionReader\<close> on \<open>Filesz\<close> bytes of the file, which cuts the buffer to the section and turns a
  successful read of a cut buffer into \<open>EOF\<close>.
\<close>

record prog =
  p_Type :: u32
  p_Vaddr :: u64
  p_Filesz :: u64
  p_Memsz :: u64
  p_file :: bytes
  p_err :: goerror

record elf_file =
  Entry :: u64
  Progs :: "prog list"

abbreviation (input) PT_LOAD :: u32 where "PT_LOAD \<equiv> 1"

definition file_ReadAt :: "prog \<Rightarrow> nat \<Rightarrow> bytes \<times> goerror option" where
  "file_ReadAt p n = (take n (p_file p), if length (p_file p) < n then Some (p_err p) else None)"

definition prog_ReadAt :: "prog \<Rightarrow> nat \<Rightarrow> bytes \<times> goerror option" where
  "prog_ReadAt p n =
     (if unat (p_Filesz p) = 0 then ([], Some EOF)
      else if n > unat (p_Filesz p) then
        (case file_ReadAt p (unat (p_Filesz p)) of
           (bs, None) \<Rightarrow> (bs, Some EOF) | (bs, Some err) \<Rightarrow> (bs, Some err))
      else file_ReadAt p n)"

lemma unat_Suc_below: "unat (i :: u64) < unat e \<Longrightarrow> unat (i + 1) = unat i + 1"
  for e :: u64
proof -
  assume "unat i < unat e"
  moreover have "unat e < 2 ^ 64" using unsigned_less [of e] by simp
  ultimately show ?thesis by (simp add: unat_word_ariths)
qed

text \<open>\<open>for i := start + p.Filesz; i < start+p.Memsz; i++ { m.vm.mem[i] = 0 }\<close>\<close>

function zero_fill :: "u64 \<Rightarrow> u64 \<Rightarrow> bytes \<Rightarrow> unit res \<times> bytes" where
  "zero_fill i e m =
     (if i < e
      then if unat i < length m then zero_fill (i + 1) e (m[unat i := 0])
           else (Panic IndexOutOfRange, m)
      else (Ok (), m))"
  by pat_completeness auto
termination
proof (relation "measure (\<lambda>(i, e, m). unat e - unat i)")
  fix i e :: u64 and m :: bytes
  assume "i < e" "unat i < length m"
  then have "unat i < unat e" by (simp add: word_less_nat_alt)
  with unat_Suc_below [OF this]
  show "((i + 1, e, m[unat i := 0]), i, e, m) \<in> measure (\<lambda>(i, e, m). unat e - unat i)" by simp
qed simp

declare zero_fill.simps [simp del]

definition load_prog :: "('w, 'c) arch \<Rightarrow> nat \<Rightarrow> prog \<Rightarrow> (('w, 'c) st, nat) go" where
  "load_prog A i p =
     (if p_Type p \<noteq> PT_LOAD then ret 0
      else
      bnd (SliceEnd (ka2pa A (p_Vaddr p))) (\<lambda>buf.
      (case prog_ReadAt p (slice_len buf) of (bs, err) \<Rightarrow>
      bnd (slice_store buf bs) (\<lambda>_.
      (let n = length bs;
           fmt = ''reading ELF prog %d@%#x: %d/%d bytes, err %w'';
           ops = [word_of_nat i, p_Vaddr p, word_of_nat n, p_Filesz p]
       in case err of
            None \<Rightarrow> throw (Errorf fmt ops)
          | Some e \<Rightarrow>
              if \<not> errors_Is e EOF \<or> word_of_nat n \<noteq> p_Filesz p then throw (ErrorfW fmt ops [] e)
              else
                (let start = ka2pa A (p_Vaddr p) - physRamBase
                 in bnd (on_ram (zero_fill (start + p_Filesz p) (start + p_Memsz p))) (\<lambda>_. ret n)))))))"

fun load_progs :: "('w, 'c) arch \<Rightarrow> nat \<Rightarrow> prog list \<Rightarrow> nat \<Rightarrow> (('w, 'c) st, nat) go" where
  "load_progs A i [] kernSize = ret kernSize"
| "load_progs A i (p # ps) kernSize =
     bnd (load_prog A i p) (\<lambda>n. load_progs A (Suc i) ps (kernSize + n))"

definition LoadKernel ::
  "('w, 'c) arch \<Rightarrow> goerror + elf_file \<Rightarrow> string list \<Rightarrow> (('w, 'c) st, unit) go" where
  "LoadKernel A kfile args =
     (case kfile of
        Inl err \<Rightarrow> throw err
      | Inr e \<Rightarrow>
          bnd (load_progs A 0 (Progs e) 0) (\<lambda>kernSize.
          bnd (on_ram (argv_WriteAt (pa2ka A) args 0)) (\<lambda>argvAddr.
          if kernSize = 0 then throw (Errorf ''kernel is empty'' [])
          else SetupRegs A (Entry e) (word_of_nat (length args)) argvAddr)))"

section \<open>Running\<close>

definition NCPU :: "(('w, 'c) st, nat) go" where
  "NCPU = gets (length \<circ> vcpus \<circ> the_vm)"

definition GetPc :: "('w, 'c) arch \<Rightarrow> nat \<Rightarrow> (('w, 'c) st, u64) go" where
  "GetPc A cpu =
     bnd (gets (vcpus \<circ> the_vm)) (\<lambda>vs. bnd (index vs cpu) (\<lambda>v. vcpu_GetPc A v))"

definition SingleStep :: "'w host \<Rightarrow> bool \<Rightarrow> (('w, 'c) st, unit) go" where
  "SingleStep h onoff =
     bnd (gets (vcpus \<circ> the_vm)) (\<lambda>vs. for_each vs (\<lambda>cpu.
       bnd (attempt (vcpu_SingleStep h onoff cpu)) (\<lambda>r.
         case r of
           Inl err \<Rightarrow> throw (ErrorfW ''single step %d:%w'' [vcpu_fd cpu] [] err)
         | Inr _ \<Rightarrow> ret ())))"

text \<open>\<open>m.runs[cpu].ExitReason\<close>\<close>

definition exit_reason :: "nat \<Rightarrow> (('w, 'c) st, ExitType) go" where
  "exit_reason cpu =
     bnd (gets (runs \<circ> machine)) (\<lambda>rs.
     bnd (index rs cpu) (\<lambda>r.
       case r of None \<Rightarrow> panic NilDereference | Some rd \<Rightarrow> ret (ucast (ExitReason rd))))"

definition RunOnce ::
  "'w host \<Rightarrow> ('w, 'c) arch \<Rightarrow> ('w, 'c) hyper \<Rightarrow> nat \<Rightarrow> (('w, 'c) st, bool \<times> goerror option) go" where
  "RunOnce h A hyp cpu =
     bnd (gets (vcpus \<circ> the_vm)) (\<lambda>vs.
     if cpu \<ge> length vs then ret (False, Some (Errorf ''CPU %d out of range'' [word_of_nat cpu]))
     else
     bnd (attempt (vcpu_Run h (vs ! cpu))) (\<lambda>r.
       case r of
         Inl err \<Rightarrow> ret (False, Some err)
       | Inr _ \<Rightarrow>
           bnd (exit_reason cpu) (\<lambda>exit.
             if exit = ExitHlt then ret (False, None)
             else if exit = ExitMMIO \<or> exit = ExitIO then
               bnd (attempt (hypercall A hyp cpu)) (\<lambda>r.
                 case r of Inl err \<Rightarrow> ret (False, Some err) | Inr _ \<Rightarrow> ret (True, None))
             else if exit = ExitUnknown then ret (True, None)
             else if exit = ExitIntr then ret (True, None)
             else if exit = ExitDebug then ret (False, Some ErrDebug)
             else ret (False, Some (ErrorfW ''%w: %v'' [] [ExitType_String exit] ErrUnexpectedExitReason)))))"

text \<open>One turn of the loop of \<open>RunInfiniteLoop\<close>: \<open>None\<close> to go on, or the error to return.\<close>

definition loop_turn ::
  "'w host \<Rightarrow> ('w, 'c) arch \<Rightarrow> ('w, 'c) hyper \<Rightarrow> nat \<Rightarrow> bool \<Rightarrow>
   (('w, 'c) st, goerror option option) go" where
  "loop_turn h A hyp cpu trace =
     bnd (RunOnce h A hyp cpu) (\<lambda>(isContinue, err).
       if isContinue then
         bnd (case err of None \<Rightarrow> ret () | Some e \<Rightarrow> eprint h (fmt_err h e @ ''\<newline>'')) (\<lambda>_.
         bnd (attempt (SingleStep h trace)) (\<lambda>_. ret None))
       else ret (Some err))"

partial_function (option) RunInfiniteLoop ::
  "'w host \<Rightarrow> ('w, 'c) arch \<Rightarrow> ('w, 'c) hyper \<Rightarrow> nat \<Rightarrow> bool \<Rightarrow> ('w, 'c) st \<Rightarrow>
   (goerror option res \<times> ('w, 'c) st) option" where
  "RunInfiniteLoop h A hyp cpu trace s =
     (case loop_turn h A hyp cpu trace s of
        (Ok None, s') \<Rightarrow> RunInfiniteLoop h A hyp cpu trace s'
      | (Ok (Some err), s') \<Rightarrow> Some (Ok err, s')
      | (Err e, s') \<Rightarrow> Some (Err e, s')
      | (Panic p, s') \<Rightarrow> Some (Panic p, s'))"

text \<open>The body of the goroutine of \<open>StartVCPU\<close>, with the lines it prints; its result is the
  error it reports at the end, and a panic ends the process.\<close>

definition trace_inst :: "'w host \<Rightarrow> ('w, 'c) arch \<Rightarrow> nat \<Rightarrow> (('w, 'c) st, unit) go" where
  "trace_inst h A cpu =
     bnd (attempt (Inst A cpu)) (\<lambda>r.
     bnd (oprint h (case r of
            Inl err \<Rightarrow> ''disassembling after debug exit:'' @ fmt_err h err @ ''\<newline>''
          | Inr (pc, str) \<Rightarrow> fmt_hex pc @ '':'' @ str @ ''\<newline>'')) (\<lambda>_.
     bnd (attempt (SingleStep h True)) (\<lambda>_. ret ())))"

definition cpu_exited :: "'w host \<Rightarrow> nat \<Rightarrow> goerror option \<Rightarrow> (('w, 'c) st, goerror option) go" where
  "cpu_exited h cpu err =
     bnd (eprint h (''CPU '' @ dec_string cpu @ '' exited (err='' @ fmt_v h err @ '')\<newline>'')) (\<lambda>_. ret err)"

partial_function (option) vcpu_thread ::
  "'w host \<Rightarrow> ('w, 'c) arch \<Rightarrow> ('w, 'c) hyper \<Rightarrow> nat \<Rightarrow> bool \<Rightarrow> ('w, 'c) st \<Rightarrow>
   (goerror option res \<times> ('w, 'c) st) option" where
  "vcpu_thread h A hyp cpu trace s =
     Option.bind (RunInfiniteLoop h A hyp cpu trace s) (\<lambda>(r, s').
       case r of
         Ok err \<Rightarrow>
           if \<not> trace then Some (cpu_exited h cpu err s')
           else if err \<noteq> None \<and> errors_Is (the err) ErrDebug then
             (case trace_inst h A cpu s' of
                (Ok _, s'') \<Rightarrow> vcpu_thread h A hyp cpu trace s''
              | (Err e, s'') \<Rightarrow> Some (Err e, s'')
              | (Panic p, s'') \<Rightarrow> Some (Panic p, s''))
           else Some (cpu_exited h cpu err s')
       | Err e \<Rightarrow> Some (Err e, s')
       | Panic p \<Rightarrow> Some (Panic p, s'))"

section \<open>What running a virtual CPU preserves\<close>

lemma keeps_exit_reason [keeps_rules]: "keeps f (exit_reason cpu)"
  unfolding exit_reason_def by (intro keeps_rules)

lemma keeps_SingleStep [keeps_rules]:
  "keeps shape (SingleStep h b)" "keeps handler (SingleStep h b)"
  unfolding SingleStep_def by (intro keeps_rules)+

text \<open>
  The contract between the machine and its \<open>HypercallHandler\<close>: a property \<open>Q\<close> of the handler
  object and the machine's shape that the handler's method preserves is preserved by
  everything the machine does.
\<close>

locale handled_machine = machine_arch A for A :: "('w, 'c) arch" +
  fixes h :: "'w host"
    and hyp :: "('w, 'c) hyper"
    and Q :: "'c \<times> u64 \<times> u64 \<times> vm \<times> bool list \<Rightarrow> bool"
  assumes handler_ok: "preserves (\<lambda>s. Q (view s)) (hyp cpu n a0 a1 a2 a3 a4 a5)"
begin

lemma RunOnce_inv: "preserves (\<lambda>s. Q (view s)) (RunOnce h A hyp cpu)"
  unfolding RunOnce_def
  by (intro inv_rules hypercall_view handler_ok preserves_view keeps_rules)

lemma loop_turn_inv: "preserves (\<lambda>s. Q (view s)) (loop_turn h A hyp cpu trace)"
  unfolding loop_turn_def
  by (intro inv_rules RunOnce_inv preserves_view keeps_rules)

lemma trace_inst_inv: "preserves (\<lambda>s. Q (view s)) (trace_inst h A cpu)"
  unfolding trace_inst_def
  by (intro inv_rules preserves_view keeps_rules)

lemma RunInfiniteLoop_inv:
  assumes "RunInfiniteLoop h A hyp cpu trace s = Some (r, t)" and "Q (view s)"
  shows "Q (view t)"
proof -
  have "hh = h \<longrightarrow> AA = A \<longrightarrow> yp = hyp \<longrightarrow> Q (view s) \<longrightarrow> Q (view (snd y))"
    if "RunInfiniteLoop hh AA yp cpu trace s = Some y" for hh AA yp cpu trace s y
    using that
  proof (rule RunInfiniteLoop.raw_induct [rotated], goal_cases)
    case (1 f hh AA yp cpu trace s y)
    show ?case
    proof (intro impI)
      assume eq: "hh = h" "AA = A" "yp = hyp" and q: "Q (view s)"
      obtain r t where turn: "loop_turn h A hyp cpu trace s = (r, t)" by fastforce
      have qt: "Q (view t)" by (rule preservesD [OF loop_turn_inv q turn])
      show "Q (view (snd y))"
        using 1(2) 1(1) [of h A hyp cpu trace t y] eq turn qt
        by (auto split: res.splits option.splits)
    qed
  qed
  from this [OF assms(1)] assms(2) show ?thesis by simp
qed

end

end
