(* ===== verification/Container.thy ===== *)
theory Container
  imports Machine_Ops
begin

text \<open>
  \<open>container.go\<close> and \<open>hypercall.go\<close>: the handler object of the hypervisor. A container holds
  the directories that the guest may open files under and the table of open files; its
  method \<open>Hypercall\<close> serves the requests of the guest. One definition per branch of the
  source's switch.
\<close>

section \<open>The container\<close>

text \<open>An \<open>os.File\<close>: its descriptor and the name it was opened under.\<close>

record os_file =
  sysfd :: u64
  fname :: string

record Container =
  dirs :: "string list"
  fdtable :: "u64 \<rightharpoonup> os_file"
  nextfd :: u64

type_synonym 'w cst = "('w, Container) st"

definition std_files :: "u64 \<rightharpoonup> os_file" where
  "std_files = [0 \<mapsto> \<lparr>sysfd = 0, fname = ''/dev/stdin''\<rparr>, 1 \<mapsto> \<lparr>sysfd = 1, fname = ''/dev/stdout''\<rparr>,
     2 \<mapsto> \<lparr>sysfd = 2, fname = ''/dev/stderr''\<rparr>]"

text \<open>\<open>filepath.Abs\<close>\<close>

definition filepath_Abs :: "'w host \<Rightarrow> string \<Rightarrow> (('w, 'c) st, string) go" where
  "filepath_Abs h path =
     (if filepath_IsAbs path then ret (filepath_Clean path)
      else bnd (host_try (sys_getwd h)) (\<lambda>wd. ret (filepath_Join wd path)))"

fun abs_dirs :: "'w host \<Rightarrow> string list \<Rightarrow> (('w, 'c) st, string list) go" where
  "abs_dirs h [] = ret []"
| "abs_dirs h (dir # ds) =
     bnd (attempt (filepath_Abs h dir)) (\<lambda>r.
       case r of
         Inl err \<Rightarrow> panic (PanicErr err)
       | Inr path \<Rightarrow> bnd (abs_dirs h ds) (\<lambda>ps. ret (path # ps)))"

definition NewContainer :: "'w host \<Rightarrow> string list \<Rightarrow> (('w, 'c) st, Container) go" where
  "NewContainer h ds =
     bnd (abs_dirs h ds) (\<lambda>ps. ret \<lparr>dirs = ps, fdtable = std_files, nextfd = 3\<rparr>)"

definition Signal :: "('w, 'c) arch \<Rightarrow> (('w, 'c) st, unit) go" where
  "Signal A = InjectIrq A (SignalIRQ A) 1"

section \<open>Helpers of the hypercall handler\<close>

abbreviation (input) hypWrite :: u64 where "hypWrite \<equiv> 0"
abbreviation (input) hypExit :: u64 where "hypExit \<equiv> 1"
abbreviation (input) hypOpen :: u64 where "hypOpen \<equiv> 2"
abbreviation (input) hypRead :: u64 where "hypRead \<equiv> 3"
abbreviation (input) hypClose :: u64 where "hypClose \<equiv> 4"
abbreviation (input) hypLseek :: u64 where "hypLseek \<equiv> 5"
abbreviation (input) hypTime :: u64 where "hypTime \<equiv> 6"
abbreviation (input) hypFstat :: u64 where "hypFstat \<equiv> 7"
abbreviation (input) hypGetdents64 :: u64 where "hypGetdents64 \<equiv> 8"
abbreviation (input) hypClearSignal :: u64 where "hypClearSignal \<equiv> 9"

abbreviation (input) errFail :: u64 where "errFail \<equiv> NOT 0"
abbreviation (input) fdMax :: u64 where "fdMax \<equiv> 1024 * 1024"

definition addFile :: "os_file \<Rightarrow> ('w cst, u64) go" where
  "addFile f =
     bnd (gets handler) (\<lambda>c.
       if nextfd c \<ge> fdMax then throw (ErrNew ''reached maximum number of file descriptors'')
       else
         bnd (modify (\<lambda>s. s\<lparr>handler := c\<lparr>fdtable := (fdtable c)(nextfd c \<mapsto> f), nextfd := nextfd c + 1\<rparr>\<rparr>))
           (\<lambda>_. ret (nextfd c)))"

definition CanAccess :: "Container \<Rightarrow> string \<Rightarrow> bool" where
  "CanAccess c path \<longleftrightarrow> list_ex (\<lambda>dir. strings_HasPrefix path dir) (dirs c)"

definition cstring :: "bytes \<Rightarrow> string" where
  "cstring data = string_of_bytes (takeWhile (\<lambda>b. b \<noteq> 0) data)"

record hstat =
  hst_size :: u64
  hst_mode :: u32
  hst_mtim_sec :: u64
  hst_mtim_nsec :: u64
  hst_uid :: u32
  hst_gid :: u32
  hst_dev :: u64
  hst_rdev :: u64
  hst_ino :: u64

text \<open>The memory of a \<open>stat\<close> structure; four bytes of padding align \<open>mtim_sec\<close>.\<close>

definition enc_stat :: "hstat \<Rightarrow> bytes" where
  "enc_stat st = le64 (hst_size st) @ le32 (hst_mode st) @ le32 0 @ le64 (hst_mtim_sec st) @
     le64 (hst_mtim_nsec st) @ le32 (hst_uid st) @ le32 (hst_gid st) @ le64 (hst_dev st) @
     le64 (hst_rdev st) @ le64 (hst_ino st)"

abbreviation (input) sizeof_stat :: u64 where "sizeof_stat \<equiv> 64"

definition hstat_of :: "stat_t \<Rightarrow> hstat" where
  "hstat_of i = \<lparr>hst_size = st_size i, hst_mode = st_mode i, hst_mtim_sec = st_mtim_sec i,
     hst_mtim_nsec = st_mtim_nsec i, hst_uid = st_uid i, hst_gid = st_gid i, hst_dev = st_dev i,
     hst_rdev = st_rdev i, hst_ino = st_ino i\<rparr>"

text \<open>\<open>f, ok := c.fdtable[fd]; if !ok { return errFail, nil }\<close>\<close>

definition with_file :: "u64 \<Rightarrow> (os_file \<Rightarrow> ('w cst, u64) go) \<Rightarrow> ('w cst, u64) go" where
  "with_file fd k =
     bnd (gets handler) (\<lambda>c. case fdtable c fd of None \<Rightarrow> ret errFail | Some f \<Rightarrow> k f)"

text \<open>\<open>(*os.File).Read\<close>: nothing is read for an empty buffer; no bytes is the end of the file.\<close>

definition file_Read :: "'w host \<Rightarrow> os_file \<Rightarrow> slice \<Rightarrow> (('w, 'c) st, nat \<times> goerror option) go" where
  "file_Read h f sl =
     (if slice_len sl = 0 then ret (0, None)
      else
      bnd (host_call (sys_read h (sysfd f) (slice_len sl))) (\<lambda>r.
        case r of
          Inl e \<Rightarrow> ret (0, Some e)
        | Inr bs \<Rightarrow>
            (let bs = take (slice_len sl) bs
             in if bs = [] then ret (0, Some EOF)
                else bnd (slice_store sl bs) (\<lambda>_. ret (length bs, None)))))"

definition ReadDirent :: "'w host \<Rightarrow> os_file \<Rightarrow> slice \<Rightarrow> (('w, 'c) st, nat) go" where
  "ReadDirent h f sl =
     bnd (host_try (sys_getdents h (sysfd f) (slice_len sl))) (\<lambda>bs.
     (let bs = take (slice_len sl) bs in bnd (slice_store sl bs) (\<lambda>_. ret (length bs))))"

section \<open>The hypercalls\<close>

definition hyp_Time :: "'w host \<Rightarrow> ('w, Container) arch \<Rightarrow> nat \<Rightarrow> u64 \<Rightarrow> u64 \<Rightarrow> ('w cst, u64) go" where
  "hyp_Time h A cpu a0 a1 =
     bnd (host_call (sys_time h)) (\<lambda>(sec, nsec).
     bnd (VtoP A cpu a0) (\<lambda>a0.
     bnd (VtoP A cpu a1) (\<lambda>a1.
     bnd (Slice a0 (a0 + 8)) (\<lambda>s0.
     bnd (PutUint64 s0 sec) (\<lambda>_.
     bnd (Slice a1 (a1 + 8)) (\<lambda>s1.
     bnd (PutUint64 s1 nsec) (\<lambda>_. ret 0)))))))"

definition hyp_Getdents64 ::
  "'w host \<Rightarrow> ('w, Container) arch \<Rightarrow> nat \<Rightarrow> u64 \<Rightarrow> u64 \<Rightarrow> u64 \<Rightarrow> ('w cst, u64) go" where
  "hyp_Getdents64 h A cpu fd a1 count =
     bnd (VtoP A cpu a1) (\<lambda>dirp.
     with_file fd (\<lambda>f.
     bnd (Slice dirp (dirp + count)) (\<lambda>sl.
     bnd (attempt (ReadDirent h f sl)) (\<lambda>r.
       case r of Inl _ \<Rightarrow> ret errFail | Inr n \<Rightarrow> ret (word_of_nat n)))))"

definition hyp_Fstat ::
  "'w host \<Rightarrow> ('w, Container) arch \<Rightarrow> nat \<Rightarrow> u64 \<Rightarrow> u64 \<Rightarrow> ('w cst, u64) go" where
  "hyp_Fstat h A cpu fd a1 =
     bnd (VtoP A cpu a1) (\<lambda>ptr.
     with_file fd (\<lambda>f.
     bnd (attempt (host_try (sys_fstat h (sysfd f)))) (\<lambda>r.
       case r of
         Inl _ \<Rightarrow> ret errFail
       | Inr info \<Rightarrow>
           bnd (Slice ptr (ptr + sizeof_stat)) (\<lambda>sl.
           bnd (slice_store sl (enc_stat (hstat_of info))) (\<lambda>_. ret 0)))))"

definition hyp_Write ::
  "'w host \<Rightarrow> ('w, Container) arch \<Rightarrow> nat \<Rightarrow> u64 \<Rightarrow> u64 \<Rightarrow> u64 \<Rightarrow> ('w cst, u64) go" where
  "hyp_Write h A cpu fd a1 sz =
     bnd (VtoP A cpu a1) (\<lambda>ptr.
     with_file fd (\<lambda>f.
     bnd (Slice ptr (ptr + sz)) (\<lambda>sl.
     bnd (slice_bytes sl) (\<lambda>b.
     bnd (host_call (sys_write h (sysfd f) b)) (\<lambda>_. ret sz)))))"

definition hyp_Lseek :: "'w host \<Rightarrow> u64 \<Rightarrow> u64 \<Rightarrow> u64 \<Rightarrow> ('w cst, u64) go" where
  "hyp_Lseek h fd off whence =
     with_file fd (\<lambda>f.
     bnd (attempt (host_try (sys_lseek h (sysfd f) off whence))) (\<lambda>r.
       case r of Inl _ \<Rightarrow> ret errFail | Inr n \<Rightarrow> ret n))"

text \<open>\<open>os.OpenFile\<close> and the entry in the table.\<close>

definition open_file :: "'w host \<Rightarrow> string \<Rightarrow> u64 \<Rightarrow> u64 \<Rightarrow> ('w cst, u64) go" where
  "open_file h path flags mode =
     bnd (attempt (host_try (sys_open h path flags (ucast mode)))) (\<lambda>r.
       case r of
         Inl _ \<Rightarrow> ret errFail
       | Inr sfd \<Rightarrow>
           bnd (attempt (addFile \<lparr>sysfd = sfd, fname = path\<rparr>)) (\<lambda>r.
             case r of
               Inl err \<Rightarrow> bnd (host_call (\<lambda>w. ((), sys_log h (fmt_err h err) w))) (\<lambda>_. ret errFail)
             | Inr fd \<Rightarrow> ret fd))"

definition hyp_Open ::
  "'w host \<Rightarrow> ('w, Container) arch \<Rightarrow> nat \<Rightarrow> u64 \<Rightarrow> u64 \<Rightarrow> u64 \<Rightarrow> ('w cst, u64) go" where
  "hyp_Open h A cpu a0 flags mode =
     bnd (VtoP A cpu a0) (\<lambda>pa.
     bnd (SliceEnd pa) (\<lambda>sl.
     bnd (slice_bytes sl) (\<lambda>data.
     bnd (attempt (filepath_Abs h (cstring data))) (\<lambda>r.
       case r of
         Inl err \<Rightarrow> panic (PanicErr err)
       | Inr path \<Rightarrow>
           bnd (gets handler) (\<lambda>c.
             if \<not> CanAccess c path then
               bnd (eprint h (''[info] blocked access to '' @ path @ ''\<newline>'')) (\<lambda>_. ret errFail)
             else open_file h path flags mode)))))"

definition hyp_Read ::
  "'w host \<Rightarrow> ('w, Container) arch \<Rightarrow> nat \<Rightarrow> u64 \<Rightarrow> u64 \<Rightarrow> u64 \<Rightarrow> ('w cst, u64) go" where
  "hyp_Read h A cpu fd a1 sz =
     bnd (VtoP A cpu a1) (\<lambda>ptr.
     with_file fd (\<lambda>f.
     bnd (Slice ptr (ptr + sz)) (\<lambda>sl.
     bnd (file_Read h f sl) (\<lambda>(n, err).
       case err of
         Some e \<Rightarrow> if errors_Is e EOF then ret 0 else ret errFail
       | None \<Rightarrow> ret (word_of_nat n)))))"

definition hyp_Close :: "u64 \<Rightarrow> ('w cst, u64) go" where
  "hyp_Close fd =
     with_file fd (\<lambda>_.
     bnd (modify (\<lambda>s. s\<lparr>handler := (handler s)\<lparr>fdtable := (fdtable (handler s))(fd := None)\<rparr>\<rparr>)) (\<lambda>_.
     ret 0))"

definition hyp_ClearSignal :: "('w, Container) arch \<Rightarrow> u64 \<Rightarrow> ('w cst, u64) go" where
  "hyp_ClearSignal A a0 = bnd (attempt (InjectIrq A (ucast a0) 0)) (\<lambda>_. ret 0)"

definition Hypercall :: "'w host \<Rightarrow> ('w, Container) arch \<Rightarrow> ('w, Container) hyper" where
  "Hypercall h A cpu num a0 a1 a2 a3 a4 a5 =
     (if num = hypTime then hyp_Time h A cpu a0 a1
      else if num = hypGetdents64 then hyp_Getdents64 h A cpu a0 a1 a2
      else if num = hypFstat then hyp_Fstat h A cpu a0 a1
      else if num = hypWrite then hyp_Write h A cpu a0 a1 a2
      else if num = hypLseek then hyp_Lseek h a0 a1 a2
      else if num = hypOpen then hyp_Open h A cpu a0 a1 a2
      else if num = hypRead then hyp_Read h A cpu a0 a1 a2
      else if num = hypClose then hyp_Close a0
      else if num = hypExit then throw ErrExit
      else if num = hypClearSignal then hyp_ClearSignal A a0
      else bnd (GetPc A cpu) (\<lambda>pc.
        throw (ErrorfW ''%w: %d (pc=%x)'' [num, pc] [] ErrUnknownHypercall)))"

end
