(* ===== verification/Container_Inv.thy ===== *)
theory Container_Inv
  imports Container
begin

text \<open>
  The invariants of the container and the sandboxing of the guest: what every hypercall, on
  either architecture and whatever the host does, preserves of the table of open files and
  of the machine.
\<close>

section \<open>Frames of the hypercalls\<close>

text \<open>The hypercalls that do not touch the table of open files leave the whole container alone.\<close>

lemma keeps_with_file [keeps_rules]: "(\<And>x. keeps f (k x)) \<Longrightarrow> keeps f (with_file fd k)"
  unfolding with_file_def by (intro keeps_rules)

lemma keeps_file_ops [keeps_rules]:
  "keeps shape (file_Read h f sl)" "keeps handler (file_Read h f sl)"
  "keeps shape (ReadDirent h f sl)" "keeps handler (ReadDirent h f sl)"
  "keeps shape (filepath_Abs h p)" "keeps handler (filepath_Abs h p)"
  unfolding file_Read_def ReadDirent_def filepath_Abs_def Let_def by (intro keeps_rules)+

lemma keeps_shape_addFile [keeps_rules]: "keeps shape (addFile f)"
  unfolding addFile_def by (intro keeps_rules keeps_modify) simp

lemma keeps_shape_hyp_Close [keeps_rules]: "keeps shape (hyp_Close fd)"
  unfolding hyp_Close_def by (intro keeps_rules keeps_modify) simp

section \<open>The invariant\<close>

text \<open>
  The container's well-formedness: the directories are the configured ones, descriptors are
  handed out in order and below the limit, no descriptor at or above \<open>nextfd\<close> is in use, and
  every file that the guest opened has a name the access check accepts.
\<close>

definition may_open :: "string list \<Rightarrow> string \<Rightarrow> bool" where
  "may_open ds path \<longleftrightarrow> (\<exists>dir \<in> set ds. \<exists>rest. path = dir @ rest)"

definition container_inv :: "string list \<Rightarrow> Container \<Rightarrow> bool" where
  "container_inv ds c \<longleftrightarrow>
     dirs c = ds \<and> 3 \<le> nextfd c \<and> nextfd c \<le> fdMax \<and>
     (\<forall>fd f. fdtable c fd = Some f \<longrightarrow> fd < nextfd c \<and> (3 \<le> fd \<longrightarrow> may_open ds (fname f)))"

lemma may_open_code [code]: "may_open ds path \<longleftrightarrow> list_ex (strings_HasPrefix path) ds"
  by (simp add: may_open_def list_ex_iff HasPrefix_iff)

lemma CanAccess_iff: "CanAccess c path \<longleftrightarrow> may_open (dirs c) path"
  by (simp add: CanAccess_def may_open_def list_ex_iff HasPrefix_iff)

lemma Suc_below_limit:
  fixes n :: u64
  assumes "n < m"
  shows "n < n + 1" "n + 1 \<le> m"
proof -
  have "unat n < unat m" using assms by (simp add: word_less_nat_alt)
  from unat_Suc_below [OF this] this show "n < n + 1" "n + 1 \<le> m"
    by (simp_all add: word_less_nat_alt word_le_nat_alt)
qed

lemma container_inv_add:
  assumes "container_inv ds c" and "may_open ds (fname f)" and "nextfd c < fdMax"
  shows "container_inv ds (c\<lparr>fdtable := (fdtable c)(nextfd c \<mapsto> f), nextfd := nextfd c + 1\<rparr>)"
  using assms Suc_below_limit [of "nextfd c" fdMax]
  by (auto simp: container_inv_def split: if_splits intro: less_trans order_trans less_imp_le)

lemma container_inv_close:
  "container_inv ds c \<Longrightarrow> container_inv ds (c\<lparr>fdtable := (fdtable c)(fd := None)\<rparr>)"
  by (auto simp: container_inv_def split: if_splits)

text \<open>
  How the container may change over time: the directories stay, \<open>nextfd\<close> only grows, and a
  descriptor below the old \<open>nextfd\<close> keeps its file or loses it. No descriptor is ever bound to
  another file.
\<close>

definition evolves :: "Container \<Rightarrow> Container \<Rightarrow> bool" where
  "evolves c c' \<longleftrightarrow> dirs c' = dirs c \<and> nextfd c \<le> nextfd c' \<and>
     (\<forall>fd < nextfd c. fdtable c' fd = fdtable c fd \<or> fdtable c' fd = None)"

lemma evolves_refl [simp]: "evolves c c" by (simp add: evolves_def)

lemma evolves_add:
  assumes "evolves c0 c" and "nextfd c < fdMax"
  shows "evolves c0 (c\<lparr>fdtable := (fdtable c)(nextfd c \<mapsto> f), nextfd := nextfd c + 1\<rparr>)"
  using assms Suc_below_limit [of "nextfd c" fdMax]
  by (auto simp: evolves_def)

lemma evolves_close: "evolves c0 c \<Longrightarrow> evolves c0 (c\<lparr>fdtable := (fdtable c)(fd := None)\<rparr>)"
  by (auto simp: evolves_def)

text \<open>The invariant of a run that started with the container \<open>c0\<close>.\<close>

definition tracked :: "Container \<Rightarrow> Container \<Rightarrow> bool" where
  "tracked c0 c \<longleftrightarrow> container_inv (dirs c0) c \<and> evolves c0 c"

lemma tracked_dirs: "tracked c0 c \<Longrightarrow> dirs c = dirs c0"
  by (simp add: tracked_def container_inv_def)

text \<open>
  The contract under which a property of containers survives every hypercall: it fixes the
  configured directories, and it survives the two ways in which the handler changes its
  table, the entry of an admitted file at \<open>nextfd\<close> and the removal of an entry.
\<close>

locale container_law =
  fixes ds :: "string list" and T :: "Container \<Rightarrow> bool"
  assumes T_dirs: "T c \<Longrightarrow> dirs c = ds"
    and T_add: "T c \<Longrightarrow> may_open ds (fname f) \<Longrightarrow> nextfd c < fdMax \<Longrightarrow>
      T (c\<lparr>fdtable := (fdtable c)(nextfd c \<mapsto> f), nextfd := nextfd c + 1\<rparr>)"
    and T_close: "T c \<Longrightarrow> fdtable c fd = Some f \<Longrightarrow> T (c\<lparr>fdtable := (fdtable c)(fd := None)\<rparr>)"
begin

lemmas T_frame = keeps_preserves [where f = handler and P = T]

lemma addFile_inv:
  assumes "may_open ds (fname f)"
  shows "preserves (\<lambda>s. T (handler s)) (addFile f)"
  unfolding addFile_def
  by (rule preserves_gets_bnd) (intro inv_rules preserves_modify, simp add: T_add assms not_le)

lemma hyp_Close_inv: "preserves (\<lambda>s. T (handler s)) (hyp_Close fd)"
  unfolding preserves_def hyp_Close_def with_file_def
  by (auto simp: go_simps T_close split: option.splits)

lemma open_file_inv: "may_open ds path \<Longrightarrow> preserves (\<lambda>s. T (handler s)) (open_file h path flags mode)"
  unfolding open_file_def
  by (intro inv_rules addFile_inv T_frame keeps_rules) simp_all

end

interpretation tracked_law: container_law "dirs c0" "tracked c0"
  by unfold_locales (simp_all add: tracked_dirs tracked_def container_inv_add container_inv_close evolves_add evolves_close)

abbreviation cinv :: "Container \<Rightarrow> 'w cst \<Rightarrow> bool" where
  "cinv c0 s \<equiv> tracked c0 (handler s)"

lemmas cinv_frame = tracked_law.T_frame

text \<open>The same with the machine: its shape stays what it was.\<close>

type_synonym machine_shape = "u64 \<times> u64 \<times> vm \<times> bool list"

abbreviation sandboxed :: "Container \<Rightarrow> machine_shape \<Rightarrow> Container \<times> machine_shape \<Rightarrow> bool" where
  "sandboxed c0 sh \<equiv> \<lambda>(c, sh'). tracked c0 c \<and> sh' = sh"

locale container_machine = machine_arch A for A :: "('w, Container) arch" +
  fixes h :: "'w host"
begin

lemma keeps_GetPc [keeps_rules]: "keeps handler (GetPc A cpu)" "keeps shape (GetPc A cpu)"
  unfolding GetPc_def by (intro keeps_rules)+

lemma keeps_quiet [keeps_rules]:
  "keeps handler (hyp_Time h A cpu a0 a1)" "keeps handler (hyp_Getdents64 h A cpu a0 a1 a2)"
  "keeps handler (hyp_Fstat h A cpu a0 a1)" "keeps handler (hyp_Write h A cpu a0 a1 a2)"
  "keeps handler (hyp_Lseek h a0 a1 a2)" "keeps handler (hyp_Read h A cpu a0 a1 a2)"
  "keeps handler (hyp_ClearSignal A a0)"
  unfolding hyp_Time_def hyp_Getdents64_def hyp_Fstat_def hyp_Write_def hyp_Lseek_def hyp_Read_def
    hyp_ClearSignal_def
  by (intro keeps_rules)+

lemma keeps_shape_hypercalls [keeps_rules]:
  "keeps shape (hyp_Time h A cpu a0 a1)" "keeps shape (hyp_Getdents64 h A cpu a0 a1 a2)"
  "keeps shape (hyp_Fstat h A cpu a0 a1)" "keeps shape (hyp_Write h A cpu a0 a1 a2)"
  "keeps shape (hyp_Lseek h a0 a1 a2)" "keeps shape (hyp_Read h A cpu a0 a1 a2)"
  "keeps shape (hyp_ClearSignal A a0)" "keeps shape (hyp_Open h A cpu a0 a1 a2)"
  unfolding hyp_Time_def hyp_Getdents64_def hyp_Fstat_def hyp_Write_def hyp_Lseek_def hyp_Read_def
    hyp_ClearSignal_def hyp_Open_def open_file_def
  by (intro keeps_rules)+

lemma Hypercall_shape: "keeps shape (Hypercall h A cpu n a0 a1 a2 a3 a4 a5)"
  unfolding Hypercall_def by (intro keeps_rules)

end

interpretation c_isa: container_machine "arch_of isa h" h ..

text \<open>The container and the machine together.\<close>

locale container_run = container_machine A h + container_law ds T
  for A :: "('w, Container) arch" and h :: "'w host" and ds T
begin

lemma hyp_Open_inv: "preserves (\<lambda>s. T (handler s)) (hyp_Open h A cpu a0 a1 a2)"
  unfolding hyp_Open_def
  by (intro preserves_bnd preserves_attempt preserves_sum preserves_panic preserves_gets_bnd preserves_if
      preserves_ret open_file_inv T_frame keeps_rules)
    (simp add: CanAccess_iff T_dirs)

lemma Hypercall_inv: "preserves (\<lambda>s. T (handler s)) (Hypercall h A cpu n a0 a1 a2 a3 a4 a5)"
  unfolding Hypercall_def
  by (intro preserves_if hyp_Open_inv hyp_Close_inv T_frame keeps_rules)

lemma Hypercall_view_inv:
  "preserves (\<lambda>s. case view s of (c, sh') \<Rightarrow> T c \<and> sh' = sh) (Hypercall h A cpu n a0 a1 a2 a3 a4 a5)"
  using Hypercall_inv Hypercall_shape unfolding preserves_def keeps_def by simp

end

interpretation run_isa: container_run "arch_of isa h" h "dirs c0" "tracked c0" ..

end
