(* ===== verification/Container_Spec.thy ===== *)
theory Container_Spec
  imports Container_Inv
begin

text \<open>
  What each hypercall does, as equations: given the physical address that the pointer argument
  translates to, the result and the state a hypercall leaves. The equations hold for any
  translation, so for both architectures.
\<close>

section \<open>The structure behind \<open>fstat\<close>\<close>

lemma length_enc_stat [simp]: "length (enc_stat st) = 64"
  by (simp add: enc_stat_def)

section \<open>Sequencing\<close>

lemma with_file_Some: "fdtable (handler s) fd = Some f \<Longrightarrow> with_file fd k s = k f s"
  by (simp add: with_file_def go_simps)

lemma with_file_None: "fdtable (handler s) fd = None \<Longrightarrow> with_file fd k s = (Ok errFail, s)"
  by (simp add: with_file_def go_simps)

lemma host_call_eq [go_simps]: "f (world s) = (x, w) \<Longrightarrow> host_call f s = (Ok x, s\<lparr>world := w\<rparr>)"
  by (simp add: host_call_def)

lemma host_try_eq:
  "f (world s) = (Inr x, w) \<Longrightarrow> host_try f s = (Ok x, s\<lparr>world := w\<rparr>)"
  "f (world s) = (Inl e, w) \<Longrightarrow> host_try f s = (Err e, s\<lparr>world := w\<rparr>)"
  by (simp_all add: host_try_def go_simps)

section \<open>Reading and writing files\<close>

lemma map_ram_write_Nil [simp]: "map_ram (mem_write off []) s = s"
  by (simp add: map_ram_def map_vm_def map_machine_def)

lemma file_Read_bytes:
  assumes "guest_range s ptr n" and "n \<noteq> 0" and "sys_read h (sysfd f) n (world s) = (Inr bs, w)"
    and "length bs \<le> n"
  shows "file_Read h f \<lparr>lo = ram_off ptr, hi = ram_off ptr + n\<rparr> s =
    (Ok (length bs, if bs = [] then Some EOF else None), map_ram (mem_write (ram_off ptr) bs) (s\<lparr>world := w\<rparr>))"
  using assms by (simp add: file_Read_def slice_len_def go_simps Let_def)

lemma hyp_Read_bytes:
  assumes "VtoP A cpu a1 s = (Ok ptr, t)" and "fdtable (handler t) fd = Some f"
    and "guest_range t ptr (unat sz)" and "sz \<noteq> 0"
    and "sys_read h (sysfd f) (unat sz) (world t) = (Inr bs, w)" and "length bs \<le> unat sz"
  shows "hyp_Read h A cpu fd a1 sz s =
    (Ok (word_of_nat (length bs)), map_ram (mem_write (ram_off ptr) bs) (t\<lparr>world := w\<rparr>))"
  using assms by (simp add: hyp_Read_def go_simps with_file_Some Slice_range file_Read_bytes unat_eq_zero)

lemma hyp_Read_error:
  assumes "VtoP A cpu a1 s = (Ok ptr, t)" and "fdtable (handler t) fd = Some f"
    and "guest_range t ptr (unat sz)" and "sz \<noteq> 0"
    and "sys_read h (sysfd f) (unat sz) (world t) = (Inl e, w)"
  shows "hyp_Read h A cpu fd a1 sz s = (Ok (if errors_Is e EOF then 0 else errFail), t\<lparr>world := w\<rparr>)"
  using assms
  by (simp add: hyp_Read_def go_simps with_file_Some Slice_range file_Read_def slice_len_def unat_eq_zero)

lemma hyp_Write_bytes:
  assumes "VtoP A cpu a1 s = (Ok ptr, t)" and "fdtable (handler t) fd = Some f"
    and "guest_range t ptr (unat sz)"
  shows "hyp_Write h A cpu fd a1 sz s =
    (Ok sz, t\<lparr>world := snd (sys_write h (sysfd f) (mem_read (ram_off ptr) (unat sz) (ram t)) (world t))\<rparr>)"
  using assms
  by (simp add: hyp_Write_def go_simps with_file_Some Slice_range host_call_eq [OF prod.collapse [symmetric]])

lemma hyp_Fstat_stat:
  assumes "VtoP A cpu a1 s = (Ok ptr, t)" and "fdtable (handler t) fd = Some f"
    and "guest_range t ptr 64" and "sys_fstat h (sysfd f) (world t) = (Inr info, w)"
  shows "hyp_Fstat h A cpu fd a1 s =
    (Ok 0, map_ram (mem_write (ram_off ptr) (enc_stat (hstat_of info))) (t\<lparr>world := w\<rparr>))"
proof -
  have "Slice ptr (ptr + 64) (t\<lparr>world := w\<rparr>) = (Ok \<lparr>lo = ram_off ptr, hi = ram_off ptr + 64\<rparr>, t\<lparr>world := w\<rparr>)"
    using Slice_range [of "t\<lparr>world := w\<rparr>" ptr 64] assms(3) by simp
  with assms show ?thesis
    by (simp add: hyp_Fstat_def go_simps with_file_Some attempt_def host_try_eq)
qed

lemma hyp_Getdents64_bytes:
  assumes "VtoP A cpu a1 s = (Ok ptr, t)" and "fdtable (handler t) fd = Some f"
    and "guest_range t ptr (unat n)"
    and "sys_getdents h (sysfd f) (unat n) (world t) = (Inr bs, w)" and "length bs \<le> unat n"
  shows "hyp_Getdents64 h A cpu fd a1 n s =
    (Ok (word_of_nat (length bs)), map_ram (mem_write (ram_off ptr) bs) (t\<lparr>world := w\<rparr>))"
  using assms
  by (simp add: hyp_Getdents64_def go_simps with_file_Some Slice_range attempt_def ReadDirent_def slice_len_def
      host_try_eq Let_def)

lemma hyp_Time_stores:
  assumes "sys_time h (world s) = ((sec, nsec), w)"
    and "VtoP A cpu a0 (s\<lparr>world := w\<rparr>) = (Ok p0, t0)" and "VtoP A cpu a1 t0 = (Ok p1, t)"
    and "guest_range t p0 8" and "guest_range t p1 8"
  shows "hyp_Time h A cpu a0 a1 s =
    (Ok 0, map_ram (mem_write (ram_off p1) (le64 nsec)) (map_ram (mem_write (ram_off p0) (le64 sec)) t))"
proof -
  let ?t = "map_ram (mem_write (ram_off p0) (le64 sec)) t"
  have g: "guest_range ?t p1 8" using assms(4,5) by (simp add: guest_range_write)
  have "Slice p0 (p0 + 8) t = (Ok \<lparr>lo = ram_off p0, hi = ram_off p0 + 8\<rparr>, t)"
    "Slice p1 (p1 + 8) ?t = (Ok \<lparr>lo = ram_off p1, hi = ram_off p1 + 8\<rparr>, ?t)"
    using Slice_range [of t p0 8] Slice_range [of ?t p1 8] assms(4) g by simp_all
  with assms g show ?thesis by (simp add: hyp_Time_def go_simps)
qed

section \<open>Opening files\<close>

text \<open>A NUL-terminated string in memory is read back by \<open>cstring\<close>.\<close>

lemma cstring_cstr: "CHR 0x00 \<notin> set a \<Longrightarrow> cstring (cstr a @ r) = a"
  by (simp add: cstring_def takeWhile_cstr)

lemma attempt_OkE:
  assumes "attempt m s = (Ok r, t)"
  obtains e where "r = Inl e" "m s = (Err e, t)" | x where "r = Inr x" "m s = (Ok x, t)"
  using assms by (auto simp: attempt_def split: prod.splits res.splits)

lemma addFile_Ok:
  "addFile f s = (Ok fd, t) \<longleftrightarrow>
   nextfd (handler s) < fdMax \<and> fd = nextfd (handler s) \<and>
   t = s\<lparr>handler := (handler s)\<lparr>fdtable := (fdtable (handler s))(fd \<mapsto> f), nextfd := fd + 1\<rparr>\<rparr>"
  by (auto simp: addFile_def go_simps)

lemma addFile_Err: "addFile f s = (Err e, t) \<Longrightarrow> t = s \<and> \<not> nextfd (handler s) < fdMax"
  by (auto simp: addFile_def go_simps split: if_splits)

lemma errFail_above: "\<not> (errFail :: u64) < fdMax"
  by code_simp

text \<open>The container after an attempt to open \<open>path\<close>: unchanged, or with one entry more.\<close>

definition opened :: "string \<Rightarrow> u64 \<Rightarrow> Container \<Rightarrow> Container \<Rightarrow> bool" where
  "opened path r c c' \<longleftrightarrow>
     (r = errFail \<and> c' = c) \<or>
     (r = nextfd c \<and> r < fdMax \<and>
      (\<exists>sfd. c' = c\<lparr>fdtable := (fdtable c)(r \<mapsto> \<lparr>sysfd = sfd, fname = path\<rparr>), nextfd := r + 1\<rparr>))"

lemma open_file_opened:
  assumes "open_file h path flags mode s = (Ok r, t)"
  shows "opened path r (handler s) (handler t)"
proof -
  note frame = keepsD [OF keeps_attempt [OF keeps_host_try [OF keeps_host_call(2)]]] keepsD [OF keeps_host_call(2)]
  from assms obtain x s1 where
    open1: "attempt (host_try (sys_open h path flags (ucast mode))) s = (Ok x, s1)" and
    k: "(case x of Inl _ \<Rightarrow> ret errFail
       | Inr sfd \<Rightarrow> bnd (attempt (addFile \<lparr>sysfd = sfd, fname = path\<rparr>)) (\<lambda>r.
             case r of
               Inl err \<Rightarrow> bnd (host_call (\<lambda>w. ((), sys_log h (fmt_err h err) w))) (\<lambda>_. ret errFail)
             | Inr fd \<Rightarrow> ret fd)) s1 = (Ok r, t)"
    unfolding open_file_def by (rule bnd_OkE)
  from open1 have s1: "handler s1 = handler s" by (rule frame)
  show ?thesis
  proof (cases x)
    case (Inl e)
    with k s1 show ?thesis by (auto simp: opened_def go_simps)
  next
    case (Inr sfd)
    with k s1 show ?thesis
      by (auto simp: opened_def go_simps addFile_Ok dest!: addFile_Err elim!: bnd_OkE attempt_OkE)
  qed
qed

text \<open>What \<open>os.Getwd\<close> promises: a rooted path.\<close>

definition rooted_getwd :: "'w host \<Rightarrow> bool" where
  "rooted_getwd h \<longleftrightarrow> (\<forall>w d w'. sys_getwd h w = (Inr d, w') \<longrightarrow> filepath_IsAbs d)"

lemma filepath_Abs_clean:
  assumes "rooted_getwd h" and "filepath_Abs h p s = (Ok q, t)"
  shows "clean_abs q"
proof (cases "filepath_IsAbs p")
  case True
  with assms(2) show ?thesis by (auto simp: filepath_Abs_def go_simps Clean_abs)
next
  case False
  with assms show ?thesis
    by (auto simp: filepath_Abs_def go_simps host_try_def host_call_def rooted_getwd_def Join_abs split_beta
        split: sum.splits elim!: bnd_OkE) (metis Join_abs prod.collapse)
qed

context container_machine
begin

lemma hyp_Open_opened:
  assumes "hyp_Open h A cpu a0 flags mode s = (Ok r, t)"
  shows "\<exists>path. (r \<noteq> errFail \<longrightarrow> may_open (dirs (handler s)) path) \<and>
    (rooted_getwd h \<longrightarrow> clean_abs path) \<and> opened path r (handler s) (handler t)"
proof -
  from assms obtain pa s1 sl s2 data s3 x s4 where
    steps: "VtoP A cpu a0 s = (Ok pa, s1)" "SliceEnd pa s1 = (Ok sl, s2)" "slice_bytes sl s2 = (Ok data, s3)"
      "attempt (filepath_Abs h (cstring data)) s3 = (Ok x, s4)"
    and k: "(case x of Inl err \<Rightarrow> panic (PanicErr err)
       | Inr path \<Rightarrow> bnd (gets handler) (\<lambda>c. if \<not> CanAccess c path then
               bnd (eprint h (''[info] blocked access to '' @ path @ ''\<newline>'')) (\<lambda>_. ret errFail)
             else open_file h path flags mode)) s4 = (Ok r, t)"
    unfolding hyp_Open_def by (elim bnd_OkE)
  have s4: "handler s4 = handler s"
    using keepsD [OF arch_frame(1) steps(1)] keepsD [OF keeps_slices(2) steps(2)]
      keepsD [OF keeps_slices(3) steps(3)] keepsD [OF keeps_attempt [OF keeps_file_ops(6)] steps(4)] by metis
  from k obtain path where x: "x = Inr path" by (cases x) (auto simp: go_simps)
  with steps(4) have abs: "filepath_Abs h (cstring data) s3 = (Ok path, s4)" by (auto elim: attempt_OkE)
  show ?thesis
  proof (cases "CanAccess (handler s) path")
    case True
    with k x s4 have "open_file h path flags mode s4 = (Ok r, t)" by (simp add: go_simps)
    from open_file_opened [OF this] s4 True abs show ?thesis
      by (auto simp: CanAccess_iff intro: filepath_Abs_clean)
  next
    case False
    with k x s4 have "r = errFail" "handler t = handler s"
      by (auto simp: go_simps elim!: bnd_OkE dest: keepsD [OF keeps_eprint(2)])
    with abs show ?thesis by (auto simp: opened_def intro: filepath_Abs_clean)
  qed
qed

end

text \<open>A container in a legal state.\<close>

definition legal :: "Container \<Rightarrow> bool" where
  "legal c \<longleftrightarrow> container_inv (dirs c) c"

section \<open>Properties\<close>

text \<open>A concrete container and state for the examples: a RAM of 96 bytes.\<close>

definition sample_container :: Container where
  "sample_container = \<lparr>dirs = [''/w''], fdtable = std_files, nextfd = 3\<rparr>"

lemma legal_sample: "legal sample_container"
  by (auto simp: legal_def container_inv_def sample_container_def std_files_def word_le_nat_alt word_less_nat_alt
      split: if_splits)

abbreviation sample_state :: "(unit, Container) st" where
  "sample_state \<equiv> blank_state 96 sample_container"

lemma sample_state_simps [simp]:
  "handler (blank_state n c) = c" "length (ram (blank_state n c)) = n" "world (blank_state n c) = ()"
  by (simp_all add: blank_state_def)

lemma sample_files [simp]: "fdtable sample_container 1 = Some \<lparr>sysfd = 1, fname = ''/dev/stdout''\<rparr>"
  "fdtable sample_container 0 = Some \<lparr>sysfd = 0, fname = ''/dev/stdin''\<rparr>" "fdtable sample_container 9 = None"
  by (simp_all add: sample_container_def std_files_def)

lemma arm64_VtoP_eq [simp]: "VtoP (arm64 h) cpu a s = (Ok (arm64_ka2pa a), s)"
  by (simp add: arm64_def arm64_VtoP_def ret_def)

abbreviation sample_ptr :: u64 where "sample_ptr \<equiv> arm64_pa2ka 0x40000008"

lemma sample_ptr [simp]: "arm64_ka2pa sample_ptr = 0x40000008" "ram_off 0x40000008 = 8"
  "n \<le> 88 \<Longrightarrow> guest_range sample_state 0x40000008 n"
  by (simp_all add: arm64_ka2pa_pa2ka guest_range_def ram_off_def)

text \<open>C23. The read hypercall delivers exactly what the host read: with a translated pointer whose
  buffer lies in RAM and an open descriptor, the bytes of the host appear at the start of the
  buffer, nothing else in RAM changes, and the guest gets their number (0 at the end of the
  file); a host error gives the failure value and leaves RAM alone.\<close>

theorem read_hypercall:
  assumes "VtoP A cpu a1 s = (Ok ptr, t)" and "fdtable (handler t) fd = Some f"
    and "guest_range t ptr (unat sz)" and "sz \<noteq> 0"
    and "sys_read h (sysfd f) (unat sz) (world t) = (r, w)" and "\<forall>bs. r = Inr bs \<longrightarrow> length bs \<le> unat sz"
  shows "Hypercall h A cpu hypRead fd a1 sz a3 a4 a5 s =
    (case r of
       Inr bs \<Rightarrow> (Ok (word_of_nat (length bs)), map_ram (mem_write (ram_off ptr) bs) (t\<lparr>world := w\<rparr>))
     | Inl e \<Rightarrow> (Ok (if errors_Is e EOF then 0 else errFail), t\<lparr>world := w\<rparr>))"
  using assms
  by (cases r) (simp_all add: Hypercall_def hyp_Read_bytes [OF assms(1-4)] hyp_Read_error [OF assms(1-4)])

theorem read_hypercall_witness:
  "Hypercall (ok_host\<lparr>sys_read := \<lambda>fd n w. (Inr [65, 66], w)\<rparr>) (arm64 ok_host) 0 hypRead 0 sample_ptr 5 0 0 0 sample_state =
   (Ok 2, map_ram (mem_write 8 [65, 66]) sample_state)"
  using read_hypercall [of "arm64 ok_host" 0 sample_ptr sample_state "0x40000008" sample_state 0
    "\<lparr>sysfd = 0, fname = ''/dev/stdin''\<rparr>" 5 "ok_host\<lparr>sys_read := \<lambda>fd n w. (Inr [65, 66], w)\<rparr>" "Inr [65, 66]" "()"]
  by simp

lemma write_hypercall_eq:
  assumes "VtoP A cpu a1 s = (Ok ptr, t)" and "fdtable (handler t) fd = Some f"
    and "guest_range t ptr (unat sz)"
  shows "Hypercall h A cpu hypWrite fd a1 sz a3 a4 a5 s =
    (Ok sz, t\<lparr>world := snd (sys_write h (sysfd f) (mem_read (ram_off ptr) (unat sz) (ram t)) (world t))\<rparr>)"
  by (simp add: Hypercall_def hyp_Write_bytes [OF assms])

text \<open>C24. The write hypercall hands the host exactly the bytes of the guest's buffer, once, changes
  nothing of the guest or of the container, and tells the guest that all of them were
  written, whatever the host answered.\<close>

theorem write_hypercall:
  assumes "VtoP A cpu a1 s = (Ok ptr, t)" and "fdtable (handler t) fd = Some f"
    and "guest_range t ptr (unat sz)"
  shows "Hypercall h A cpu hypWrite fd a1 sz a3 a4 a5 s =
    (Ok sz, t\<lparr>world := snd (sys_write h (sysfd f) (mem_read (ram_off ptr) (unat sz) (ram t)) (world t))\<rparr>)"
  using assms by (rule write_hypercall_eq)

theorem write_hypercall_witness:
  "Hypercall (ok_host\<lparr>sys_write := \<lambda>fd b w. (Inl (Errno 28), w)\<rparr>) (arm64 ok_host) 0 hypWrite 1 sample_ptr 5 0 0 0 sample_state =
   (Ok 5, sample_state)"
  using write_hypercall [of "arm64 ok_host" 0 sample_ptr sample_state "0x40000008" sample_state 1
    "\<lparr>sysfd = 1, fname = ''/dev/stdout''\<rparr>" 5] by simp

text \<open>C25. The fstat hypercall gives the guest the host's answer in the layout of its structure: in the 64 bytes
  at the pointer, the size is at offset 0, the mode at 8, the modification time at 16 and 24, the owner and the
  group at 32 and 36, the device numbers at 40 and 48 and the inode at 56, each the host's; the rest of RAM and
  the container stay as they were.\<close>

theorem fstat_hypercall:
  assumes "VtoP A cpu a1 s = (Ok ptr, t)" and "fdtable (handler t) fd = Some f"
    and "guest_range t ptr 64" and "sys_fstat h (sysfd f) (world t) = (Inr info, w)"
  shows "\<exists>u b. Hypercall h A cpu hypFstat fd a1 a2 a3 a4 a5 s = (Ok 0, u) \<and> b = mem_read (ram_off ptr) 64 (ram u) \<and>
    rd64 b = st_size info \<and> rd32 (drop 8 b) = st_mode info \<and>
    rd64 (drop 16 b) = st_mtim_sec info \<and> rd64 (drop 24 b) = st_mtim_nsec info \<and>
    rd32 (drop 32 b) = st_uid info \<and> rd32 (drop 36 b) = st_gid info \<and>
    rd64 (drop 40 b) = st_dev info \<and> rd64 (drop 48 b) = st_rdev info \<and> rd64 (drop 56 b) = st_ino info \<and>
    (\<forall>i < length (ram t). i < ram_off ptr \<or> ram_off ptr + 64 \<le> i \<longrightarrow> ram u ! i = ram t ! i) \<and>
    length (ram u) = length (ram t) \<and> handler u = handler t"
proof -
  let ?e = "enc_stat (hstat_of info)"
  have fits: "ram_off ptr + 64 \<le> length (ram t)" using assms(3) by (simp add: guest_range_def)
  then have "mem_read (ram_off ptr) 64 (mem_write (ram_off ptr) ?e (ram t)) = ?e"
    using mem_read_write_same [of "ram_off ptr" ?e "ram t"] by simp
  moreover have "rd64 ?e = st_size info \<and> rd32 (drop 8 ?e) = st_mode info \<and>
    rd64 (drop 16 ?e) = st_mtim_sec info \<and> rd64 (drop 24 ?e) = st_mtim_nsec info \<and>
    rd32 (drop 32 ?e) = st_uid info \<and> rd32 (drop 36 ?e) = st_gid info \<and>
    rd64 (drop 40 ?e) = st_dev info \<and> rd64 (drop 48 ?e) = st_rdev info \<and> rd64 (drop 56 ?e) = st_ino info"
    using rd_le(4) [of "st_ino info" "[]"] by (simp add: enc_stat_def hstat_of_def)
  ultimately show ?thesis
    using fits by (intro exI [of _ "map_ram (mem_write (ram_off ptr) ?e) (t\<lparr>world := w\<rparr>)"] exI [of _ ?e])
      (simp add: Hypercall_def hyp_Fstat_stat [OF assms] nth_mem_write)
qed

definition sample_info :: stat_t where
  "sample_info = \<lparr>st_size = 10, st_mode = 0x81a4, st_mtim_sec = 7, st_mtim_nsec = 8, st_uid = 1, st_gid = 2,
     st_dev = 3, st_rdev = 0, st_ino = 99\<rparr>"

theorem fstat_hypercall_witness:
  "\<exists>u. Hypercall (ok_host\<lparr>sys_fstat := \<lambda>fd w. (Inr sample_info, w)\<rparr>) (arm64 ok_host) 0 hypFstat 1 sample_ptr 0 0 0 0
     sample_state = (Ok 0, u) \<and> rd32 (drop 32 (mem_read 8 64 (ram u))) = 1 \<and> rd32 (drop 36 (mem_read 8 64 (ram u))) = 2"
  using fstat_hypercall [of "arm64 ok_host" 0 sample_ptr sample_state "0x40000008" sample_state 1
    "\<lparr>sysfd = 1, fname = ''/dev/stdout''\<rparr>" "ok_host\<lparr>sys_fstat := \<lambda>fd w. (Inr sample_info, w)\<rparr>" sample_info "()" 0 0 0 0]
  by (auto simp: sample_info_def)

text \<open>The time hypercall stores the seconds and the nanoseconds of one reading of the host's
  clock, as little-endian words, at the two translated pointers, and changes nothing else.\<close>

lemma time_hypercall:
  assumes "sys_time h (world s) = ((sec, nsec), w)"
    and "VtoP A cpu a0 (s\<lparr>world := w\<rparr>) = (Ok p0, t0)" and "VtoP A cpu a1 t0 = (Ok p1, t)"
    and "guest_range t p0 8" and "guest_range t p1 8"
  shows "Hypercall h A cpu hypTime a0 a1 a2 a3 a4 a5 s =
    (Ok 0, map_ram (mem_write (ram_off p1) (le64 nsec)) (map_ram (mem_write (ram_off p0) (le64 sec)) t))"
  by (simp add: Hypercall_def hyp_Time_stores [OF assms])

text \<open>Listing a directory: the directory entries the host delivered appear at the pointer
  and the guest gets their size in bytes; a host error gives the failure value and leaves RAM
  alone.\<close>

lemma getdents_hypercall:
  assumes "VtoP A cpu a1 s = (Ok ptr, t)" and "fdtable (handler t) fd = Some f"
    and "guest_range t ptr (unat n)" and "sys_getdents h (sysfd f) (unat n) (world t) = (r, w)"
    and "\<forall>bs. r = Inr bs \<longrightarrow> length bs \<le> unat n"
  shows "Hypercall h A cpu hypGetdents64 fd a1 n a3 a4 a5 s =
    (case r of
       Inr bs \<Rightarrow> (Ok (word_of_nat (length bs)), map_ram (mem_write (ram_off ptr) bs) (t\<lparr>world := w\<rparr>))
     | Inl e \<Rightarrow> (Ok errFail, t\<lparr>world := w\<rparr>))"
proof (cases r)
  case (Inl e)
  with assms show ?thesis
    by (simp add: Hypercall_def hyp_Getdents64_def go_simps with_file_Some Slice_range attempt_def ReadDirent_def
        slice_len_def host_try_eq Let_def)
next
  case (Inr bs)
  with assms show ?thesis by (simp add: Hypercall_def hyp_Getdents64_bytes [OF assms(1-3)])
qed

text \<open>C27. A descriptor that is not in the table is refused: every hypercall on files answers with
  the failure value, without a call into the host on files and without changing the
  container; only the translation of the pointer argument happens before.\<close>

theorem unknown_descriptor:
  assumes "fdtable (handler s) fd = None"
  shows "Hypercall h (arch_of isa h) cpu hypLseek fd a1 a2 a3 a4 a5 s = (Ok errFail, s) \<and>
    Hypercall h (arch_of isa h) cpu hypClose fd a1 a2 a3 a4 a5 s = (Ok errFail, s) \<and>
    (\<forall>num \<in> {hypWrite, hypRead, hypFstat, hypGetdents64}.
       Hypercall h (arch_of isa h) cpu num fd a1 a2 a3 a4 a5 s =
         (case VtoP (arch_of isa h) cpu a1 s of
            (Ok _, t) \<Rightarrow> (Ok errFail, t) | (Err e, t) \<Rightarrow> (Err e, t) | (Panic q, t) \<Rightarrow> (Panic q, t)))"
proof -
  obtain r t where v: "VtoP (arch_of isa h) cpu a1 s = (r, t)" by (cases "VtoP (arch_of isa h) cpu a1 s")
  have "handler t = handler s" by (rule keepsD [OF on_isa.arch_frame(1) v])
  with assms have "fdtable (handler t) fd = None" by simp
  with v assms show ?thesis
    by (cases r) (simp_all add: Hypercall_def hyp_Lseek_def hyp_Close_def hyp_Write_def hyp_Read_def hyp_Fstat_def
        hyp_Getdents64_def go_simps with_file_None)
qed

theorem unknown_descriptor_witness:
  "Hypercall ok_host (arch_of ARM64 ok_host) 0 hypClose 9 0 0 0 0 0 sample_state = (Ok errFail, sample_state) \<and>
   Hypercall ok_host (arch_of ARM64 ok_host) 0 hypRead 9 sample_ptr 4 0 0 0 sample_state = (Ok errFail, sample_state)"
  using unknown_descriptor [of sample_state 9 ok_host ARM64 0 0 0 0 0 0]
    unknown_descriptor [of sample_state 9 ok_host ARM64 0 sample_ptr 4 0 0 0] by simp

text \<open>C26. Closing removes exactly one entry: the descriptor is gone and a second close of it
  fails, every other entry, the directories, the descriptor counter, the guest and the host
  stay as they were.\<close>

theorem close_hypercall:
  assumes "fdtable (handler s) fd = Some f"
  shows "\<exists>t. Hypercall h A cpu hypClose fd a1 a2 a3 a4 a5 s = (Ok 0, t) \<and>
    t = s\<lparr>handler := (handler s)\<lparr>fdtable := (fdtable (handler s))(fd := None)\<rparr>\<rparr> \<and>
    Hypercall h A cpu hypClose fd b1 b2 b3 b4 b5 t = (Ok errFail, t)"
  using assms by (simp add: Hypercall_def hyp_Close_def go_simps with_file_Some with_file_None)

theorem close_hypercall_witness:
  "\<exists>t. Hypercall ok_host (arm64 ok_host) 0 hypClose 1 0 0 0 0 0 sample_state = (Ok 0, t) \<and>
     Hypercall ok_host (arm64 ok_host) 0 hypClose 1 0 0 0 0 0 t = (Ok errFail, t)"
  using close_hypercall [of sample_state 1 _ ok_host "arm64 ok_host" 0 0 0 0 0 0 0 0 0 0 0] by auto

text \<open>C8. Opening a file, on either architecture: the guest gets the failure value and the
  container is unchanged, or it gets a fresh descriptor, at least 3 and below the limit, that
  now denotes a file whose name is a cleaned absolute path admitted by the configuration; no
  other entry changes. \<open>os.Getwd\<close> is assumed to return a rooted path.\<close>

theorem open_hypercall:
  assumes "Hypercall h (arch_of isa h) cpu hypOpen a0 flags mode a3 a4 a5 s = (Ok r, t)"
    and "legal (handler s)" and "rooted_getwd h"
  shows "(r = errFail \<and> handler t = handler s) \<or>
    (\<exists>path sfd. may_open (dirs (handler s)) path \<and> clean_abs path \<and>
       fdtable (handler s) r = None \<and> 3 \<le> r \<and> r < fdMax \<and>
       handler t = (handler s)\<lparr>fdtable := (fdtable (handler s))(r \<mapsto> \<lparr>sysfd = sfd, fname = path\<rparr>), nextfd := r + 1\<rparr>)"
proof -
  from assms(1) have "hyp_Open h (arch_of isa h) cpu a0 flags mode s = (Ok r, t)" by (simp add: Hypercall_def)
  from c_isa.hyp_Open_opened [OF this] assms(3) obtain path where
    path: "r \<noteq> errFail \<Longrightarrow> may_open (dirs (handler s)) path" "clean_abs path" "opened path r (handler s) (handler t)"
    by blast
  show ?thesis
  proof (cases "r = errFail \<and> handler t = handler s")
    case False
    with path(3) obtain sfd where r: "r = nextfd (handler s)" "r < fdMax"
      and t: "handler t = (handler s)\<lparr>fdtable := (fdtable (handler s))(r \<mapsto> \<lparr>sysfd = sfd, fname = path\<rparr>), nextfd := r + 1\<rparr>"
      by (auto simp: opened_def)
    have "r \<noteq> errFail" using r(2) errFail_above by auto
    moreover have "3 \<le> r" "fdtable (handler s) r = None"
      using assms(2) r(1) by (auto simp: legal_def container_inv_def) (metis less_irrefl not_None_eq)
    ultimately show ?thesis using path r t by blast
  qed simp
qed

definition named_state :: "(unit, Container) st" where
  "named_state = map_ram (\<lambda>_. replicate 8 0 @ cstr ''/w/a'' @ replicate 83 0) sample_state"

lemma sample_open:
  "Hypercall ok_host (arch_of ARM64 ok_host) 0 hypOpen sample_ptr 0 0 0 0 0 named_state =
   (Ok 3, named_state\<lparr>handler := sample_container\<lparr>fdtable := std_files(3 \<mapsto> \<lparr>sysfd = 7, fname = ''/w/a''\<rparr>), nextfd := 4\<rparr>\<rparr>)"
proof -
  have st: "handler named_state = sample_container" "ram named_state = replicate 8 0 @ cstr ''/w/a'' @ replicate 83 0"
    by (simp_all add: named_state_def)
  then have rng: "guest_range named_state 0x40000008 0"
    and len: "length (ram named_state) = 96"
    and rd: "mem_read 8 88 (ram named_state) = cstr ''/w/a'' @ replicate 83 0"
    by (simp_all add: guest_range_def ram_off_def mem_read_def cstr_def bytes_of_string_def)
  have nm: "cstring (cstr ''/w/a'' @ replicate 83 0) = ''/w/a''" by (rule cstring_cstr) simp
  have abs: "filepath_Abs ok_host ''/w/a'' s = (Ok ''/w/a'', s)" for s :: "(unit, Container) st"
    by (simp add: filepath_Abs_def filepath_Clean_def go_simps Let_def)
  show ?thesis
    by (simp add: Hypercall_def hyp_Open_def go_simps SliceEnd_range [OF rng] slice_bytes_def slice_len_def len st(1) rd nm
        abs attempt_def CanAccess_def open_file_def host_try_def host_call_def addFile_def sample_container_def
        strings_HasPrefix_def)
qed

theorem open_hypercall_witness:
  "\<exists>path sfd. may_open [''/w''] path \<and> clean_abs path \<and>
     std_files(3 \<mapsto> \<lparr>sysfd = 7, fname = ''/w/a''\<rparr>) = std_files(3 \<mapsto> \<lparr>sysfd = sfd, fname = path\<rparr>)"
proof -
  have pre: "legal (handler named_state)" "rooted_getwd ok_host" "(3 :: u64) \<noteq> errFail"
    "handler named_state = sample_container"
    using legal_sample by (simp_all add: named_state_def rooted_getwd_def)
  from open_hypercall [OF sample_open pre(1,2)] pre(3,4) show ?thesis
    by (auto simp: sample_container_def)
qed

text \<open>C28. Which files a container admits: for rooted directories and paths, a path is accessible
  exactly when its elements are those of some configured directory, the last one possibly
  extended by further characters, followed by any others. Everything below the directory is
  admitted, nothing outside the directory's parent is, and a sibling whose name merely
  starts with the directory's name is admitted too.\<close>

theorem CanAccess_elems:
  assumes "\<forall>dir \<in> set (dirs c). filepath_IsAbs dir" and "filepath_IsAbs path"
  shows "CanAccess c path \<longleftrightarrow>
    (\<exists>dir \<in> set (dirs c). \<exists>x ys. path_elems path = butlast (path_elems dir) @ (last (path_elems dir) @ x) # ys)"
  using assms by (simp add: CanAccess_iff may_open_def prefix_elems)

theorem CanAccess_elems_witness: "CanAccess sample_container ''/wx/y''"
proof -
  have "path_elems ''/wx/y'' = butlast (path_elems ''/w'') @ (last (path_elems ''/w'') @ ''x'') # [''y'']"
    by (simp add: path_elems_def)
  then show ?thesis
    using CanAccess_elems [of sample_container "''/wx/y''"] by (auto simp: sample_container_def)
qed

text \<open>Seeking passes the offset and the origin to the host unchanged and returns the host's
  new offset, or the failure value; the guest's RAM and the container do not change.\<close>

lemma lseek_hypercall:
  assumes "fdtable (handler s) fd = Some f" and "sys_lseek h (sysfd f) off whence (world s) = (r, w)"
  shows "Hypercall h A cpu hypLseek fd off whence a3 a4 a5 s =
    (Ok (case r of Inl _ \<Rightarrow> errFail | Inr n \<Rightarrow> n), s\<lparr>world := w\<rparr>)"
  using assms
  by (cases r) (simp_all add: Hypercall_def hyp_Lseek_def with_file_Some go_simps attempt_def host_try_eq)

text \<open>A number that names no hypercall is an error, not a result: for every number from 10 on
  the handler fails with an error that wraps \<open>ErrUnknownHypercall\<close>, unless reading the program
  counter for the message panics; the container is unchanged.\<close>

lemma unknown_hypercall:
  assumes "10 \<le> num"
  shows "(case Hypercall h (arch_of isa h) cpu num a0 a1 a2 a3 a4 a5 s of
      (Ok _, t) \<Rightarrow> False
    | (Err e, t) \<Rightarrow> handler t = handler s \<and> (errors_Is e ErrUnknownHypercall \<or> GetPc (arch_of isa h) cpu s = (Err e, t))
    | (Panic q, t) \<Rightarrow> handler t = handler s \<and> GetPc (arch_of isa h) cpu s = (Panic q, t))"
proof -
  have "num \<noteq> 0" "num \<noteq> 1" "num \<noteq> 2" "num \<noteq> 3" "num \<noteq> 4" "num \<noteq> 5" "num \<noteq> 6" "num \<noteq> 7" "num \<noteq> 8" "num \<noteq> 9"
    using assms by (auto simp: word_le_nat_alt)
  moreover obtain r t where pc: "GetPc (arch_of isa h) cpu s = (r, t)" by (cases "GetPc (arch_of isa h) cpu s")
  moreover have "handler t = handler s" by (rule keepsD [OF c_isa.keeps_GetPc(1) pc])
  ultimately show ?thesis by (cases r) (simp_all add: Hypercall_def go_simps)
qed

end
