(* ===== verification/Machine_Spec.thy ===== *)
theory Machine_Spec
  imports Machine_Ops
begin

text \<open>
  What loading a kernel leaves in guest RAM, when the loops that run a virtual CPU return, and
  what one turn makes of each exit reason.
\<close>

section \<open>Loading a segment\<close>

lemma mem_write_snoc_zero:
  assumes "off + k < length m"
  shows "mem_write off (0 # replicate k 0) m = mem_write (Suc off) (replicate k 0) (m[off := 0])"
  using assms by (intro nth_equalityI) (auto simp: nth_mem_write nth_Cons nth_list_update split: nat.splits)

lemma zero_fill_fits:
  assumes "unat e \<le> length m"
  shows "zero_fill i e m = (Ok (), mem_write (unat i) (replicate (unat e - unat i) 0) m)"
  using assms
proof (induction i e m rule: zero_fill.induct)
  case (1 i e m)
  show ?case
  proof (cases "i < e")
    case True
    then have lt: "unat i < unat e" by (simp add: word_less_nat_alt)
    then obtain k where k: "unat e - unat i = Suc k" "unat e - Suc (unat i) = k" by (metis Suc_diff_Suc)
    have i1: "unat (i + 1) = Suc (unat i)" using unat_Suc_below [OF lt] by simp
    have "zero_fill (i + 1) e (m[unat i := 0]) =
        (Ok (), mem_write (Suc (unat i)) (replicate k 0) (m[unat i := 0]))"
      using 1 True lt k i1 by simp
    with True lt k 1(2) show ?thesis
      by (subst zero_fill.simps) (simp add: mem_write_snoc_zero)
  next
    case False
    then have "unat e \<le> unat i" by (simp add: word_less_nat_alt)
    with False show ?thesis by (subst zero_fill.simps) simp
  qed
qed

text \<open>The bytes of a loadable segment: its part of the file, then zeros up to its size in
  memory.\<close>

definition segment_image :: "prog \<Rightarrow> bytes" where
  "segment_image p = take (unat (p_Filesz p)) (p_file p) @
     replicate (unat (p_Memsz p) - unat (p_Filesz p)) 0"

text \<open>A segment that lies in a RAM of \<open>n\<close> bytes at offset \<open>start\<close>, is complete in the file and
  does not extend to the very end of RAM in the file.\<close>

definition loadable :: "nat \<Rightarrow> u64 \<Rightarrow> prog \<Rightarrow> bool" where
  "loadable n start p \<longleftrightarrow>
     p_Type p = PT_LOAD \<and> unat (p_Filesz p) \<le> unat (p_Memsz p) \<and>
     unat (p_Filesz p) \<le> length (p_file p) \<and> unat start + unat (p_Memsz p) \<le> n \<and>
     unat start + unat (p_Filesz p) < n \<and> n < 2 ^ 64"

lemma map_ram_map_ram: "map_ram f (map_ram g s) = map_ram (f \<circ> g) s"
  by (simp add: map_ram_def map_vm_def map_machine_def)

lemma map_ram_const: "map_ram (\<lambda>_. f (ram s)) s = map_ram f s"
  by (simp add: map_ram_def map_vm_def map_machine_def)

lemma load_prog_loadable:
  assumes "loadable (length (ram s)) (ka2pa A (p_Vaddr p) - physRamBase) p"
  shows "load_prog A i p s = (Ok (unat (p_Filesz p)),
    map_ram (mem_write (unat (ka2pa A (p_Vaddr p) - physRamBase)) (segment_image p)) s)"
proof -
  define start where "start = ka2pa A (p_Vaddr p) - physRamBase"
  define fb where "fb = take (unat (p_Filesz p)) (p_file p)"
  from assms have ld: "p_Type p = PT_LOAD" "unat (p_Filesz p) \<le> unat (p_Memsz p)"
    "unat (p_Filesz p) \<le> length (p_file p)" "unat start + unat (p_Memsz p) \<le> length (ram s)"
    "unat start + unat (p_Filesz p) < length (ram s)" "length (ram s) < 2 ^ 64"
    by (simp_all add: loadable_def start_def)
  let ?buf = "\<lparr>lo = unat start, hi = length (ram s)\<rparr>"
  have len: "length fb = unat (p_Filesz p)" using ld by (simp add: fb_def)
  have buf: "SliceEnd (ka2pa A (p_Vaddr p)) s = (Ok ?buf, s)"
    using ld(5) by (simp add: SliceEnd_def go_simps start_def)
  have read: "prog_ReadAt p (slice_len ?buf) = (fb, Some EOF)"
    using ld by (auto simp: prog_ReadAt_def file_ReadAt_def slice_len_def fb_def)
  have store: "slice_store ?buf fb s = (Ok (), map_ram (mem_write (unat start) fb) s)"
    using ld len by (subst slice_store_in) (simp_all add: slice_in_def slice_len_def)
  have sums: "unat (start + p_Filesz p) = unat start + unat (p_Filesz p)"
    "unat (start + p_Memsz p) = unat start + unat (p_Memsz p)"
    using ld by (simp_all add: unat_word_ariths)
  have fill: "zero_fill (start + p_Filesz p) (start + p_Memsz p) (mem_write (unat start) fb (ram s)) =
      (Ok (), mem_write (unat start) (segment_image p) (ram s))"
    using ld len sums mem_write_append [of "unat start" fb _ "ram s"]
    by (subst zero_fill_fits) (simp_all add: segment_image_def fb_def [symmetric])
  show ?thesis
    using ld(1) buf read store fill len
    by (simp add: load_prog_def go_simps Let_def start_def [symmetric] on_ram_def map_ram_map_ram
        map_ram_const [of "mem_write (unat start) (segment_image p)" s, symmetric])
      (simp add: map_ram_def map_vm_def map_machine_def)
qed


section \<open>Loading a kernel\<close>

abbreviation seg_start :: "('w, 'c) arch \<Rightarrow> prog \<Rightarrow> u64" where
  "seg_start A p \<equiv> ka2pa A (p_Vaddr p) - physRamBase"

text \<open>RAM after the loadable segments, in the order of the program headers, and the number of
  bytes they take in the file.\<close>

fun load_image :: "('w, 'c) arch \<Rightarrow> prog list \<Rightarrow> bytes \<Rightarrow> bytes" where
  "load_image A [] m = m"
| "load_image A (p # ps) m =
     load_image A ps (if p_Type p = PT_LOAD then mem_write (unat (seg_start A p)) (segment_image p) m else m)"

fun file_size :: "prog list \<Rightarrow> nat" where
  "file_size [] = 0"
| "file_size (p # ps) = (if p_Type p = PT_LOAD then unat (p_Filesz p) else 0) + file_size ps"

definition loadable_all :: "('w, 'c) arch \<Rightarrow> nat \<Rightarrow> prog list \<Rightarrow> bool" where
  "loadable_all A n ps \<longleftrightarrow> (\<forall>p \<in> set ps. p_Type p \<noteq> PT_LOAD \<or> loadable n (seg_start A p) p)"

lemma length_segment_image: "loadable n st p \<Longrightarrow> length (segment_image p) = unat (p_Memsz p)"
  by (simp add: loadable_def segment_image_def)

lemma length_segment_write:
  "loadable (length m) (seg_start A p) p \<Longrightarrow>
   length (mem_write (unat (seg_start A p)) (segment_image p) m) = length m"
  using length_segment_image [of "length m" "seg_start A p" p] by (simp add: loadable_def)

lemma length_load_image:
  "loadable_all A (length m) ps \<Longrightarrow> length (load_image A ps m) = length m"
proof (induction ps arbitrary: m)
  case (Cons p ps)
  let ?m = "if p_Type p = PT_LOAD then mem_write (unat (seg_start A p)) (segment_image p) m else m"
  have "length ?m = length m"
    using Cons.prems length_segment_write [of m A p] by (simp add: loadable_all_def)
  with Cons show ?case by (simp add: loadable_all_def)
qed simp

lemma map_ram_id: "map_ram (\<lambda>m. m) s = s"
  by (simp add: map_ram_def map_vm_def map_machine_def)

lemma load_progs_image:
  "loadable_all A (length (ram s)) ps \<Longrightarrow>
   load_progs A i ps k s = (Ok (k + file_size ps), map_ram (load_image A ps) s)"
proof (induction ps arbitrary: i k s)
  case Nil
  then show ?case by (simp add: go_simps map_ram_id)
next
  case (Cons p ps)
  show ?case
  proof (cases "p_Type p = PT_LOAD")
    case True
    let ?s = "map_ram (mem_write (unat (seg_start A p)) (segment_image p)) s"
    from Cons.prems True have ld: "loadable (length (ram s)) (seg_start A p) p" by (simp add: loadable_all_def)
    then have len: "length (ram ?s) = length (ram s)"
      using length_segment_write [of "ram s" A p] by simp
    with Cons.prems have "loadable_all A (length (ram ?s)) ps" by (simp add: loadable_all_def)
    from Cons.IH [OF this] load_prog_loadable [OF ld] True show ?thesis
      by (simp add: go_simps map_ram_map_ram comp_def add.assoc)
  next
    case False
    with Cons show ?thesis by (simp add: load_prog_def go_simps loadable_all_def)
  qed
qed

lemma LoadKernel_eq:
  assumes "loadable_all A (length (ram s)) (Progs e)" and "file_size (Progs e) \<noteq> 0"
    and "argv_size args \<le> length (ram s)" and "argv_size args \<le> 0x8000"
  shows "LoadKernel A (Inr e) args s =
    SetupRegs A (Entry e) (word_of_nat (length args)) (pa2ka A (physRamBase + word_of_nat (strs_size args)))
      (map_ram (mem_write 0 (argv_image (pa2ka A) args) \<circ> load_image A (Progs e)) s)"
proof -
  let ?m = "load_image A (Progs e) (ram s)"
  have "length ?m = length (ram s)" using assms(1) by (rule length_load_image)
  with assms have argv: "argv_WriteAt (pa2ka A) args 0 ?m =
      (Ok (pa2ka A (physRamBase + word_of_nat (strs_size args))), mem_write 0 (argv_image (pa2ka A) args) ?m)"
    by (subst argv_WriteAt_image) simp_all
  show ?thesis
    using argv assms(2) map_ram_const [of "mem_write 0 (argv_image (pa2ka A) args) \<circ> load_image A (Progs e)" s]
    by (simp add: LoadKernel_def load_progs_image [OF assms(1)] go_simps on_ram_def map_ram_map_ram comp_def)
qed

text \<open>A successful \<open>LoadKernel\<close> sets the registers last, on a memory that holds the argument vector.\<close>

lemma LoadKernel_Ok:
  assumes "LoadKernel A kfile args s = (Ok u, t)"
  shows "\<exists>e addr s1. kfile = Inr e \<and> SetupRegs A (Entry e) (word_of_nat (length args)) addr s1 = (Ok (), t) \<and>
    (argv_size args < 2 ^ 32 \<longrightarrow>
      addr = pa2ka A (physRamBase + word_of_nat (strs_size args)) \<and> take (argv_size args) (ram s1) = argv_image (pa2ka A) args)"
proof -
  from assms obtain e k s0 addr s1 where e: "kfile = Inr e"
    and argv: "on_ram (argv_WriteAt (pa2ka A) args 0) s0 = (Ok addr, s1)"
    and regs: "SetupRegs A (Entry e) (word_of_nat (length args)) addr s1 = (Ok (), t)"
    by (auto simp: LoadKernel_def go_simps split: sum.splits if_splits elim!: bnd_OkE)
  from argv obtain m where m: "argv_WriteAt (pa2ka A) args 0 (ram s0) = (Ok addr, m)" "ram s1 = m"
    by (auto simp: on_ram_def split: prod.splits)
  have "addr = pa2ka A (physRamBase + word_of_nat (strs_size args)) \<and> take (argv_size args) (ram s1) = argv_image (pa2ka A) args"
    if "argv_size args < 2 ^ 32"
    using argv_WriteAt_Ok [OF m(1) that] m(2) by (simp add: mem_write_def)
  with e regs show ?thesis by blast
qed

text \<open>C10. What \<open>LoadKernel\<close> leaves in guest RAM: for program headers that fit, every loadable
  segment in order with its bytes from the file followed by zeros, then the argument vector
  at the bottom, and nothing else changed; the registers are then set to the entry point,
  the number of arguments and the vector's kernel address.\<close>

theorem LoadKernel_image:
  assumes "loadable_all A (length (ram s)) (Progs e)" and "file_size (Progs e) \<noteq> 0"
    and "argv_size args \<le> length (ram s)" and "argv_size args \<le> 0x8000"
  shows "LoadKernel A (Inr e) args s =
    SetupRegs A (Entry e) (word_of_nat (length args)) (pa2ka A (physRamBase + word_of_nat (strs_size args)))
      (map_ram (mem_write 0 (argv_image (pa2ka A) args) \<circ> load_image A (Progs e)) s)"
  using assms by (rule LoadKernel_eq)

section \<open>When the loops return\<close>

text \<open>\<open>n\<close> turns in a row that all go on, and the outcome of a turn that does not.\<close>

fun go_on :: "('s, 'a option) go \<Rightarrow> nat \<Rightarrow> 's \<Rightarrow> 's option" where
  "go_on turn 0 s = Some s"
| "go_on turn (Suc n) s = (case turn s of (Ok None, s') \<Rightarrow> go_on turn n s' | _ \<Rightarrow> None)"

fun outcome_of :: "'a option res \<times> 's \<Rightarrow> ('a res \<times> 's) option" where
  "outcome_of (Ok None, s) = None"
| "outcome_of (Ok (Some x), s) = Some (Ok x, s)"
| "outcome_of (Err e, s) = Some (Err e, s)"
| "outcome_of (Panic p, s) = Some (Panic p, s)"

definition loop_result :: "('s, 'a option) go \<Rightarrow> 's \<Rightarrow> 'a res \<times> 's \<Rightarrow> bool" where
  "loop_result turn s y \<longleftrightarrow> (\<exists>n s'. go_on turn n s = Some s' \<and> outcome_of (turn s') = Some y)"

lemma loop_result_unfold:
  "loop_result turn s y \<longleftrightarrow>
   (case turn s of (Ok None, s') \<Rightarrow> loop_result turn s' y | out \<Rightarrow> outcome_of out = Some y)"
proof (cases "\<exists>s'. turn s = (Ok None, s')")
  case True
  then obtain s' where t: "turn s = (Ok None, s')" ..
  have "(\<exists>n u. go_on turn n s = Some u \<and> outcome_of (turn u) = Some y) \<longleftrightarrow>
      (\<exists>n u. go_on turn n s' = Some u \<and> outcome_of (turn u) = Some y)"
  proof (intro iffI; elim exE)
    fix n u assume "go_on turn n s = Some u \<and> outcome_of (turn u) = Some y"
    with t show "\<exists>n u. go_on turn n s' = Some u \<and> outcome_of (turn u) = Some y"
      by (cases n) auto
  next
    fix n u assume "go_on turn n s' = Some u \<and> outcome_of (turn u) = Some y"
    with t show "\<exists>n u. go_on turn n s = Some u \<and> outcome_of (turn u) = Some y"
      by (intro exI [of _ "Suc n"] exI [of _ u]) simp
  qed
  with t show ?thesis by (simp add: loop_result_def)
next
  case False
  then have "go_on turn (Suc n) s = None" for n
    by (auto split: prod.splits res.splits option.splits)
  then have "(\<exists>n u. go_on turn n s = Some u \<and> outcome_of (turn u) = Some y) \<longleftrightarrow> outcome_of (turn s) = Some y"
    by (metis go_on.simps(1) not0_implies_Suc option.distinct(1) option.inject)
  with False show ?thesis
    unfolding loop_result_def by (auto split: prod.splits res.splits option.splits)
qed

lemma RunInfiniteLoop_loop_result:
  assumes "RunInfiniteLoop h A hyp cpu trace s = Some y"
  shows "loop_result (loop_turn h A hyp cpu trace) s y"
  using assms
proof (rule RunInfiniteLoop.raw_induct [rotated], goal_cases)
  case (1 f h A hyp cpu trace s y)
  then show ?case
    by (subst loop_result_unfold) (auto split: prod.splits res.splits option.splits)
qed

lemma loop_result_RunInfiniteLoop:
  assumes "go_on (loop_turn h A hyp cpu trace) n s = Some s'"
    and "outcome_of (loop_turn h A hyp cpu trace s') = Some y"
  shows "RunInfiniteLoop h A hyp cpu trace s = Some y"
  using assms
proof (induction n arbitrary: s)
  case 0
  then show ?case
    by (subst RunInfiniteLoop.simps) (auto split: prod.splits res.splits option.splits)
next
  case (Suc n)
  then show ?case
    by (subst RunInfiniteLoop.simps) (auto split: prod.splits res.splits option.splits)
qed

lemma RunInfiniteLoop_iff:
  "RunInfiniteLoop h A hyp cpu trace s = Some y \<longleftrightarrow> loop_result (loop_turn h A hyp cpu trace) s y"
proof
  assume "loop_result (loop_turn h A hyp cpu trace) s y"
  then show "RunInfiniteLoop h A hyp cpu trace s = Some y"
    unfolding loop_result_def by (elim exE conjE) (rule loop_result_RunInfiniteLoop)
qed (rule RunInfiniteLoop_loop_result)

lemma go_on_loop_result:
  "go_on turn n s = Some s' \<Longrightarrow> loop_result turn s' y \<Longrightarrow> loop_result turn s y"
proof (induction n arbitrary: s)
  case (Suc n)
  then show ?case by (subst loop_result_unfold) (auto split: prod.splits res.splits option.splits)
qed simp


section \<open>The machine that \<open>NewMachine\<close> makes\<close>

text \<open>The part of the state that the architecture's own set-up steps leave alone.\<close>

definition hull :: "('w, 'c) st \<Rightarrow> nat \<times> vcpu list \<times> bool list \<times> 'c" where
  "hull s = (length (ram s), vcpus (the_vm s), map (\<lambda>r. r = None) (runs (machine s)), handler s)"

lemma keeps_hull [keeps_rules]:
  assumes "keeps shape m" and "keeps handler m"
  shows "keeps hull m"
  unfolding keeps_def
proof
  fix s
  from assms have sh: "shape (snd (m s)) = shape s" and h: "handler (snd (m s)) = handler s"
    by (simp_all add: keeps_def)
  from sh have "map (\<lambda>r. r = None) (runs (machine (snd (m s)))) = map (\<lambda>r. r = None) (runs (machine s))"
    by (simp add: shape_def)
  with h shape_eqD(1,2) [OF sh] show "hull (snd (m s)) = hull s" by (simp add: hull_def)
qed

locale machine_setup =
  fixes A :: "('w, 'c) arch"
  assumes setup_frame:
    "keeps hull (createVM A fd)" "keeps hull (vm_init A)" "keeps hull (machine_init A)"
    "keeps hull (createIrqController A)" "keeps hull (finalizeIrqController A)"

lemma keeps_hull_irqfd: "keeps hull (modify (map_machine (\<lambda>m. m\<lparr>irqfd := x\<rparr>)))"
  by (rule keeps_modify) (simp add: hull_def)

lemma keeps_hull_Ioctl [keeps_rules]: "keeps hull (Ioctl h fd op arg)"
  by (intro keeps_rules)

interpretation setup_amd64: machine_setup "amd64 h"
  by unfold_locales
    (simp_all add: amd64_def amd64_createVM_def amd64_vm_init_def SetIdentityMapAddr_def setTSSAddr_def
      amd64_machine_init_def split_beta, (intro keeps_rules)+)

lemma keeps_IrqType [keeps_rules]:
  "keeps f m \<Longrightarrow> keeps f n \<Longrightarrow> keeps f (case ty of GICv2 \<Rightarrow> m | GICv3 \<Rightarrow> n)"
  by (cases ty) simp_all

lemma keeps_hull_createDevice [keeps_rules]: "keeps hull (arm64_createDevice h ty)"
  unfolding arm64_createDevice_def Let_def by (intro keeps_rules keeps_hull_irqfd)

interpretation setup_arm64: machine_setup "arm64 h"
  by unfold_locales
    (simp_all add: arm64_def arm64_createVM_def CheckExtension_def arm64_machine_init_def Let_def
      arm64_createIrqController_def arm64_finalizeIrqController_def, (intro keeps_rules)+)


interpretation setup_isa: machine_setup "arch_of isa h"
  by (cases isa) (simp_all add: setup_amd64.machine_setup_axioms setup_arm64.machine_setup_axioms)

text \<open>\<open>k\<close> of \<open>n\<close> virtual CPUs are created and their run pages mapped; the size of RAM and the
  handler are given.\<close>

definition ready :: "nat \<Rightarrow> nat \<Rightarrow> nat \<Rightarrow> 'c \<Rightarrow> ('w, 'c) st \<Rightarrow> bool" where
  "ready k n len c s \<longleftrightarrow> length (vcpus (the_vm s)) = k \<and> length (runs (machine s)) = n \<and>
     (\<forall>j < k. j < n \<longrightarrow> runs (machine s) ! j \<noteq> None) \<and> length (ram s) = len \<and> handler s = c"

lemma ready_hull: "hull t = hull s \<Longrightarrow> ready k n len c t \<longleftrightarrow> ready k n len c s"
proof -
  assume eq: "hull t = hull s"
  then have "length (runs (machine t)) = length (runs (machine s))"
    by (auto simp: hull_def dest: map_eq_imp_length_eq)
  moreover have "(runs (machine t) ! j = None) = (runs (machine s) ! j = None)" if "j < length (runs (machine s))" for j
    using eq that by (auto simp: hull_def list_eq_iff_nth_eq)
  ultimately show ?thesis using eq by (auto simp: ready_def hull_def simp del: not_None_eq)
qed

lemma ready_frame: "keeps hull m \<Longrightarrow> m s = (r, t) \<Longrightarrow> ready k n len c t \<longleftrightarrow> ready k n len c s"
  by (rule ready_hull) (rule keepsD)

lemma ready_addVCPU:
  assumes "addVCPU h s = (Ok u, t)" and "ready k n len c s" and "k < n"
  shows "length (vcpus (the_vm t)) = Suc k \<and> length (runs (machine t)) = n \<and>
     (\<forall>j < k. runs (machine t) ! j \<noteq> None) \<and> length (ram t) = len \<and> handler t = c"
proof -
  from assms(1) obtain fd s1 where io: "Ioctl_val h (vm_fd (the_vm s)) (IIO kvmCreateVCPU)
      (IoVal (word_of_nat (length (vcpus (the_vm s))))) s = (Ok fd, s1)"
    and t: "t = map_vm (\<lambda>v. v\<lparr>vcpus := vcpus v @ [\<lparr>vcpu_fd = fd\<rparr>]\<rparr>) s1"
    by (auto simp: addVCPU_def go_simps elim!: bnd_OkE)
  from ready_frame [OF keeps_Ioctl_val [OF keeps_hull_Ioctl] io] assms(2)
  have "ready k n len c s1" by simp
  with t assms(3) show ?thesis by (simp add: ready_def)
qed

lemma ready_map_run:
  assumes "map_run h sz k s = (Ok u, t)" and "length (vcpus (the_vm s)) = Suc k" "length (runs (machine s)) = n"
    and "\<forall>j < k. runs (machine s) ! j \<noteq> None" and "length (ram s) = len" "handler s = c" and "k < n"
  shows "ready (Suc k) n len c t"
proof -
  from assms(1,2) obtain r w where
    t: "t = map_machine (\<lambda>m. m\<lparr>runs := (runs m)[k := Some r]\<rparr>) (s\<lparr>world := w\<rparr>)"
    by (auto simp: map_run_def go_simps host_try_def host_call_def split_beta split: if_splits sum.splits
        elim!: bnd_OkE)
  show ?thesis
    unfolding t using assms(2-) by (auto simp: ready_def nth_list_update less_Suc_eq)
qed

lemma ready_loop:
  assumes "for_each [k..<n] (\<lambda>cpu. bnd (addVCPU h) (\<lambda>_. map_run h sz cpu)) s = (Ok u, t)"
    and "ready k n len c s" and "k \<le> n"
  shows "ready n n len c t"
  using assms
proof (induction "n - k" arbitrary: k s)
  case 0
  then show ?case by (auto simp: go_simps)
next
  case (Suc d)
  then have kn: "k < n" by simp
  with Suc.prems(1) obtain u1 s1 u2 s2 where
    step: "addVCPU h s = (Ok u1, s1)" "map_run h sz k s1 = (Ok u2, s2)"
    and rest: "for_each [Suc k..<n] (\<lambda>cpu. bnd (addVCPU h) (\<lambda>_. map_run h sz cpu)) s2 = (Ok u, t)"
    by (auto simp: upt_conv_Cons elim!: bnd_OkE)
  have "ready (Suc k) n len c s2"
    using ready_map_run [OF step(2)] ready_addVCPU [OF step(1) Suc.prems(2) kn] kn by blast
  with Suc.hyps(1) [of "Suc k" s2] Suc.hyps(2) rest kn show ?case by simp
qed


lemma keeps_wrap_err [keeps_rules]: "keeps f m \<Longrightarrow> keeps f (wrap_err g m)"
  unfolding wrap_err_def by (intro keeps_rules)

context machine_setup
begin

lemma NewVM_Ok:
  assumes "NewVM h A fd memSize s = (Ok u, t)"
  shows "length (ram t) = unat memSize \<and> vcpus (the_vm t) = [] \<and> handler t = handler s \<and>
    sys (the_vm t) = replicate (sys_pagesize h) 0 \<and> set (ram t) \<subseteq> {0}"
proof -
  from assms obtain v s1 fd' s2 ma s3 sa s4 where
    steps: "getAPIVersion h fd s = (Ok v, s1)" "wrap_err ''KVM_CREATE_VM: %w'' (createVM A fd) s1 = (Ok fd', s2)"
      "wrap_err ''mmap: %w'' (host_try (sys_mmap h memSize 3)) s2 = (Ok ma, s3)"
      "wrap_err ''mmap: %w'' (host_try (sys_mmap h (word_of_nat (sys_pagesize h)) 0)) s3 = (Ok sa, s4)"
    and t: "t = map_vm (\<lambda>_. \<lparr>vm_fd = fd', mem = replicate (unat memSize) 0, mem_addr = ma,
       sys = replicate (sys_pagesize h) 0, sys_addr = sa, vcpus = []\<rparr>) s4"
    unfolding NewVM_def by (auto simp: go_simps split: if_splits elim!: bnd_OkE)
  have fr: "keeps hull (getAPIVersion h fd)" "\<And>f. keeps hull (host_try f)"
    unfolding getAPIVersion_def by (intro keeps_rules)+
  have "hull s4 = hull s"
    using keepsD [OF fr(1) steps(1)] keepsD [OF keeps_wrap_err [OF setup_frame(1)] steps(2)]
      keepsD [OF keeps_wrap_err [OF fr(2)] steps(3)] keepsD [OF keeps_wrap_err [OF fr(2)] steps(4)] by simp
  with t show ?thesis by (auto simp: hull_def)
qed

lemma NewMachine_Ok:
  assumes "NewMachine h A path n memSize s = (Ok u, t)"
  shows "ready n n (unat memSize) (handler s) t"
proof -
  from assms obtain fd s1 u2 s2 u3 s3 sz s4 u5 s5 u6 s6 u7 s7 u8 s8 u9 s9 where
    steps: "host_try (sys_open h path 2 0x1a4) s = (Ok fd, s1)" "NewVM h A fd memSize s1 = (Ok u2, s2)"
      "vm_init A s2 = (Ok u3, s3)" "getVCPUMMmapSize h fd s3 = (Ok sz, s4)"
      "modify (map_machine (\<lambda>m. m\<lparr>kvmfd := fd, irqfd := 0, runs := replicate n None\<rparr>)) s4 = (Ok u5, s5)"
      "createIrqController A s5 = (Ok u6, s6)"
      "for_each [0..<n] (\<lambda>cpu. bnd (addVCPU h) (\<lambda>_. map_run h sz cpu)) s6 = (Ok u7, s7)"
      "machine_init A s7 = (Ok u8, s8)" "initMemory h s8 = (Ok u9, s9)" "finalizeIrqController A s9 = (Ok u, t)"
    unfolding NewMachine_def by (elim bnd_OkE)
  have fr: "keeps hull (getVCPUMMmapSize h fd)" "keeps hull (initMemory h)"
    unfolding getVCPUMMmapSize_def initMemory_def SetUserspaceMemoryRegion_def by (intro keeps_rules)+
  have "handler s1 = handler s" using steps(1) by (rule keepsD [OF keeps_host_try [OF keeps_host_call(2)]])
  with NewVM_Ok [OF steps(2)] keepsD [OF setup_frame(2) steps(3)] keepsD [OF fr(1) steps(4)]
  have "ready 0 n (unat memSize) (handler s) s5" using steps(5) by (auto simp: hull_def ready_def go_simps)
  then have "ready 0 n (unat memSize) (handler s) s6" using ready_frame [OF setup_frame(4) steps(6)] by simp
  then have "ready n n (unat memSize) (handler s) s7" using ready_loop [OF steps(7)] by simp
  then show ?thesis
    using ready_frame [OF setup_frame(3) steps(8)] ready_frame [OF fr(2) steps(9)]
      ready_frame [OF setup_frame(5) steps(10)] by simp
qed

end

section \<open>What loading a kernel leaves alone\<close>

lemma length_zero_fill: "length (snd (zero_fill i e m)) = length m"
  by (induction i e m rule: zero_fill.induct) (subst zero_fill.simps, simp)

lemma keeps_length_strings: "keeps length (argv_strings f args off argp)"
proof (induction args arbitrary: off argp)
  case (Cons a args)
  have "keeps length (copy_at off b)" for off b by (simp add: keeps_def copy_at_def)
  with Cons show ?case by (auto simp: Let_def intro!: keeps_bnd)
qed (simp add: keeps_rules)

lemma keeps_length_ptrs: "keeps length (argv_ptrs ps off)"
proof (induction ps arbitrary: off)
  case (Cons q ps)
  have "keeps length (PutUint64_at off q)" for off by (simp add: keeps_def PutUint64_at_def)
  with Cons show ?case by (auto intro!: keeps_bnd)
qed (simp add: keeps_rules)

lemma length_argv_WriteAt: "length (snd (argv_WriteAt f args off m)) = length m"
proof -
  have "keeps length (argv_WriteAt f args off)"
    unfolding argv_WriteAt_def Let_def by (intro keeps_rules keeps_length_strings keeps_length_ptrs)
  then show ?thesis by (simp add: keeps_def)
qed

lemma keeps_shape_load_prog [keeps_rules]: "keeps shape (load_prog A i p)" "keeps handler (load_prog A i p)"
  unfolding load_prog_def Let_def by (intro keeps_rules keeps_shape_on_ram length_zero_fill)+

lemma keeps_load_progs [keeps_rules]: "keeps shape (load_progs A i ps k)" "keeps handler (load_progs A i ps k)"
  by (induction ps arbitrary: i k) (simp_all add: keeps_rules)

context machine_arch
begin

lemma keeps_hull_LoadKernel: "keeps hull (LoadKernel A kfile args)"
proof -
  have regs: "keeps handler (SetupRegs A a b c)" "keeps shape (SetupRegs A a b c)" for a b c
    using SetupRegs_view by (simp_all add: keeps_def)
  have "keeps shape (LoadKernel A kfile args)" "keeps handler (LoadKernel A kfile args)"
    unfolding LoadKernel_def by (intro keeps_rules keeps_shape_on_ram length_argv_WriteAt regs)+
  then show ?thesis by (rule keeps_hull)
qed

end

section \<open>Properties\<close>

definition sample_prog :: prog where
  "sample_prog = \<lparr>p_Type = PT_LOAD, p_Vaddr = arm64_pa2ka 0x40000020, p_Filesz = 4, p_Memsz = 8,
     p_file = [1, 2, 3, 4, 5], p_err = EOF\<rparr>"

lemma arm64_fields [simp]: "ka2pa (arm64 h) = arm64_ka2pa" "pa2ka (arm64 h) = arm64_pa2ka"
  by (simp_all add: arm64_def)

lemma sample_prog_start [simp]: "arm64_ka2pa (p_Vaddr sample_prog) = 0x40000020" "p_Type sample_prog = PT_LOAD"
  using arm64_ka2pa_pa2ka [of "0x40000020"] by (simp_all add: sample_prog_def)

lemma sample_segment: "segment_image sample_prog = [1, 2, 3, 4, 0, 0, 0, 0]"
  by code_simp

lemma sample_loadable: "loadable_all (arm64 h) 64 [sample_prog]" "file_size [sample_prog] \<noteq> 0"
  by (simp_all add: loadable_all_def loadable_def) (simp_all add: sample_prog_def)

theorem LoadKernel_image_witness:
  "LoadKernel (arm64 ok_host) (Inr \<lparr>Entry = 9, Progs = [sample_prog]\<rparr>) [] (blank_state 64 ()) =
   SetupRegs (arm64 ok_host) 9 0 (arm64_pa2ka 0x40000000)
     (map_ram (mem_write 0 (argv_image arm64_pa2ka []) \<circ> mem_write 32 [1, 2, 3, 4, 0, 0, 0, 0]) (blank_state 64 ()))"
proof -
  let ?A = "arm64 ok_host :: (unit, unit) arch"
  have "load_image ?A [sample_prog] = mem_write 32 [1, 2, 3, 4, 0, 0, 0, 0]"
    by (simp add: fun_eq_iff sample_segment)
  then show ?thesis
    using LoadKernel_image [of ?A "blank_state 64 ()" "\<lparr>Entry = 9, Progs = [sample_prog]\<rparr>" "[]"]
    by (simp add: sample_loadable [simplified] blank_state_def argv_size_def)
qed

lemma load_progs_append:
  "load_progs A i (ps @ qs) k = bnd (load_progs A i ps k) (load_progs A (i + length ps) qs)"
  by (induction ps arbitrary: i k) (simp_all add: bnd_assoc)

text \<open>The read of a segment that the file does not deliver completely.\<close>

lemma load_prog_short:
  assumes "p_Type p = PT_LOAD" and "length (p_file p) < unat (p_Filesz p)"
    and "unat (seg_start A p) + unat (p_Filesz p) \<le> length (ram s)"
  shows "load_prog A i p s =
    (Err (ErrorfW ''reading ELF prog %d@%#x: %d/%d bytes, err %w''
       [word_of_nat i, p_Vaddr p, word_of_nat (length (p_file p)), p_Filesz p] [] (p_err p)),
     map_ram (mem_write (unat (seg_start A p)) (p_file p)) s)"
proof -
  let ?buf = "\<lparr>lo = unat (seg_start A p), hi = length (ram s)\<rparr>"
  have buf: "SliceEnd (ka2pa A (p_Vaddr p)) s = (Ok ?buf, s)"
    using assms(3) by (simp add: SliceEnd_def go_simps)
  have "prog_ReadAt p (slice_len ?buf) = (p_file p, Some (p_err p))"
    using assms(2,3) by (auto simp: prog_ReadAt_def file_ReadAt_def slice_len_def)
  moreover have "slice_store ?buf (p_file p) s = (Ok (), map_ram (mem_write (unat (seg_start A p)) (p_file p)) s)"
    using assms(2,3) by (subst slice_store_in) (simp_all add: slice_in_def slice_len_def)
  moreover have "word_of_nat (length (p_file p)) \<noteq> p_Filesz p"
  proof
    assume "word_of_nat (length (p_file p)) = p_Filesz p"
    moreover have "unat (p_Filesz p) < 2 ^ 64" using unsigned_less [of "p_Filesz p"] by simp
    then have "length (p_file p) < 2 ^ 64" using assms(2) by (rule order_less_trans [rotated])
    ultimately have "length (p_file p) = unat (p_Filesz p)" by (metis unat_of_nat_small)
    with assms(2) show False by simp
  qed
  ultimately show ?thesis using buf assms(1) by (simp add: load_prog_def go_simps Let_def)
qed

text \<open>C34. A kernel file that is cut short, or that fails to be read, is refused: when the bytes of a segment that fits
  into RAM end before the segment does, after loadable ones, \<open>LoadKernel\<close> fails with an error that names the segment by its place,
  how many of its bytes there were, and what the file reported, be it the end of the file or a failed read; no
  register is set and no argument is written, while RAM already holds the earlier segments and the partial one.\<close>

theorem truncated_kernel_refused:
  assumes "Progs e = ps @ p # qs" and "loadable_all A (length (ram s)) ps" and "p_Type p = PT_LOAD"
    and "length (p_file p) < unat (p_Filesz p)" and "unat (seg_start A p) + unat (p_Filesz p) \<le> length (ram s)"
  shows "LoadKernel A (Inr e) args s =
    (Err (ErrorfW ''reading ELF prog %d@%#x: %d/%d bytes, err %w''
       [word_of_nat (length ps), p_Vaddr p, word_of_nat (length (p_file p)), p_Filesz p] [] (p_err p)),
     map_ram (mem_write (unat (seg_start A p)) (p_file p) \<circ> load_image A ps) s)"
proof -
  have "length (ram (map_ram (load_image A ps) s)) = length (ram s)" using length_load_image [OF assms(2)] by simp
  with load_prog_short [OF assms(3,4), of A "map_ram (load_image A ps) s" "length ps"] assms(5) show ?thesis
    by (simp add: LoadKernel_def assms(1) load_progs_append load_progs_image [OF assms(2)] go_simps map_ram_map_ram)
qed

text \<open>The second segment of the example, on a disk that fails after its first byte.\<close>

abbreviation broken_prog :: prog where "broken_prog \<equiv> sample_prog\<lparr>p_file := [7], p_err := Errno 5\<rparr>"

theorem truncated_kernel_refused_witness:
  "\<exists>t. LoadKernel (arm64 ok_host) (Inr \<lparr>Entry = 9, Progs = [sample_prog, broken_prog]\<rparr>) [] (blank_state 64 ()) =
     (Err (ErrorfW ''reading ELF prog %d@%#x: %d/%d bytes, err %w'' [1, arm64_pa2ka 0x40000020, 1, 4] [] (Errno 5)), t)"
proof -
  have p: "p_Type broken_prog = PT_LOAD" "length (p_file broken_prog) < unat (p_Filesz broken_prog)" "p_Vaddr broken_prog = arm64_pa2ka 0x40000020"
    "p_Filesz broken_prog = 4" by (simp_all add: sample_prog_def)
  have st: "unat (seg_start (arm64 ok_host) broken_prog) = 32" by simp
  have s: "length (ram (blank_state 64 ())) = 64" by (simp add: blank_state_def)
  from truncated_kernel_refused [of "\<lparr>Entry = 9, Progs = [sample_prog, broken_prog]\<rparr>" "[sample_prog]" broken_prog "[]"
      "arm64 ok_host" "blank_state 64 ()" "[]"] p st s sample_loadable(1) show ?thesis by auto
qed

text \<open>C35. A segment that fills RAM to the last byte is refused although it fits: the read that
  succeeds completely reports no end of file, which \<open>LoadKernel\<close> takes for a failure.\<close>

theorem exact_fill_refused:
  assumes "p_Type p = PT_LOAD" and "p_Filesz p \<noteq> 0" and "unat (p_Filesz p) \<le> length (p_file p)"
    and "unat (seg_start A p) + unat (p_Filesz p) = length (ram s)"
  shows "\<exists>e. fst (load_prog A i p s) = Err e"
proof -
  let ?buf = "\<lparr>lo = unat (seg_start A p), hi = length (ram s)\<rparr>"
  have buf: "SliceEnd (ka2pa A (p_Vaddr p)) s = (Ok ?buf, s)"
    using assms(4) by (simp add: SliceEnd_def go_simps)
  have "slice_len ?buf = unat (p_Filesz p)" "unat (p_Filesz p) \<noteq> 0"
    using assms(2,4) by (auto simp: slice_len_def unat_eq_zero)
  then have "prog_ReadAt p (slice_len ?buf) = (take (unat (p_Filesz p)) (p_file p), None)"
    using assms(3) by (simp add: prog_ReadAt_def file_ReadAt_def)
  with buf assms(1) show ?thesis
    by (simp add: load_prog_def go_simps Let_def slice_store_def)
qed

theorem exact_fill_refused_witness:
  "\<exists>e. fst (load_prog (arm64 ok_host) 0 (sample_prog\<lparr>p_Memsz := 4\<rparr>) (blank_state 36 ())) = Err e"
  using exact_fill_refused [of "sample_prog\<lparr>p_Memsz := 4\<rparr>" "arm64 ok_host" "blank_state 36 ()" 0]
  by (simp, simp add: sample_prog_def blank_state_def)

text \<open>C22. A machine that \<open>NewMachine\<close> returns is complete, on either architecture: it has exactly
  the requested virtual CPUs, each with its run page mapped, a RAM of exactly the requested
  size, and the given handler.\<close>

theorem NewMachine_complete:
  assumes "NewMachine h (arch_of isa h) path ncpus memSize s = (Ok u, t)"
  shows "length (vcpus (the_vm t)) = ncpus \<and> length (runs (machine t)) = ncpus \<and>
    list_all (\<lambda>r. r \<noteq> None) (runs (machine t)) \<and> length (ram t) = unat memSize \<and> handler t = handler s"
  using setup_isa.NewMachine_Ok [OF assms] by (auto simp: ready_def list_all_length)

text \<open>A host that answers 12 to every ioctl.\<close>

abbreviation twelve_host :: "unit host" where "twelve_host \<equiv> still_host (outcome 12 0 [])"

lemmas setup_defs = NewMachine_def NewVM_def getAPIVersion_def getVCPUMMmapSize_def arm64_def arm64_createVM_def
  CheckExtension_def arm64_createIrqController_def arm64_createDevice_def arm64_finalizeIrqController_def
  arm64_machine_init_def initMemory_def wrap_err_def addVCPU_def map_run_def Ioctl_err_def Ioctl_val_def
  host_try_def host_call_def attempt_def SetUserspaceMemoryRegion_def

lemma sample_NewMachine:
  "\<exists>t. NewMachine twelve_host (arch_of ARM64 twelve_host) ''/dev/kvm'' 1 32 (blank_state 0 ()) = (Ok (), t)"
  by (simp add: setup_defs go_simps Let_def)

theorem NewMachine_complete_witness:
  "\<exists>t. NewMachine twelve_host (arch_of ARM64 twelve_host) ''/dev/kvm'' 1 32 (blank_state 0 ()) = (Ok (), t) \<and>
     length (vcpus (the_vm t)) = 1 \<and> length (ram t) = 32"
  using sample_NewMachine NewMachine_complete [of twelve_host ARM64 "''/dev/kvm''" 1 32 "blank_state 0 ()" "()"] by auto

text \<open>The regions of the guest's physical address space: the system page, the identity map page and
  the three pages of the task state segment of amd64, the interrupt distributor and
  redistributor of arm64, and RAM.\<close>

definition guest_layout :: "vm \<Rightarrow> (nat \<times> nat) list" where
  "guest_layout v =
     [(unat (GuestPhysAddr (sys_region v)), length (sys v)), (unat kvmIdentityMapStart, unat kvmIdentityMapSize),
      (unat kvmTSSStart, 0x3000), (unat GIC_DIST_BASE, unat GIC_DIST_SIZE), (unat GIC_REDIST_CPUI_BASE, unat GIC_REDIST_CPUI_SIZE),
      (unat (GuestPhysAddr (ram_region v)), length (mem v))]"

text \<open>The regions that the hypervisor places in the guest's physical address space do not
  overlap, as long as the host's page size is at most 48 KiB.\<close>

lemma guest_layout_disjoint:
  assumes "length (sys v) \<le> 0xC000"
  shows "sorted_wrt (\<lambda>(a, n) (b, _). a + n \<le> b) (guest_layout v)"
  using assms by (simp add: guest_layout_def sys_region_def ram_region_def push_bit_eq_mult)

end
