(* ===== verification/Boot.thy ===== *)
theory Boot
  imports Container_Spec Machine_Spec
begin

text \<open>
  \<open>boot.go\<close>, \<open>StartVCPU\<close> of \<open>kvm/machine.go\<close> and the signal goroutine of
  \<open>cmd/revisor/revisor.go\<close>: the process as a system of goroutines. The main goroutine starts
  one goroutine per virtual CPU and waits for all of them; a further one forwards signals to
  the guest. A schedule is a sequence of events, and an event runs one goroutine up to its
  next scheduling point: one start of a virtual CPU, one turn of a virtual CPU's loop, one
  signal, or the return of \<open>wg.Wait\<close>, which waits for the counter of the wait group to be 0.
  A panic in any goroutine ends the process.
\<close>

section \<open>The goroutine of a virtual CPU\<close>

text \<open>One turn of the goroutine's two nested loops: \<open>None\<close> to go on, or the error that it
  ends with.\<close>

definition thread_turn ::
  "'w host \<Rightarrow> ('w, 'c) arch \<Rightarrow> ('w, 'c) hyper \<Rightarrow> bool \<Rightarrow> nat \<Rightarrow>
   (('w, 'c) st, goerror option option) go" where
  "thread_turn h A hyp trace cpu =
     bnd (loop_turn h A hyp cpu trace) (\<lambda>r.
       case r of
         None \<Rightarrow> ret None
       | Some err \<Rightarrow>
           if trace \<and> err \<noteq> None \<and> errors_Is (the err) ErrDebug
           then bnd (trace_inst h A cpu) (\<lambda>_. ret None)
           else bnd (cpu_exited h cpu err) (\<lambda>err. ret (Some err)))"

lemma thread_turn_continue: "loop_turn h A hyp cpu trace s = (Ok None, s') \<Longrightarrow>
  thread_turn h A hyp trace cpu s = (Ok None, s')"
  by (simp add: thread_turn_def go_simps)

lemma thread_turn_stop:
  assumes "loop_turn h A hyp cpu trace s = (Ok (Some err), s')"
  shows "thread_turn h A hyp trace cpu s =
    (if trace \<and> err \<noteq> None \<and> errors_Is (the err) ErrDebug
     then case trace_inst h A cpu s' of
            (Ok _, t) \<Rightarrow> (Ok None, t) | (Err e, t) \<Rightarrow> (Err e, t) | (Panic q, t) \<Rightarrow> (Panic q, t)
     else case cpu_exited h cpu err s' of
            (Ok x, t) \<Rightarrow> (Ok (Some x), t) | (Err e, t) \<Rightarrow> (Err e, t) | (Panic q, t) \<Rightarrow> (Panic q, t))"
  using assms by (auto simp: thread_turn_def bnd_def ret_def split: prod.splits res.splits)

lemma thread_turn_fail:
  "loop_turn h A hyp cpu trace s = (Err e, s') \<Longrightarrow> thread_turn h A hyp trace cpu s = (Err e, s')"
  "loop_turn h A hyp cpu trace s = (Panic q, s') \<Longrightarrow> thread_turn h A hyp trace cpu s = (Panic q, s')"
  by (simp_all add: thread_turn_def go_simps)

lemma go_on_thread_turn:
  "go_on (loop_turn h A hyp cpu trace) n s = Some s' \<Longrightarrow> go_on (thread_turn h A hyp trace cpu) n s = Some s'"
  by (induction n arbitrary: s)
    (auto split: prod.splits res.splits option.splits simp: thread_turn_continue)

lemma vcpu_thread_loop_result:
  assumes "vcpu_thread h A hyp cpu trace s = Some y"
  shows "loop_result (thread_turn h A hyp trace cpu) s y"
  using assms
proof (rule vcpu_thread.raw_induct [rotated], goal_cases)
  case (1 f h A hyp cpu trace s y)
  let ?turn = "thread_turn h A hyp trace cpu"
  obtain r s' where run: "RunInfiniteLoop h A hyp cpu trace s = Some (r, s')"
    using 1(2) by (auto split: bind_splits)
  then obtain n s1 where n: "go_on (loop_turn h A hyp cpu trace) n s = Some s1"
    and out: "outcome_of (loop_turn h A hyp cpu trace s1) = Some (r, s')"
    by (auto simp: RunInfiniteLoop_iff loop_result_def)
  have "loop_result ?turn s1 y"
  proof (cases "loop_turn h A hyp cpu trace s1" rule: outcome_of.cases)
    case (2 err u)
    then have turn: "loop_turn h A hyp cpu trace s1 = (Ok (Some err), s')" and r: "r = Ok err"
      using out by auto
    show ?thesis
      using 1 run r by (subst loop_result_unfold)
        (auto simp: thread_turn_stop [OF turn] split: prod.splits res.splits option.splits if_splits)
  qed (use out 1(2) run in \<open>auto simp: loop_result_unfold [of ?turn s1] thread_turn_fail\<close>)
  with go_on_thread_turn [OF n] show ?case by (rule go_on_loop_result)
qed

lemma vcpu_thread_continue:
  assumes "loop_turn h A hyp cpu trace s = (Ok None, s')"
  shows "vcpu_thread h A hyp cpu trace s = vcpu_thread h A hyp cpu trace s'"
proof -
  have "RunInfiniteLoop h A hyp cpu trace s = RunInfiniteLoop h A hyp cpu trace s'"
    using assms by (subst RunInfiniteLoop.simps) simp
  then show ?thesis by (subst (1 2) vcpu_thread.simps) simp
qed

lemma vcpu_thread_turn:
  "vcpu_thread h A hyp cpu trace s =
   (case thread_turn h A hyp trace cpu s of
      (Ok None, s') \<Rightarrow> vcpu_thread h A hyp cpu trace s' | out \<Rightarrow> outcome_of out)"
proof (cases "loop_turn h A hyp cpu trace s" rule: outcome_of.cases)
  case (1 s')
  then show ?thesis by (simp add: thread_turn_continue vcpu_thread_continue)
next
  case (2 err s')
  then have "RunInfiniteLoop h A hyp cpu trace s = Some (Ok err, s')"
    by (subst RunInfiniteLoop.simps) simp
  then show ?thesis
    by (subst vcpu_thread.simps)
      (auto simp: thread_turn_stop [OF 2] cpu_exited_def bnd_def ret_def eprint_def host_call_def
        split: prod.splits res.splits)
qed (subst vcpu_thread.simps, subst RunInfiniteLoop.simps, simp add: thread_turn_fail)+

lemma loop_result_vcpu_thread:
  "go_on (thread_turn h A hyp trace cpu) n s = Some s' \<Longrightarrow>
   outcome_of (thread_turn h A hyp trace cpu s') = Some y \<Longrightarrow> vcpu_thread h A hyp cpu trace s = Some y"
proof (induction n arbitrary: s)
  case 0
  then show ?case by (subst vcpu_thread_turn) (auto split: prod.splits res.splits option.splits)
next
  case (Suc n)
  then show ?case by (subst vcpu_thread_turn) (auto split: prod.splits res.splits option.splits)
qed

lemma vcpu_thread_iff:
  "vcpu_thread h A hyp cpu trace s = Some y \<longleftrightarrow> loop_result (thread_turn h A hyp trace cpu) s y"
proof
  assume "loop_result (thread_turn h A hyp trace cpu) s y"
  then show "vcpu_thread h A hyp cpu trace s = Some y"
    unfolding loop_result_def by (elim exE conjE) (rule loop_result_vcpu_thread)
qed (rule vcpu_thread_loop_result)

section \<open>What the exits of the kernel do to a virtual CPU\<close>

text \<open>
  The loop of a virtual CPU without tracing, seen from the kernel: \<open>KVM_RUN\<close> (request \<open>0xAE80\<close>) returns, or is interrupted
  (\<open>EINTR\<close> is 4, \<open>EAGAIN\<close> is 11), with an exit reason of the KVM interface in the run page: 0 unknown, 2 I/O,
  4 debug, 5 halt, 6 memory-mapped I/O, 10 signal.
\<close>

definition run_request :: "'w host \<Rightarrow> nat \<Rightarrow> ('w, 'c) st \<Rightarrow> goerror option \<Rightarrow> ('w, 'c) st \<Rightarrow> bool" where
  "run_request h cpu s err t \<longleftrightarrow>
     cpu < length (vcpus (the_vm s)) \<and>
     (\<exists>r b. Ioctl h (vcpu_fd (vcpus (the_vm s) ! cpu)) 0xAE80 (IoVal 0) s = (Ok ((r, err), b), t))"

definition kvm_exit :: "'w host \<Rightarrow> nat \<Rightarrow> ('w, 'c) st \<Rightarrow> u32 \<Rightarrow> ('w, 'c) st \<Rightarrow> bool" where
  "kvm_exit h cpu s reason t \<longleftrightarrow>
     (run_request h cpu s None t \<or> run_request h cpu s (Some (Errno 4)) t \<or> run_request h cpu s (Some (Errno 11)) t) \<and>
     cpu < length (runs (machine t)) \<and> (\<exists>rd. runs (machine t) ! cpu = Some rd \<and> ExitReason rd = reason)"

text \<open>The turns after which the guest is entered again; \<open>SingleStep\<close> runs before, and its error is dropped.\<close>

inductive guest_goes_on ::
  "'w host \<Rightarrow> ('w, 'c) arch \<Rightarrow> ('w, 'c) hyper \<Rightarrow> nat \<Rightarrow> ('w, 'c) st \<Rightarrow> ('w, 'c) st \<Rightarrow> bool"
  for h A hyp cpu where
  on_signal: "kvm_exit h cpu s reason t \<Longrightarrow> reason = 0 \<or> reason = 10 \<Longrightarrow>
    guest_goes_on h A hyp cpu s (snd (SingleStep h False t))"
| on_call: "kvm_exit h cpu s reason t \<Longrightarrow> reason = 2 \<or> reason = 6 \<Longrightarrow> hypercall A hyp cpu t = (Ok (), u) \<Longrightarrow>
    guest_goes_on h A hyp cpu s (snd (SingleStep h False u))"

text \<open>The turns that end the loop, with the error that it returns.\<close>

inductive guest_stops ::
  "'w host \<Rightarrow> ('w, 'c) arch \<Rightarrow> ('w, 'c) hyper \<Rightarrow> nat \<Rightarrow> ('w, 'c) st \<Rightarrow> goerror option \<Rightarrow> ('w, 'c) st \<Rightarrow> bool"
  for h A hyp cpu where
  stop_halt: "kvm_exit h cpu s 5 t \<Longrightarrow> guest_stops h A hyp cpu s None t"
| stop_call: "kvm_exit h cpu s reason t \<Longrightarrow> reason = 2 \<or> reason = 6 \<Longrightarrow> hypercall A hyp cpu t = (Err e, u) \<Longrightarrow>
    guest_stops h A hyp cpu s (Some e) u"
| stop_debug: "kvm_exit h cpu s 4 t \<Longrightarrow> guest_stops h A hyp cpu s (Some ErrDebug) t"
| stop_unexpected: "kvm_exit h cpu s reason t \<Longrightarrow> reason \<notin> {0, 2, 4, 5, 6, 10} \<Longrightarrow>
    guest_stops h A hyp cpu s (Some (ErrorfW ''%w: %v'' [] [ExitType_String (ucast reason)] ErrUnexpectedExitReason)) t"
| stop_failed: "run_request h cpu s (Some (Errno n)) t \<Longrightarrow> n \<notin> {4, 11} \<Longrightarrow> guest_stops h A hyp cpu s (Some (Errno n)) t"
| stop_no_cpu: "length (vcpus (the_vm s)) \<le> cpu \<Longrightarrow>
    guest_stops h A hyp cpu s (Some (Errorf ''CPU %d out of range'' [word_of_nat cpu])) s"


inductive_cases goes_onE: "guest_goes_on h A hyp cpu s t"
inductive_cases stopsE: "guest_stops h A hyp cpu s err t"

lemma ucast_inj32: "(ucast (r :: u32) :: u64) = ucast q \<longleftrightarrow> r = q"
  by transfer (simp add: min_def)

lemma reason_iff: "(ucast (r :: u32) :: u64) = 0 \<longleftrightarrow> r = 0" "(ucast r :: u64) = 2 \<longleftrightarrow> r = 2" "(ucast r :: u64) = 4 \<longleftrightarrow> r = 4"
  "(ucast r :: u64) = 5 \<longleftrightarrow> r = 5" "(ucast r :: u64) = 6 \<longleftrightarrow> r = 6" "(ucast r :: u64) = 10 \<longleftrightarrow> r = 10"
  using ucast_inj32 [of r 0] ucast_inj32 [of r 2] ucast_inj32 [of r 4] ucast_inj32 [of r 5] ucast_inj32 [of r 6] ucast_inj32 [of r 10]
  by simp_all
lemma run_code: "IIO kvmRun = 0xAE80"
  by code_simp
lemma Ioctl_total: "\<exists>r err b t. Ioctl h fd op arg s = (Ok ((r, err), b), t)"
  by (simp add: Ioctl_def Let_def split_beta)

lemma kvm_exit_RunOnce:
  assumes "kvm_exit h cpu s reason t"
  shows "RunOnce h A hyp cpu s =
    (if reason = 5 then (Ok (False, None), t)
     else if reason = 6 \<or> reason = 2 then
       (case hypercall A hyp cpu t of
          (Ok _, u) \<Rightarrow> (Ok (True, None), u) | (Err e, u) \<Rightarrow> (Ok (False, Some e), u) | (Panic q, u) \<Rightarrow> (Panic q, u))
     else if reason = 0 \<or> reason = 10 then (Ok (True, None), t)
     else if reason = 4 then (Ok (False, Some ErrDebug), t)
     else (Ok (False, Some (ErrorfW ''%w: %v'' [] [ExitType_String (ucast reason)] ErrUnexpectedExitReason)), t))"
proof -
  let ?v = "vcpus (the_vm s) ! cpu"
  from assms obtain rd where cpu: "cpu < length (vcpus (the_vm s))" "cpu < length (runs (machine t))" "runs (machine t) ! cpu = Some rd"
    "ExitReason rd = reason" and run: "vcpu_Run h ?v s = (Ok (), t)"
    by (auto simp: kvm_exit_def run_request_def run_code [symmetric] vcpu_Run_errno)
  then show ?thesis
    by (auto simp: RunOnce_def exit_reason_def go_simps attempt_def reason_iff split: prod.splits res.splits)
qed

lemma RunOnce_cases:
  obtains (no_cpu) "length (vcpus (the_vm s)) \<le> cpu"
      "RunOnce h A hyp cpu s = (Ok (False, Some (Errorf ''CPU %d out of range'' [word_of_nat cpu])), s)"
    | (failed) n t where "run_request h cpu s (Some (Errno n)) t" "n \<notin> {4, 11}" "RunOnce h A hyp cpu s = (Ok (False, Some (Errno n)), t)"
    | (exit) reason t where "kvm_exit h cpu s reason t"
    | (page) q t where "RunOnce h A hyp cpu s = (Panic q, t)"
proof (cases "cpu < length (vcpus (the_vm s))")
  case True
  let ?v = "vcpus (the_vm s) ! cpu"
  obtain r err b t where io: "Ioctl h (vcpu_fd ?v) (IIO kvmRun) (IoVal 0) s = (Ok ((r, err), b), t)"
    using Ioctl_total by blast
  note run = vcpu_Run_errno [OF io] and errno = Ioctl_errno [OF io]
  have req: "run_request h cpu s e u \<longleftrightarrow> e = err \<and> u = t" for e u
    using io True by (auto simp: run_request_def run_code)
  show thesis
  proof (cases "err \<in> {None, Some (Errno 4), Some (Errno 11)}")
    case False
    with errno obtain n where "err = Some (Errno n)" "n \<notin> {4, 11}" by auto
    with run True show thesis by (intro failed [of n t]) (auto simp: req RunOnce_def go_simps attempt_def)
  next
    case ok: True
    with run have run: "vcpu_Run h ?v s = (Ok (), t)" by auto
    show thesis
    proof (cases "cpu < length (runs (machine t)) \<and> runs (machine t) ! cpu \<noteq> None")
      case True
      with ok show thesis by (intro exit [of "ExitReason (the (runs (machine t) ! cpu))" t]) (auto simp: kvm_exit_def req)
    next
      case False
      with ok run True show thesis
        by (intro page [of "if cpu < length (runs (machine t)) then NilDereference else IndexOutOfRange" t])
          (auto simp: kvm_exit_def req RunOnce_def exit_reason_def go_simps attempt_def)
    qed
  qed
qed (intro no_cpu, auto simp: RunOnce_def go_simps)

lemma RunOnce_failed:
  assumes "run_request h cpu s (Some (Errno n)) t" and "n \<notin> {4, 11}"
  shows "RunOnce h A hyp cpu s = (Ok (False, Some (Errno n)), t)"
  using assms by (auto simp: run_request_def run_code [symmetric] vcpu_Run_errno RunOnce_def go_simps attempt_def)

text \<open>\<open>SingleStep\<close> may fail, but it does not panic.\<close>

lemma attempt_SingleStep: "\<exists>r. attempt (SingleStep h b) s = (Ok r, snd (SingleStep h b s))"
proof -
  have "fst (for_each vs (\<lambda>cpu. bnd (attempt (vcpu_SingleStep h b cpu)) (\<lambda>r.
         case r of Inl err \<Rightarrow> throw (ErrorfW f [vcpu_fd cpu] [] err) | Inr _ \<Rightarrow> ret ())) s) \<noteq> Panic q" for vs f q s
  proof (induction vs arbitrary: s)
    case (Cons v vs)
    have "fst (vcpu_SingleStep h b v s) \<noteq> Panic p" for p
      by (auto simp: vcpu_SingleStep_def Ioctl_err_def Ioctl_def bnd_def check_def split_beta Let_def go_simps split: option.splits)
    with Cons show ?case
      by (auto simp: bnd_def attempt_def go_simps split: prod.splits res.splits sum.splits) (metis fst_conv)+
  qed (simp add: go_simps)
  then have "fst (SingleStep h b s) \<noteq> Panic q" for q by (simp only: SingleStep_def bnd_gets not_False_eq_True)
  then show ?thesis by (cases "SingleStep h b s") (auto simp: attempt_def split: res.splits)
qed

lemma loop_turn_True:
  assumes "RunOnce h A hyp cpu s = (Ok (True, None), u)"
  shows "loop_turn h A hyp cpu trace s = (Ok None, snd (SingleStep h trace u))"
  using assms attempt_SingleStep [of h trace u] by (auto simp: loop_turn_def go_simps)

lemma loop_turn_False:
  assumes "RunOnce h A hyp cpu s = (Ok (False, err), u)"
  shows "loop_turn h A hyp cpu trace s = (Ok (Some err), u)"
  using assms by (auto simp: loop_turn_def go_simps)

lemma loop_turn_Panic:
  assumes "RunOnce h A hyp cpu s = (Panic q, u)"
  shows "loop_turn h A hyp cpu trace s = (Panic q, u)"
  using assms by (auto simp: loop_turn_def go_simps)

lemmas loop_turn_eqs = loop_turn_True loop_turn_False loop_turn_Panic

lemma goes_on_turn: "guest_goes_on h A hyp cpu s t \<Longrightarrow> loop_turn h A hyp cpu False s = (Ok None, t)"
  by (erule goes_onE) (auto intro!: loop_turn_True simp: kvm_exit_RunOnce)

lemma stops_turn: "guest_stops h A hyp cpu s err t \<Longrightarrow> loop_turn h A hyp cpu False s = (Ok (Some err), t)"
  by (erule stopsE)
    (auto intro!: loop_turn_False simp: kvm_exit_RunOnce RunOnce_failed, auto simp: RunOnce_def go_simps)

lemma turn_cases:
  "(\<exists>t. guest_goes_on h A hyp cpu s t) \<or> (\<exists>err t. guest_stops h A hyp cpu s err t) \<or>
   (\<exists>q t. loop_turn h A hyp cpu False s = (Panic q, t))"
proof (cases rule: RunOnce_cases [of s cpu h A hyp])
  case no_cpu
  then show ?thesis by (blast intro: stop_no_cpu)
next
  case failed
  then show ?thesis by (blast intro: stop_failed)
next
  case (page q t)
  then show ?thesis by (blast intro: loop_turn_Panic)
next
  case (exit reason t)
  show ?thesis
  proof (cases "reason = 2 \<or> reason = 6")
    case True
    obtain r u where call: "hypercall A hyp cpu t = (r, u)" by fastforce
    then show ?thesis
    proof (cases r)
      case (Panic q)
      with call True have "RunOnce h A hyp cpu s = (Panic q, u)" by (auto simp: kvm_exit_RunOnce [OF exit])
      then show ?thesis by (blast intro: loop_turn_Panic)
    next
      case (Ok x)
      with call have "hypercall A hyp cpu t = (Ok (), u)" by simp
      from on_call [OF exit True this] show ?thesis by blast
    next
      case (Err e)
      with call have "hypercall A hyp cpu t = (Err e, u)" by simp
      from stop_call [OF exit True this] show ?thesis by blast
    qed
  next
    case False
    with exit show ?thesis
      by (cases "reason = 0 \<or> reason = 10"; cases "reason = 4 \<or> reason = 5")
        (blast intro: on_signal stop_halt stop_debug stop_unexpected)+
  qed
qed

lemma loop_turn_exits:
  "loop_turn h A hyp cpu False s = (Ok None, t) \<longleftrightarrow> guest_goes_on h A hyp cpu s t"
  "loop_turn h A hyp cpu False s = (Ok (Some err), t) \<longleftrightarrow> guest_stops h A hyp cpu s err t"
  using turn_cases [of h A hyp cpu s] goes_on_turn [of h A hyp cpu s] stops_turn [of h A hyp cpu s] by fastforce+

lemma go_on_goes_on:
  "(\<exists>n. go_on (loop_turn h A hyp cpu False) n s = Some t) \<longleftrightarrow> (guest_goes_on h A hyp cpu)\<^sup>*\<^sup>* s t"
proof
  assume "\<exists>n. go_on (loop_turn h A hyp cpu False) n s = Some t"
  then obtain n where "go_on (loop_turn h A hyp cpu False) n s = Some t" ..
  then show "(guest_goes_on h A hyp cpu)\<^sup>*\<^sup>* s t"
    by (induction n arbitrary: s)
      (auto simp: loop_turn_exits split: prod.splits res.splits option.splits intro: converse_rtranclp_into_rtranclp)
next
  assume "(guest_goes_on h A hyp cpu)\<^sup>*\<^sup>* s t"
  then show "\<exists>n. go_on (loop_turn h A hyp cpu False) n s = Some t"
  proof (induction rule: converse_rtranclp_induct)
    case base
    show ?case by (rule exI [of _ 0]) simp
  next
    case (step s u)
    then obtain n where "go_on (loop_turn h A hyp cpu False) n u = Some t" by blast
    with goes_on_turn [OF step.hyps(1)] show ?case by (intro exI [of _ "Suc n"]) simp
  qed
qed

lemma RunInfiniteLoop_exits:
  "RunInfiniteLoop h A hyp cpu False s = Some (Ok err, u) \<longleftrightarrow>
   (\<exists>t. (guest_goes_on h A hyp cpu)\<^sup>*\<^sup>* s t \<and> guest_stops h A hyp cpu t err u)"
proof -
  have "outcome_of (loop_turn h A hyp cpu False t) = Some (Ok err, u) \<longleftrightarrow> guest_stops h A hyp cpu t err u" for t
    by (cases "loop_turn h A hyp cpu False t" rule: outcome_of.cases) (auto simp: loop_turn_exits [symmetric])
  then show ?thesis by (auto simp: RunInfiniteLoop_iff loop_result_def go_on_goes_on [symmetric])
qed

lemma cpu_exited_eq:
  "cpu_exited h cpu err s = (Ok err, s\<lparr>world := snd (sys_write h 2
     (map (\<lambda>c. word_of_nat (of_char c)) (''CPU '' @ dec_string cpu @ '' exited (err='' @ fmt_v h err @ '')\<newline>'')) (world s))\<rparr>)"
  by (simp add: cpu_exited_def eprint_def host_call_def go_simps bnd_def split_beta)

lemma vcpu_thread_exits:
  "vcpu_thread h A hyp cpu False s = Some (Ok err, u) \<longleftrightarrow>
   (\<exists>t t'. (guest_goes_on h A hyp cpu)\<^sup>*\<^sup>* s t \<and> guest_stops h A hyp cpu t err t' \<and> u = snd (cpu_exited h cpu err t'))"
proof -
  have "vcpu_thread h A hyp cpu False s = Some (Ok err, u) \<longleftrightarrow>
      (\<exists>t'. RunInfiniteLoop h A hyp cpu False s = Some (Ok err, t') \<and> u = snd (cpu_exited h cpu err t'))"
  proof (cases "RunInfiniteLoop h A hyp cpu False s")
    case (Some y)
    obtain r t where y: "y = (r, t)" by fastforce
    have "cpu_exited h cpu e t = (Ok e, snd (cpu_exited h cpu e t))" for e t by (simp only: cpu_exited_eq snd_conv)
    then have "cpu_exited h cpu e t = (Ok err, u) \<longleftrightarrow> e = err \<and> u = snd (cpu_exited h cpu err t)" for e
      by (metis Pair_inject res.inject(1))
    with Some y show ?thesis by (subst vcpu_thread.simps, cases r) auto
  qed (subst vcpu_thread.simps, simp)
  then show ?thesis by (auto simp: RunInfiniteLoop_exits)
qed

section \<open>Starting virtual CPUs and forwarding signals\<close>

text \<open>What \<open>StartVCPU\<close> does before its goroutine runs, with the line that \<open>Boot\<close> logs.\<close>

definition start_vcpu :: "'w host \<Rightarrow> bool \<Rightarrow> nat \<Rightarrow> (('w, 'c) st, unit) go" where
  "start_vcpu h trace cpu =
     bnd (host_call (\<lambda>w. ((), sys_log h (''booting vcpu '' @ dec_string cpu) w))) (\<lambda>_.
     bnd (attempt (SingleStep h trace)) (\<lambda>_. ret ()))"

text \<open>\<open>registerSignals\<close>: the signals that are forwarded, by their Linux numbers and in the
  order of the source (\<open>SIGABRT\<close>, \<open>SIGBUS\<close>, \<open>SIGCLD\<close>, \<open>SIGCONT\<close>, \<open>SIGFPE\<close>, \<open>SIGHUP\<close>,
  \<open>SIGINT\<close>, \<open>SIGIO\<close>, \<open>SIGIOT\<close>, \<open>SIGPIPE\<close>, \<open>SIGPOLL\<close>, \<open>SIGPWR\<close>, \<open>SIGQUIT\<close>, \<open>SIGSEGV\<close>,
  \<open>SIGSTKFLT\<close>, \<open>SIGSYS\<close>, \<open>SIGTERM\<close>, \<open>SIGTRAP\<close>, \<open>SIGTSTP\<close>, \<open>SIGTTIN\<close>, \<open>SIGTTOU\<close>,
  \<open>SIGUNUSED\<close>, \<open>SIGUSR1\<close>, \<open>SIGUSR2\<close>, \<open>SIGWINCH\<close>), and the text that \<open>%v\<close> prints for
  signal \<open>n\<close>.\<close>

definition notified_signals :: "nat list" where
  "notified_signals = [6, 7, 17, 18, 8, 1, 2, 29, 6, 13, 29, 30, 3, 11, 16, 31, 15, 5, 20, 21, 22, 31,
     10, 12, 28]"

definition signal_texts :: "string list" where
  "signal_texts = [''signal 0'', ''hangup'', ''interrupt'', ''quit'', ''illegal instruction'',
     ''trace/breakpoint trap'', ''aborted'', ''bus error'', ''floating point exception'', ''killed'',
     ''user defined signal 1'', ''segmentation fault'', ''user defined signal 2'', ''broken pipe'',
     ''alarm clock'', ''terminated'', ''stack fault'', ''child exited'', ''continued'',
     ''stopped (signal)'', ''stopped'', ''stopped (tty input)'', ''stopped (tty output)'',
     ''urgent I/O condition'', ''CPU time limit exceeded'', ''file size limit exceeded'',
     ''virtual timer expired'', ''profiling timer expired'', ''window changed'', ''I/O possible'',
     ''power failure'', ''bad system call'']"

text \<open>A turn of the goroutine of \<open>registerSignals\<close>.\<close>

definition handle_signal :: "'w host \<Rightarrow> ('w, 'c) arch \<Rightarrow> nat \<Rightarrow> (('w, 'c) st, unit) go" where
  "handle_signal h A s =
     bnd (attempt (Signal A)) (\<lambda>r.
       case r of
         Inl err \<Rightarrow> eprint h (''error handling signal '' @ signal_texts ! s @ '': '' @ fmt_err h err)
       | Inr _ \<Rightarrow> ret ())"

section \<open>The process\<close>

datatype thread = Running | Exited "goerror option"

text \<open>Where \<open>Boot\<close> stands: in its loop before starting virtual CPU \<open>i\<close>, in \<open>wg.Wait\<close>, or
  returned.\<close>

datatype boot_pc = Starting nat | Waiting | Returned

record ('w, 'c) proc =
  pst :: "('w, 'c) st"
  pc :: boot_pc
  threads :: "thread list"
  wg :: nat
  crash :: "gopanic option"

text \<open>\<open>wg.Add(1)\<close> and \<open>wg.Done()\<close> on the counter of the wait group; a counter that would become
  negative is a panic of \<open>sync\<close>.\<close>

definition wg_Add :: "('w, 'c) proc \<Rightarrow> ('w, 'c) proc" where
  "wg_Add p = p\<lparr>wg := wg p + 1\<rparr>"

definition wg_Done :: "('w, 'c) proc \<Rightarrow> ('w, 'c) proc" where
  "wg_Done p = (if wg p = 0 then p\<lparr>crash := Some NegativeWaitGroup\<rparr> else p\<lparr>wg := wg p - 1\<rparr>)"

datatype event = EvMain | EvTurn nat | EvSignal nat

text \<open>Continue a process with the outcome of an operation; an error cannot escape a goroutine,
  and a panic ends the process.\<close>

definition resume :: "('w, 'c) proc \<Rightarrow> 'a res \<times> ('w, 'c) st \<Rightarrow> ('a \<Rightarrow> ('w, 'c) proc \<Rightarrow> ('w, 'c) proc) \<Rightarrow> ('w, 'c) proc" where
  "resume p out k =
     (case out of
        (Ok x, s) \<Rightarrow> k x (p\<lparr>pst := s\<rparr>)
      | (Err e, s) \<Rightarrow> p\<lparr>pst := s, crash := Some (PanicErr e)\<rparr>
      | (Panic q, s) \<Rightarrow> p\<lparr>pst := s, crash := Some q\<rparr>)"

fun do_event ::
  "'w host \<Rightarrow> ('w, 'c) arch \<Rightarrow> ('w, 'c) hyper \<Rightarrow> bool \<Rightarrow> event \<Rightarrow> ('w, 'c) proc \<Rightarrow> ('w, 'c) proc option" where
  "do_event h A hyp trace EvMain p =
     (case pc p of
        Starting i \<Rightarrow>
          if i < length (vcpus (the_vm (pst p)))
          then Some (resume (wg_Add p) (start_vcpu h trace i (pst p))
                 (\<lambda>_ q. q\<lparr>pc := Starting (Suc i), threads := threads q @ [Running]\<rparr>))
          else Some (p\<lparr>pc := Waiting\<rparr>)
      | Waiting \<Rightarrow> if wg p = 0 then Some (p\<lparr>pc := Returned\<rparr>) else None
      | Returned \<Rightarrow> None)"
| "do_event h A hyp trace (EvTurn cpu) p =
     (if cpu < length (threads p) \<and> threads p ! cpu = Running
      then Some (resume p (thread_turn h A hyp trace cpu (pst p))
             (\<lambda>r q. case r of None \<Rightarrow> q | Some err \<Rightarrow> wg_Done (q\<lparr>threads := (threads q)[cpu := Exited err]\<rparr>)))
      else None)"
| "do_event h A hyp trace (EvSignal s) p =
     (if s \<in> set notified_signals
      then Some (resume p (handle_signal h A s (pst p)) (\<lambda>_ q. q)) else None)"

text \<open>A process that crashed or whose \<open>Boot\<close> returned takes no further step.\<close>

definition proc_step ::
  "'w host \<Rightarrow> ('w, 'c) arch \<Rightarrow> ('w, 'c) hyper \<Rightarrow> bool \<Rightarrow> event \<Rightarrow> ('w, 'c) proc \<Rightarrow> ('w, 'c) proc option" where
  "proc_step h A hyp trace ev p =
     (if crash p \<noteq> None \<or> pc p = Returned then None else do_event h A hyp trace ev p)"

lemma wg_frame [simp]:
  "pst (wg_Add p) = pst p" "pc (wg_Add p) = pc p" "threads (wg_Add p) = threads p" "crash (wg_Add p) = crash p"
  "pst (wg_Done p) = pst p" "pc (wg_Done p) = pc p" "threads (wg_Done p) = threads p"
  by (simp_all add: wg_Add_def wg_Done_def)

text \<open>\<open>Boot\<close> after a successful \<open>LoadKernel\<close>.\<close>

definition boot_proc :: "('w, 'c) st \<Rightarrow> ('w, 'c) proc" where
  "boot_proc s = \<lparr>pst = s, pc = Starting 0, threads = [], wg = 0, crash = None\<rparr>"

definition Boot :: "('w, 'c) arch \<Rightarrow> goerror + elf_file \<Rightarrow> string list \<Rightarrow> ('w, 'c) st \<Rightarrow> ('w, 'c) proc res" where
  "Boot A kfile args s =
     (case LoadKernel A kfile args s of
        (Ok _, s') \<Rightarrow> Ok (boot_proc s')
      | (Err e, s') \<Rightarrow> Err e
      | (Panic q, s') \<Rightarrow> Panic q)"

inductive reach ::
  "'w host \<Rightarrow> ('w, 'c) arch \<Rightarrow> ('w, 'c) hyper \<Rightarrow> bool \<Rightarrow> ('w, 'c) st \<Rightarrow> ('w, 'c) proc \<Rightarrow> bool"
  for h A hyp trace s0 where
  reach_boot: "reach h A hyp trace s0 (boot_proc s0)"
| reach_step: "reach h A hyp trace s0 p \<Longrightarrow> proc_step h A hyp trace ev p = Some q \<Longrightarrow>
    reach h A hyp trace s0 q"

text \<open>Running a schedule; an event that is not enabled makes it fail.\<close>

fun run_schedule ::
  "'w host \<Rightarrow> ('w, 'c) arch \<Rightarrow> ('w, 'c) hyper \<Rightarrow> bool \<Rightarrow> event list \<Rightarrow> ('w, 'c) proc \<Rightarrow> ('w, 'c) proc option" where
  "run_schedule h A hyp trace [] p = Some p"
| "run_schedule h A hyp trace (ev # evs) p =
     Option.bind (proc_step h A hyp trace ev p) (run_schedule h A hyp trace evs)"

lemma run_schedule_snoc:
  "run_schedule h A hyp trace (evs @ [ev]) p =
   Option.bind (run_schedule h A hyp trace evs p) (proc_step h A hyp trace ev)"
  by (induction evs arbitrary: p) (simp_all split: bind_split)

lemma reach_iff_schedule:
  "reach h A hyp trace s0 p \<longleftrightarrow> (\<exists>evs. run_schedule h A hyp trace evs (boot_proc s0) = Some p)"
proof
  assume "reach h A hyp trace s0 p"
  then show "\<exists>evs. run_schedule h A hyp trace evs (boot_proc s0) = Some p"
  proof induction
    case reach_boot
    show ?case by (rule exI [of _ "[]"]) simp
  next
    case (reach_step p ev q)
    then obtain evs where "run_schedule h A hyp trace evs (boot_proc s0) = Some p" by blast
    with reach_step.hyps(2) show ?case
      by (intro exI [of _ "evs @ [ev]"]) (simp add: run_schedule_snoc)
  qed
next
  assume "\<exists>evs. run_schedule h A hyp trace evs (boot_proc s0) = Some p"
  then obtain evs where "run_schedule h A hyp trace evs (boot_proc s0) = Some p" ..
  then show "reach h A hyp trace s0 p"
    by (induction evs arbitrary: p rule: rev_induct)
      (auto simp: run_schedule_snoc bind_eq_Some_conv intro: reach.intros)
qed


section \<open>Errors stay inside their goroutine\<close>

definition errorfree :: "('s, 'a) go \<Rightarrow> bool" where
  "errorfree m \<longleftrightarrow> (\<forall>s e. fst (m s) \<noteq> Err e)"

named_theorems errorfree_rules \<open>operations that return no error to their caller\<close>

lemma errorfree_prims [errorfree_rules]:
  "errorfree (ret x)" "errorfree (panic q)" "errorfree (gets g)" "errorfree (attempt m)"
  "errorfree (host_call f)" "errorfree (index xs i)"
  by (auto simp: errorfree_def go_simps attempt_def host_call_def index_def split_beta Let_def
      split: res.splits)

lemma errorfree_bnd [errorfree_rules]:
  "errorfree m \<Longrightarrow> (\<And>x. errorfree (k x)) \<Longrightarrow> errorfree (bnd m k)"
  by (simp add: errorfree_def bnd_def split: prod.splits res.splits) (metis fst_conv)

lemma errorfree_cases [errorfree_rules]:
  "(\<And>x. errorfree (g x)) \<Longrightarrow> (\<And>y. errorfree (k y)) \<Longrightarrow> errorfree (case v of Inl x \<Rightarrow> g x | Inr y \<Rightarrow> k y)"
  "errorfree m \<Longrightarrow> (\<And>x. errorfree (g' x)) \<Longrightarrow> errorfree (case u of None \<Rightarrow> m | Some x \<Rightarrow> g' x)"
  "(\<And>x y. errorfree (f x y)) \<Longrightarrow> errorfree (case q of (x, y) \<Rightarrow> f x y)"
  "errorfree m \<Longrightarrow> errorfree n \<Longrightarrow> errorfree (if b then m else n)"
  by (auto split: sum.split option.split prod.split)

lemma errorfree_RunOnce [errorfree_rules]: "errorfree (RunOnce h A hyp cpu)"
  unfolding RunOnce_def exit_reason_def by (intro errorfree_rules)

lemma errorfree_print [errorfree_rules]: "errorfree (eprint h msg)" "errorfree (oprint h msg)"
  unfolding eprint_def oprint_def by (intro errorfree_rules)+

lemma errorfree_goroutines [errorfree_rules]:
  "errorfree (thread_turn h A hyp trace cpu)" "errorfree (start_vcpu h trace cpu)"
  "errorfree (handle_signal h A s)"
  unfolding thread_turn_def loop_turn_def trace_inst_def cpu_exited_def start_vcpu_def handle_signal_def
  by (intro errorfree_rules)+

section \<open>Rules for the steps of the process\<close>

lemma resume_inv:
  assumes "errorfree m" and "preserves I m" and "I s"
    and "\<And>x q. I (pst q) \<Longrightarrow> I (pst (k x q))"
  shows "I (pst (resume p (m s) k))"
proof -
  obtain r t where m: "m s = (r, t)" by (cases "m s")
  with assms(2,3) have "I t" by (blast dest: preservesD)
  with m assms(4) show ?thesis by (auto simp: resume_def split: res.splits)
qed


lemma resume_other [simp]:
  assumes "\<And>x q. threads (k x q) = threads q" "\<And>x q. pc (k x q) = pc q"
  shows "threads (resume p out k) = threads p" "pc (resume p out k) = pc p"
  using assms by (auto simp: resume_def split: prod.splits res.splits)

section \<open>What holds in every reachable state\<close>

context handled_machine
begin

lemma thread_turn_inv: "preserves (\<lambda>s. Q (view s)) (thread_turn h A hyp trace cpu)"
  unfolding thread_turn_def cpu_exited_def
  by (intro inv_rules loop_turn_inv trace_inst_inv preserves_view keeps_rules)

lemma start_vcpu_inv: "preserves (\<lambda>s. Q (view s)) (start_vcpu h trace cpu)"
  unfolding start_vcpu_def by (intro inv_rules preserves_view keeps_rules)

lemma handle_signal_inv: "preserves (\<lambda>s. Q (view s)) (handle_signal h A sig)"
  unfolding handle_signal_def Signal_def by (intro inv_rules preserves_view keeps_rules)

lemma do_event_inv:
  assumes "do_event h A hyp trace ev p = Some q" and "Q (view (pst p))"
  shows "Q (view (pst q))"
proof (cases ev)
  case EvMain
  with assms show ?thesis
    by (auto split: boot_pc.splits if_splits
        intro!: resume_inv [OF _ start_vcpu_inv] errorfree_rules)
next
  case (EvTurn cpu)
  with assms show ?thesis
    by (auto split: if_splits option.splits intro!: resume_inv [OF _ thread_turn_inv] errorfree_rules)
next
  case (EvSignal sig)
  with assms show ?thesis
    by (auto split: if_splits intro!: resume_inv [OF _ handle_signal_inv] errorfree_rules)
qed

lemma reach_inv:
  "reach h A hyp trace s0 p \<Longrightarrow> Q (view s0) \<Longrightarrow> Q (view (pst p))"
  by (induction rule: reach.induct)
    (auto simp: boot_proc_def proc_step_def split: if_splits dest: do_event_inv)

lemma schedule_inv: "run_schedule h A hyp trace evs p = Some q \<Longrightarrow> Q (view (pst p)) \<Longrightarrow> Q (view (pst q))"
  by (induction evs arbitrary: p) (auto simp: bind_eq_Some_conv proc_step_def split: if_splits dest: do_event_inv)

end

text \<open>The bookkeeping of \<open>Boot\<close> and its wait group, for \<open>n\<close> virtual CPUs.\<close>

definition running :: "thread list \<Rightarrow> nat" where
  "running ts = length (filter (\<lambda>t. t = Running) ts)"

lemma running_simps [simp]:
  "running [] = 0" "running (t # ts) = (if t = Running then 1 else 0) + running ts" "running (ts @ ts') = running ts + running ts'"
  by (simp_all add: running_def)

lemma running_exit [simp]:
  "i < length ts \<Longrightarrow> ts ! i = Running \<Longrightarrow> running (ts[i := Exited err]) = running ts - 1 \<and> running ts \<noteq> 0"
proof (induction ts arbitrary: i)
  case (Cons t ts)
  then show ?case by (cases i) (fastforce simp: nth_Cons')+
qed simp

lemma running_0_iff: "running ts = 0 \<longleftrightarrow> Running \<notin> set ts"
  by (auto simp: running_def filter_empty_conv)

definition boot_book :: "nat \<Rightarrow> ('w, 'c) proc \<Rightarrow> bool" where
  "boot_book n p \<longleftrightarrow>
     (case pc p of Starting i \<Rightarrow> length (threads p) = i \<and> i \<le> n | _ \<Rightarrow> length (threads p) = n) \<and>
     (crash p = None \<longrightarrow> wg p = running (threads p)) \<and> (pc p = Returned \<longrightarrow> running (threads p) = 0)"

lemma boot_book_boot [simp]: "boot_book n (boot_proc s)"
  by (simp add: boot_book_def boot_proc_def)

lemma proc_step_book:
  assumes "proc_step h A hyp trace ev p = Some q" and "boot_book n p"
    and "length (vcpus (the_vm (pst p))) = n"
  shows "boot_book n q"
proof (cases ev)
  case EvMain
  with assms show ?thesis
    by (auto simp: boot_book_def proc_step_def resume_def wg_Add_def split: boot_pc.splits if_splits prod.splits res.splits)
next
  case (EvTurn cpu)
  with assms show ?thesis
    by (auto simp: boot_book_def proc_step_def resume_def wg_Done_def
        split: boot_pc.splits if_splits prod.splits res.splits option.splits)
next
  case (EvSignal sig)
  with assms show ?thesis
    by (auto simp: boot_book_def proc_step_def resume_def split: boot_pc.splits if_splits prod.splits res.splits)
qed

text \<open>A process whose invariant fixes the number of virtual CPUs.\<close>

locale process = handled_machine A h hyp Q
  for A :: "('w, 'c) arch" and h :: "'w host" and hyp :: "('w, 'c) hyper" and Q +
  fixes ncpus :: nat
  assumes Q_ncpus: "Q (view (s :: ('w, 'c) st)) \<Longrightarrow> length (vcpus (the_vm s)) = ncpus"
begin

lemma reach_book: "reach h A hyp trace s0 p \<Longrightarrow> Q (view s0) \<Longrightarrow> boot_book ncpus p"
proof (induction rule: reach.induct)
  case (reach_step p ev q)
  from reach_inv [OF reach_step.hyps(1) reach_step.prems]
  have "length (vcpus (the_vm (pst p))) = ncpus" by (rule Q_ncpus)
  with reach_step show ?case by (intro proc_step_book [of h A hyp trace ev p q])
qed simp

lemma reach_returned:
  assumes "reach h A hyp trace s0 p" and "Q (view s0)" and "pc p = Returned"
  shows "length (threads p) = ncpus \<and> (\<forall>i < ncpus. \<exists>err. threads p ! i = Exited err)"
proof -
  from reach_book [OF assms(1,2)] assms(3)
  have n: "length (threads p) = ncpus" and r: "Running \<notin> set (threads p)" by (auto simp: boot_book_def running_0_iff)
  from r have "t \<noteq> Running" if "t \<in> set (threads p)" for t using that by blast
  with n show ?thesis by (metis nth_mem thread.exhaust)
qed

text \<open>No deadlock: while the process lives, the counter of the wait group is the number of goroutines that
  run, and the main goroutine or a virtual CPU can go on.\<close>

lemma reach_progress:
  assumes "reach h A hyp trace s0 p" and "Q (view s0)" and "crash p = None" and "pc p \<noteq> Returned"
  shows "proc_step h A hyp trace EvMain p \<noteq> None \<or>
    (\<exists>cpu < ncpus. threads p ! cpu = Running \<and> proc_step h A hyp trace (EvTurn cpu) p \<noteq> None)"
proof (cases "pc p = Waiting \<and> wg p \<noteq> 0")
  case True
  with reach_book [OF assms(1,2)] assms(3) have "Running \<in> set (threads p)" "length (threads p) = ncpus"
    using running_0_iff [of "threads p"] by (auto simp: boot_book_def)
  then obtain cpu where "cpu < ncpus" "cpu < length (threads p)" "threads p ! cpu = Running"
    by (auto simp: in_set_conv_nth)
  with assms(3,4) show ?thesis by (auto simp: proc_step_def)
next
  case False
  with assms(3,4) show ?thesis by (auto simp: proc_step_def split: boot_pc.splits)
qed

end


section \<open>The process of the hypervisor\<close>

text \<open>The machine of either architecture with the container as its handler.\<close>

abbreviation shape_ncpus :: "machine_shape \<Rightarrow> nat" where
  "shape_ncpus sh \<equiv> length (vcpus (fst (snd (snd sh))))"

lemma shape_ncpus [simp]: "shape_ncpus (shape s) = length (vcpus (the_vm s))"
  by (simp add: shape_def)

interpretation p_isa: process "arch_of isa h" h "Hypercall h (arch_of isa h)" "sandboxed c0 sh" "shape_ncpus sh"
  by unfold_locales (rule run_isa.Hypercall_view_inv, auto)

text \<open>The states of a process that booted in the state \<open>s0\<close>.\<close>

definition guest_reach :: "isa \<Rightarrow> 'w host \<Rightarrow> bool \<Rightarrow> 'w cst \<Rightarrow> ('w, Container) proc \<Rightarrow> bool" where
  "guest_reach isa h trace s0 p \<longleftrightarrow> reach h (arch_of isa h) (Hypercall h (arch_of isa h)) trace s0 p"

definition guest_step :: "isa \<Rightarrow> 'w host \<Rightarrow> bool \<Rightarrow> event \<Rightarrow> ('w, Container) proc \<Rightarrow> ('w, Container) proc option" where
  "guest_step isa h trace = proc_step h (arch_of isa h) (Hypercall h (arch_of isa h)) trace"

lemma legal_sandboxed: "legal (handler s) \<Longrightarrow> sandboxed (handler s) (shape s) (view s)"
  by (simp add: legal_def tracked_def)

section \<open>Properties\<close>

text \<open>A concrete process for the examples: one virtual CPU whose run page says that it halted.\<close>

definition halted_state :: "(unit, Container) st" where
  "halted_state = (let s = blank_state 16 sample_container in
     s\<lparr>machine := (machine s)\<lparr>runs := [Some (blank_run\<lparr>ExitReason := 5\<rparr>)]\<rparr>\<rparr>)"

definition halting_schedule :: "event list" where
  "halting_schedule = [EvMain, EvMain, EvSignal 2, EvTurn 0, EvMain]"

definition halted_proc :: "(unit, Container) proc" where
  "halted_proc = \<lparr>pst = halted_state, pc = Returned, threads = [Exited None], wg = 0, crash = None\<rparr>"

lemma halted_handler: "handler halted_state = sample_container" "length (vcpus (the_vm halted_state)) = 1"
  by (simp_all add: halted_state_def Let_def blank_state_def)

lemma ok_SingleStep: "SingleStep ok_host b halted_state = (Ok (), halted_state)"
  by (simp add: SingleStep_def go_simps vcpu_SingleStep_def Ioctl_err_def attempt_def halted_state_def Let_def
      blank_state_def)

lemma ok_start: "start_vcpu ok_host False 0 halted_state = (Ok (), halted_state)"
  by (simp add: start_vcpu_def go_simps attempt_def ok_SingleStep host_call_def)

lemma ok_turn: "thread_turn ok_host A hyp False 0 halted_state = (Ok (Some None), halted_state)"
  by (simp add: thread_turn_def loop_turn_def RunOnce_def vcpu_Run_def exit_reason_def cpu_exited_def go_simps
      attempt_def halted_state_def Let_def blank_state_def blank_run_def)

lemma ok_signal: "handle_signal ok_host (amd64 ok_host) sig halted_state = (Ok (), halted_state)"
  by (simp add: handle_signal_def Signal_def amd64_def amd64_InjectIrq_def irq_line_def Ioctl_err_def go_simps
      attempt_def)

lemma halted_run:
  "run_schedule ok_host (amd64 ok_host) (Hypercall ok_host (amd64 ok_host)) False halting_schedule
     (boot_proc halted_state) =
   Some \<lparr>pst = halted_state, pc = Returned, threads = [Exited None], wg = 0, crash = None\<rparr>"
  by (simp add: halting_schedule_def proc_step_def boot_proc_def resume_def wg_Add_def wg_Done_def halted_handler ok_start ok_turn
      ok_signal notified_signals_def)

lemma halted_reach: "guest_reach AMD64 ok_host False halted_state halted_proc"
  using halted_run by (auto simp: guest_reach_def reach_iff_schedule halted_proc_def)

text \<open>C4. The container and the machine stay well formed for as long as the process runs, on
  either architecture, under every schedule of virtual CPU turns and signals, whatever the
  guest asks for and whatever the host answers: the directories never change, descriptors
  stay below the limit and are never bound to another file once handed out, every file
  beyond the standard ones has a name the configuration admits, and the machine keeps its
  RAM size, virtual CPUs and mappings.\<close>

theorem guest_invariant:
  assumes "guest_reach isa h trace s0 p" and "legal (handler s0)"
  shows "container_inv (dirs (handler s0)) (handler (pst p)) \<and> evolves (handler s0) (handler (pst p)) \<and>
    shape (pst p) = shape s0"
  using p_isa.reach_inv [OF assms(1) [unfolded guest_reach_def] legal_sandboxed [OF assms(2)]]
  by (simp add: tracked_def)

theorem guest_invariant_witness:
  "container_inv [''/w''] (handler (pst halted_proc)) \<and> evolves sample_container (handler (pst halted_proc))"
  using guest_invariant [OF halted_reach] legal_sample by (simp add: halted_handler sample_container_def)

text \<open>C16. \<open>Boot\<close> returns only when it should: once the wait group lets the main goroutine go,
  a goroutine was started for every virtual CPU and every one of them has ended.\<close>

theorem boot_returned_all_exited:
  assumes "guest_reach isa h trace s0 p" and "legal (handler s0)" and "pc p = Returned"
  shows "length (threads p) = length (vcpus (the_vm s0)) \<and>
    (\<forall>cpu < length (vcpus (the_vm s0)). \<exists>err. threads p ! cpu = Exited err)"
  using p_isa.reach_returned [OF assms(1) [unfolded guest_reach_def] legal_sandboxed [OF assms(2)] assms(3)]
  by simp

theorem boot_returned_all_exited_witness: "\<exists>err. threads halted_proc ! 0 = Exited err"
  using boot_returned_all_exited [OF halted_reach] legal_sample by (simp add: halted_handler halted_proc_def)

text \<open>C12. The wait group never hangs the process: as long as it has neither crashed nor returned from
  \<open>Boot\<close>, the counter of the wait group is the number of virtual CPU goroutines that have not ended, so
  that no \<open>Done\<close> makes it negative, and the main goroutine can take its next step, in \<open>wg.Wait\<close>
  by returning, or a running virtual CPU can take its next turn.\<close>

theorem boot_progress:
  assumes "guest_reach isa h trace s0 p" and "legal (handler s0)" and "crash p = None" and "pc p \<noteq> Returned"
  shows "wg p = card {cpu. cpu < length (threads p) \<and> threads p ! cpu = Running} \<and>
    (\<exists>ev q. guest_step isa h trace ev p = Some q \<and>
      (ev = EvMain \<or> (\<exists>cpu < length (vcpus (the_vm s0)). ev = EvTurn cpu \<and> threads p ! cpu = Running)))"
proof
  note reach = assms(1) [unfolded guest_reach_def] and legal = legal_sandboxed [OF assms(2)]
  show "wg p = card {cpu. cpu < length (threads p) \<and> threads p ! cpu = Running}"
    using p_isa.reach_book [OF reach legal] assms(3) by (simp add: boot_book_def running_def length_filter_conv_card)
  show "\<exists>ev q. guest_step isa h trace ev p = Some q \<and>
      (ev = EvMain \<or> (\<exists>cpu < length (vcpus (the_vm s0)). ev = EvTurn cpu \<and> threads p ! cpu = Running))"
    using p_isa.reach_progress [OF reach legal assms(3,4)] by (auto simp: guest_step_def)
qed

text \<open>The same process while its goroutine runs and the main goroutine waits.\<close>

lemma waiting_reach:
  "guest_reach AMD64 ok_host False halted_state
     \<lparr>pst = halted_state, pc = Waiting, threads = [Running], wg = 1, crash = None\<rparr>"
proof -
  have "run_schedule ok_host (amd64 ok_host) (Hypercall ok_host (amd64 ok_host)) False [EvMain, EvMain] (boot_proc halted_state) =
      Some \<lparr>pst = halted_state, pc = Waiting, threads = [Running], wg = 1, crash = None\<rparr>"
    by (simp add: proc_step_def boot_proc_def resume_def wg_Add_def halted_handler ok_start)
  then show ?thesis unfolding guest_reach_def reach_iff_schedule arch_of.simps by blast
qed

theorem boot_progress_witness:
  "\<exists>ev q. guest_step AMD64 ok_host False ev
     \<lparr>pst = halted_state, pc = Waiting, threads = [Running], wg = 1, crash = None\<rparr> = Some q"
proof -
  have "legal (handler halted_state)" using legal_sample by (simp add: halted_handler)
  from boot_progress [OF waiting_reach this] show ?thesis by (simp only: proc.simps) blast
qed

text \<open>C18. When the goroutine of a virtual CPU ends, without tracing: it ends with an error value exactly
  when the guest, entered again after every signal, every unknown exit and every hypercall that was
  answered, reaches an exit that stops it: with no error on a halt, with the handler's error on a hypercall that
  fails, with an error of its own on a debug exit, on any other exit reason, on a failed \<open>KVM_RUN\<close>
  (\<open>EINTR\<close> and \<open>EAGAIN\<close> are no failures) and for a virtual CPU that does not exist. Its last act is the line on
  the standard error that names the virtual CPU and the error. Otherwise it runs forever or panics.\<close>

theorem vcpu_thread_ends_iff:
  "vcpu_thread h (arch_of isa h) (Hypercall h (arch_of isa h)) cpu False s = Some (Ok err, u) \<longleftrightarrow>
   (\<exists>t t'. (guest_goes_on h (arch_of isa h) (Hypercall h (arch_of isa h)) cpu)\<^sup>*\<^sup>* s t \<and>
      guest_stops h (arch_of isa h) (Hypercall h (arch_of isa h)) cpu t err t' \<and>
      u = t'\<lparr>world := snd (sys_write h 2 (map (\<lambda>c. word_of_nat (of_char c))
        (''CPU '' @ dec_string cpu @ '' exited (err='' @ fmt_v h err @ '')\<newline>'')) (world t'))\<rparr>)"
  by (simp only: vcpu_thread_exits cpu_exited_eq snd_conv)

lemma RunOnce_handler_error:
  assumes "cpu < length (vcpus (the_vm s))" and "vcpu_Run h (vcpus (the_vm s) ! cpu) s = (Ok (), t)"
    and "cpu < length (runs (machine t))" and "runs (machine t) ! cpu = Some rd"
    and "ExitReason rd = 2 \<or> ExitReason rd = 6" and "hypercall A hyp cpu t = (Err e, u)"
  shows "RunOnce h A hyp cpu s = (Ok (False, Some e), u)"
  using assms by (auto simp: RunOnce_def go_simps attempt_def exit_reason_def)

text \<open>A state whose run page reports an I/O exit.\<close>

definition io_state :: "(unit, Container) st" where
  "io_state = (let s = blank_state 16 sample_container in
     s\<lparr>machine := (machine s)\<lparr>runs := [Some (blank_run\<lparr>ExitReason := 2\<rparr>)]\<rparr>\<rparr>)"

end
