(* ===== verification/Sandbox.thy ===== *)
theory Sandbox
  imports Boot
begin

text \<open>
  The confinement of the guest as a non-interference property. Replace the \<open>open\<close> of the host
  by any other function that agrees with it on the paths the configuration admits: no
  hypercall, no turn of a virtual CPU and no schedule of the whole process can tell the
  difference, so the hypervisor never opens (or creates, or truncates) a file under any other
  name on behalf of its guest. The lemmas collected in \<open>open_simps\<close> say which operations do
  not call \<open>open\<close> at all.
\<close>

named_theorems open_simps \<open>operations that do not open files\<close>

section \<open>The operations that do not open files\<close>

lemma open_host [open_simps]:
  "Ioctl (h\<lparr>sys_open := g\<rparr>) = Ioctl h" "fmt_v (h\<lparr>sys_open := g\<rparr>) = fmt_v h"
  by (simp_all add: fun_eq_iff Ioctl_def fmt_v_def cong: option.case_cong)

lemma open_print [open_simps]:
  "eprint (h\<lparr>sys_open := g\<rparr>) = eprint h" "oprint (h\<lparr>sys_open := g\<rparr>) = oprint h"
  by (simp_all add: fun_eq_iff eprint_def oprint_def)

lemma open_Ioctl [open_simps]:
  "Ioctl_err (h\<lparr>sys_open := g\<rparr>) = Ioctl_err h" "Ioctl_val (h\<lparr>sys_open := g\<rparr>) = Ioctl_val h"
  by (simp_all add: fun_eq_iff Ioctl_err_def Ioctl_val_def open_simps cong: option.case_cong sum.case_cong)

lemma open_regs [open_simps]:
  "GetRegs (h\<lparr>sys_open := g\<rparr>) = GetRegs h" "SetRegs (h\<lparr>sys_open := g\<rparr>) = SetRegs h"
  "GetSregs (h\<lparr>sys_open := g\<rparr>) = GetSregs h" "SetSregs (h\<lparr>sys_open := g\<rparr>) = SetSregs h"
  "GetSupportedCPUID (h\<lparr>sys_open := g\<rparr>) = GetSupportedCPUID h"
  "SetCPUID2 (h\<lparr>sys_open := g\<rparr>) = SetCPUID2 h"
  "arm64_setReg (h\<lparr>sys_open := g\<rparr>) = arm64_setReg h"
  "arm64_getReg (h\<lparr>sys_open := g\<rparr>) = arm64_getReg h"
  by (simp_all add: fun_eq_iff GetRegs_def SetRegs_def GetSregs_def SetSregs_def GetSupportedCPUID_def
      cpuid_ioctl_def SetCPUID2_def arm64_setReg_def arm64_getReg_def open_simps cong: option.case_cong sum.case_cong)

lemma open_vcpu [open_simps]:
  "amd64_GetPc (h\<lparr>sys_open := g\<rparr>) = amd64_GetPc h" "initRegs (h\<lparr>sys_open := g\<rparr>) = initRegs h"
  "initSregs (h\<lparr>sys_open := g\<rparr>) = initSregs h" "initCPUID (h\<lparr>sys_open := g\<rparr>) = initCPUID h"
  "vcpu_Run (h\<lparr>sys_open := g\<rparr>) = vcpu_Run h" "vcpu_SingleStep (h\<lparr>sys_open := g\<rparr>) = vcpu_SingleStep h"
  "arm64_SetPc (h\<lparr>sys_open := g\<rparr>) = arm64_SetPc h" "arm64_GetPc (h\<lparr>sys_open := g\<rparr>) = arm64_GetPc h"
  "arm64_SetReg (h\<lparr>sys_open := g\<rparr>) = arm64_SetReg h" "arm64_GetReg (h\<lparr>sys_open := g\<rparr>) = arm64_GetReg h"
  by (simp_all add: fun_eq_iff amd64_GetPc_def initRegs_def initSregs_def initCPUID_def vcpu_Run_def
      vcpu_SingleStep_def arm64_SetPc_def arm64_GetPc_def arm64_SetReg_def arm64_GetReg_def open_simps cong: option.case_cong sum.case_cong)

lemma open_irq [open_simps]:
  "amd64_createIrqController (h\<lparr>sys_open := g\<rparr>) = amd64_createIrqController h"
  "amd64_InjectIrq (h\<lparr>sys_open := g\<rparr>) = amd64_InjectIrq h"
  "arm64_createIrqController (h\<lparr>sys_open := g\<rparr>) = arm64_createIrqController h"
  "arm64_finalizeIrqController (h\<lparr>sys_open := g\<rparr>) = arm64_finalizeIrqController h"
  "arm64_InjectIrq (h\<lparr>sys_open := g\<rparr>) = arm64_InjectIrq h"
  by (simp_all add: fun_eq_iff amd64_createIrqController_def amd64_InjectIrq_def irq_line_def
      arm64_createIrqController_def arm64_createDevice_def arm64_finalizeIrqController_def
      arm64_InjectIrq_def arm64_createIrqChip_def open_simps cong: option.case_cong sum.case_cong)

lemma open_amd64_ops [open_simps]:
  "amd64_VtoP (h\<lparr>sys_open := g\<rparr>) = amd64_VtoP h"
  "amd64_createVM (h\<lparr>sys_open := g\<rparr>) = amd64_createVM h"
  "amd64_vm_init (h\<lparr>sys_open := g\<rparr>) = amd64_vm_init h"
  "amd64_machine_init (h\<lparr>sys_open := g\<rparr>) = amd64_machine_init h"
  "amd64_SetupRegs (h\<lparr>sys_open := g\<rparr>) = amd64_SetupRegs h"
  "amd64_hypercall (h\<lparr>sys_open := g\<rparr>) = amd64_hypercall h"
  by (simp_all add: fun_eq_iff amd64_VtoP_def Translate_def amd64_createVM_def amd64_vm_init_def
      SetIdentityMapAddr_def setTSSAddr_def amd64_machine_init_def amd64_SetupRegs_def
      amd64_hypercall_def open_simps cong: option.case_cong sum.case_cong)

lemma open_amd64_Inst [open_simps]: "amd64_Inst (h\<lparr>sys_open := g\<rparr>) = amd64_Inst h"
  by (simp add: fun_eq_iff amd64_Inst_def open_simps cong: option.case_cong sum.case_cong)

lemma open_arm64_ops [open_simps]:
  "arm64_createVM (h\<lparr>sys_open := g\<rparr>) = arm64_createVM h"
  "arm64_machine_init (h\<lparr>sys_open := g\<rparr>) = arm64_machine_init h"
  "arm64_SetupRegs (h\<lparr>sys_open := g\<rparr>) = arm64_SetupRegs h"
  "arm64_hypercall (h\<lparr>sys_open := g\<rparr>) = arm64_hypercall h"
  by (simp_all add: fun_eq_iff arm64_createVM_def CheckExtension_def arm64_machine_init_def
      arm64_SetupRegs_def arm64_hypercall_def open_simps cong: option.case_cong sum.case_cong)

lemma open_arch [open_simps]:
  "amd64 (h\<lparr>sys_open := g\<rparr>) = amd64 h" "arm64 (h\<lparr>sys_open := g\<rparr>) = arm64 h"
  by (simp_all add: amd64_def arm64_def open_simps cong: option.case_cong sum.case_cong)

lemma open_container [open_simps]:
  "file_Read (h\<lparr>sys_open := g\<rparr>) = file_Read h" "ReadDirent (h\<lparr>sys_open := g\<rparr>) = ReadDirent h"
  "filepath_Abs (h\<lparr>sys_open := g\<rparr>) = filepath_Abs h"
  "hyp_Time (h\<lparr>sys_open := g\<rparr>) = hyp_Time h" "hyp_Fstat (h\<lparr>sys_open := g\<rparr>) = hyp_Fstat h"
  "hyp_Write (h\<lparr>sys_open := g\<rparr>) = hyp_Write h" "hyp_Lseek (h\<lparr>sys_open := g\<rparr>) = hyp_Lseek h"
  by (simp_all add: fun_eq_iff file_Read_def ReadDirent_def filepath_Abs_def hyp_Time_def hyp_Fstat_def
      hyp_Write_def hyp_Lseek_def open_simps cong: option.case_cong sum.case_cong)

lemma open_container_io [open_simps]:
  "hyp_Getdents64 (h\<lparr>sys_open := g\<rparr>) = hyp_Getdents64 h" "hyp_Read (h\<lparr>sys_open := g\<rparr>) = hyp_Read h"
  by (simp_all add: fun_eq_iff hyp_Getdents64_def hyp_Read_def open_simps cong: option.case_cong sum.case_cong)


lemma open_machine [open_simps]:
  "SingleStep (h\<lparr>sys_open := g\<rparr>) = SingleStep h" "start_vcpu (h\<lparr>sys_open := g\<rparr>) = start_vcpu h"
  "cpu_exited (h\<lparr>sys_open := g\<rparr>) = cpu_exited h"
  by (simp_all add: fun_eq_iff SingleStep_def start_vcpu_def cpu_exited_def open_simps)

lemma open_trace_inst [open_simps]: "trace_inst (h\<lparr>sys_open := g\<rparr>) = trace_inst h"
  by (simp add: fun_eq_iff trace_inst_def open_simps cong: sum.case_cong)

lemma open_handle_signal [open_simps]: "handle_signal (h\<lparr>sys_open := g\<rparr>) = handle_signal h"
  by (simp add: fun_eq_iff handle_signal_def open_simps cong: sum.case_cong)

section \<open>The hypercalls\<close>

text \<open>An \<open>open\<close> that treats the admitted paths as the host \<open>h\<close> does and is arbitrary on all
  others.\<close>

definition confine :: "string list \<Rightarrow> 'w host \<Rightarrow> (string \<Rightarrow> u64 \<Rightarrow> u32 \<Rightarrow> 'w \<Rightarrow> (goerror + u64) \<times> 'w) \<Rightarrow>
    string \<Rightarrow> u64 \<Rightarrow> u32 \<Rightarrow> 'w \<Rightarrow> (goerror + u64) \<times> 'w" where
  "confine ds h other path = (if may_open ds path then sys_open h path else other path)"

lemma open_file_same:
  "may_open ds path \<Longrightarrow>
   open_file (h\<lparr>sys_open := confine ds h other\<rparr>) path flags mode = open_file h path flags mode"
  by (simp add: open_file_def confine_def cong: sum.case_cong)

context container_machine
begin

lemma hyp_Open_same:
  "same (cinv c0) (hyp_Open h A cpu a0 a1 a2)
    (hyp_Open (h\<lparr>sys_open := confine (dirs c0) h other\<rparr>) A cpu a0 a1 a2)"
  unfolding hyp_Open_def open_simps
  by (intro same_refl [of _ "VtoP A cpu a" for a] same_bnd same_sum same_gets_bnd same_if same_refl
      preserves_attempt cinv_frame keeps_rules)
    (simp_all add: CanAccess_iff tracked_dirs open_file_same)

lemma Hypercall_same:
  "same (cinv c0) (Hypercall h A cpu n a0 a1 a2 a3 a4 a5)
    (Hypercall (h\<lparr>sys_open := confine (dirs c0) h other\<rparr>) A cpu n a0 a1 a2 a3 a4 a5)"
  unfolding Hypercall_def open_simps by (intro same_if same_refl hyp_Open_same)

lemma Hypercall_view_same:
  "same (\<lambda>s. sandboxed c0 sh (view s)) (Hypercall h A cpu n a0 a1 a2 a3 a4 a5)
    (Hypercall (h\<lparr>sys_open := confine (dirs c0) h other\<rparr>) A cpu n a0 a1 a2 a3 a4 a5)"
  using Hypercall_same [of c0] by (simp add: same_def)

end

section \<open>The running machine\<close>

text \<open>Two handlers that cannot be told apart make two processes that cannot be told apart.\<close>

locale confined = handled_machine A h hyp Q
  for A :: "('w, 'c) arch" and h :: "'w host" and hyp :: "('w, 'c) hyper" and Q +
  fixes hyp' :: "('w, 'c) hyper"
    and g :: "string \<Rightarrow> u64 \<Rightarrow> u32 \<Rightarrow> 'w \<Rightarrow> (goerror + u64) \<times> 'w"
  assumes hyp_same: "same (\<lambda>s. Q (view s)) (hyp cpu n a0 a1 a2 a3 a4 a5) (hyp' cpu n a0 a1 a2 a3 a4 a5)"
begin

abbreviation h' :: "'w host" where "h' \<equiv> h\<lparr>sys_open := g\<rparr>"

lemma RunOnce_same: "same (\<lambda>s. Q (view s)) (RunOnce h A hyp cpu) (RunOnce h' A hyp' cpu)"
  unfolding RunOnce_def open_simps
  by (intro same_rules hypercall_same hyp_same handler_ok hypercall_view inv_rules preserves_view keeps_rules)

lemma loop_turn_same:
  "same (\<lambda>s. Q (view s)) (loop_turn h A hyp cpu trace) (loop_turn h' A hyp' cpu trace)"
proof -
  have fe: "fmt_err h' = fmt_err h" by simp
  show ?thesis
    unfolding loop_turn_def open_simps fe
    by (intro same_bnd RunOnce_same RunOnce_inv same_refl)
qed

lemma thread_turn_same:
  "same (\<lambda>s. Q (view s)) (thread_turn h A hyp trace cpu) (thread_turn h' A hyp' trace cpu)"
  unfolding thread_turn_def open_simps by (intro same_bnd loop_turn_same loop_turn_inv same_refl)

lemma do_event_same:
  "Q (view (pst p)) \<Longrightarrow> do_event h A hyp trace ev p = do_event h' A hyp' trace ev p"
  by (cases ev) (simp_all add: open_simps sameD [OF thread_turn_same] split: boot_pc.split)

lemma reach_same:
  assumes "Q (view s0)"
  shows "reach h A hyp trace s0 p \<longleftrightarrow> reach h' A hyp' trace s0 p"
proof
  assume "reach h A hyp trace s0 p"
  then show "reach h' A hyp' trace s0 p"
  proof induction
    case (reach_step p ev q)
    from reach_inv [OF reach_step.hyps(1) assms] do_event_same [of p trace ev] reach_step
    show ?case by (auto simp: proc_step_def intro: reach.reach_step split: if_splits)
  qed (rule reach.reach_boot)
next
  assume "reach h' A hyp' trace s0 p"
  then show "reach h A hyp trace s0 p"
  proof induction
    case (reach_step p ev q)
    from reach_inv [OF reach_step.IH assms] do_event_same [of p trace ev] reach_step
    show ?case by (auto simp: proc_step_def intro: reach.reach_step split: if_splits)
  qed (rule reach.reach_boot)
qed

end


lemma open_arch_of [open_simps]: "arch_of isa (h\<lparr>sys_open := g\<rparr>) = arch_of isa h"
  by (cases isa) (simp_all add: open_simps)

interpretation s_isa: confined "arch_of isa h" h "Hypercall h (arch_of isa h)" "sandboxed c0 sh"
  "Hypercall (h\<lparr>sys_open := confine (dirs c0) h other\<rparr>) (arch_of isa h)" "confine (dirs c0) h other"
  by unfold_locales (rule c_isa.Hypercall_view_same)

section \<open>Property\<close>

text \<open>C1. The guest is confined to the configured directories: replacing the host's \<open>open\<close> by any
  other function on the paths that the configuration does not admit changes nothing about
  which states the process can reach, on either architecture, with and without tracing and
  under every schedule. So the hypervisor never opens, creates or truncates a file under any
  other name on behalf of its guest.\<close>

theorem guest_confined:
  assumes "legal (handler s0)"
  shows "guest_reach isa h trace s0 p \<longleftrightarrow>
    guest_reach isa (h\<lparr>sys_open := confine (dirs (handler s0)) h other\<rparr>) trace s0 p"
  using s_isa.reach_same [OF legal_sandboxed [OF assms]] by (simp add: guest_reach_def open_simps)

theorem guest_confined_witness:
  "guest_reach AMD64 (ok_host\<lparr>sys_open := confine [''/w''] ok_host (\<lambda>p fl md w. (Inl EOF, w))\<rparr>) False halted_state halted_proc"
  using guest_confined [of halted_state AMD64 ok_host False halted_proc "\<lambda>p fl md w. (Inl EOF, w)"]
    halted_reach legal_sample by (simp add: halted_handler sample_container_def)

end
