(* ===== verification/File_Table.thy ===== *)
theory File_Table
  imports Boot
begin

text \<open>
  What the container promises of its table of open files, as an abstract transition system over
  natural numbers and path names, and the proof that the hypervisor implements it: along every
  run of a booted process, the table only takes steps of the abstract system. The steps'
  consequences are proved on the abstract side.
\<close>

section \<open>The abstract table\<close>

record table =
  names :: "nat \<rightharpoonup> string"
  fresh :: nat

text \<open>A step opens an admitted file under the first descriptor never used, while fewer than
  \<open>2^20\<close> have been handed out, or closes an open descriptor. Descriptors are never reused.\<close>

inductive table_step :: "string list \<Rightarrow> table \<Rightarrow> table \<Rightarrow> bool" for ds where
  table_open: "may_open ds path \<Longrightarrow> fresh a < 2 ^ 20 \<Longrightarrow>
    table_step ds a \<lparr>names = (names a)(fresh a \<mapsto> path), fresh = Suc (fresh a)\<rparr>"
| table_close: "fd \<in> dom (names a) \<Longrightarrow> table_step ds a (a\<lparr>names := (names a)(fd := None)\<rparr>)"

inductive_cases table_stepE: "table_step ds a b"

abbreviation table_run :: "string list \<Rightarrow> table \<Rightarrow> table \<Rightarrow> bool" where
  "table_run ds \<equiv> (table_step ds)\<^sup>*\<^sup>*"

text \<open>How a container looks to the specification.\<close>

definition table_of :: "Container \<Rightarrow> table" where
  "table_of c = \<lparr>names = (\<lambda>n. if n < 2 ^ 64 then map_option fname (fdtable c (word_of_nat n)) else None),
     fresh = unat (nextfd c)\<rparr>"

section \<open>The handler implements the table\<close>

lemma unat_below [simp]: "unat (x :: u64) < 18446744073709551616"
  using unsigned_less [of x, where 'a = nat] by simp

lemma word_of_nat_eq_iff: "n < 2 ^ 64 \<Longrightarrow> (word_of_nat n = (x :: u64)) = (n = unat x)"
  by (auto simp: unat_of_nat take_bit_nat_eq_self)

lemma table_of_add:
  assumes "nextfd c < fdMax"
  shows "table_of (c\<lparr>fdtable := (fdtable c)(nextfd c \<mapsto> f), nextfd := nextfd c + 1\<rparr>) =
    \<lparr>names = (names (table_of c))(fresh (table_of c) \<mapsto> fname f), fresh = Suc (fresh (table_of c))\<rparr>"
proof -
  from assms have "unat (nextfd c) < unat fdMax" by (simp add: word_less_nat_alt)
  from unat_Suc_below [OF this] show ?thesis
    by (auto simp: table_of_def word_of_nat_eq_iff fun_eq_iff)
qed

lemma table_of_close:
  "table_of (c\<lparr>fdtable := (fdtable c)(fd := None)\<rparr>) =
   (table_of c)\<lparr>names := (names (table_of c))(unat fd := None)\<rparr>"
  by (auto simp: table_of_def word_of_nat_eq_iff fun_eq_iff)

text \<open>The containers that a run of the abstract table from \<open>c0\<close> explains.\<close>

definition explained :: "Container \<Rightarrow> Container \<Rightarrow> bool" where
  "explained c0 c \<longleftrightarrow> dirs c = dirs c0 \<and> table_run (dirs c0) (table_of c0) (table_of c)"

lemma explained_add:
  assumes "explained c0 c" and "may_open (dirs c0) (fname f)" and "nextfd c < fdMax"
  shows "explained c0 (c\<lparr>fdtable := (fdtable c)(nextfd c \<mapsto> f), nextfd := nextfd c + 1\<rparr>)"
proof -
  from assms(3) have "fresh (table_of c) < 2 ^ 20" by (simp add: table_of_def word_less_nat_alt)
  from table_open [OF assms(2) this] assms(1) show ?thesis
    unfolding explained_def table_of_add [OF assms(3)] by (auto intro: rtranclp.rtrancl_into_rtrancl)
qed

lemma explained_close:
  assumes "explained c0 c" and "fdtable c fd = Some f"
  shows "explained c0 (c\<lparr>fdtable := (fdtable c)(fd := None)\<rparr>)"
proof -
  from assms(2) have "unat fd \<in> dom (names (table_of c))" by (simp add: table_of_def dom_def)
  from table_close [OF this, of "dirs c0"] assms(1) show ?thesis
    unfolding explained_def table_of_close by (auto intro: rtranclp.rtrancl_into_rtrancl)
qed

interpretation explained_law: container_law "dirs c0" "explained c0"
  by unfold_locales (simp_all add: explained_add explained_close, simp add: explained_def)

interpretation explained_isa: container_run "arch_of isa h" h "dirs c0" "explained c0" ..

interpretation table_isa: process "arch_of isa h" h "Hypercall h (arch_of isa h)"
  "\<lambda>(c, sh'). explained c0 c \<and> sh' = sh" "shape_ncpus sh"
  by unfold_locales (rule explained_isa.Hypercall_view_inv, auto)

lemma guest_explained:
  assumes "guest_reach isa h trace s0 p"
  shows "explained (handler s0) (handler (pst p)) \<and> shape (pst p) = shape s0"
  using table_isa.reach_inv [OF assms [unfolded guest_reach_def], of "handler s0" "shape s0"]
  by (simp add: explained_def)

section \<open>Consequences on the abstract side\<close>

lemma table_step_fresh: "table_step ds a b \<Longrightarrow> fresh a \<le> fresh b"
  by (auto elim: table_stepE)

lemma table_run_bounds:
  assumes "table_run ds a b" and "fresh a \<le> 2 ^ 20" and "\<forall>n path. names a n = Some path \<longrightarrow> n < fresh a"
  shows "fresh a \<le> fresh b \<and> fresh b \<le> 2 ^ 20 \<and> (\<forall>n path. names b n = Some path \<longrightarrow> n < fresh b)"
  using assms(1)
proof induction
  case (step b c)
  with table_step_fresh [OF step.hyps(2)] show ?case
    by (auto elim!: table_stepE simp: less_Suc_eq split: if_splits)
qed (use assms in simp)

text \<open>A descriptor that was closed stays closed, and one that is open keeps its file.\<close>

lemma table_run_old:
  assumes "table_run ds a b" and "n < fresh a" and "names b n = Some path"
  shows "names a n = Some path"
  using assms(1,3)
proof (induction arbitrary: path)
  case (step b c)
  from step.hyps(1) have "fresh a \<le> fresh b" by (induction) (auto dest: table_step_fresh)
  with step assms(2) show ?case by (auto elim!: table_stepE split: if_splits)
qed simp

lemma table_run_new:
  assumes "table_run ds a b" and "fresh a \<le> n" and "names b n = Some path" and "names a n = None"
  shows "may_open ds path"
  using assms(1,3)
proof (induction arbitrary: path)
  case (step b c)
  then show ?case by (auto elim!: table_stepE split: if_splits)
qed (use assms(4) in simp)

text \<open>C3. The container implements the abstract file table: whatever the guest and the host do,
  on either architecture, the table of open files that a reachable process has is one that the
  abstract system reaches from the initial table, by opening admitted files under fresh
  descriptors below \<open>2^20\<close> and closing open ones. So at most \<open>2^20\<close> descriptors are ever handed
  out, and an open descriptor either denotes the file it denoted at boot or one that the
  directories admit.\<close>

theorem file_table_refines:
  assumes "guest_reach isa h trace s0 p" and "legal (handler s0)"
  defines "ds \<equiv> dirs (handler s0)" and "a \<equiv> table_of (handler s0)" and "b \<equiv> table_of (handler (pst p))"
  shows "table_run ds a b \<and> fresh b \<le> 2 ^ 20 \<and>
    (\<forall>n path. names b n = Some path \<longrightarrow> n < fresh b \<and> (names a n = Some path \<or> may_open ds path))"
proof -
  have run: "table_run ds a b"
    using guest_explained [OF assms(1)] by (simp add: explained_def ds_def a_def b_def)
  have bound: "n < unat (nextfd (handler s0))" if "fdtable (handler s0) (word_of_nat n) = Some f" "n < 2 ^ 64" for n f
  proof -
    from that(1) assms(2) have "unat (word_of_nat n :: u64) < unat (nextfd (handler s0))"
      by (auto simp: legal_def container_inv_def word_less_nat_alt)
    with that(2) show ?thesis by (simp add: unat_of_nat take_bit_nat_eq_self)
  qed
  from assms(2) have a: "fresh a \<le> 2 ^ 20" "\<forall>n path. names a n = Some path \<longrightarrow> n < fresh a"
    by (auto simp: legal_def container_inv_def a_def table_of_def word_le_nat_alt
        split: if_splits dest: bound)
  from table_run_bounds [OF run a]
  have b: "fresh b \<le> 2 ^ 20" "\<And>n path. names b n = Some path \<Longrightarrow> n < fresh b" by blast+
  have "names a n = Some path \<or> may_open ds path" if nb: "names b n = Some path" for n path
  proof (cases "n < fresh a")
    case True
    from table_run_old [OF run this nb] show ?thesis ..
  next
    case False
    with a(2) have "names a n = None" by (metis not_None_eq)
    with table_run_new [OF run _ nb] False show ?thesis by simp
  qed
  with run b show ?thesis by blast
qed

text \<open>Its use: the halted guest of the examples, whose table is the initial one.\<close>

theorem file_table_refines_witness:
  "table_run [''/w''] (table_of sample_container) (table_of (handler (pst halted_proc)))"
  using file_table_refines [OF halted_reach] legal_sample by (simp add: halted_handler sample_container_def)

section \<open>The table runs out\<close>

text \<open>A container that has handed out its last descriptor, and what may become of it.\<close>

definition exhausted_from :: "Container \<Rightarrow> Container \<Rightarrow> bool" where
  "exhausted_from c0 c \<longleftrightarrow>
     dirs c = dirs c0 \<and> nextfd c = nextfd c0 \<and> fdMax \<le> nextfd c0 \<and> fdtable c \<subseteq>\<^sub>m fdtable c0"

interpretation exhausted_law: container_law "dirs c0" "exhausted_from c0"
  by unfold_locales (auto simp: exhausted_from_def map_le_def)

interpretation exhausted_isa: container_run "arch_of isa h" h "dirs c0" "exhausted_from c0" ..

interpretation exhausted_process: process "arch_of isa h" h "Hypercall h (arch_of isa h)"
  "\<lambda>(c, sh'). exhausted_from c0 c \<and> sh' = sh" "shape_ncpus sh"
  by unfold_locales (rule exhausted_isa.Hypercall_view_inv, auto)

text \<open>C9. Descriptors run out for good: once the counter of the container has reached \<open>2^20\<close>, no further
  event of the process, whatever the guest closes and whatever the host answers, binds a descriptor
  again; the table can only shrink and the counter stays where it is.\<close>

theorem descriptors_exhausted:
  assumes "run_schedule h (arch_of isa h) (Hypercall h (arch_of isa h)) trace evs p = Some q"
    and "fdMax \<le> nextfd (handler (pst p))"
  shows "fdtable (handler (pst q)) \<subseteq>\<^sub>m fdtable (handler (pst p)) \<and> nextfd (handler (pst q)) = nextfd (handler (pst p))"
  using exhausted_process.schedule_inv [OF assms(1), of "handler (pst p)" "shape (pst p)"] assms(2)
  by (simp add: exhausted_from_def)

theorem descriptors_exhausted_witness:
  "\<exists>q. run_schedule ok_host (arch_of AMD64 ok_host) (Hypercall ok_host (arch_of AMD64 ok_host)) False [EvSignal 2]
       (boot_proc (halted_state\<lparr>handler := sample_container\<lparr>nextfd := fdMax\<rparr>\<rparr>)) = Some q \<and>
     nextfd (handler (pst q)) = fdMax"
proof -
  let ?s = "halted_state\<lparr>handler := sample_container\<lparr>nextfd := fdMax\<rparr>\<rparr>"
  have run: "run_schedule ok_host (arch_of AMD64 ok_host) (Hypercall ok_host (arch_of AMD64 ok_host)) False [EvSignal 2]
      (boot_proc ?s) = Some (boot_proc ?s)"
    by (simp add: proc_step_def boot_proc_def resume_def handle_signal_def Signal_def amd64_def amd64_InjectIrq_def
        irq_line_def Ioctl_err_def go_simps attempt_def notified_signals_def)
  from descriptors_exhausted [OF run] run show ?thesis by (simp add: boot_proc_def)
qed

end
