(* ===== verification/Flags.thy ===== *)
theory Flags
  imports Go_Lib "HOL-Library.Sublist"
begin

text \<open>
  The command line of \<open>cmd/revisor/revisor.go\<close>: its four flags and what \<open>flag.Parse\<close> of Go's
  library makes of the arguments. A flag is introduced by one or two minus signs; a value follows
  after an equals sign or, for a flag that is not boolean, as the next argument. Parsing stops
  before the first argument that is not a flag and after \<open>--\<close>; the rest is for the guest.
\<close>

section \<open>The flags\<close>

record flags =
  flag_trace :: bool
  flag_kernel :: string
  flag_dir :: string
  flag_mem :: string

text \<open>The defaults.\<close>

definition default_flags :: flags where
  "default_flags = \<lparr>flag_trace = False, flag_kernel = ''rekernel'', flag_dir = ''.'', flag_mem = ''2G''\<rparr>"

text \<open>\<open>strconv.ParseBool\<close>\<close>

definition ParseBool :: "string \<Rightarrow> bool option" where
  "ParseBool s =
     (if s \<in> {''1'', ''t'', ''T'', ''TRUE'', ''true'', ''True''} then Some True
      else if s \<in> {''0'', ''f'', ''F'', ''FALSE'', ''false'', ''False''} then Some False
      else None)"

text \<open>Assigning to a flag that takes a string; \<open>None\<close> for a name that is not one.\<close>

definition set_string_flag :: "string \<Rightarrow> string \<Rightarrow> flags \<Rightarrow> flags option" where
  "set_string_flag name v f =
     (if name = ''kernel'' then Some (f\<lparr>flag_kernel := v\<rparr>)
      else if name = ''dir'' then Some (f\<lparr>flag_dir := v\<rparr>)
      else if name = ''mem'' then Some (f\<lparr>flag_mem := v\<rparr>)
      else None)"

text \<open>The name and the value after the first equals sign; the first character of the name is not
  examined.\<close>

definition split_flag :: "string \<Rightarrow> string \<times> string option" where
  "split_flag name =
     (let rest = dropWhile (\<lambda>c. c \<noteq> CHR ''='') (tl name)
      in (hd name # takeWhile (\<lambda>c. c \<noteq> CHR ''='') (tl name), if rest = [] then None else Some (tl rest)))"

text \<open>\<open>flag.Parse\<close>: the flags and the remaining arguments, or the exit status of the process: 2 for an
  argument that is not understood, 0 for a request for help.\<close>

fun flag_Parse :: "flags \<Rightarrow> string list \<Rightarrow> nat + flags \<times> string list" where
  "flag_Parse f [] = Inr (f, [])"
| "flag_Parse f (s # args) =
     (if length s < 2 \<or> hd s \<noteq> CHR ''-'' then Inr (f, s # args)
      else if s = ''--'' then Inr (f, args)
      else
        (let name = (if s ! 1 = CHR ''-'' then drop 2 s else drop 1 s)
         in if name = [] \<or> hd name = CHR ''-'' \<or> hd name = CHR ''='' then Inl 2
            else
              (case split_flag name of (n, val) \<Rightarrow>
                 if n = ''trace'' then
                   (case val of
                      None \<Rightarrow> flag_Parse (f\<lparr>flag_trace := True\<rparr>) args
                    | Some v \<Rightarrow>
                        (case ParseBool v of
                           None \<Rightarrow> Inl 2
                         | Some b \<Rightarrow> flag_Parse (f\<lparr>flag_trace := b\<rparr>) args))
                 else if set_string_flag n [] f \<noteq> None then
                   (case val of
                      Some v \<Rightarrow> flag_Parse (the (set_string_flag n v f)) args
                    | None \<Rightarrow>
                        (case args of
                           [] \<Rightarrow> Inl 2
                         | v # args' \<Rightarrow> flag_Parse (the (set_string_flag n v f)) args'))
                 else if n = ''help'' \<or> n = ''h'' then Inl 0
                 else Inl 2)))"

declare flag_Parse.simps(2) [simp del]

section \<open>Rendering\<close>

text \<open>A command line that sets every flag, with equals signs or with separate arguments.\<close>

definition flag_args :: "flags \<Rightarrow> string list" where
  "flag_args f =
     [''-trace='' @ (if flag_trace f then ''true'' else ''false''), ''-kernel='' @ flag_kernel f,
      ''--dir='' @ flag_dir f, ''-mem='' @ flag_mem f]"

definition flag_words :: "flags \<Rightarrow> string list" where
  "flag_words f =
     (if flag_trace f then [''-trace''] else []) @
     [''--kernel'', flag_kernel f, ''-dir'', flag_dir f, ''-mem'', flag_mem f]"

lemma parse_trace:
  "flag_Parse f ((''-trace='' @ (if b then ''true'' else ''false'')) # args) = flag_Parse (f\<lparr>flag_trace := b\<rparr>) args"
  "flag_Parse f (''-trace'' # args) = flag_Parse (f\<lparr>flag_trace := True\<rparr>) args"
  by (simp_all add: flag_Parse.simps(2) split_flag_def ParseBool_def)

lemma parse_assign:
  "flag_Parse f ((''-kernel='' @ v) # args) = flag_Parse (f\<lparr>flag_kernel := v\<rparr>) args"
  "flag_Parse f ((''--dir='' @ v) # args) = flag_Parse (f\<lparr>flag_dir := v\<rparr>) args"
  "flag_Parse f ((''-mem='' @ v) # args) = flag_Parse (f\<lparr>flag_mem := v\<rparr>) args"
  by (simp_all add: flag_Parse.simps(2) split_flag_def set_string_flag_def)

lemma parse_word:
  "flag_Parse f (''--kernel'' # v # args) = flag_Parse (f\<lparr>flag_kernel := v\<rparr>) args"
  "flag_Parse f (''-dir'' # v # args) = flag_Parse (f\<lparr>flag_dir := v\<rparr>) args"
  "flag_Parse f (''-mem'' # v # args) = flag_Parse (f\<lparr>flag_mem := v\<rparr>) args"
  by (simp_all add: flag_Parse.simps(2) split_flag_def set_string_flag_def)

lemmas parse_trace_literal = parse_trace(1) [where b = True, simplified] parse_trace(1) [where b = False, simplified]

lemma parse_flag_args: "flag_Parse f0 (flag_args f @ args) = flag_Parse f args"
  by (cases f; cases f0) (simp add: flag_args_def parse_trace_literal parse_assign [simplified])

lemma parse_flag_words:
  "flag_Parse f0 (flag_words f @ args) = flag_Parse (if flag_trace f then f else f\<lparr>flag_trace := flag_trace f0\<rparr>) args"
  by (cases f; cases f0) (simp add: flag_words_def parse_trace(2) parse_word)

text \<open>Where parsing stops.\<close>

definition is_flag :: "string \<Rightarrow> bool" where
  "is_flag s \<longleftrightarrow> 2 \<le> length s \<and> hd s = CHR ''-''"

lemma parse_stop: "flag_Parse f (''--'' # args) = Inr (f, args)" "\<not> is_flag s \<Longrightarrow> flag_Parse f (s # args) = Inr (f, s # args)"
  by (auto simp: flag_Parse.simps(2) is_flag_def)

lemma parse_suffix: "flag_Parse f args = Inr (f', rest) \<Longrightarrow> suffix rest args"
proof (induction args arbitrary: f rule: length_induct)
  case (1 args)
  show ?case
  proof (cases args)
    case (Cons s as)
    have IH: "flag_Parse g as = Inr (f', rest) \<Longrightarrow> suffix rest as" for g
      using 1(1) [rule_format, of as g] Cons by simp
    have IH': "flag_Parse g as' = Inr (f', rest) \<Longrightarrow> as = v # as' \<Longrightarrow> suffix rest as'" for g v as'
      using 1(1) [rule_format, of as' g] Cons by simp
    from 1(2) Cons show ?thesis
      by (auto simp: flag_Parse.simps(2) Let_def suffix_Cons split: if_splits prod.splits option.splits list.splits
          dest: IH IH')
  qed (use 1 in simp)
qed

section \<open>Properties\<close>

text \<open>C21. The command line carries the flags: whatever the flags' values, equals signs, minus signs,
  colons and empty strings included, rendering them with equals signs or as separate words and
  parsing gives them back, and the arguments after \<open>--\<close>, or from the first word on that is no
  flag, reach the guest unchanged.\<close>

theorem flags_roundtrip:
  assumes "\<not> is_flag prog"
  shows "flag_Parse default_flags (flag_args f @ ''--'' # args) = Inr (f, args) \<and>
    flag_Parse default_flags (flag_args f @ prog # args) = Inr (f, prog # args) \<and>
    flag_Parse default_flags (flag_words f @ ''--'' # args) = Inr (f, args) \<and>
    flag_Parse default_flags (flag_words f @ prog # args) = Inr (f, prog # args)"
proof -
  have "(if flag_trace f then f else f\<lparr>flag_trace := flag_trace default_flags\<rparr>) = f"
    by (cases f) (simp add: default_flags_def)
  with assms show ?thesis by (simp add: parse_flag_args parse_flag_words parse_stop)
qed

theorem flags_roundtrip_witness:
  "flag_Parse default_flags (flag_words \<lparr>flag_trace = True, flag_kernel = ''k'', flag_dir = ''-a=b'', flag_mem = []\<rparr> @
     [''prog'', ''-trace'']) =
   Inr (\<lparr>flag_trace = True, flag_kernel = ''k'', flag_dir = ''-a=b'', flag_mem = []\<rparr>, [''prog'', ''-trace''])"
  using flags_roundtrip [of "''prog''"] by (simp add: is_flag_def)

end
