(* ===== verification/Revisor_Main.thy ===== *)
theory Revisor_Main
  imports Sandbox File_Table Flags
begin

text \<open>
  \<open>cmd/revisor/revisor.go\<close>: the parsing of the memory size and the order in which the command
  sets up the container, the machine and the guest. The flags are those of theory \<open>Flags\<close>; the
  embedded kernel and the parser of \<open>debug/elf\<close> are arguments.
\<close>

section \<open>The memory size\<close>

text \<open>The first code point of a non-empty string, as a \<open>range\<close> loop over the string decodes
  it: an ill-formed sequence is the replacement character.\<close>

definition cont_bytes :: "nat \<Rightarrow> nat \<Rightarrow> nat list \<Rightarrow> bool" where
  "cont_bytes l u bs \<longleftrightarrow> bs \<noteq> [] \<and> l \<le> hd bs \<and> hd bs \<le> u \<and> list_all (\<lambda>b. 0x80 \<le> b \<and> b \<le> 0xbf) (tl bs)"

definition utf8_rune :: "string \<Rightarrow> nat" where
  "utf8_rune s =
     (let bs = map of_char s; b = hd bs; c1 = take 1 (tl bs); c2 = take 2 (tl bs); c3 = take 3 (tl bs);
          tail = foldl (\<lambda>n c. n * 64 + c mod 64)
      in if b < 0x80 then b
         else if 0xc2 \<le> b \<and> b \<le> 0xdf \<and> length c1 = 1 \<and> cont_bytes 0x80 0xbf c1 then tail (b mod 32) c1
         else if 0xe0 \<le> b \<and> b \<le> 0xef \<and> length c2 = 2 \<and>
           cont_bytes (if b = 0xe0 then 0xa0 else 0x80) (if b = 0xed then 0x9f else 0xbf) c2
           then tail (b mod 16) c2
         else if 0xf0 \<le> b \<and> b \<le> 0xf4 \<and> length c3 = 3 \<and>
           cont_bytes (if b = 0xf0 then 0x90 else 0x80) (if b = 0xf4 then 0x8f else 0xbf) c3
           then tail (b mod 8) c3
         else 0xfffd)"

text \<open>\<open>parseMem\<close>: the digits at the front, the first other character as the modifier, and what
  follows it ignored. The products are of type \<open>int64\<close> and wrap around.\<close>

definition parseMem :: "string \<Rightarrow> goerror + u64" where
  "parseMem m =
     (let num = takeWhile is_digit m;
          rest = dropWhile is_digit m;
          modi = (if rest = [] then 66 else utf8_rune rest)
      in case strconv_Atoi num of
           Inl err \<Rightarrow> Inl err
         | Inr n \<Rightarrow>
             if modi = 71 then Inr (word_of_nat n * 1024 * 1024 * 1024)
             else if modi = 77 then Inr (word_of_nat n * 1024 * 1024)
             else if modi = 75 then Inr (word_of_nat n * 1024)
             else if modi = 66 then Inr (word_of_nat n)
             else Inl (Errorf ''invalid memory size modifier %c'' [word_of_nat modi]))"

section \<open>What the memory flag denotes\<close>

text \<open>The modifiers and the power of two that each stands for.\<close>

definition mem_units :: "(char \<times> nat) list" where
  "mem_units = [(CHR ''G'', 30), (CHR ''M'', 20), (CHR ''K'', 10), (CHR ''B'', 0)]"

lemma takeWhile_digits:
  "list_all is_digit ds \<Longrightarrow> \<not> is_digit c \<Longrightarrow>
   takeWhile is_digit (ds @ c # rest) = ds \<and> dropWhile is_digit (ds @ c # rest) = c # rest"
  by (simp add: list_all_iff takeWhile_append2 dropWhile_append2)

lemma utf8_rune_ascii: "(of_char c :: nat) < 128 \<Longrightarrow> utf8_rune (c # rest) = of_char c"
  by (simp only: utf8_rune_def Let_def list.sel list.map if_True)

lemma of_char_letters:
  "(of_char c = (71::nat)) = (c = CHR ''G'')" "(of_char c = (77::nat)) = (c = CHR ''M'')"
  "(of_char c = (75::nat)) = (c = CHR ''K'')" "(of_char c = (66::nat)) = (c = CHR ''B'')"
  by (simp_all flip: of_char_eq_iff [where 'a = nat, of c])

lemma parseMem_unit:
  assumes "n < 2 ^ 63" and "(of_char c :: nat) < 128" and "\<not> is_digit c"
  shows "parseMem (dec_string n @ c # rest) =
    (case map_of mem_units c of Some k \<Rightarrow> Inr (word_of_nat (n * 2 ^ k))
     | None \<Rightarrow> Inl (Errorf ''invalid memory size modifier %c'' [word_of_nat (of_char c)]))"
proof -
  have "takeWhile is_digit (dec_string n @ c # rest) = dec_string n"
    "dropWhile is_digit (dec_string n @ c # rest) = c # rest"
    using takeWhile_digits [OF _ assms(3)] dec_string_digits by simp_all
  then show ?thesis
    using assms by (simp add: parseMem_def Atoi_dec_string utf8_rune_ascii mem_units_def of_char_letters Let_def)
qed


lemma parseMem_bare: "n < 2 ^ 63 \<Longrightarrow> parseMem (dec_string n) = Inr (word_of_nat n)"
  using dec_string_digits [of n]
  by (simp add: parseMem_def Atoi_dec_string list_all_iff takeWhile_eq_all_conv [THEN iffD2]
      dropWhile_eq_Nil_conv [THEN iffD2])

text \<open>C40. The memory flag: the decimal numeral of a number below \<open>2^63\<close> stands for that many bytes,
  followed by G, M, K or B for that many times the unit, modulo \<open>2^64\<close> and whatever
  comes after the letter; any other letter is refused and named in the error, and a flag that does
  not start with a digit is a syntax error.\<close>

theorem parseMem_denotes:
  assumes "n < 2 ^ 63" and "(of_char c :: nat) < 128" and "\<not> is_digit c"
  shows "parseMem (dec_string n) = Inr (word_of_nat n) \<and>
    parseMem (dec_string n @ c # rest) =
      (case map_of mem_units c of Some k \<Rightarrow> Inr (word_of_nat (n * 2 ^ k))
       | None \<Rightarrow> Inl (Errorf ''invalid memory size modifier %c'' [word_of_nat (of_char c)])) \<and>
    parseMem (c # rest) = Inl (ErrNew ''invalid syntax'')"
  using assms
  by (simp add: parseMem_bare parseMem_unit) (simp add: parseMem_def strconv_Atoi_def)

theorem parseMem_denotes_witness:
  "parseMem ''2G'' = Inr 0x80000000 \<and> parseMem ''2Grams'' = Inr 0x80000000 \<and> parseMem ''17179869184G'' = Inr 0 \<and>
   parseMem ''2T'' = Inl (Errorf ''invalid memory size modifier %c'' [84])"
proof -
  have d: "dec_string 2 = ''2''" "dec_string 17179869184 = ''17179869184''"
    by (simp_all add: dec_string.simps char_of_def bit_0)
  have "\<not> is_digit (CHR ''G'')" "\<not> is_digit (CHR ''T'')" by (simp_all add: is_digit_def)
  then show ?thesis
    using parseMem_denotes [of 2 "CHR ''G''" "[]"] parseMem_denotes [of 2 "CHR ''G''" "''rams''"]
      parseMem_denotes [of 17179869184 "CHR ''G''" "[]"] parseMem_denotes [of 2 "CHR ''T''" "[]"]
    by (simp add: d mem_units_def)
qed

section \<open>The command\<close>

text \<open>What the variables hold before anything is created.\<close>

definition empty_vm :: vm where
  "empty_vm = \<lparr>vm_fd = 0, mem = [], mem_addr = 0, sys = [], sys_addr = 0, vcpus = []\<rparr>"

definition initial_state :: "'w \<Rightarrow> 'w cst" where
  "initial_state w =
     \<lparr>world = w, machine = \<lparr>kvmfd = 0, irqfd = 0, machine_vm = empty_vm, runs = []\<rparr>,
      handler = \<lparr>dirs = [], fdtable = Map.empty, nextfd = 0\<rparr>\<rparr>"

text \<open>The command up to the call of \<open>Boot\<close>; an error ends it with \<open>log.Fatal\<close>. \<open>rekernel\<close> is
  the embedded kernel, \<open>elf_NewFile\<close> the parser applied to an open file.\<close>

definition main_setup ::
  "'w host \<Rightarrow> ('w, Container) arch \<Rightarrow> goerror + elf_file \<Rightarrow> (u64 \<Rightarrow> goerror + elf_file) \<Rightarrow>
   string \<Rightarrow> string \<Rightarrow> string \<Rightarrow> ('w cst, goerror + elf_file) go" where
  "main_setup h A rekernel elf_NewFile kern dir memarg =
     bnd (host_call (sys_time h)) (\<lambda>start.
     bnd (NewContainer h (strings_Split (CHR '':'') dir)) (\<lambda>c.
     bnd (modify (\<lambda>s. s\<lparr>handler := c\<rparr>)) (\<lambda>_.
     bnd (case parseMem memarg of Inl err \<Rightarrow> throw err | Inr sz \<Rightarrow> ret sz) (\<lambda>sz.
     bnd (NewMachine h A ''/dev/kvm'' 1 sz) (\<lambda>_.
     if kern = ''rekernel'' then ret rekernel
     else bnd (host_try (sys_open h kern 0 0)) (\<lambda>fd. ret (elf_NewFile fd)))))))"

text \<open>What follows the parsing of the flags.\<close>

definition main_run ::
  "'w host \<Rightarrow> ('w, Container) arch \<Rightarrow> goerror + elf_file \<Rightarrow> (u64 \<Rightarrow> goerror + elf_file) \<Rightarrow>
   string \<Rightarrow> string \<Rightarrow> string \<Rightarrow> string list \<Rightarrow> 'w \<Rightarrow> ('w, Container) proc res" where
  "main_run h A rekernel elf_NewFile kern dir memarg args w =
     (case main_setup h A rekernel elf_NewFile kern dir memarg (initial_state w) of
        (Ok kdata, s) \<Rightarrow> Boot A kdata args s
      | (Err e, s) \<Rightarrow> Err e
      | (Panic q, s) \<Rightarrow> Panic q)"

text \<open>How the command starts out: it exits because of its arguments, it ends with \<open>log.Fatal\<close> or in
  a panic, or it boots, with the flag that asks for a trace.\<close>

datatype 'p command = ExitCode nat | Fatal goerror | Crashed gopanic | Booted bool 'p

fun command_of :: "bool \<Rightarrow> 'p res \<Rightarrow> 'p command" where
  "command_of trace (Ok p) = Booted trace p"
| "command_of trace (Err e) = Fatal e"
| "command_of trace (Panic q) = Crashed q"

definition main ::
  "'w host \<Rightarrow> ('w, Container) arch \<Rightarrow> goerror + elf_file \<Rightarrow> (u64 \<Rightarrow> goerror + elf_file) \<Rightarrow>
   string list \<Rightarrow> 'w \<Rightarrow> ('w, Container) proc command" where
  "main h A rekernel elf_NewFile cmdline w =
     (case flag_Parse default_flags cmdline of
        Inl code \<Rightarrow> ExitCode code
      | Inr (f, args) \<Rightarrow>
          command_of (flag_trace f)
            (main_run h A rekernel elf_NewFile (flag_kernel f) (flag_dir f) (flag_mem f) args w))"

section \<open>Setting up\<close>

lemma keeps_abs_dirs [keeps_rules]: "keeps handler (abs_dirs h ds)"
  by (induction ds) (simp_all, (intro keeps_rules)+)

text \<open>\<open>p\<close> is the absolute form of the path \<open>d\<close>: cleaned, and below the working directory unless it is
  absolute already.\<close>

definition abs_form :: "'w host \<Rightarrow> string \<Rightarrow> string \<Rightarrow> bool" where
  "abs_form h d p \<longleftrightarrow>
     (if filepath_IsAbs d then p = filepath_Clean d
      else \<exists>w wd w'. sys_getwd h w = (Inr wd, w') \<and> p = filepath_Join wd d)"

lemma filepath_Abs_form: "filepath_Abs h d s = (Ok p, t) \<Longrightarrow> abs_form h d p"
  by (auto simp: filepath_Abs_def abs_form_def host_try_def host_call_def go_simps split_beta
      split: if_splits sum.splits elim!: bnd_OkE) (metis prod.collapse)

lemma abs_dirs_Ok:
  "abs_dirs h ds s = (Ok ps, t) \<Longrightarrow>
   list_all2 (abs_form h) ds ps \<and> (rooted_getwd h \<longrightarrow> list_all clean_abs ps)"
proof (induction ds arbitrary: s ps t)
  case (Cons d ds)
  then obtain x s1 where at: "attempt (filepath_Abs h d) s = (Ok x, s1)"
    and k: "(case x of Inl err \<Rightarrow> panic (PanicErr err)
       | Inr path \<Rightarrow> bnd (abs_dirs h ds) (\<lambda>ps. ret (path # ps))) s1 = (Ok ps, t)"
    by (auto elim!: bnd_OkE)
  from k obtain path qs s2 where x: "x = Inr path" and qs: "abs_dirs h ds s1 = (Ok qs, s2)" "ps = path # qs"
    by (cases x) (auto simp: go_simps elim!: bnd_OkE)
  from at x have "filepath_Abs h d s = (Ok path, s1)" by (auto elim: attempt_OkE)
  with Cons.IH [OF qs(1)] qs(2) show ?case by (auto dest: filepath_Abs_clean filepath_Abs_form)
qed (simp add: go_simps)

lemma legal_new: "legal \<lparr>dirs = ps, fdtable = std_files, nextfd = 3\<rparr>"
  by (auto simp: legal_def container_inv_def std_files_def word_le_nat_alt word_less_nat_alt split: if_splits)

text \<open>What a container is after the set-up: fresh, with the absolute forms of the given directories.\<close>

definition fresh_container :: "'w host \<Rightarrow> string list \<Rightarrow> Container \<Rightarrow> bool" where
  "fresh_container h ds c \<longleftrightarrow> legal c \<and> fdtable c = std_files \<and> nextfd c = 3 \<and> list_all2 (abs_form h) ds (dirs c) \<and>
     (rooted_getwd h \<longrightarrow> list_all clean_abs (dirs c))"

lemma NewContainer_Ok: "NewContainer h ds s = (Ok c, t) \<Longrightarrow> fresh_container h ds c"
  by (auto simp: NewContainer_def fresh_container_def legal_new go_simps elim!: bnd_OkE dest!: abs_dirs_Ok)

text \<open>The image that the kernel flag names: the embedded one, or what the parser makes of the file with
  that name, opened for reading.\<close>

definition chosen_kernel ::
  "'w host \<Rightarrow> goerror + elf_file \<Rightarrow> (u64 \<Rightarrow> goerror + elf_file) \<Rightarrow> string \<Rightarrow> goerror + elf_file \<Rightarrow> bool" where
  "chosen_kernel h rekernel elf_NewFile kern kdata \<longleftrightarrow>
     (if kern = ''rekernel'' then kdata = rekernel
      else \<exists>w fd w'. sys_open h kern 0 0 w = (Inr fd, w') \<and> kdata = elf_NewFile fd)"

text \<open>The registers of the virtual CPUs were set, as the last thing, to the entry point of the kernel \<open>e\<close>, to
  the number of arguments and to the kernel address of a vector of them that lies in RAM. (Arguments of
  4 GiB and more are left out; Linux admits a few megabytes.)\<close>

definition handed_over :: "('w, Container) arch \<Rightarrow> elf_file \<Rightarrow> string list \<Rightarrow> 'w cst \<Rightarrow> bool" where
  "handed_over A e args s \<longleftrightarrow>
     (\<exists>addr u. SetupRegs A (Entry e) (word_of_nat (length args)) addr u = (Ok (), s) \<and>
       (argv_size args < 2 ^ 32 \<longrightarrow>
          addr = pa2ka A (physRamBase + word_of_nat (strs_size args)) \<and>
          take (argv_size args) (ram u) = argv_image (pa2ka A) args))"

lemma LoadKernel_handed_over:
  "LoadKernel A kdata args s = (Ok u, t) \<Longrightarrow> \<exists>e. kdata = Inr e \<and> handed_over A e args t"
  by (drule LoadKernel_Ok) (auto simp: handed_over_def)

lemma main_setup_Ok:
  assumes "main_setup h (arch_of isa h) rekernel elf_NewFile kern dir memarg s0 = (Ok kdata, s)"
  shows "fresh_container h (strings_Split (CHR '':'') dir) (handler s) \<and>
    chosen_kernel h rekernel elf_NewFile kern kdata \<and>
    (\<exists>sz. parseMem memarg = Inr sz \<and> ready 1 1 (unat sz) (handler s) s)"
proof -
  from assms obtain tm s1 c s2 u3 s3 sz s4 u5 s5 where
    steps: "NewContainer h (strings_Split (CHR '':'') dir) s1 = (Ok c, s2)"
      "modify (\<lambda>s. s\<lparr>handler := c\<rparr>) s2 = (Ok u3, s3)"
      "(case parseMem memarg of Inl err \<Rightarrow> throw err | Inr sz \<Rightarrow> ret sz) s3 = (Ok sz, s4)"
      "NewMachine h (arch_of isa h) ''/dev/kvm'' 1 sz s4 = (Ok u5, s5)"
    and k: "(if kern = ''rekernel'' then ret rekernel
       else bnd (host_try (sys_open h kern 0 0)) (\<lambda>fd. ret (elf_NewFile fd))) s5 = (Ok kdata, s)"
    unfolding main_setup_def by (elim bnd_OkE)
  have fr: "keeps hull (if kern = ''rekernel'' then ret rekernel
       else bnd (host_try (sys_open h kern 0 0)) (\<lambda>fd. ret (elf_NewFile fd)))"
    by (intro keeps_rules)
  from k have kern: "chosen_kernel h rekernel elf_NewFile kern kdata"
    by (auto simp: chosen_kernel_def go_simps host_try_def host_call_def split_beta split: if_splits sum.splits elim!: bnd_OkE)
      (metis prod.collapse)
  from steps(2,3) have s4: "parseMem memarg = Inr sz" "handler s4 = c"
    by (auto simp: go_simps split: sum.splits)
  have "ready 1 1 (unat sz) c s5" using setup_isa.NewMachine_Ok [OF steps(4)] s4(2) by simp
  then have r: "ready 1 1 (unat sz) c s" using ready_frame [OF fr k] by simp
  from r have "handler s = c" by (simp add: ready_def)
  with r kern NewContainer_Ok [OF steps(1)] s4(1) show ?thesis by blast
qed

lemma main_run_Ok:
  assumes "main_run h (arch_of isa h) rekernel elf_NewFile kern dir memarg args w = Ok p"
  shows "\<exists>s sz e. p = boot_proc s \<and> fresh_container h (strings_Split (CHR '':'') dir) (handler s) \<and>
    parseMem memarg = Inr sz \<and> length (ram s) = unat sz \<and> length (vcpus (the_vm s)) = 1 \<and>
    list_all (\<lambda>r. r \<noteq> None) (runs (machine s)) \<and>
    chosen_kernel h rekernel elf_NewFile kern (Inr e) \<and> handed_over (arch_of isa h) e args s"
proof -
  from assms obtain kdata s1 u s where
    su: "main_setup h (arch_of isa h) rekernel elf_NewFile kern dir memarg (initial_state w) = (Ok kdata, s1)"
    and load: "LoadKernel (arch_of isa h) kdata args s1 = (Ok u, s)" and p: "p = boot_proc s"
    by (auto simp: main_run_def Boot_def split: prod.splits res.splits)
  from main_setup_Ok [OF su] obtain sz where
    ok: "fresh_container h (strings_Split (CHR '':'') dir) (handler s1)" "parseMem memarg = Inr sz"
      "ready 1 1 (unat sz) (handler s1) s1" and kern: "chosen_kernel h rekernel elf_NewFile kern kdata" by blast
  from ready_frame [OF on_isa.keeps_hull_LoadKernel load] ok(3) have "ready 1 1 (unat sz) (handler s1) s" by simp
  with ok p kern LoadKernel_handed_over [OF load] show ?thesis by (auto simp: ready_def list_all_length)
qed

lemma main_Booted:
  assumes "main h (arch_of isa h) rekernel elf_NewFile cmdline w = Booted trace p"
  shows "\<exists>f args s sz e. flag_Parse default_flags cmdline = Inr (f, args) \<and> suffix args cmdline \<and> trace = flag_trace f \<and>
    p = boot_proc s \<and> fresh_container h (strings_Split (CHR '':'') (flag_dir f)) (handler s) \<and>
    parseMem (flag_mem f) = Inr sz \<and> length (ram s) = unat sz \<and> length (vcpus (the_vm s)) = 1 \<and>
    list_all (\<lambda>r. r \<noteq> None) (runs (machine s)) \<and>
    chosen_kernel h rekernel elf_NewFile (flag_kernel f) (Inr e) \<and> handed_over (arch_of isa h) e args s"
proof -
  from assms obtain f args where fl: "flag_Parse default_flags cmdline = Inr (f, args)"
    and "command_of (flag_trace f)
      (main_run h (arch_of isa h) rekernel elf_NewFile (flag_kernel f) (flag_dir f) (flag_mem f) args w) = Booted trace p"
    by (auto simp: main_def split: sum.splits)
  then have tr: "trace = flag_trace f"
    and run: "main_run h (arch_of isa h) rekernel elf_NewFile (flag_kernel f) (flag_dir f) (flag_mem f) args w = Ok p"
    by (auto elim: command_of.elims)
  from main_run_Ok [OF run] fl parse_suffix [OF fl] tr show ?thesis by blast
qed

text \<open>C19. The command boots what its command line asks for: when it boots at all, the flags were understood,
  and the process starts with a fresh container (the standard files only, and the absolute form of each
  component of the directory flag, in order), exactly one virtual CPU with its run page, RAM of the size that the
  memory flag denotes, and no goroutine of the guest running yet. The last step of the set-up gave the registers
  the entry point of the kernel that the kernel flag names, the number of arguments after the flags and the
  address of a vector in RAM that holds these arguments.\<close>

theorem main_boots:
  assumes "main h (arch_of isa h) rekernel elf_NewFile cmdline w = Booted trace p"
  shows "\<exists>f args s sz e. flag_Parse default_flags cmdline = Inr (f, args) \<and> suffix args cmdline \<and> trace = flag_trace f \<and>
    p = boot_proc s \<and> fresh_container h (strings_Split (CHR '':'') (flag_dir f)) (handler s) \<and>
    parseMem (flag_mem f) = Inr sz \<and> length (ram s) = unat sz \<and> length (vcpus (the_vm s)) = 1 \<and>
    list_all (\<lambda>r. r \<noteq> None) (runs (machine s)) \<and>
    chosen_kernel h rekernel elf_NewFile (flag_kernel f) (Inr e) \<and> handed_over (arch_of isa h) e args s"
  using assms by (rule main_Booted)

lemma abs_dirs_fails:
  obtains (ok) ps where "abs_dirs h ds s = (Ok ps, snd (abs_dirs h ds s))"
    | (getwd) d err w w' where "d \<in> set ds" "\<not> filepath_IsAbs d" "sys_getwd h w = (Inl err, w')"
        "abs_dirs h ds s = (Panic (PanicErr err), snd (abs_dirs h ds s))"
proof -
  have "(\<exists>ps. abs_dirs h ds s = (Ok ps, snd (abs_dirs h ds s))) \<or>
      (\<exists>d err w w'. d \<in> set ds \<and> \<not> filepath_IsAbs d \<and> sys_getwd h w = (Inl err, w') \<and>
        abs_dirs h ds s = (Panic (PanicErr err), snd (abs_dirs h ds s)))"
  proof (induction ds arbitrary: s)
    case (Cons d ds)
    show ?case
    proof (cases "filepath_Abs h d s")
      case (Pair r t)
      then show ?thesis
      proof (cases r)
        case (Ok path)
        with Pair Cons.IH [of t] show ?thesis by (auto simp: go_simps attempt_def) blast
      qed (auto simp: filepath_Abs_def host_try_def host_call_def go_simps attempt_def split_beta bnd_def
          split: if_splits sum.splits prod.splits res.splits, metis prod.collapse)
    qed
  qed (simp add: go_simps)
  then show thesis using ok getwd by blast
qed

text \<open>C20. A memory flag that is not understood ends the command with the parser's error, whatever KVM, the kernel
  image and the host do. The only other end, before the flag is looked at, is the panic of \<open>NewContainer\<close> with the
  error of \<open>os.Getwd\<close>, when a component of the directory flag is a relative path and the host cannot tell the
  working directory.\<close>

theorem main_bad_memory:
  assumes "flag_Parse default_flags cmdline = Inr (f, args)" and "parseMem (flag_mem f) = Inl e"
  shows "main h A rekernel elf_NewFile cmdline w = Fatal e \<or>
    (\<exists>d err w1 w2. d \<in> set (strings_Split (CHR '':'') (flag_dir f)) \<and> \<not> filepath_IsAbs d \<and>
      sys_getwd h w1 = (Inl err, w2) \<and> main h A rekernel elf_NewFile cmdline w = Crashed (PanicErr err))"
proof -
  define s1 where "s1 = (initial_state w)\<lparr>world := snd (sys_time h w)\<rparr>"
  have time: "host_call (sys_time h) (initial_state w) = (Ok (fst (sys_time h w)), s1)"
    by (simp add: s1_def host_call_def initial_state_def split_beta)
  show ?thesis
  proof (cases rule: abs_dirs_fails [of h "strings_Split (CHR '':'') (flag_dir f)" s1])
    case (ok ps)
    with time assms(2) have "\<exists>t. main_setup h A rekernel elf_NewFile (flag_kernel f) (flag_dir f) (flag_mem f) (initial_state w) = (Err e, t)"
      by (auto simp: main_setup_def NewContainer_def go_simps)
    with assms(1) show ?thesis by (auto simp: main_def main_run_def)
  next
    case (getwd d err w1 w2)
    with time have "\<exists>t. main_setup h A rekernel elf_NewFile (flag_kernel f) (flag_dir f) (flag_mem f) (initial_state w) =
        (Panic (PanicErr err), t)"
      by (auto simp: main_setup_def NewContainer_def go_simps)
    with assms(1) have "main h A rekernel elf_NewFile cmdline w = Crashed (PanicErr err)" by (auto simp: main_def main_run_def)
    with getwd show ?thesis by blast
  qed
qed

theorem main_bad_memory_witness:
  "main ok_host (amd64 ok_host) (Inl EOF) (\<lambda>fd. Inl EOF) [''-mem=K'', ''prog''] () = Fatal (ErrNew ''invalid syntax'')"
proof -
  have "flag_Parse default_flags [''-mem=K'', ''prog''] = Inr (default_flags\<lparr>flag_mem := ''K''\<rparr>, [''prog''])"
    using parse_assign(3) [where v = "''K''"] by (simp add: parse_stop(2) is_flag_def)
  from main_bad_memory [OF this, of "ErrNew ''invalid syntax''"] show ?thesis
    by (fastforce simp: parseMem_def strconv_Atoi_def is_digit_def)
qed

text \<open>A run of the command on the still host: 64 bytes of RAM, two directories and a kernel of one
  segment.\<close>

abbreviation sample_kernel :: elf_file where "sample_kernel \<equiv> \<lparr>Entry = 9, Progs = [sample_prog]\<rparr>"

lemma sample_paths: "strings_Split (CHR '':'') ''/w:/x'' = [''/w'', ''/x'']"
  "filepath_Clean ''/w'' = ''/w''" "filepath_Clean ''/x'' = ''/x''" "filepath_IsAbs ''/w''" "filepath_IsAbs ''/x''"
  by code_simp+

lemma sample_size: "parseMem ''64'' = Inr 64"
proof -
  have "dec_string 64 = ''64''" by (simp add: dec_string.simps char_of_def bit_0)
  then show ?thesis using parseMem_bare [of 64] by simp
qed

lemmas sample_flags = sample_paths sample_size

lemma sample_setup:
  "\<exists>s. main_setup twelve_host (arch_of ARM64 twelve_host) (Inr sample_kernel) elf_NewFile ''rekernel'' ''/w:/x'' ''64''
     (initial_state ()) = (Ok (Inr sample_kernel), s)"
  by (simp add: main_setup_def sample_flags NewContainer_def filepath_Abs_def setup_defs go_simps Let_def)

lemma sample_SetupRegs: "\<exists>t. SetupRegs (arm64 twelve_host) a b c s = (Ok (), t)" if "length (vcpus (the_vm s)) = 1"
proof -
  from that obtain v where "vcpus (the_vm s) = [v]" by (auto simp: length_Suc_conv)
  then show ?thesis
    by (simp add: arm64_def arm64_SetupRegs_def arm64_SetPc_def arm64_SetReg_def arm64_setReg_def setup_defs go_simps Let_def)
qed

lemma sample_main_run:
  "\<exists>p. main_run twelve_host (arch_of ARM64 twelve_host) (Inr sample_kernel) elf_NewFile ''rekernel'' ''/w:/x'' ''64'' [] () = Ok p"
proof -
  obtain s where s: "main_setup twelve_host (arch_of ARM64 twelve_host) (Inr sample_kernel) elf_NewFile ''rekernel''
      ''/w:/x'' ''64'' (initial_state ()) = (Ok (Inr sample_kernel), s)" using sample_setup by blast
  from main_setup_Ok [OF s] have "length (ram s) = 64" "length (vcpus (the_vm s)) = 1"
    by (auto simp: sample_flags ready_def)
  then obtain t where "LoadKernel (arch_of ARM64 twelve_host) (Inr sample_kernel) [] s = (Ok (), t)"
    using sample_SetupRegs LoadKernel_eq [of "arm64 twelve_host" s sample_kernel "[]"]
    by (fastforce simp: sample_loadable [simplified] argv_size_def)
  with s show ?thesis by (simp add: main_run_def Boot_def)
qed

abbreviation sample_cmdline :: "string list" where "sample_cmdline \<equiv> [''-dir'', ''/w:/x'', ''-mem=64'']"

lemma sample_Parse:
  "flag_Parse default_flags sample_cmdline =
   Inr (\<lparr>flag_trace = False, flag_kernel = ''rekernel'', flag_dir = ''/w:/x'', flag_mem = ''64''\<rparr>, [])"
  using parse_word(2) [of default_flags "''/w:/x''"] parse_assign(3) [where v = "''64''"]
  by (simp add: default_flags_def)

lemma sample_main:
  "\<exists>p. main twelve_host (arch_of ARM64 twelve_host) (Inr sample_kernel) elf_NewFile sample_cmdline () = Booted False p"
  using sample_main_run [of elf_NewFile] by (auto simp: main_def sample_Parse)

theorem main_boots_witness:
  "\<exists>s. main twelve_host (arch_of ARM64 twelve_host) (Inr sample_kernel) (\<lambda>fd. Inl EOF) sample_cmdline () =
     Booted False (boot_proc s) \<and> length (ram s) = 64 \<and> dirs (handler s) = [''/w'', ''/x''] \<and>
     handed_over (arch_of ARM64 twelve_host) sample_kernel [] s"
proof -
  from sample_main obtain p where p: "main twelve_host (arch_of ARM64 twelve_host) (Inr sample_kernel) (\<lambda>fd. Inl EOF)
      sample_cmdline () = Booted False p" by blast
  from main_boots [OF p] obtain s where "p = boot_proc s" "length (ram s) = 64" "dirs (handler s) = [''/w'', ''/x'']"
    "handed_over (arch_of ARM64 twelve_host) sample_kernel [] s"
    by (auto simp: sample_Parse sample_flags fresh_container_def abs_form_def chosen_kernel_def list_all2_Cons1)
  with p show ?thesis by blast
qed

end
