(* ===== verification/Ioctl_Sizes.thy ===== *)
theory Ioctl_Sizes
  imports Sandbox
begin

text \<open>
  The sizes of ioctl arguments. A request number announces how many bytes the kernel may read or
  write behind the pointer; Go's type checker does not relate that number to the structure that
  is passed. The operations below never announce more than they pass, with the one exception
  of \<open>SetIdentityMapAddr\<close>. As in theory \<open>Sandbox\<close> this is non-interference: replace what the
  kernel does on all other requests by anything, and nothing changes. It also justifies the
  model of \<open>Ioctl\<close> in theory \<open>Host\<close>, in which the kernel only stores into the given buffer.
\<close>

section \<open>Requests that fit\<close>

text \<open>The bytes behind the argument: a structure whose last field is a pointer has eight more bytes
  than the fields before it.\<close>

fun arg_size :: "ioarg \<Rightarrow> nat" where
  "arg_size (IoVal v) = 0"
| "arg_size (IoPtr b) = length b"
| "arg_size (IoRef hdr inner) = length hdr + 8"

definition fits :: "u64 \<Rightarrow> ioarg \<Rightarrow> bool" where
  "fits req arg \<longleftrightarrow> unat (ioc_size req) \<le> arg_size arg \<or> req = IIOW kvmSetIdentityMapAddr 8"

text \<open>A host that treats the requests that fit as \<open>h\<close> does and is arbitrary on all others.\<close>

definition guarded ::
  "(u64 \<Rightarrow> u64 \<Rightarrow> ioarg \<Rightarrow> bytes \<Rightarrow> RunData option list \<Rightarrow> 'w \<Rightarrow> ioctl_out \<times> 'w) \<Rightarrow> 'w host \<Rightarrow> 'w host" where
  "guarded other h =
     h\<lparr>sys_ioctl := \<lambda>fd req arg. if fits req arg then sys_ioctl h fd req arg else other fd req arg\<rparr>"

lemma ioc_size_le: "unat (ioc_size (IIOC d n s)) \<le> unat s"
proof -
  have "unat (s AND sizemask) = take_bit 14 (unat s)"
    by (simp add: masks unsigned_take_bit_eq flip: take_bit_eq_mask)
  then show ?thesis by simp
qed

lemma fits_IIO: "fits (IIO n) arg"
  using ioc_size_le [of dir_none n 0] by (simp add: fits_def IIO_def)

lemma fits_sized: "unat s \<le> arg_size arg \<Longrightarrow> fits (IIOR n s) arg"
  "unat s \<le> arg_size arg \<Longrightarrow> fits (IIOW n s) arg" "unat s \<le> arg_size arg \<Longrightarrow> fits (IIOWR n s) arg"
  using ioc_size_le order_trans unfolding fits_def IIOR_def IIOW_def IIOWR_def by blast+

named_theorems fits_simps \<open>operations whose requests fit\<close>

lemma guarded_fields [simp, fits_simps]:
  "sys_open (guarded other h) = sys_open h" "sys_read (guarded other h) = sys_read h"
  "sys_write (guarded other h) = sys_write h" "sys_lseek (guarded other h) = sys_lseek h"
  "sys_fstat (guarded other h) = sys_fstat h" "sys_getdents (guarded other h) = sys_getdents h"
  "sys_time (guarded other h) = sys_time h" "sys_getwd (guarded other h) = sys_getwd h"
  "sys_mmap (guarded other h) = sys_mmap h" "sys_mmap_run (guarded other h) = sys_mmap_run h"
  "sys_pagesize (guarded other h) = sys_pagesize h" "sys_log (guarded other h) = sys_log h"
  "fmt_err (guarded other h) = fmt_err h" "x86_disasm (guarded other h) = x86_disasm h"
  by (simp_all add: guarded_def)

lemma guarded_Ioctl:
  assumes "fits req arg"
  shows "Ioctl (guarded other h) fd req arg = Ioctl h fd req arg"
    "Ioctl_err (guarded other h) fd req arg = Ioctl_err h fd req arg"
    "Ioctl_val (guarded other h) fd req arg = Ioctl_val h fd req arg"
proof -
  show *: "Ioctl (guarded other h) fd req arg = Ioctl h fd req arg"
    using assms by (simp add: fun_eq_iff Ioctl_def guarded_def)
  show "Ioctl_err (guarded other h) fd req arg = Ioctl_err h fd req arg"
    "Ioctl_val (guarded other h) fd req arg = Ioctl_val h fd req arg"
    by (simp_all add: Ioctl_err_def Ioctl_val_def * cong: option.case_cong)
qed

lemmas guarded_Ioctl_IIO = guarded_Ioctl [OF fits_IIO]
lemmas fit = guarded_Ioctl_IIO guarded_Ioctl fits_sized

section \<open>The operations with one request\<close>

lemma guarded_print [fits_simps]:
  "eprint (guarded other h) = eprint h" "oprint (guarded other h) = oprint h" "fmt_v (guarded other h) = fmt_v h"
  by (simp_all add: fun_eq_iff eprint_def oprint_def fmt_v_def cong: option.case_cong)

lemma guarded_amd64_regs [fits_simps]:
  "GetRegs (guarded other h) = GetRegs h" "SetRegs (guarded other h) = SetRegs h"
  "GetSregs (guarded other h) = GetSregs h"
  by (simp_all add: fun_eq_iff GetRegs_def SetRegs_def GetSregs_def fit regs.length_enc)

lemma CPUID_Bytes_size: "8 \<le> length (CPUID_Bytes c)"
  by (simp add: CPUID_Bytes_def)

lemma guarded_cpuid [fits_simps]:
  "GetSupportedCPUID (guarded other h) = GetSupportedCPUID h" "SetCPUID2 (guarded other h) = SetCPUID2 h"
  by (simp_all add: fun_eq_iff GetSupportedCPUID_def cpuid_ioctl_def SetCPUID2_def fit CPUID_Bytes_size)

lemma guarded_vcpu [fits_simps]:
  "vcpu_Run (guarded other h) = vcpu_Run h" "arm64_setReg (guarded other h) = arm64_setReg h"
  "arm64_getReg (guarded other h) = arm64_getReg h"
  by (simp_all add: fun_eq_iff vcpu_Run_def arm64_setReg_def arm64_getReg_def fit)

lemma guarded_SingleStep [fits_simps]: "vcpu_SingleStep (guarded other h) = vcpu_SingleStep h"
  by (simp add: fun_eq_iff vcpu_SingleStep_def fit enc_debugControl_def length_concat comp_def sum_list_replicate Let_def)

lemma guarded_irq [fits_simps]:
  "irq_line (guarded other h) = irq_line h"
  "arm64_finalizeIrqController (guarded other h) = arm64_finalizeIrqController h"
  by (simp_all add: fun_eq_iff irq_line_def arm64_finalizeIrqController_def fit irqlevel.length_enc DeviceAttr_hdr_def)

lemma guarded_createIrqController [fits_simps]:
  "amd64_createIrqController (guarded other h) = amd64_createIrqController h"
  by (simp add: fun_eq_iff amd64_createIrqController_def fit enc_PITConfig_def length_concat comp_def sum_list_replicate)

lemma guarded_createDevice [fits_simps]: "arm64_createDevice (guarded other h) = arm64_createDevice h"
  by (simp add: fun_eq_iff arm64_createDevice_def fit createdevice.length_enc DeviceAttr_hdr_def Let_def cong: IrqType.case_cong)

lemma guarded_amd64_vm [fits_simps]:
  "SetIdentityMapAddr (guarded other h) = SetIdentityMapAddr h" "setTSSAddr (guarded other h) = setTSSAddr h"
  "amd64_createVM (guarded other h) = amd64_createVM h" "CheckExtension (guarded other h) = CheckExtension h"
  by (simp_all add: fun_eq_iff SetIdentityMapAddr_def setTSSAddr_def amd64_createVM_def CheckExtension_def
      identity_map_request_def fit fits_def)

lemma guarded_memory [fits_simps]:
  "getAPIVersion (guarded other h) = getAPIVersion h" "getVCPUMMmapSize (guarded other h) = getVCPUMMmapSize h"
  "SetUserspaceMemoryRegion (guarded other h) = SetUserspaceMemoryRegion h" "addVCPU (guarded other h) = addVCPU h"
  by (simp_all add: fun_eq_iff getAPIVersion_def getVCPUMMmapSize_def SetUserspaceMemoryRegion_def addVCPU_def
      fit region.length_enc)


section \<open>Writing back what the kernel supplied\<close>

text \<open>The buffer that a get request fills has the size of the structure, so the structure that is
  decoded from it has its arrays at their declared lengths and is written back in full.\<close>

lemma wf_boot_sregs: "wf_Sregs (boot_sregs s) = wf_Sregs s"
  by (simp add: boot_sregs_def wf_Sregs_def flat_segment_def)

lemma guarded_SetSregs: "wf_Sregs s \<Longrightarrow> SetSregs (guarded other h) v s = SetSregs h v s"
  by (simp add: SetSregs_def fit sregs.length_enc)

lemma guarded_initSregs [fits_simps]: "initSregs (guarded other h) = initSregs h"
  by (simp add: fun_eq_iff initSregs_def fits_simps GetSregs_def bnd_assoc split_beta guarded_SetSregs
      wf_boot_sregs sregs.dec_wf)

lemma wf_arm64_features: "wf_VcpuInit (arm64_features ext i) = wf_VcpuInit i"
  by (simp add: arm64_features_def wf_VcpuInit_def Let_def split: sum.split)

lemma guarded_arm64_machine_init [fits_simps]: "arm64_machine_init (guarded other h) = arm64_machine_init h"
  by (simp add: fun_eq_iff arm64_machine_init_def fits_simps fit vcpuinit.length_enc wf_arm64_features
      vcpuinit.dec_wf Let_def split_beta)

lemma guarded_VtoP [fits_simps]: "amd64_VtoP (guarded other h) = amd64_VtoP h"
  by (simp add: fun_eq_iff amd64_VtoP_def Translate_def bnd_assoc split_beta fit translation.length_enc wf_Translation_def)

section \<open>The composed operations\<close>

lemma guarded_vcpu_ops [fits_simps]:
  "amd64_GetPc (guarded other h) = amd64_GetPc h" "initRegs (guarded other h) = initRegs h"
  "initCPUID (guarded other h) = initCPUID h" "arm64_SetPc (guarded other h) = arm64_SetPc h"
  "arm64_GetPc (guarded other h) = arm64_GetPc h" "arm64_SetReg (guarded other h) = arm64_SetReg h"
  "arm64_GetReg (guarded other h) = arm64_GetReg h"
  by (simp_all add: fun_eq_iff amd64_GetPc_def initRegs_def initCPUID_def arm64_SetPc_def arm64_GetPc_def
      arm64_SetReg_def arm64_GetReg_def fits_simps cong: option.case_cong sum.case_cong)

lemma guarded_irq_ops [fits_simps]:
  "amd64_InjectIrq (guarded other h) = amd64_InjectIrq h" "arm64_InjectIrq (guarded other h) = arm64_InjectIrq h"
  "arm64_createIrqController (guarded other h) = arm64_createIrqController h"
  by (simp_all add: fun_eq_iff amd64_InjectIrq_def arm64_InjectIrq_def arm64_createIrqController_def fits_simps
      cong: sum.case_cong)

lemma guarded_amd64_ops [fits_simps]:
  "amd64_vm_init (guarded other h) = amd64_vm_init h" "amd64_machine_init (guarded other h) = amd64_machine_init h"
  "amd64_SetupRegs (guarded other h) = amd64_SetupRegs h" "amd64_hypercall (guarded other h) = amd64_hypercall h"
  "amd64_Inst (guarded other h) = amd64_Inst h"
  by (simp_all add: fun_eq_iff amd64_vm_init_def amd64_machine_init_def amd64_SetupRegs_def amd64_hypercall_def
      amd64_Inst_def fits_simps cong: option.case_cong sum.case_cong)

lemma guarded_arm64_createVM [fits_simps]: "arm64_createVM (guarded other h) = arm64_createVM h"
  by (simp add: fun_eq_iff arm64_createVM_def fits_simps fit cong: sum.case_cong)

lemma guarded_arm64_ops [fits_simps]:
  "arm64_SetupRegs (guarded other h) = arm64_SetupRegs h" "arm64_hypercall (guarded other h) = arm64_hypercall h"
  by (simp_all add: fun_eq_iff arm64_SetupRegs_def arm64_hypercall_def fits_simps)

lemma guarded_arch_of [fits_simps]: "arch_of isa (guarded other h) = arch_of isa h"
  by (cases isa) (simp_all add: amd64_def arm64_def fits_simps)

lemma guarded_setup [fits_simps]:
  "NewVM (guarded other h) = NewVM h" "initMemory (guarded other h) = initMemory h" "map_run (guarded other h) = map_run h"
  "NewMachine (guarded other h) = NewMachine h"
  unfolding fun_eq_iff NewVM_def initMemory_def map_run_def NewMachine_def fits_simps by simp_all

lemma guarded_files [fits_simps]:
  "file_Read (guarded other h) = file_Read h" "ReadDirent (guarded other h) = ReadDirent h"
  "filepath_Abs (guarded other h) = filepath_Abs h" "open_file (guarded other h) = open_file h"
  by (simp_all add: fun_eq_iff file_Read_def ReadDirent_def filepath_Abs_def open_file_def fits_simps cong: sum.case_cong)

lemma guarded_abs_dirs [fits_simps]: "abs_dirs (guarded other h) ds = abs_dirs h ds"
  by (induction ds) (simp_all only: abs_dirs.simps fits_simps)

lemma guarded_NewContainer [fits_simps]: "NewContainer (guarded other h) ds = NewContainer h ds"
  by (simp add: NewContainer_def fits_simps)

lemma guarded_hypercalls [fits_simps]:
  "hyp_Time (guarded other h) = hyp_Time h" "hyp_Fstat (guarded other h) = hyp_Fstat h"
  "hyp_Write (guarded other h) = hyp_Write h" "hyp_Lseek (guarded other h) = hyp_Lseek h"
  "hyp_Getdents64 (guarded other h) = hyp_Getdents64 h" "hyp_Read (guarded other h) = hyp_Read h"
  by (simp_all add: fun_eq_iff hyp_Time_def hyp_Fstat_def hyp_Write_def hyp_Lseek_def hyp_Getdents64_def
      hyp_Read_def fits_simps cong: sum.case_cong)

lemma guarded_hyp_Open [fits_simps]: "hyp_Open (guarded other h) A cpu a0 a1 a2 = hyp_Open h A cpu a0 a1 a2"
  unfolding hyp_Open_def fits_simps ..

lemma guarded_Hypercall [fits_simps]: "Hypercall (guarded other h) = Hypercall h"
  by (simp add: fun_eq_iff Hypercall_def fits_simps)

lemma guarded_run [fits_simps]:
  "SingleStep (guarded other h) = SingleStep h" "RunOnce (guarded other h) = RunOnce h"
  "cpu_exited (guarded other h) = cpu_exited h" "trace_inst (guarded other h) = trace_inst h"
  "loop_turn (guarded other h) = loop_turn h" "start_vcpu (guarded other h) = start_vcpu h"
  unfolding fun_eq_iff SingleStep_def RunOnce_def cpu_exited_def trace_inst_def loop_turn_def start_vcpu_def
    fits_simps by simp_all

lemma guarded_process [fits_simps]:
  "thread_turn (guarded other h) = thread_turn h" "handle_signal (guarded other h) = handle_signal h"
  unfolding fun_eq_iff thread_turn_def handle_signal_def fits_simps by simp_all

lemma guarded_do_event [fits_simps]: "do_event (guarded other h) A hyp trace ev p = do_event h A hyp trace ev p"
  by (cases ev) (simp_all only: do_event.simps fits_simps)

lemma guarded_schedule [fits_simps]:
  "run_schedule (guarded other h) A hyp trace evs p = run_schedule h A hyp trace evs p"
  by (induction evs arbitrary: p) (simp_all add: proc_step_def fits_simps split: bind_split)

end
