(* ===== verification/Boot_Order.thy ===== *)
theory Boot_Order
  imports Boot
begin

text \<open>
  The order of the boot: the main goroutine only moves forward and takes boundedly many steps,
  and a process with one virtual CPU behaves, when no signal arrives, exactly like the sequential
  program that starts the virtual CPU and runs its goroutine to the end.
\<close>

section \<open>The main goroutine moves forward\<close>

text \<open>The places of the main goroutine in the order in which it passes them.\<close>

instantiation boot_pc :: linorder
begin

fun less_eq_boot_pc :: "boot_pc \<Rightarrow> boot_pc \<Rightarrow> bool" where
  "Starting i \<le> Starting j \<longleftrightarrow> i \<le> j"
| "Starting i \<le> Waiting \<longleftrightarrow> True"
| "Waiting \<le> Waiting \<longleftrightarrow> True"
| "p \<le> Returned \<longleftrightarrow> True"
| "(_ :: boot_pc) \<le> _ \<longleftrightarrow> False"

definition less_boot_pc :: "boot_pc \<Rightarrow> boot_pc \<Rightarrow> bool" where
  "less_boot_pc p q \<longleftrightarrow> p \<le> q \<and> \<not> q \<le> p"

instance
proof
  fix x y z :: boot_pc
  show "x < y \<longleftrightarrow> x \<le> y \<and> \<not> y \<le> x" by (fact less_boot_pc_def)
  show "x \<le> x" by (cases x) simp_all
  show "x \<le> y \<Longrightarrow> y \<le> z \<Longrightarrow> x \<le> z" by (cases x; cases y; cases z) simp_all
  show "x \<le> y \<Longrightarrow> y \<le> x \<Longrightarrow> x = y" by (cases x; cases y) simp_all
  show "x \<le> y \<or> y \<le> x" by (cases x; cases y) auto
qed

end

text \<open>The steps of the main goroutine that lie behind it, with \<open>n\<close> virtual CPUs.\<close>

fun main_steps :: "nat \<Rightarrow> boot_pc \<Rightarrow> nat" where
  "main_steps n (Starting i) = i"
| "main_steps n Waiting = Suc n"
| "main_steps n Returned = Suc (Suc n)"

lemma proc_step_pc: "proc_step h A hyp trace ev p = Some q \<Longrightarrow> pc p \<le> pc q"
  by (cases ev; cases "pc p")
    (auto simp: proc_step_def resume_def wg_Add_def wg_Done_def split: if_splits prod.splits res.splits option.splits)

lemma run_schedule_pc: "run_schedule h A hyp trace evs p = Some q \<Longrightarrow> pc p \<le> pc q"
  by (induction evs arbitrary: p) (auto simp: bind_eq_Some_conv dest: proc_step_pc intro: order_trans)

lemma run_schedule_app:
  "run_schedule h A hyp trace (evs @ evs') p =
   Option.bind (run_schedule h A hyp trace evs p) (run_schedule h A hyp trace evs')"
  by (induction evs arbitrary: p) (simp_all split: bind_split)

text \<open>After \<open>k\<close> events of the main goroutine; the last one may have ended in a panic.\<close>

definition main_book :: "nat \<Rightarrow> nat \<Rightarrow> ('w, 'c) proc \<Rightarrow> bool" where
  "main_book n k p \<longleftrightarrow>
     k \<le> main_steps n (pc p) + (if crash p = None then 0 else 1) \<and>
     (crash p \<noteq> None \<longrightarrow> pc p \<noteq> Returned) \<and> (\<forall>i. pc p = Starting i \<longrightarrow> i \<le> n)"

lemma main_book_step:
  assumes "proc_step h A hyp trace ev p = Some q" and "main_book n k p" and "length (vcpus (the_vm (pst p))) = n"
  shows "main_book n (k + (if ev = EvMain then 1 else 0)) q"
proof (cases ev)
  case EvMain
  with assms show ?thesis
    by (cases "pc p") (auto simp: main_book_def proc_step_def resume_def wg_Add_def wg_Done_def split: if_splits prod.splits res.splits)
next
  case (EvTurn cpu)
  with assms show ?thesis
    by (auto simp: main_book_def proc_step_def resume_def wg_Add_def wg_Done_def split: if_splits prod.splits res.splits option.splits)
next
  case (EvSignal sig)
  with assms show ?thesis
    by (auto simp: main_book_def proc_step_def resume_def wg_Add_def wg_Done_def split: if_splits prod.splits res.splits)
qed

lemma main_book_bound: "main_book n k p \<Longrightarrow> k \<le> n + 2"
  by (cases "pc p") (auto simp: main_book_def split: if_splits)

context process
begin

lemma schedule_reach: "run_schedule h A hyp trace evs (boot_proc s) = Some p \<Longrightarrow> reach h A hyp trace s p"
  by (auto simp: reach_iff_schedule)

lemma schedule_ncpus:
  "run_schedule h A hyp trace evs (boot_proc s) = Some p \<Longrightarrow> Q (view s) \<Longrightarrow> length (vcpus (the_vm (pst p))) = ncpus"
  by (rule Q_ncpus) (rule reach_inv [OF schedule_reach])

lemma schedule_main_book:
  "run_schedule h A hyp trace evs (boot_proc s) = Some p \<Longrightarrow> Q (view s) \<Longrightarrow> main_book ncpus (count_list evs EvMain) p"
proof (induction evs arbitrary: p rule: rev_induct)
  case Nil
  then show ?case by (auto simp: main_book_def boot_proc_def)
next
  case (snoc ev evs)
  then obtain q where q: "run_schedule h A hyp trace evs (boot_proc s) = Some q" "proc_step h A hyp trace ev q = Some p"
    by (auto simp: run_schedule_snoc bind_eq_Some_conv)
  from main_book_step [OF q(2) snoc.IH [OF q(1) snoc.prems(2)] schedule_ncpus [OF q(1) snoc.prems(2)]]
  show ?case by (simp add: count_list_append split: if_splits)
qed

end

section \<open>One virtual CPU without signals\<close>

text \<open>The sequential program: start the virtual CPU, then run its goroutine.\<close>

definition boot_seq ::
  "'w host \<Rightarrow> ('w, 'c) arch \<Rightarrow> ('w, 'c) hyper \<Rightarrow> bool \<Rightarrow> ('w, 'c) st \<Rightarrow>
   (goerror option res \<times> ('w, 'c) st) option" where
  "boot_seq h A hyp trace s =
     (case start_vcpu h trace 0 s of
        (Ok _, t) \<Rightarrow> vcpu_thread h A hyp 0 trace t
      | (Err e, t) \<Rightarrow> Some (Err e, t)
      | (Panic q, t) \<Rightarrow> Some (Panic q, t))"

text \<open>How a process ended, if it did: with a panic, or with the error of its only virtual CPU.\<close>

definition ended :: "('w, 'c) proc \<Rightarrow> (goerror option res \<times> ('w, 'c) st) option" where
  "ended p =
     (case crash p of
        Some q \<Rightarrow> Some (Panic q, pst p)
      | None \<Rightarrow>
          (case (pc p, threads p) of (Returned, [Exited err]) \<Rightarrow> Some (Ok err, pst p) | _ \<Rightarrow> None))"

definition quiet :: "event list \<Rightarrow> bool" where
  "quiet evs \<longleftrightarrow> list_all (\<lambda>ev. case ev of EvSignal _ \<Rightarrow> False | _ \<Rightarrow> True) evs"

text \<open>What a process without signals still has to do of the sequential program.\<close>

definition on_track :: "'w host \<Rightarrow> ('w, 'c) arch \<Rightarrow> ('w, 'c) hyper \<Rightarrow> bool \<Rightarrow> ('w, 'c) st \<Rightarrow> ('w, 'c) proc \<Rightarrow> bool" where
  "on_track h A hyp trace s p \<longleftrightarrow>
     (case crash p of
        Some q \<Rightarrow> boot_seq h A hyp trace s = Some (Panic q, pst p)
      | None \<Rightarrow>
          pc p = Starting 0 \<and> threads p = [] \<and> wg p = 0 \<and> pst p = s \<or>
          (pc p = Starting 1 \<or> pc p = Waiting) \<and> threads p = [Running] \<and> wg p = 1 \<and>
            boot_seq h A hyp trace s = vcpu_thread h A hyp 0 trace (pst p) \<or>
          (\<exists>err. pc p \<noteq> Starting 0 \<and> threads p = [Exited err] \<and> wg p = 0 \<and> boot_seq h A hyp trace s = Some (Ok err, pst p)))"

lemma errorfreeD: "errorfree m \<Longrightarrow> fst (m s) \<noteq> Err e"
  by (simp add: errorfree_def)

lemma on_track_main:
  assumes "proc_step h A hyp trace EvMain p = Some q" and "on_track h A hyp trace s p"
    and "length (vcpus (the_vm (pst p))) = 1"
  shows "on_track h A hyp trace s q"
proof (cases "pc p = Starting 0")
  case True
  have "fst (start_vcpu h trace 0 s) \<noteq> Err e" for e by (rule errorfreeD [OF errorfree_goroutines(2)])
  with True assms show ?thesis
    by (auto simp: on_track_def proc_step_def resume_def wg_Add_def wg_Done_def boot_seq_def split: if_splits prod.splits res.splits option.splits)
next
  case False
  with assms show ?thesis
    by (auto simp: on_track_def proc_step_def split: if_splits boot_pc.splits option.splits)
qed

lemma on_track_turn:
  assumes "proc_step h A hyp trace (EvTurn cpu) p = Some q" and "on_track h A hyp trace s p"
  shows "on_track h A hyp trace s q"
proof -
  from assms have p: "crash p = None" "threads p = [Running]" "wg p = 1" "cpu = 0" "pc p = Starting 1 \<or> pc p = Waiting"
    "boot_seq h A hyp trace s = vcpu_thread h A hyp 0 trace (pst p)"
    by (auto simp: on_track_def proc_step_def split: if_splits option.splits)
  have "fst (thread_turn h A hyp trace 0 (pst p)) \<noteq> Err e" for e by (rule errorfreeD [OF errorfree_goroutines(1)])
  then show ?thesis
    using assms(1) p vcpu_thread_turn [of h A hyp 0 trace "pst p"]
    by (auto simp: on_track_def proc_step_def resume_def wg_Add_def wg_Done_def split: if_splits prod.splits res.splits option.splits)
qed

lemma on_track_ended: "on_track h A hyp trace s p \<Longrightarrow> ended p = Some y \<Longrightarrow> boot_seq h A hyp trace s = Some y"
  by (auto simp: on_track_def ended_def split: option.splits boot_pc.splits list.splits thread.splits)

text \<open>The other direction: a schedule for every run of the sequential program.\<close>

lemma turns_schedule:
  "go_on (thread_turn h A hyp trace 0) n s = Some t \<Longrightarrow>
   run_schedule h A hyp trace (replicate n (EvTurn 0)) \<lparr>pst = s, pc = Waiting, threads = [Running], wg = 1, crash = None\<rparr> =
     Some \<lparr>pst = t, pc = Waiting, threads = [Running], wg = 1, crash = None\<rparr>"
  by (induction n arbitrary: s) (auto simp: proc_step_def resume_def wg_Add_def wg_Done_def split: prod.splits res.splits option.splits)


lemma seq_schedule:
  assumes "boot_seq h A hyp trace s = Some y" and one: "length (vcpus (the_vm s)) = 1"
    and keep: "\<And>t. start_vcpu h trace 0 s = (Ok (), t) \<Longrightarrow> length (vcpus (the_vm t)) = 1"
  shows "\<exists>evs p. quiet evs \<and> run_schedule h A hyp trace evs (boot_proc s) = Some p \<and> ended p = Some y"
proof (cases "start_vcpu h trace 0 s")
  case (Pair r t)
  show ?thesis
  proof (cases r)
    case (Ok u)
    with Pair assms(1) have "vcpu_thread h A hyp 0 trace t = Some y" by (simp add: boot_seq_def)
    then obtain n t' where n: "go_on (thread_turn h A hyp trace 0) n t = Some t'"
      and out: "outcome_of (thread_turn h A hyp trace 0 t') = Some y"
      by (auto simp: vcpu_thread_iff loop_result_def)
    let ?w = "\<lambda>x. \<lparr>pst = x, pc = Waiting, threads = [Running], wg = 1, crash = None\<rparr> :: ('a, 'b) proc"
    have "run_schedule h A hyp trace [EvMain, EvMain] (boot_proc s) = Some (?w t)"
      using Pair Ok one keep by (simp add: proc_step_def boot_proc_def resume_def wg_Add_def wg_Done_def)
    with turns_schedule [OF n] have pre: "run_schedule h A hyp trace ([EvMain, EvMain] @ replicate n (EvTurn 0)) (boot_proc s) =
        Some (?w t')" unfolding run_schedule_app by simp
    have "\<exists>evs p. quiet evs \<and> run_schedule h A hyp trace evs (?w t') = Some p \<and> ended p = Some y"
    proof (cases "thread_turn h A hyp trace 0 t'" rule: outcome_of.cases)
      case (2 err u)
      with out show ?thesis
        by (intro exI [of _ "[EvTurn 0, EvMain]"]) (auto simp: quiet_def proc_step_def resume_def wg_Add_def wg_Done_def ended_def)
    next
      case (4 q u)
      with out show ?thesis
        by (intro exI [of _ "[EvTurn 0]"]) (auto simp: quiet_def proc_step_def resume_def wg_Add_def wg_Done_def ended_def)
    qed (use out errorfreeD [OF errorfree_goroutines(1), of h A hyp trace 0 t'] in auto)
    then obtain evs p where "quiet evs" "run_schedule h A hyp trace evs (?w t') = Some p" "ended p = Some y" by blast
    moreover from this pre have "run_schedule h A hyp trace (([EvMain, EvMain] @ replicate n (EvTurn 0)) @ evs) (boot_proc s) = Some p"
      by (subst run_schedule_app) simp
    moreover have "quiet (([EvMain, EvMain] @ replicate n (EvTurn 0)) @ evs) \<longleftrightarrow> quiet evs"
      by (auto simp: quiet_def list_all_iff)
    ultimately show ?thesis by blast
  next
    case (Panic q)
    with Pair assms one show ?thesis
      by (intro exI [of _ "[EvMain]"])
        (auto simp: quiet_def proc_step_def boot_proc_def resume_def wg_Add_def wg_Done_def ended_def boot_seq_def)
  qed (use Pair errorfreeD [OF errorfree_goroutines(2), of h trace 0 s] in auto)
qed

context process
begin

lemma schedule_on_track:
  assumes "ncpus = 1" and "Q (view s)"
  shows "run_schedule h A hyp trace evs (boot_proc s) = Some p \<Longrightarrow> quiet evs \<Longrightarrow> on_track h A hyp trace s p"
proof (induction evs arbitrary: p rule: rev_induct)
  case Nil
  then show ?case by (auto simp: on_track_def boot_proc_def)
next
  case (snoc ev evs)
  then obtain q where q: "run_schedule h A hyp trace evs (boot_proc s) = Some q" "proc_step h A hyp trace ev q = Some p"
    by (auto simp: run_schedule_snoc bind_eq_Some_conv)
  with snoc have "on_track h A hyp trace s q" by (simp add: quiet_def)
  moreover have "length (vcpus (the_vm (pst q))) = 1" using schedule_ncpus [OF q(1) assms(2)] assms(1) by simp
  ultimately show ?case
    using q(2) snoc.prems(2) by (cases ev) (auto simp: quiet_def intro: on_track_main on_track_turn)
qed

lemma sequential:
  assumes "ncpus = 1" and "Q (view s)"
  shows "(\<exists>evs p. quiet evs \<and> run_schedule h A hyp trace evs (boot_proc s) = Some p \<and> ended p = Some y) \<longleftrightarrow>
    boot_seq h A hyp trace s = Some y"
proof
  assume "boot_seq h A hyp trace s = Some y"
  moreover have "length (vcpus (the_vm t)) = 1" if "start_vcpu h trace 0 s = (Ok (), t)" for t
    using preservesD [OF start_vcpu_inv assms(2) that] Q_ncpus assms(1) by simp
  ultimately show "\<exists>evs p. quiet evs \<and> run_schedule h A hyp trace evs (boot_proc s) = Some p \<and> ended p = Some y"
    using Q_ncpus [OF assms(2)] assms(1) by (intro seq_schedule) simp_all
qed (use schedule_on_track [OF assms] on_track_ended in blast)

end

section \<open>Every schedule without signals ends\<close>

text \<open>A state from which a loop goes on for fewer than \<open>m\<close> turns.\<close>

definition settles :: "('s, 'a option) go \<Rightarrow> nat \<Rightarrow> 's \<Rightarrow> bool" where
  "settles turn m s \<longleftrightarrow> (\<exists>k t y. k < m \<and> go_on turn k s = Some t \<and> outcome_of (turn t) = Some y)"

lemma settles_turn:
  assumes "settles turn m s"
  obtains m' where "m = Suc m'" and "\<And>t. turn s = (Ok None, t) \<Longrightarrow> settles turn m' t"
proof -
  from assms obtain k t y where k: "k < m" "go_on turn k s = Some t" "outcome_of (turn t) = Some y"
    by (auto simp: settles_def)
  have "settles turn (m - 1) u" if "turn s = (Ok None, u)" for u
  proof (cases k)
    case (Suc j)
    with k that have "j < m - 1" "go_on turn j u = Some t" by auto
    with k(3) show ?thesis unfolding settles_def by blast
  qed (use k that in simp)
  with k(1) show thesis by (intro that [of "m - 1"]) auto
qed

text \<open>A process with one virtual CPU that has at most \<open>b\<close> events left, signals apart.\<close>

definition cpu_within :: "'w host \<Rightarrow> ('w, 'c) arch \<Rightarrow> ('w, 'c) hyper \<Rightarrow> bool \<Rightarrow> nat \<Rightarrow> ('w, 'c) proc \<Rightarrow> bool" where
  "cpu_within h A hyp trace m p \<longleftrightarrow>
     threads p = [Running] \<and> wg p = 1 \<and> settles (thread_turn h A hyp trace 0) m (pst p) \<or>
     (\<exists>err. threads p = [Exited err]) \<and> wg p = 0"

definition within :: "'w host \<Rightarrow> ('w, 'c) arch \<Rightarrow> ('w, 'c) hyper \<Rightarrow> bool \<Rightarrow> nat \<Rightarrow> ('w, 'c) proc \<Rightarrow> bool" where
  "within h A hyp trace b p \<longleftrightarrow> crash p = None \<longrightarrow>
     (case pc p of
        Returned \<Rightarrow> True
      | Waiting \<Rightarrow> \<exists>m. b = m + 1 \<and> cpu_within h A hyp trace m p
      | Starting i \<Rightarrow>
          if i = 0 then
            threads p = [] \<and> wg p = 0 \<and>
            (\<exists>m. b = m + 3 \<and> (\<forall>t. start_vcpu h trace 0 (pst p) = (Ok (), t) \<longrightarrow> settles (thread_turn h A hyp trace 0) m t))
          else i = 1 \<and> (\<exists>m. b = m + 2 \<and> cpu_within h A hyp trace m p))"

lemma within_main:
  assumes "proc_step h A hyp trace EvMain p = Some q" and "within h A hyp trace b p" and "length (vcpus (the_vm (pst p))) = 1"
  shows "\<exists>b'. b = Suc b' \<and> within h A hyp trace b' q"
proof (cases "pc p")
  case (Starting i)
  with assms show ?thesis
    by (cases i; cases "start_vcpu h trace i (pst p)" rule: prod.exhaust; cases "fst (start_vcpu h trace i (pst p))")
      (auto simp: within_def proc_step_def resume_def wg_Add_def wg_Done_def cpu_within_def split: if_splits)
qed (use assms in \<open>auto simp: within_def proc_step_def split: if_splits\<close>)

lemma cpu_within_turn:
  assumes "proc_step h A hyp trace (EvTurn cpu) p = Some q" and "cpu_within h A hyp trace m p"
  shows "\<exists>m'. m = Suc m' \<and> pc q = pc p \<and> (crash q = None \<longrightarrow> cpu_within h A hyp trace m' q)"
proof -
  from assms have p: "crash p = None" "threads p = [Running]" "wg p = 1" "cpu = 0" "settles (thread_turn h A hyp trace 0) m (pst p)"
    by (auto simp: cpu_within_def proc_step_def split: if_splits)
  from p(5) obtain m' where "m = Suc m'" "\<And>t. thread_turn h A hyp trace 0 (pst p) = (Ok None, t) \<Longrightarrow> settles (thread_turn h A hyp trace 0) m' t"
    by (rule settles_turn) blast
  with assms(1) p(1-4) show ?thesis
    by (auto simp: cpu_within_def proc_step_def resume_def wg_Add_def wg_Done_def split: if_splits prod.splits res.splits option.splits)
qed

lemma within_turn:
  assumes "proc_step h A hyp trace (EvTurn cpu) p = Some q" and "within h A hyp trace b p"
  shows "\<exists>b'. b = Suc b' \<and> within h A hyp trace b' q"
proof -
  from assms have "crash p = None" "pc p \<noteq> Returned" "threads p \<noteq> []" by (auto simp: proc_step_def split: if_splits)
  with assms(2) cpu_within_turn [OF assms(1)] show ?thesis
    by (cases "pc p") (fastforce simp: within_def split: if_splits)+
qed

lemma boot_seq_within:
  assumes "boot_seq h A hyp trace s = Some y"
  shows "\<exists>b. within h A hyp trace b (boot_proc s)"
proof -
  have "\<exists>m. \<forall>t. start_vcpu h trace 0 s = (Ok (), t) \<longrightarrow> settles (thread_turn h A hyp trace 0) m t"
  proof (cases "\<exists>t. start_vcpu h trace 0 s = (Ok (), t)")
    case True
    then obtain t where t: "start_vcpu h trace 0 s = (Ok (), t)" by blast
    with assms have "vcpu_thread h A hyp 0 trace t = Some y" by (simp add: boot_seq_def)
    then obtain k u where "go_on (thread_turn h A hyp trace 0) k t = Some u" "outcome_of (thread_turn h A hyp trace 0 u) = Some y"
      by (auto simp: vcpu_thread_iff loop_result_def)
    then have "settles (thread_turn h A hyp trace 0) (Suc k) t" unfolding settles_def by blast
    with t show ?thesis by auto
  qed simp
  then obtain m where "\<forall>t. start_vcpu h trace 0 s = (Ok (), t) \<longrightarrow> settles (thread_turn h A hyp trace 0) m t" ..
  then have "within h A hyp trace (m + 3) (boot_proc s)" by (simp add: within_def boot_proc_def)
  then show ?thesis ..
qed

lemma on_track_over: "on_track h A hyp trace s p \<Longrightarrow> crash p \<noteq> None \<or> pc p = Returned \<Longrightarrow> ended p \<noteq> None"
  by (auto simp: on_track_def ended_def split: option.splits)

lemma quiet_simps: "quiet []" "quiet (ev # evs) \<longleftrightarrow> (\<forall>sig. ev \<noteq> EvSignal sig) \<and> quiet evs"
  "quiet (evs @ evs') \<longleftrightarrow> quiet evs \<and> quiet evs'"
  by (auto simp: quiet_def split: event.splits)

context process
begin

lemma within_step:
  assumes "ncpus = 1" and "Q (view s)" and "run_schedule h A hyp trace evs (boot_proc s) = Some p"
    and "proc_step h A hyp trace ev p = Some q" and "within h A hyp trace b p" and "\<forall>sig. ev \<noteq> EvSignal sig"
  shows "\<exists>b'. b = Suc b' \<and> within h A hyp trace b' q"
proof (cases ev)
  case EvMain
  with assms schedule_ncpus [OF assms(3,2)] show ?thesis by (intro within_main [of h A hyp trace p]) simp_all
next
  case (EvTurn cpu)
  with assms show ?thesis by (intro within_turn [of h A hyp trace cpu p]) simp_all
qed (use assms(6) in simp)

lemma within_length:
  assumes "ncpus = 1" and "Q (view s)" and "within h A hyp trace b (boot_proc s)"
  shows "run_schedule h A hyp trace evs (boot_proc s) = Some p \<Longrightarrow> quiet evs \<Longrightarrow>
    length evs \<le> b \<and> within h A hyp trace (b - length evs) p"
proof (induction evs arbitrary: p rule: rev_induct)
  case (snoc ev evs)
  then obtain q where q: "run_schedule h A hyp trace evs (boot_proc s) = Some q" "proc_step h A hyp trace ev q = Some p"
    by (auto simp: run_schedule_snoc bind_eq_Some_conv)
  with snoc have "length evs \<le> b" "within h A hyp trace (b - length evs) q" by (simp_all add: quiet_simps)
  moreover from within_step [OF assms(1,2) q this(2)] snoc.prems(2) obtain b' where
    "b - length evs = Suc b'" "within h A hyp trace b' p" by (auto simp: quiet_simps)
  ultimately show ?case by (auto simp: Suc_diff_Suc dest: arg_cong [where f = "\<lambda>n. n - 1"])
qed (use assms(3) in simp)

lemma within_ends:
  assumes "ncpus = 1" and "Q (view s)" and "boot_seq h A hyp trace s = Some y"
  shows "run_schedule h A hyp trace evs (boot_proc s) = Some p \<Longrightarrow> quiet evs \<Longrightarrow> within h A hyp trace b p \<Longrightarrow>
    \<exists>evs' q. quiet evs' \<and> run_schedule h A hyp trace evs' p = Some q \<and> ended q = Some y"
proof (induction b arbitrary: evs p rule: less_induct)
  case (less b)
  have track: "on_track h A hyp trace s p" using schedule_on_track [OF assms(1,2) less.prems(1,2)] .
  show ?case
  proof (cases "crash p \<noteq> None \<or> pc p = Returned")
    case True
    with on_track_over [OF track] obtain z where "ended p = Some z" by auto
    with on_track_ended [OF track] assms(3) have "ended p = Some y" by simp
    then show ?thesis by (intro exI [of _ "[]"]) (simp add: quiet_simps)
  next
    case False
    with reach_progress [OF schedule_reach [OF less.prems(1)] assms(2)] obtain ev q where
      ev: "proc_step h A hyp trace ev p = Some q" "\<forall>sig. ev \<noteq> EvSignal sig" by blast
    from within_step [OF assms(1,2) less.prems(1) ev(1) less.prems(3) ev(2)] obtain b' where
      b': "b' < b" "within h A hyp trace b' q" by auto
    have "run_schedule h A hyp trace (evs @ [ev]) (boot_proc s) = Some q" using less.prems(1) ev(1) by (simp add: run_schedule_snoc)
    from less.IH [OF b'(1) this _ b'(2)] ev(2) less.prems(2) obtain evs' r where
      "quiet evs'" "run_schedule h A hyp trace evs' q = Some r" "ended r = Some y" by (auto simp: quiet_simps)
    with ev show ?thesis by (intro exI [of _ "ev # evs'"]) (simp add: quiet_simps)
  qed
qed

end

section \<open>Properties\<close>

lemma halted_boot_seq:
  "boot_seq ok_host (amd64 ok_host) (Hypercall ok_host (amd64 ok_host)) False halted_state = Some (Ok None, halted_state)"
  by (simp add: boot_seq_def ok_start) (subst vcpu_thread_turn, simp add: ok_turn)

text \<open>C13. With one virtual CPU, as the command sets it up, and no signal, the goroutines amount to a
  sequential program: the process can end with a result and a state, by the return of
  \<open>Boot\<close> after the goroutine ended with an error value or by a panic, exactly when starting the
  virtual CPU and running its two nested loops to the end gives that result and that state. So a guest whose loop
  returns makes \<open>Boot\<close> return, and one whose loop does not return keeps it waiting.\<close>

theorem boot_sequential:
  assumes "legal (handler s)" and "length (vcpus (the_vm s)) = 1"
  shows "(\<exists>evs p. quiet evs \<and>
      run_schedule h (arch_of isa h) (Hypercall h (arch_of isa h)) trace evs (boot_proc s) = Some p \<and> ended p = Some y) \<longleftrightarrow>
    boot_seq h (arch_of isa h) (Hypercall h (arch_of isa h)) trace s = Some y"
  using p_isa.sequential [OF _ legal_sandboxed [OF assms(1)]] assms(2) by simp

theorem boot_sequential_witness:
  "\<exists>evs p. quiet evs \<and>
     run_schedule ok_host (arch_of AMD64 ok_host) (Hypercall ok_host (arch_of AMD64 ok_host)) False evs (boot_proc halted_state) =
       Some p \<and> ended p = Some (Ok None, halted_state)"
  using boot_sequential [of halted_state ok_host AMD64 False "(Ok None, halted_state)"] legal_sample halted_boot_seq
  by (simp add: halted_handler)

text \<open>C14. No schedule can keep a booted process from its end: with one virtual CPU and no signal, if the
  sequential program ends with a result, then the length of every schedule is bounded, and after any of
  them the process still ends with that result, in whatever order the goroutines go on.\<close>

theorem boot_terminates:
  assumes "legal (handler s)" and "length (vcpus (the_vm s)) = 1"
    and "boot_seq h (arch_of isa h) (Hypercall h (arch_of isa h)) trace s = Some y"
  shows "\<exists>b. \<forall>evs p. quiet evs \<and> run_schedule h (arch_of isa h) (Hypercall h (arch_of isa h)) trace evs (boot_proc s) = Some p \<longrightarrow>
    length evs \<le> b \<and>
    (\<exists>evs' q. quiet evs' \<and> run_schedule h (arch_of isa h) (Hypercall h (arch_of isa h)) trace evs' p = Some q \<and> ended q = Some y)"
proof -
  note legal = legal_sandboxed [OF assms(1)]
  from assms(2) have one: "shape_ncpus (shape s) = 1" by simp
  from boot_seq_within [OF assms(3)] obtain b where "within h (arch_of isa h) (Hypercall h (arch_of isa h)) trace b (boot_proc s)" ..
  from p_isa.within_length [OF one legal this] p_isa.within_ends [OF one legal assms(3)] show ?thesis by blast
qed

theorem boot_terminates_witness:
  "\<exists>b. \<forall>evs p. quiet evs \<and> run_schedule ok_host (arch_of AMD64 ok_host) (Hypercall ok_host (arch_of AMD64 ok_host)) False
     evs (boot_proc halted_state) = Some p \<longrightarrow> length evs \<le> b"
  using boot_terminates [of halted_state ok_host AMD64 False "(Ok None, halted_state)"] legal_sample halted_boot_seq
  by (auto simp: halted_handler)

text \<open>C15. The main goroutine makes boundedly many steps and never goes back: along every schedule,
  with signals and turns interleaved in any way, its place only moves forward, and it takes at most
  one step for every virtual CPU, one to begin waiting and one to return.\<close>

theorem boot_main_bounded:
  assumes "run_schedule h (arch_of isa h) (Hypercall h (arch_of isa h)) trace evs (boot_proc s) = Some p"
    and "run_schedule h (arch_of isa h) (Hypercall h (arch_of isa h)) trace evs' p = Some q" and "legal (handler s)"
  shows "pc p \<le> pc q \<and> count_list (evs @ evs') EvMain \<le> length (vcpus (the_vm s)) + 2"
proof -
  have "run_schedule h (arch_of isa h) (Hypercall h (arch_of isa h)) trace (evs @ evs') (boot_proc s) = Some q"
    using assms(1,2) by (simp add: run_schedule_app)
  from p_isa.schedule_main_book [OF this legal_sandboxed [OF assms(3)]] have "main_book (length (vcpus (the_vm s))) (count_list (evs @ evs') EvMain) q"
    by simp
  with run_schedule_pc [OF assms(2)] show ?thesis by (blast intro: main_book_bound)
qed

theorem boot_main_bounded_witness:
  "count_list (halting_schedule @ []) EvMain \<le> length (vcpus (the_vm halted_state)) + 2"
  using boot_main_bounded [of ok_host AMD64 False halting_schedule halted_state _ "[]"] halted_run legal_sample
  by (simp add: halted_handler)

end
