(* ===== verification/Guest_Calls.thy ===== *)
theory Guest_Calls
  imports Boot
begin

text \<open>
  Hypercalls end to end: from the exit of a virtual CPU through the exchange of registers, the
  translation of the pointer, the handler and the host, back to the registers of the guest.
\<close>

section \<open>A turn with a hypercall\<close>

text \<open>A virtual CPU that left \<open>KVM_RUN\<close> with an I/O exit or a memory-mapped one.\<close>

definition io_exit :: "'w host \<Rightarrow> nat \<Rightarrow> ('w, 'c) st \<Rightarrow> ('w, 'c) st \<Rightarrow> bool" where
  "io_exit h cpu s t \<longleftrightarrow>
     cpu < length (vcpus (the_vm s)) \<and> vcpu_Run h (vcpus (the_vm s) ! cpu) s = (Ok (), t) \<and>
     cpu < length (runs (machine t)) \<and> (\<exists>rd. runs (machine t) ! cpu = Some rd \<and> (ExitReason rd = 2 \<or> ExitReason rd = 6))"

lemma io_exit_vcpus: "io_exit h cpu s t \<Longrightarrow> vcpus (the_vm t) = vcpus (the_vm s)"
  unfolding io_exit_def using keepsD [OF keeps_vcpu_Run(1)] by (blast intro: shape_eqD)

lemma RunOnce_hypercall:
  assumes "io_exit h cpu s t" and "hypercall A hyp cpu t = (Ok (), u)"
  shows "RunOnce h A hyp cpu s = (Ok (True, None), u)"
  using assms by (auto simp: io_exit_def RunOnce_def exit_reason_def go_simps attempt_def)

lemma rd64_zeros: "rd64 (replicate n 0) = 0"
  by (simp add: rd64_def le_val_zeros)

section \<open>The call frame\<close>

text \<open>
  The registers of a hypercall, as the files of each architecture read and write them. Both sides of the
  exchange are the contract of the locale \<open>call_abi\<close>, which the two architectures keep, so that what a
  turn with a hypercall does is proved once.
\<close>

datatype call_frame = Amd64_frame Regs | Arm64_frame "u64 list"

text \<open>Number and arguments: \<open>RAX\<close>, \<open>RDI\<close>, \<open>RSI\<close>, \<open>RDX\<close>, \<open>RCX\<close>, \<open>R8\<close>, \<open>R9\<close>, and \<open>x8\<close>, \<open>x0\<close> to \<open>x5\<close>.\<close>

fun frame_words :: "call_frame \<Rightarrow> u64 list" where
  "frame_words (Amd64_frame r) = [Rax r, Rdi r, Rsi r, Rdx r, Rcx r, R8 r, R9 r]"
| "frame_words (Arm64_frame ws) = ws"

definition call_num :: "call_frame \<Rightarrow> u64" where
  "call_num fr = frame_words fr ! 0"

definition call_arg :: "call_frame \<Rightarrow> nat \<Rightarrow> u64" where
  "call_arg fr i = frame_words fr ! Suc i"

fun fetch_call :: "isa \<Rightarrow> 'w host \<Rightarrow> vcpu \<Rightarrow> (('w, 'c) st, call_frame) go" where
  "fetch_call AMD64 h v = bnd (GetRegs h v) (\<lambda>(regs, err). bnd (check err) (\<lambda>_. ret (Amd64_frame regs)))"
| "fetch_call ARM64 h v =
     bnd (arm64_GetReg h v 8) (\<lambda>num.
     bnd (arm64_GetReg h v 0) (\<lambda>a0.
     bnd (arm64_GetReg h v 1) (\<lambda>a1.
     bnd (arm64_GetReg h v 2) (\<lambda>a2.
     bnd (arm64_GetReg h v 3) (\<lambda>a3.
     bnd (arm64_GetReg h v 4) (\<lambda>a4.
     bnd (arm64_GetReg h v 5) (\<lambda>a5. ret (Arm64_frame [num, a0, a1, a2, a3, a4, a5]))))))))"

text \<open>All registers of amd64 go back, with the result in \<open>RAX\<close>; on arm64 only \<open>x0\<close> does.\<close>

fun store_result :: "isa \<Rightarrow> 'w host \<Rightarrow> vcpu \<Rightarrow> call_frame \<Rightarrow> u64 \<Rightarrow> (('w, 'c) st, unit) go" where
  "store_result AMD64 h v (Amd64_frame regs) r = SetRegs h v (regs\<lparr>Rax := r\<rparr>)"
| "store_result ARM64 h v fr r = arm64_SetReg h v 0 r"
| "store_result AMD64 h v (Arm64_frame ws) r = ret ()"

locale call_abi =
  fixes h :: "'w host" and A :: "('w, 'c) arch"
    and fetch :: "vcpu \<Rightarrow> (('w, 'c) st, call_frame) go"
    and store :: "vcpu \<Rightarrow> call_frame \<Rightarrow> u64 \<Rightarrow> (('w, 'c) st, unit) go"
  assumes exchange: "cpu < length (vcpus (the_vm s)) \<Longrightarrow>
    hypercall A hyp cpu s =
      bnd (fetch (vcpus (the_vm s) ! cpu)) (\<lambda>fr.
        bnd (hyp cpu (call_num fr) (call_arg fr 0) (call_arg fr 1) (call_arg fr 2) (call_arg fr 3) (call_arg fr 4) (call_arg fr 5))
          (store (vcpus (the_vm s) ! cpu) fr)) s"
begin

lemma turn_result:
  assumes "io_exit h cpu s t" and "v = vcpus (the_vm s) ! cpu" and "fetch v t = (Ok fr, t1)"
    and "hyp cpu (call_num fr) (call_arg fr 0) (call_arg fr 1) (call_arg fr 2) (call_arg fr 3) (call_arg fr 4) (call_arg fr 5) t1 =
      (Ok r, t2)"
    and "store v fr r t2 = (Ok (), u)"
  shows "RunOnce h A hyp cpu s = (Ok (True, None), u)"
proof -
  have "cpu < length (vcpus (the_vm t))" "vcpus (the_vm t) ! cpu = v"
    using assms(1,2) io_exit_vcpus [OF assms(1)] by (simp_all add: io_exit_def)
  with exchange [of cpu t hyp] assms(3-5) have "hypercall A hyp cpu t = (Ok (), u)" by (simp add: go_simps)
  with assms(1) show ?thesis by (rule RunOnce_hypercall)
qed

lemma turn_error:
  assumes "io_exit h cpu s t" and "v = vcpus (the_vm s) ! cpu" and "fetch v t = (Ok fr, t1)"
    and "hyp cpu (call_num fr) (call_arg fr 0) (call_arg fr 1) (call_arg fr 2) (call_arg fr 3) (call_arg fr 4) (call_arg fr 5) t1 =
      (Err e, u)"
  shows "RunOnce h A hyp cpu s = (Ok (False, Some e), u)"
proof -
  have "cpu < length (vcpus (the_vm t))" "vcpus (the_vm t) ! cpu = v"
    using assms(1,2) io_exit_vcpus [OF assms(1)] by (simp_all add: io_exit_def)
  with exchange [of cpu t hyp] assms(3,4) have "hypercall A hyp cpu t = (Err e, u)" by (simp add: go_simps)
  with assms(1) show ?thesis unfolding io_exit_def by (elim conjE exE) (rule RunOnce_handler_error)
qed

end

lemma store_result_fun:
  "store_result AMD64 h v (Amd64_frame regs) = (\<lambda>r. SetRegs h v (regs\<lparr>Rax := r\<rparr>))"
  "store_result ARM64 h v fr = arm64_SetReg h v 0"
  by (simp_all add: fun_eq_iff)

interpretation abi_isa: call_abi h "arch_of isa h" "fetch_call isa h" "store_result isa h"
proof
  fix cpu and s :: "('a, 'b) st" and hyp :: "('a, 'b) hyper"
  assume "cpu < length (vcpus (the_vm s))"
  then show "hypercall (arch_of isa h) hyp cpu s =
      bnd (fetch_call isa h (vcpus (the_vm s) ! cpu)) (\<lambda>fr.
        bnd (hyp cpu (call_num fr) (call_arg fr 0) (call_arg fr 1) (call_arg fr 2) (call_arg fr 3) (call_arg fr 4) (call_arg fr 5))
          (store_result isa h (vcpus (the_vm s) ! cpu) fr)) s"
    by (cases isa)
      (simp_all add: amd64_def arm64_def amd64_hypercall_def arm64_hypercall_def go_simps bnd_assoc case_prod_unfold
        call_num_def call_arg_def store_result_fun)
qed

section \<open>The exchange on arm64\<close>

text \<open>The host answers the requests for the registers \<open>x0\<close> to \<open>x8\<close> of a virtual CPU from \<open>f\<close> and does
  nothing else. KVM numbers the core registers by their offset in \<open>struct kvm_regs\<close> in units of four bytes,
  so the identifier of \<open>x\<close>\<open>i\<close> is \<open>0x6030000000100000 + 2 * i\<close>.\<close>

definition arm64_reads :: "'w host \<Rightarrow> vcpu \<Rightarrow> (nat \<Rightarrow> u64) \<Rightarrow> ('w, 'c) st \<Rightarrow> bool" where
  "arm64_reads h v f s \<longleftrightarrow>
     (\<forall>i \<le> 8. \<exists>r. Ioctl h (vcpu_fd v) (IIOW kvmGetOneReg 16)
        (IoRef (le64 (0x6030000000100000 + 2 * word_of_nat i)) (le64 0)) s = (Ok ((r, None), le64 (f i)), s))"

lemma reg_id_small:
  "reg_id 0 = 0x6030000000100000" "reg_id (Suc 0) = 0x6030000000100002" "reg_id 2 = 0x6030000000100004"
  "reg_id 3 = 0x6030000000100006" "reg_id 4 = 0x6030000000100008" "reg_id 5 = 0x603000000010000a"
  "reg_id 8 = 0x6030000000100010"
  by code_simp+

lemma rd64_le64: "rd64 (le64 x) = x"
  using rd_le(4) [of x "[]"] by simp

lemma arm64_reads_GetReg:
  assumes "arm64_reads h v f s"
  shows "arm64_GetReg h v 8 s = (Ok (f 8), s)" "arm64_GetReg h v 0 s = (Ok (f 0), s)"
    "arm64_GetReg h v (Suc 0) s = (Ok (f (Suc 0)), s)" "arm64_GetReg h v 2 s = (Ok (f 2), s)"
    "arm64_GetReg h v 3 s = (Ok (f 3), s)" "arm64_GetReg h v 4 s = (Ok (f 4), s)"
    "arm64_GetReg h v 5 s = (Ok (f 5), s)"
proof -
  note r = assms [unfolded arm64_reads_def, rule_format]
  show "arm64_GetReg h v 8 s = (Ok (f 8), s)" "arm64_GetReg h v 0 s = (Ok (f 0), s)"
    "arm64_GetReg h v (Suc 0) s = (Ok (f (Suc 0)), s)" "arm64_GetReg h v 2 s = (Ok (f 2), s)"
    "arm64_GetReg h v 3 s = (Ok (f 3), s)" "arm64_GetReg h v 4 s = (Ok (f 4), s)"
    "arm64_GetReg h v 5 s = (Ok (f 5), s)"
    using r [of 8] r [of 0] r [of "Suc 0"] r [of 2] r [of 3] r [of 4] r [of 5]
    by (auto simp: arm64_GetReg_def arm64_getReg_def reg_id_small go_simps rd64_le64)
qed

lemma arm64_hypercall_eq:
  assumes "cpu < length (vcpus (the_vm s))" and "v = vcpus (the_vm s) ! cpu" and "arm64_reads h v f s"
    and "hyp cpu (f 8) (f 0) (f 1) (f 2) (f 3) (f 4) (f 5) s = (Ok r0, u)"
  shows "arm64_hypercall h hyp cpu s = arm64_SetReg h v 0 r0 u"
  using assms(1,4) by (simp add: arm64_hypercall_def arm64_reads_GetReg [OF assms(3)] assms(2) [symmetric] go_simps)

section \<open>Properties\<close>

text \<open>C32. The exchange of a hypercall on arm64: the handler gets the number from \<open>x8\<close> and its six
  arguments from \<open>x0\<close> to \<open>x5\<close>, as the host answers the requests with the core register identifiers
  \<open>0x6030000000100000 + 2 * i\<close>, and the only register request that follows writes the handler's
  result to \<open>x0\<close>, the core register with identifier \<open>0x6030000000100000\<close>.\<close>

theorem arm64_hypercall_exchange:
  assumes "cpu < length (vcpus (the_vm s))" and "v = vcpus (the_vm s) ! cpu" and "arm64_reads h v f s"
    and "hyp cpu (f 8) (f 0) (f 1) (f 2) (f 3) (f 4) (f 5) s = (Ok r0, u)"
  shows "arm64_hypercall h hyp cpu s =
    bnd (Ioctl h (vcpu_fd v) (IIOW kvmSetOneReg 16) (IoRef (le64 0x6030000000100000) (le64 r0)))
      (\<lambda>((_, err), _). check_wrap ''KVM_SET_ONE_REG: %w'' err) u"
  using arm64_hypercall_eq [where hyp = hyp, OF assms]
  by (simp add: arm64_SetReg_def arm64_setReg_def reg_id_def core_reg_id_def offsetof_Regs_def)

theorem arm64_hypercall_exchange_witness:
  "arm64_hypercall ok_host (\<lambda>cpu n a0 a1 a2 a3 a4 a5. ret (n + 7)) 0 (blank_state 8 ()) =
   bnd (Ioctl ok_host 5 (IIOW kvmSetOneReg 16) (IoRef (le64 0x6030000000100000) (le64 7)))
     (\<lambda>((_, err), _). check_wrap ''KVM_SET_ONE_REG: %w'' err) (blank_state 8 ())"
proof -
  have r: "arm64_reads ok_host \<lparr>vcpu_fd = 5\<rparr> (\<lambda>_. 0) (blank_state 8 ())"
    by (simp add: arm64_reads_def go_simps)
  have v: "0 < length (vcpus (the_vm (blank_state 8 ())))" "\<lparr>vcpu_fd = 5\<rparr> = vcpus (the_vm (blank_state 8 ())) ! 0"
    by (simp_all add: blank_state_def)
  show ?thesis
    using arm64_hypercall_exchange [where hyp = "\<lambda>cpu n a0 a1 a2 a3 a4 a5. ret (n + 7)" and ?r0.0 = 7, OF v r]
    by (simp only: ret_def add_0 vcpu.select_convs)
qed

text \<open>C7. A write of the guest, end to end and on either architecture: when a virtual CPU exits with the number of the
  write hypercall in its call frame, an open descriptor as the first argument, a pointer that translates
  to a buffer inside RAM as the second and its size as the third, then the host's \<open>write\<close> on the descriptor's
  file gets exactly the bytes of that buffer, the size goes back into the result register, and the virtual
  CPU goes on.\<close>

theorem guest_write_turn:
  assumes "io_exit h cpu s t" and "v = vcpus (the_vm s) ! cpu" and "fetch_call isa h v t = (Ok fr, t1)"
    and "call_num fr = hypWrite" and "VtoP (arch_of isa h) cpu (call_arg fr 1) t1 = (Ok ptr, t2)"
    and "fdtable (handler t2) (call_arg fr 0) = Some f" and "guest_range t2 ptr (unat (call_arg fr 2))"
    and "t3 = t2\<lparr>world := snd (sys_write h (sysfd f) (mem_read (ram_off ptr) (unat (call_arg fr 2)) (ram t2)) (world t2))\<rparr>"
    and "store_result isa h v fr (call_arg fr 2) t3 = (Ok (), u)"
  shows "RunOnce h (arch_of isa h) (Hypercall h (arch_of isa h)) cpu s = (Ok (True, None), u)"
  using abi_isa.turn_result [where hyp = "Hypercall h (arch_of isa h)", OF assms(1-3) _ assms(9)]
    write_hypercall_eq [OF assms(5-7), of h] assms(4,8) by simp

text \<open>A host whose answers hold the write number, the physical address of RAM and the size 5 where the
  register block and the translation have them.\<close>

abbreviation write_answer :: bytes where "write_answer \<equiv> le64 0 @ le64 0x40000000 @ le64 0 @ le64 5"

abbreviation write_host :: "unit host" where "write_host \<equiv> still_host (outcome 0 0 write_answer)"

lemma write_Ioctl: "Ioctl write_host fd req arg s = (Ok ((0, None), overlay write_answer (ioarg_buf arg)), s)"
  by (simp add: Ioctl_def outcome_def map_ram_def map_vm_def map_machine_def)

lemma write_VtoP: "VtoP (amd64 write_host) 0 a io_state = (Ok 0x40000000, io_state)"
  by (simp add: amd64_def amd64_VtoP_def Translate_def write_Ioctl go_simps overlay_def translation.length_enc
      wf_Translation_def dec_Translation_def get_defs Let_def split_beta io_state_def blank_state_def le_rd)

text \<open>The registers that the host reports.\<close>

abbreviation write_regs :: Regs where "write_regs \<equiv> fst (dec_Regs (write_answer @ replicate 112 0))"

lemma write_frame [simp]:
  "call_num (Amd64_frame write_regs) = 0" "call_arg (Amd64_frame write_regs) 0 = 0"
  "call_arg (Amd64_frame write_regs) 2 = 5"
  by (simp_all add: call_num_def call_arg_def dec_Regs_def Let_def split_beta rd64_zeros get_defs)

theorem guest_write_turn_witness:
  "RunOnce write_host (arch_of AMD64 write_host) (Hypercall write_host (arch_of AMD64 write_host)) 0 io_state =
     (Ok (True, None), io_state)"
proof (rule guest_write_turn [where t = io_state and ?t1.0 = io_state and ?t2.0 = io_state and ?t3.0 = io_state
      and v = "\<lparr>vcpu_fd = 5\<rparr>" and fr = "Amd64_frame write_regs" and ptr = "0x40000000"
      and f = "\<lparr>sysfd = 0, fname = ''/dev/stdin''\<rparr>"])
  show "io_exit write_host 0 io_state io_state"
    by (simp add: io_exit_def vcpu_Run_def write_Ioctl go_simps) (simp add: io_state_def blank_state_def)
  show "VtoP (arch_of AMD64 write_host) 0 (call_arg (Amd64_frame write_regs) 1) io_state = (Ok 0x40000000, io_state)"
    by (simp add: write_VtoP)
  show "fetch_call AMD64 write_host \<lparr>vcpu_fd = 5\<rparr> io_state = (Ok (Amd64_frame write_regs), io_state)"
    by (simp add: GetRegs_def write_Ioctl overlay_def go_simps)
  show "store_result AMD64 write_host \<lparr>vcpu_fd = 5\<rparr> (Amd64_frame write_regs) (call_arg (Amd64_frame write_regs) 2) io_state =
      (Ok (), io_state)"
    by (simp add: SetRegs_def Ioctl_err_def write_Ioctl go_simps)
qed (simp_all only: write_frame, simp_all add: io_state_def blank_state_def guest_range_def ram_off_def Let_def)

text \<open>C33. A guest that asks to exit stops, on either architecture: when a virtual CPU leaves the kernel with
  an I/O or memory-mapped I/O exit and its call frame holds the number of the exit hypercall, the turn
  ends the goroutine with \<open>ErrExit\<close>, with and without tracing, and no register of the guest is written any
  more.\<close>

theorem guest_exit_ends_thread:
  assumes "io_exit h cpu s t" and "v = vcpus (the_vm s) ! cpu" and "fetch_call isa h v t = (Ok fr, u)"
    and "call_num fr = hypExit"
  shows "thread_turn h (arch_of isa h) (Hypercall h (arch_of isa h)) trace cpu s =
    (Ok (Some (Some ErrExit)), snd (cpu_exited h cpu (Some ErrExit) u))"
proof -
  have "RunOnce h (arch_of isa h) (Hypercall h (arch_of isa h)) cpu s = (Ok (False, Some ErrExit), u)"
    using abi_isa.turn_error [where hyp = "Hypercall h (arch_of isa h)", OF assms(1-3), of ErrExit u] assms(4)
    by (simp add: Hypercall_def go_simps)
  then have "loop_turn h (arch_of isa h) (Hypercall h (arch_of isa h)) cpu trace s = (Ok (Some (Some ErrExit)), u)"
    by (simp add: loop_turn_def go_simps)
  from thread_turn_stop [OF this] show ?thesis
    by (auto simp: cpu_exited_def eprint_def host_call_def go_simps bnd_def split_beta split: prod.splits res.splits)
qed

text \<open>A host that has the exit number in every register of an arm64 virtual CPU.\<close>

abbreviation exit_host :: "unit host" where "exit_host \<equiv> still_host (outcome 0 0 (le64 1))"

lemma exit_Ioctl: "Ioctl exit_host fd req arg s = (Ok ((0, None), overlay (le64 1) (ioarg_buf arg)), s)"
  by (simp add: Ioctl_def outcome_def map_ram_def map_vm_def map_machine_def)

theorem guest_exit_ends_thread_witness:
  "fst (thread_turn exit_host (arch_of ARM64 exit_host) (Hypercall exit_host (arch_of ARM64 exit_host)) False 0 io_state) =
   Ok (Some (Some ErrExit))"
proof -
  have io: "io_exit exit_host 0 io_state io_state"
    by (simp add: io_exit_def vcpu_Run_def exit_Ioctl go_simps) (simp add: io_state_def blank_state_def)
  have "fetch_call ARM64 exit_host (vcpus (the_vm io_state) ! 0) io_state = (Ok (Arm64_frame [1, 1, 1, 1, 1, 1, 1]), io_state)"
    by (simp add: arm64_GetReg_def arm64_getReg_def exit_Ioctl go_simps rd64_le64)
  from guest_exit_ends_thread [OF io refl this, of False] show ?thesis by (simp add: call_num_def)
qed

end
