(* ===== verification/Guest_Files.thy ===== *)
theory Guest_Files
  imports Container_Spec
begin

text \<open>
  Files as a guest sees them: sequences of hypercalls against what POSIX promises of the host's
  \<open>open\<close>, \<open>read\<close>, \<open>write\<close> and \<open>lseek\<close> on regular files and KVM of the translation of pointers. The promises
  are predicates on the host, and the results hold for every host that keeps them, on both architectures.
\<close>

section \<open>What the host promises\<close>

text \<open>What counts of a world: the contents of the regular files that can be opened, by path; contents and offset by
  open descriptor (one that does not append); and the physical address that the guest's page tables in RAM and the
  control registers give to a virtual one, if it is mapped.\<close>

record fs =
  paths :: "string \<rightharpoonup> bytes"
  cursors :: "u64 \<rightharpoonup> bytes \<times> nat"
  pages :: "bytes \<Rightarrow> u64 \<rightharpoonup> u64"

text \<open>Opening for reading starts at the first byte.\<close>

definition posix_open :: "'w host \<Rightarrow> ('w \<Rightarrow> fs) \<Rightarrow> bool" where
  "posix_open h fs \<longleftrightarrow> (\<forall>w path mode c. paths (fs w) path = Some c \<longrightarrow>
     (\<exists>sfd w'. sys_open h path 0 mode w = (Inr sfd, w') \<and> cursors (fs w') sfd = Some (c, 0) \<and> pages (fs w') = pages (fs w)))"

text \<open>A read without an I/O error delivers some bytes from the offset on and advances it, possibly fewer than asked
  for, but none only at the end of the file.\<close>

definition posix_read :: "'w host \<Rightarrow> ('w \<Rightarrow> fs) \<Rightarrow> bool" where
  "posix_read h fs \<longleftrightarrow> (\<forall>w fd c off n. cursors (fs w) fd = Some (c, off) \<longrightarrow> 0 < n \<longrightarrow>
     (\<exists>k w'. k \<le> n \<and> k \<le> length c - off \<and> (k = 0 \<longleftrightarrow> length c \<le> off) \<and>
        sys_read h fd n w = (Inr (take k (drop off c)), w') \<and> cursors (fs w') fd = Some (c, off + k) \<and>
        pages (fs w') = pages (fs w)))"

text \<open>A write replaces the bytes from the offset on, or appends. It may fail, having stored any number of its
  bytes; \<open>os.File.Write\<close> reports success only when it stored all of them.\<close>

definition posix_write :: "'w host \<Rightarrow> ('w \<Rightarrow> fs) \<Rightarrow> bool" where
  "posix_write h fs \<longleftrightarrow> (\<forall>w fd c off bs. cursors (fs w) fd = Some (c, off) \<longrightarrow> off \<le> length c \<longrightarrow>
     (\<exists>r k w'. sys_write h fd bs w = (r, w') \<and> k \<le> length bs \<and> (\<forall>n. r = Inr n \<longrightarrow> k = length bs) \<and>
        cursors (fs w') fd = Some (take off c @ take k bs @ drop (off + k) c, off + k) \<and> pages (fs w') = pages (fs w)))"

text \<open>Seeking to the start.\<close>

definition posix_rewind :: "'w host \<Rightarrow> ('w \<Rightarrow> fs) \<Rightarrow> bool" where
  "posix_rewind h fs \<longleftrightarrow> (\<forall>w fd c off. cursors (fs w) fd = Some (c, off) \<longrightarrow>
     (\<exists>w'. sys_lseek h fd 0 0 w = (Inr 0, w') \<and> cursors (fs w') fd = Some (c, 0) \<and> pages (fs w') = pages (fs w)))"

text \<open>The translation of a pointer for virtual CPU \<open>cpu\<close> of \<open>vs\<close>: KVM walks the page tables and touches neither
  the guest nor files. On arm64 no request is made, and the translation is arithmetic.\<close>

definition kvm_translates :: "('w, 'c) arch \<Rightarrow> vcpu list \<Rightarrow> nat \<Rightarrow> ('w \<Rightarrow> fs) \<Rightarrow> bool" where
  "kvm_translates A vs cpu fs \<longleftrightarrow>
     (\<forall>s a pa. vcpus (the_vm s) = vs \<longrightarrow> pages (fs (world s)) (ram s) a = Some pa \<longrightarrow>
        (\<exists>w. VtoP A cpu a s = (Ok pa, s\<lparr>world := w\<rparr>) \<and> fs w = fs (world s)))"

lemma kvm_translates_arm64:
  "(\<And>w m a pa. pages (fs w) m a = Some pa \<Longrightarrow> pa = arm64_ka2pa a) \<Longrightarrow> kvm_translates (arm64 h) vs cpu fs"
  unfolding kvm_translates_def by (metis arm64_VtoP_eq st.surjective st.update_convs(1))

lemma kvm_translatesE:
  assumes "kvm_translates A vs cpu fs" and "vcpus (the_vm s) = vs" and "pages (fs (world s)) (ram s) a = Some pa"
  obtains w where "VtoP A cpu a s = (Ok pa, s\<lparr>world := w\<rparr>)" and "fs w = fs (world s)"
  using assms unfolding kvm_translates_def by blast

text \<open>A buffer of the guest: \<open>len\<close> bytes of RAM at \<open>pa\<close>, which the pointer \<open>a\<close> translates to whatever the buffer
  holds, so that filling it does not change its own mapping.\<close>

definition same_outside :: "nat \<Rightarrow> nat \<Rightarrow> bytes \<Rightarrow> bytes \<Rightarrow> bool" where
  "same_outside off len m m' \<longleftrightarrow>
     length m' = length m \<and> take off m' = take off m \<and> drop (off + len) m' = drop (off + len) m"

definition buffer :: "('w \<Rightarrow> fs) \<Rightarrow> u64 \<Rightarrow> u64 \<Rightarrow> nat \<Rightarrow> ('w, 'c) st \<Rightarrow> bool" where
  "buffer fs a pa len s \<longleftrightarrow> guest_range s pa len \<and>
     (\<forall>m. same_outside (ram_off pa) len (ram s) m \<longrightarrow> pages (fs (world s)) m a = Some pa)"

lemma buffer_mapped: "buffer fs a pa len s \<Longrightarrow> pages (fs (world s)) (ram s) a = Some pa"
  by (simp add: buffer_def same_outside_def)

lemma buffer_frame:
  "buffer fs a pa len s \<Longrightarrow> pages (fs (world t)) = pages (fs (world s)) \<Longrightarrow> same_outside (ram_off pa) len (ram s) (ram t) \<Longrightarrow>
   buffer fs a pa len t"
  by (simp add: buffer_def guest_range_def same_outside_def)

lemma same_outside_write:
  assumes "off + len \<le> length m" and "length bs \<le> len"
  shows "same_outside off len m (mem_write off bs m)"
proof -
  have "drop (off + len) (mem_write off bs m) = drop (off + len) m"
    using assms by (simp add: mem_write_def add.commute add.left_commute)
  with assms show ?thesis by (simp add: same_outside_def) (simp add: mem_write_def)
qed

section \<open>Reading to the end\<close>

text \<open>A guest that reads into the same buffer of \<open>sz\<close> bytes until it gets 0, at most \<open>n\<close> times, and what it
  collects.\<close>

fun read_loop ::
  "nat \<Rightarrow> 'w host \<Rightarrow> ('w, Container) arch \<Rightarrow> nat \<Rightarrow> u64 \<Rightarrow> u64 \<Rightarrow> u64 \<Rightarrow> u64 \<Rightarrow> 'w cst \<Rightarrow> (bytes \<times> 'w cst) option" where
  "read_loop 0 h A cpu fd a pa sz s = None"
| "read_loop (Suc n) h A cpu fd a pa sz s =
     (case Hypercall h A cpu hypRead fd a sz 0 0 0 s of
        (Ok r, t) \<Rightarrow>
          if r = 0 then Some ([], t)
          else if r = errFail then None
          else map_option (\<lambda>(bs, u). (mem_read (ram_off pa) (unat r) (ram t) @ bs, u)) (read_loop n h A cpu fd a pa sz t)
      | (Err e, t) \<Rightarrow> None
      | (Panic q, t) \<Rightarrow> None)"

text \<open>The guest holds a descriptor of a file with contents \<open>c\<close>, at offset \<open>off\<close>.\<close>

definition has_open :: "('w \<Rightarrow> fs) \<Rightarrow> u64 \<Rightarrow> bytes \<Rightarrow> nat \<Rightarrow> 'w cst \<Rightarrow> bool" where
  "has_open fs fd c off s \<longleftrightarrow>
     (\<exists>f. fdtable (handler s) fd = Some f \<and> cursors (fs (world s)) (sysfd f) = Some (c, off))"

lemma read_once:
  assumes "posix_read h fs" and "kvm_translates A (vcpus (the_vm s)) cpu fs" and "has_open fs fd c off s"
    and "buffer fs a pa (unat sz) s" and "sz \<noteq> 0"
  obtains k t where "Hypercall h A cpu hypRead fd a sz a3 a4 a5 s = (Ok (word_of_nat k), t)"
    and "k \<le> unat sz" and "k \<le> length c - off" and "k = 0 \<longleftrightarrow> length c \<le> off"
    and "mem_read (ram_off pa) k (ram t) = take k (drop off c)"
    and "has_open fs fd c (off + k) t" and "buffer fs a pa (unat sz) t" and "handler t = handler s"
    and "vcpus (the_vm t) = vcpus (the_vm s)"
proof -
  have range: "guest_range s pa (unat sz)" using assms(4) by (simp add: buffer_def)
  from assms(3) obtain f where f: "fdtable (handler s) fd = Some f" "cursors (fs (world s)) (sysfd f) = Some (c, off)"
    by (auto simp: has_open_def)
  obtain w where w: "VtoP A cpu a s = (Ok pa, s\<lparr>world := w\<rparr>)" "fs w = fs (world s)"
    using assms(2) refl buffer_mapped [OF assms(4)] by (rule kvm_translatesE)
  have "0 < unat sz" using assms(5) by (simp add: unat_gt_0)
  with assms(1) f(2) w(2) obtain k w' where k: "k \<le> unat sz" "k \<le> length c - off" "k = 0 \<longleftrightarrow> length c \<le> off"
    "sys_read h (sysfd f) (unat sz) w = (Inr (take k (drop off c)), w')" "cursors (fs w') (sysfd f) = Some (c, off + k)" "pages (fs w') = pages (fs (world s))"
    unfolding posix_read_def by metis
  let ?t = "map_ram (mem_write (ram_off pa) (take k (drop off c))) (s\<lparr>world := w'\<rparr>)"
  have len: "length (take k (drop off c)) = k" using k(2) by simp
  have "Hypercall h A cpu hypRead fd a sz a3 a4 a5 s = (Ok (word_of_nat k), ?t)"
    using hyp_Read_bytes [OF w(1), where f = f and bs = "take k (drop off c)" and w = w'] f k range assms(5) len
    by (simp add: Hypercall_def)
  moreover have fits: "ram_off pa + k \<le> length (ram s)" using range k(1) by (simp add: guest_range_def)
  moreover have "mem_read (ram_off pa) k (ram ?t) = take k (drop off c)"
    using mem_read_write_same [of "ram_off pa" "take k (drop off c)" "ram s"] len fits by simp
  moreover have "buffer fs a pa (unat sz) ?t"
    using same_outside_write [of "ram_off pa" "unat sz" "ram s" "take k (drop off c)"] range len k(1,6)
    by (intro buffer_frame [OF assms(4)]) (simp_all add: guest_range_def)
  ultimately show thesis using that [of k ?t] k f(1) by (simp add: has_open_def)
qed

lemma unat_errFail: "unat (errFail :: u64) = 0xFFFFFFFFFFFFFFFF"
  by (simp add: unsigned_minus_1_eq_mask mask_eq_exp_minus_1)

lemma read_loop_rest:
  assumes "posix_read h fs" and "kvm_translates A vs cpu fs" and "sz \<noteq> 0"
  shows "has_open fs fd c off s \<Longrightarrow> buffer fs a pa (unat sz) s \<Longrightarrow> length c - off < n \<Longrightarrow> vcpus (the_vm s) = vs \<Longrightarrow>
    \<exists>t. read_loop n h A cpu fd a pa sz s = Some (drop off c, t) \<and> handler t = handler s"
proof (induction n arbitrary: s off)
  case (Suc n)
  have tr: "kvm_translates A (vcpus (the_vm s)) cpu fs" using assms(2) Suc.prems(4) by simp
  from read_once [OF assms(1) tr Suc.prems(1,2) assms(3), of 0 0 0] obtain k t where
    k: "Hypercall h A cpu hypRead fd a sz 0 0 0 s = (Ok (word_of_nat k), t)" "k \<le> unat sz" "k \<le> length c - off"
    "k = 0 \<longleftrightarrow> length c \<le> off" "mem_read (ram_off pa) k (ram t) = take k (drop off c)"
    and t: "has_open fs fd c (off + k) t" "buffer fs a pa (unat sz) t" "handler t = handler s" "vcpus (the_vm t) = vs"
    using Suc.prems(4) by blast
  have "k < 2 ^ 62 + 1" using k(2) Suc.prems(2) by (simp add: buffer_def guest_range_def)
  then have u: "unat (word_of_nat k :: u64) = k" by (simp add: unat_of_nat take_bit_nat_eq_self)
  show ?case
  proof (cases "k = 0")
    case True
    with k(1,4) t(3) show ?thesis by simp
  next
    case False
    have "length c - (off + k) < n" using False k(3,4) Suc.prems(3) by linarith
    from Suc.IH [OF t(1,2) this t(4)] obtain v where
      v: "read_loop n h A cpu fd a pa sz t = Some (drop (off + k) c, v)" "handler v = handler t" by blast
    have "(word_of_nat k :: u64) \<noteq> 0" "(word_of_nat k :: u64) \<noteq> errFail"
      using u False \<open>k < 2 ^ 62 + 1\<close> unat_errFail by auto
    moreover have "take k (drop off c) @ drop (off + k) c = drop off c"
      by (metis append_take_drop_id drop_drop add.commute)
    ultimately show ?thesis using k(1,5) u v t(3) by simp
  qed
qed simp

section \<open>Opening, writing and rewinding\<close>

lemma hyp_Open_admitted:
  assumes "VtoP A cpu a s = (Ok pa, t)" and "guest_range t pa 0" and "drop (ram_off pa) (ram t) = cstr name @ rest"
    and "CHR 0x00 \<notin> set name" and "filepath_IsAbs name" and "CanAccess (handler t) (filepath_Clean name)"
    and "nextfd (handler t) < fdMax" and "sys_open h (filepath_Clean name) flags (ucast mode) (world t) = (Inr sfd, w)"
  shows "Hypercall h A cpu hypOpen a flags mode a3 a4 a5 s =
    (Ok (nextfd (handler t)), t\<lparr>world := w, handler := (handler t)\<lparr>
       fdtable := (fdtable (handler t))(nextfd (handler t) \<mapsto> \<lparr>sysfd = sfd, fname = filepath_Clean name\<rparr>),
       nextfd := nextfd (handler t) + 1\<rparr>\<rparr>)"
proof -
  have "mem_read (ram_off pa) (length (ram t) - ram_off pa) (ram t) = cstr name @ rest"
    using assms(3) by (simp add: mem_read_def flip: length_drop)
  moreover have "addFile \<lparr>sysfd = sfd, fname = filepath_Clean name\<rparr> (t\<lparr>world := w\<rparr>) =
    (Ok (nextfd (handler t)), t\<lparr>world := w, handler := (handler t)\<lparr>
       fdtable := (fdtable (handler t))(nextfd (handler t) \<mapsto> \<lparr>sysfd = sfd, fname = filepath_Clean name\<rparr>),
       nextfd := nextfd (handler t) + 1\<rparr>\<rparr>)"
    using assms(7) by (simp add: addFile_Ok)
  ultimately show ?thesis
    using cstring_cstr [OF assms(4)] assms
    by (simp add: Hypercall_def hyp_Open_def go_simps SliceEnd_range slice_bytes_def slice_len_def filepath_Abs_def
        attempt_def open_file_def host_try_eq)
qed

text \<open>A descriptor that the guest has, after a write of the bytes at \<open>pa\<close>, and after seeking to the start. The
  host's write of \<open>bs\<close> on descriptor \<open>fd\<close> cannot fail in a world like the present one:\<close>

definition write_succeeds :: "'w host \<Rightarrow> ('w \<Rightarrow> fs) \<Rightarrow> u64 \<Rightarrow> bytes \<Rightarrow> 'w cst \<Rightarrow> bool" where
  "write_succeeds h fs fd bs s \<longleftrightarrow>
     (\<forall>f w. fdtable (handler s) fd = Some f \<longrightarrow> fs w = fs (world s) \<longrightarrow> (\<exists>n. fst (sys_write h (sysfd f) bs w) = Inr n))"

lemma write_once:
  assumes "posix_write h fs" and "kvm_translates A (vcpus (the_vm s)) cpu fs" and "has_open fs fd c off s" and "off \<le> length c"
    and "guest_range s pa (unat sz)" and "pages (fs (world s)) (ram s) a = Some pa"
  obtains k w where "Hypercall h A cpu hypWrite fd a sz a3 a4 a5 s = (Ok sz, s\<lparr>world := w\<rparr>)" and "k \<le> unat sz"
    and "write_succeeds h fs fd (mem_read (ram_off pa) (unat sz) (ram s)) s \<longrightarrow> k = unat sz"
    and "has_open fs fd (take off c @ take k (mem_read (ram_off pa) (unat sz) (ram s)) @ drop (off + k) c) (off + k) (s\<lparr>world := w\<rparr>)"
    and "pages (fs w) = pages (fs (world s))"
proof -
  from assms(3) obtain f where f: "fdtable (handler s) fd = Some f" "cursors (fs (world s)) (sysfd f) = Some (c, off)"
    by (auto simp: has_open_def)
  obtain w where w: "VtoP A cpu a s = (Ok pa, s\<lparr>world := w\<rparr>)" "fs w = fs (world s)"
    using assms(2) refl assms(6) by (rule kvm_translatesE)
  let ?b = "mem_read (ram_off pa) (unat sz) (ram s)"
  have len: "length ?b = unat sz" using assms(5) by (auto simp: mem_read_def guest_range_def)
  from f(2) w(2) have "cursors (fs w) (sysfd f) = Some (c, off)" by simp
  from assms(1) [unfolded posix_write_def, rule_format, OF this assms(4), of ?b, unfolded w(2)] obtain r k w' where k: "sys_write h (sysfd f) ?b w = (r, w')" "k \<le> length ?b"
    "\<forall>n. r = Inr n \<longrightarrow> k = length ?b" "cursors (fs w') (sysfd f) = Some (take off c @ take k ?b @ drop (off + k) c, off + k)"
    "pages (fs w') = pages (fs (world s))" by blast
  have "k = unat sz" if "write_succeeds h fs fd ?b s"
  proof -
    from that f(1) w(2) obtain n where "fst (sys_write h (sysfd f) ?b w) = Inr n" unfolding write_succeeds_def by blast
    with k(1,3) len show ?thesis by simp
  qed
  moreover have "Hypercall h A cpu hypWrite fd a sz a3 a4 a5 s = (Ok sz, s\<lparr>world := w'\<rparr>)"
    using write_hypercall_eq [OF w(1), of fd f sz h] f(1) assms(5) k(1) by simp
  moreover have "has_open fs fd (take off c @ take k ?b @ drop (off + k) c) (off + k) (s\<lparr>world := w'\<rparr>)"
    using f(1) k(4) by (simp add: has_open_def)
  ultimately show thesis using that [of w' k] k(2,5) len by simp
qed

lemma rewind_once:
  assumes "posix_rewind h fs" and "has_open fs fd c off s"
  obtains w where "Hypercall h A cpu hypLseek fd 0 0 a3 a4 a5 s = (Ok 0, s\<lparr>world := w\<rparr>)" and "has_open fs fd c 0 (s\<lparr>world := w\<rparr>)"
    and "pages (fs w) = pages (fs (world s))"
proof -
  from assms(2) obtain f where f: "fdtable (handler s) fd = Some f" "cursors (fs (world s)) (sysfd f) = Some (c, off)"
    by (auto simp: has_open_def)
  with assms(1) obtain w where "sys_lseek h (sysfd f) 0 0 (world s) = (Inr 0, w)" "cursors (fs w) (sysfd f) = Some (c, 0)"
    "pages (fs w) = pages (fs (world s))"
    unfolding posix_rewind_def by metis
  with that [of w] f(1) lseek_hypercall [OF f(1), of h 0 0 "Inr 0" w] show thesis
    by (simp add: has_open_def)
qed

section \<open>A host with one file\<close>

text \<open>The world is the file's contents and offset; every descriptor denotes it. The device holds at most eight bytes:
  a write beyond is cut and fails with \<open>ENOSPC\<close>. Every page of the guest is mapped to the same place.\<close>

abbreviation file_answer :: bytes where "file_answer \<equiv> le64 0 @ le64 0x40000008"

definition file_host :: "(bytes \<times> nat) host" where
  "file_host =
     \<lparr>sys_ioctl = (\<lambda>fd op arg m rs w. (outcome 0 0 file_answer, w)),
      sys_open = (\<lambda>p fl md (c, off). (Inr 7, (c, 0))),
      sys_read = (\<lambda>fd n (c, off). (Inr (take n (drop off c)), (c, off + min n (length c - off)))),
      sys_write = (\<lambda>fd b (c, off). let k = min (length b) (8 - off) in
        (if k = length b then Inr k else Inl (Errno 28), (take off c @ take k b @ drop (off + k) c, off + k))),
      sys_lseek = (\<lambda>fd off wh (c, _). (Inr off, (c, unat off))),
      sys_fstat = (\<lambda>fd w. (Inl (Errno 9), w)),
      sys_getdents = (\<lambda>fd n w. (Inr [], w)),
      sys_time = (\<lambda>w. ((1000, 5), w)),
      sys_getwd = (\<lambda>w. (Inr ''/w'', w)),
      sys_mmap = (\<lambda>n p w. (Inr 4096, w)),
      sys_mmap_run = (\<lambda>fd n w. (Inr blank_run, w)),
      sys_pagesize = 16,
      sys_log = (\<lambda>msg w. w),
      fmt_err = (\<lambda>e. ''error''),
      x86_disasm = (\<lambda>b pc. Inl EOF)\<rparr>"

definition file_fs :: "bytes \<times> nat \<Rightarrow> fs" where
  "file_fs w = \<lparr>paths = [''/w/a'' \<mapsto> fst w], cursors = (\<lambda>_. Some w), pages = (\<lambda>_ _. Some 0x40000008)\<rparr>"

lemma file_host_posix: "posix_open file_host file_fs" "posix_rewind file_host file_fs"
  by (auto simp: posix_open_def posix_rewind_def file_host_def file_fs_def split: if_splits)

lemma file_host_write: "posix_write file_host file_fs"
  by (auto simp: posix_write_def file_host_def file_fs_def Let_def)

lemma file_host_read: "posix_read file_host file_fs"
  unfolding posix_read_def
proof (intro allI impI)
  fix w fd c off and n :: nat
  assume "cursors (file_fs w) fd = Some (c, off)" "0 < n"
  then show "\<exists>k w'. k \<le> n \<and> k \<le> length c - off \<and> (k = 0 \<longleftrightarrow> length c \<le> off) \<and>
      sys_read file_host fd n w = (Inr (take k (drop off c)), w') \<and> cursors (file_fs w') fd = Some (c, off + k) \<and>
      pages (file_fs w') = pages (file_fs w)"
    by (intro exI [of _ "min n (length c - off)"]) (auto simp: file_host_def file_fs_def min_def)
qed

definition file_state :: "bytes \<Rightarrow> (bytes \<times> nat) cst" where
  "file_state c = \<lparr>world = (c, 0), machine = machine named_state, handler = sample_container\<rparr>"

lemma file_state_simps [simp]:
  "world (file_state c) = (c, 0)" "handler (file_state c) = sample_container"
  "ram (file_state c) = replicate 8 0 @ cstr ''/w/a'' @ replicate 83 0"
  by (simp_all add: file_state_def named_state_def)

lemma file_state_range: "n \<le> 88 \<Longrightarrow> guest_range (file_state c) 0x40000008 n"
  by (simp add: guest_range_def ram_off_def cstr_def bytes_of_string_def)

lemma file_Ioctl: "Ioctl file_host fd req arg s = (Ok ((0, None), overlay file_answer (ioarg_buf arg)), s)"
  by (simp add: Ioctl_def outcome_def file_host_def map_ram_def map_vm_def map_machine_def)

abbreviation file_vcpus :: "vcpu list" where "file_vcpus \<equiv> [\<lparr>vcpu_fd = 5\<rparr>]"

lemma file_state_vcpus [simp]: "vcpus (the_vm (file_state c)) = file_vcpus"
  by (simp add: file_state_def named_state_def blank_state_def)

lemma file_translates: "kvm_translates (amd64 file_host) file_vcpus 0 file_fs"
proof -
  have "VtoP (amd64 file_host) 0 a s = (Ok 0x40000008, s)" if "vcpus (the_vm s) = file_vcpus" for a and s :: "(bytes \<times> nat, 'c) st"
    using that by (simp add: amd64_def amd64_VtoP_def Translate_def file_Ioctl go_simps overlay_def translation.length_enc
        wf_Translation_def dec_Translation_def get_defs Let_def split_beta le_rd)
  then have "VtoP (amd64 file_host) 0 a s = (Ok pa, s\<lparr>world := world s\<rparr>) \<and> file_fs (world s) = file_fs (world s)"
    if "vcpus (the_vm s) = file_vcpus" "pages (file_fs (world s)) (ram s) a = Some pa" for a pa and s :: "(bytes \<times> nat, 'c) st"
    using that by (simp add: file_fs_def)
  then show ?thesis unfolding kvm_translates_def by blast
qed

lemma file_buffer: "n \<le> 88 \<Longrightarrow> buffer file_fs a 0x40000008 n (file_state c)"
  using file_state_range by (simp add: buffer_def file_fs_def)

section \<open>Properties\<close>

text \<open>C5. A guest reads a file of the host, from its name to its last byte, on either architecture: on a host with POSIX
  \<open>open\<close> and \<open>read\<close>, short reads included and I/O errors not, and with pointers that are mapped, opening an admitted
  absolute path in guest memory gives the next descriptor, and reading it into a buffer in RAM until the result is 0
  collects exactly the contents of the file under the cleaned path, in at most one read more than the file has bytes. The
  buffer may be anywhere in RAM but on the page tables that map it.\<close>

theorem guest_reads_path:
  assumes "posix_open h fs" and "posix_read h fs" and "kvm_translates A (vcpus (the_vm s)) cpu fs"
    and "pages (fs (world s)) (ram s) a0 = Some p0" and "guest_range s p0 0" and "drop (ram_off p0) (ram s) = cstr name @ rest"
    and "CHR 0x00 \<notin> set name" and "filepath_IsAbs name" and "CanAccess (handler s) (filepath_Clean name)"
    and "nextfd (handler s) < fdMax" and "paths (fs (world s)) (filepath_Clean name) = Some c"
    and "buffer fs a1 p1 (unat sz) s" and "sz \<noteq> 0" and "length c < n"
  shows "\<exists>t u. Hypercall h A cpu hypOpen a0 0 mode a3 a4 a5 s = (Ok (nextfd (handler s)), t) \<and>
    read_loop n h A cpu (nextfd (handler s)) a1 p1 sz t = Some (c, u)"
proof -
  obtain w where w: "VtoP A cpu a0 s = (Ok p0, s\<lparr>world := w\<rparr>)" "fs w = fs (world s)"
    using assms(3) refl assms(4) by (rule kvm_translatesE)
  with assms(1,11) obtain sfd w' where
    o: "sys_open h (filepath_Clean name) 0 (ucast mode) w = (Inr sfd, w')" "cursors (fs w') sfd = Some (c, 0)"
    "pages (fs w') = pages (fs (world s))"
    unfolding posix_open_def by metis
  let ?f = "\<lparr>sysfd = sfd, fname = filepath_Clean name\<rparr>"
  let ?t = "s\<lparr>world := w', handler := (handler s)\<lparr>fdtable := (fdtable (handler s))(nextfd (handler s) \<mapsto> ?f),
      nextfd := nextfd (handler s) + 1\<rparr>\<rparr>"
  have "Hypercall h A cpu hypOpen a0 0 mode a3 a4 a5 s = (Ok (nextfd (handler s)), ?t)"
    using hyp_Open_admitted [OF w(1), of name rest h 0 mode sfd w'] assms(5-10) o(1) by simp
  moreover have "has_open fs (nextfd (handler s)) c 0 ?t" using o(2) by (simp add: has_open_def)
  moreover have "buffer fs a1 p1 (unat sz) ?t" using o(3) by (intro buffer_frame [OF assms(12)]) (simp_all add: same_outside_def)
  ultimately show ?thesis using read_loop_rest [OF assms(2,3,13), of "nextfd (handler s)" c 0 ?t a1 p1 n] assms(14) by fastforce
qed

theorem guest_reads_path_witness:
  "\<exists>t u. Hypercall file_host (amd64 file_host) 0 hypOpen sample_ptr 0 0 0 0 0 (file_state [10, 20, 30]) = (Ok 3, t) \<and>
     read_loop 4 file_host (amd64 file_host) 0 3 sample_ptr 0x40000008 2 t = Some ([10, 20, 30], u)"
proof -
  have c: "filepath_Clean ''/w/a'' = ''/w/a''" by (simp add: filepath_Clean_def Let_def)
  have p: "pages (file_fs w) m a = Some 0x40000008" "paths (file_fs (d, k)) ''/w/a'' = Some d" for w m a d k
    by (simp_all add: file_fs_def)
  have "kvm_translates (amd64 file_host) (vcpus (the_vm (file_state [10, 20, 30]))) 0 file_fs" using file_translates by simp
  from guest_reads_path [OF file_host_posix(1) file_host_read this p(1), where name = "''/w/a''" and rest = "replicate 83 0"
      and c = "[10, 20, 30]" and ?a1.0 = sample_ptr and ?p1.0 = "0x40000008" and sz = 2 and n = 4 and ?a0.0 = sample_ptr
      and mode = 0 and ?a3.0 = 0 and ?a4.0 = 0 and ?a5.0 = 0]
  show ?thesis
    by (simp add: c p file_buffer file_state_range CanAccess_def strings_HasPrefix_def sample_container_def)
qed

text \<open>C6. What a guest writes to a file it reads back, on either architecture: with the offset of an open file at its
  start, writing a buffer, seeking to the start and reading to the end gives the first bytes of the buffer, followed by
  what the file had beyond them: all bytes of the buffer if the host's write succeeds, and as many as the host stored
  if it does not, although the guest is told that all were written; the three kinds of hypercall leave the container as
  it was.\<close>

theorem guest_file_roundtrip:
  assumes "posix_write h fs" and "posix_rewind h fs" and "posix_read h fs" and "kvm_translates A (vcpus (the_vm s)) cpu fs"
    and "has_open fs fd c 0 s" and "guest_range s p0 (unat k)" and "pages (fs (world s)) (ram s) a0 = Some p0"
    and "buffer fs a1 p1 (unat sz) s" and "sz \<noteq> 0" and "length c + unat k < n" and "buf = mem_read (ram_off p0) (unat k) (ram s)"
  shows "\<exists>j t u v. j \<le> unat k \<and> (write_succeeds h fs fd buf s \<longrightarrow> j = unat k) \<and>
    Hypercall h A cpu hypWrite fd a0 k a3 a4 a5 s = (Ok k, t) \<and>
    Hypercall h A cpu hypLseek fd 0 0 b3 b4 b5 t = (Ok 0, u) \<and>
    read_loop n h A cpu fd a1 p1 sz u = Some (take j buf @ drop j c, v) \<and> handler v = handler s"
proof -
  from write_once [OF assms(1,4,5) le0 assms(6,7), of a3 a4 a5, folded assms(11), unfolded take_0 append_Nil add_0] obtain j w where
    j: "Hypercall h A cpu hypWrite fd a0 k a3 a4 a5 s = (Ok k, s\<lparr>world := w\<rparr>)" "j \<le> unat k"
      "write_succeeds h fs fd buf s \<longrightarrow> j = unat k" "has_open fs fd (take j buf @ drop j c) j (s\<lparr>world := w\<rparr>)"
      "pages (fs w) = pages (fs (world s))" by blast
  let ?c = "take j buf @ drop j c"
  from rewind_once [OF assms(2) j(4), of A cpu b3 b4 b5] obtain w' where
    u: "Hypercall h A cpu hypLseek fd 0 0 b3 b4 b5 (s\<lparr>world := w\<rparr>) = (Ok 0, s\<lparr>world := w'\<rparr>)"
      "has_open fs fd ?c 0 (s\<lparr>world := w'\<rparr>)" "pages (fs w') = pages (fs (world s))" using j(5) by auto
  have "buffer fs a1 p1 (unat sz) (s\<lparr>world := w'\<rparr>)"
    using u(3) by (intro buffer_frame [OF assms(8)]) (simp_all add: same_outside_def)
  moreover have "length ?c - 0 < n" using assms(10) j(2) by simp
  ultimately obtain v where "read_loop n h A cpu fd a1 p1 sz (s\<lparr>world := w'\<rparr>) = Some (?c, v)" "handler v = handler s"
    using read_loop_rest [OF assms(3,4,9) u(2), of a1 p1 n] by auto
  with j(1-3) u(1) show ?thesis by blast
qed

theorem guest_file_roundtrip_witness:
  "\<exists>t u v. Hypercall file_host (amd64 file_host) 0 hypWrite 0 sample_ptr 4 0 0 0 (file_state [1, 2, 3, 4, 5]) = (Ok 4, t) \<and>
     Hypercall file_host (amd64 file_host) 0 hypLseek 0 0 0 0 0 0 t = (Ok 0, u) \<and>
     read_loop 10 file_host (amd64 file_host) 0 0 sample_ptr 0x40000008 3 u = Some ([47, 119, 47, 97, 5], v)"
proof -
  let ?s = "file_state [1, 2, 3, 4, 5]"
  have b: "mem_read 8 4 (replicate 8 0 @ cstr ''/w/a'' @ replicate 83 0) = [47, 119, 47, 97]"
    by (simp add: mem_read_def cstr_def bytes_of_string_def)
  have "has_open file_fs 0 [1, 2, 3, 4, 5] 0 ?s" by (simp add: has_open_def file_fs_def)
  moreover have "pages (file_fs w) m a = Some 0x40000008" for w m a by (simp add: file_fs_def)
  moreover have "kvm_translates (amd64 file_host) (vcpus (the_vm ?s)) 0 file_fs" using file_translates by simp
  moreover have "write_succeeds file_host file_fs 0 [47, 119, 47, 97] ?s"
    by (auto simp: write_succeeds_def file_fs_def file_host_def fun_eq_iff)
  ultimately show ?thesis
    using guest_file_roundtrip [OF file_host_write file_host_posix(2) file_host_read, where A = "amd64 file_host" and s = ?s
        and cpu = 0 and fd = 0 and c = "[1, 2, 3, 4, 5]" and ?p0.0 = "0x40000008" and k = 4 and ?a0.0 = sample_ptr
        and ?a1.0 = sample_ptr and ?p1.0 = "0x40000008" and sz = 3 and n = 10 and buf = "[47, 119, 47, 97]" and ?a3.0 = 0
        and ?a4.0 = 0 and ?a5.0 = 0 and ?b3.0 = 0 and ?b4.0 = 0 and ?b5.0 = 0]
    by (auto simp: b file_buffer file_state_range)
qed

end
