(* ===== verification/Spec2Isabelle.thy ===== *)
theory Spec2Isabelle
  imports Revisor_Main Ioctl_Sizes Boot_Order Guest_Calls Guest_Files
begin

text \<open>
  Revisor is a hypervisor on top of Linux KVM, written in Go, for amd64 and arm64. The command
  \<open>cmd/revisor/revisor.go\<close> makes a container (\<open>container.go\<close>), a machine with one virtual CPU
  (package \<open>kvm\<close>), loads a guest kernel and boots it (\<open>boot.go\<close>). The guest kernel talks to
  the host through hypercalls: a virtual CPU leaves \<open>KVM_RUN\<close> with an I/O exit, the machine reads
  number and arguments from the guest's registers, the container's method \<open>Hypercall\<close>
  (\<open>hypercall.go\<close>) acts on files of the host, and the result goes back into a register. The
  container keeps the table of open files and admits only paths below the configured
  directories. Signals of the host become interrupts of the guest.

  \<^bold>\<open>Modelling.\<close> A Go function is a function from a state to a result and a state, the type
  \<open>go\<close> of theory \<open>Prelude\<close>; a result is \<open>Ok\<close>, an error value (\<open>Err\<close>) or a Go panic (\<open>Panic\<close>),
  and the changes made before an error or a panic stay. The state \<open>st\<close> of theory \<open>Host\<close> has the
  Go objects (\<open>Machine\<close>, \<open>vm\<close>, \<open>vcpu\<close>, the handler), guest RAM as a list of bytes, the
  mapped run pages, and a value \<open>world\<close> of an arbitrary type that stands for the rest of the
  computer. The host is the record \<open>host\<close> of the system calls that the sources make (\<open>ioctl\<close>,
  \<open>open\<close>, \<open>read\<close>, \<open>mmap\<close>, \<open>getwd\<close> and others), each a function of the world; it also answers
  for the guest, since \<open>KVM_RUN\<close> is an ioctl that may change RAM, the run page and the
  world in any way. The theorems hold for every host, so for every guest; where one needs more
  of the host it says so (\<open>rooted_getwd\<close>: the working directory is an absolute path; the
  length of what \<open>read\<close> delivers; the file operations of POSIX and KVM's translation of mapped addresses in \<open>Guest_Files\<close>). Machine integers are words at the width of the source and
  wrap around. Structures passed by address are byte lists at the compiler's layout. The kernel's
  answer to an ioctl overlays the buffer that was passed and reaches no other Go object;
  \<open>ioctl_sizes_safe\<close> justifies this, since no request but one announces more bytes than its buffer
  has, and that one is a finding.

  \<^bold>\<open>Theories, in the order of their imports.\<close>
  \<^item> \<open>Prelude\<close>: errors, panics, the monad, and the collections \<open>keeps_rules\<close>, \<open>inv_rules\<close>,
    \<open>same_rules\<close> of rules by which frames, invariants and indistinguishability of composed
    operations are proved. \<open>Bytes\<close>: little-endian encodings and the locale \<open>codec\<close>, which every
    structure of the ioctl interface interprets. \<open>Ioctl_Codes\<close>, \<open>Capability\<close>: \<open>ioctl.go\<close>, the
    constants of \<open>kvm.go\<close>, \<open>capability.go\<close>. \<open>Host\<close>: the state and the host. \<open>Go_Lib\<close>:
    the functions of Go's library that the sources use (\<open>path/filepath\<close>, \<open>strings\<close>,
    \<open>strconv\<close>, \<open>io.ReadFull\<close>).
  \<^item> \<open>Regs_Amd64\<close>, \<open>Cpuid\<close>, \<open>Vcpu\<close>, \<open>Exit_Type\<close>, \<open>Addr\<close>, \<open>Irq\<close>, \<open>Argv\<close>, \<open>Guest_Memory\<close>: the
    parts of package \<open>kvm\<close> with the same names (\<open>regs_amd64.go\<close>, \<open>cpuid_amd64.go\<close>,
    \<open>vcpu.go\<close>, \<open>debug.go\<close>, \<open>regs_arm64.go\<close>, \<open>exittype_string.go\<close>, \<open>irq_amd64.go\<close>,
    \<open>irq_arm64.go\<close>, \<open>argv.go\<close>, and \<open>Slice\<close>, \<open>SliceEnd\<close>, \<open>ReadAt\<close> of \<open>machine.go\<close>). Their
    properties are the layouts of structures at explicit offsets, what \<open>initSregs\<close> and \<open>initCPUID\<close> hand to the
    kernel, bounds of slices, the argument vector as the guest reads it. The sources have no encoders: they pass the
    address of a structure, and the functions \<open>enc_\<close> and \<open>dec_\<close> stand for its bytes in memory.
  \<^item> \<open>Arch\<close>: what the amd64 and the arm64 files define under the same names is the record \<open>arch\<close>
    with the values \<open>amd64\<close> and \<open>arm64\<close>; \<open>arch_of\<close> selects one. The locale \<open>machine_arch\<close> is the
    contract of the portable code with it.
  \<^item> \<open>Machine_Ops\<close>, \<open>Machine_Spec\<close>: \<open>vm.go\<close>, \<open>memory.go\<close>, \<open>machine.go\<close>: creation, loading,
    running; what RAM holds after \<open>LoadKernel\<close>, which kernel files it refuses, when the endless loops return, that
    \<open>NewMachine\<close> delivers what was asked for (locale \<open>machine_setup\<close>).
  \<^item> \<open>Container\<close>, \<open>Container_Inv\<close>, \<open>Container_Spec\<close>: \<open>container.go\<close>, \<open>hypercall.go\<close>; each
    hypercall as an equation; the locale \<open>container_law\<close> says when a property of containers
    survives every hypercall.
  \<^item> \<open>Boot\<close>: \<open>boot.go\<close>, \<open>StartVCPU\<close> and the signal goroutine as a process whose steps are events
    of the main goroutine, of a virtual CPU or of a signal; invariants over all schedules,
    the counter of the wait group and absence of deadlock, what a return of \<open>Boot\<close> means (locale \<open>process\<close>); which
    exits of the kernel end the goroutine of a virtual CPU. \<open>Boot_Order\<close>: the places of
    the main goroutine are linearly ordered and it only moves forward; without signals, one virtual
    CPU makes the process equal to a sequential program, and no schedule can delay its end for ever. \<open>Guest_Calls\<close>: hypercalls end to end,
    from the exit of the virtual CPU to the registers it goes on with; the locale \<open>call_abi\<close> is what the
    exchange of registers has in common on both architectures. \<open>Guest_Files\<close>: sequences of
    hypercalls on a host with POSIX files, whose writes may fail: a guest reads a file from its name to its last byte, and
    reads back what the host stored of what it wrote; the promises of the host are predicates with a concrete
    host on amd64 that keeps them.
  \<^item> \<open>Sandbox\<close>: confinement as non-interference: the host's \<open>open\<close> on paths that are not admitted
    cannot influence any run (locale \<open>confined\<close>). \<open>File_Table\<close>: the abstract table of open
    files and the refinement; that descriptors run out for good. \<open>Flags\<close>: the command line as Go's package \<open>flag\<close> reads it.
    \<open>Revisor_Main\<close>: \<open>revisor.go\<close>. \<open>Ioctl_Sizes\<close>: the size that a request number announces
    against the buffer that goes with it. This theory: the whole command.

  \<^bold>\<open>Loops.\<close> Loops over data are structural or have a termination proof (\<open>zero_fill\<close>
    counts a 64-bit index up to its bound). The two loops that may run forever,
  \<open>RunInfiniteLoop\<close> and \<open>vcpu_thread\<close>, are partial functions with value \<open>None\<close> for not returning;
  \<open>vcpu_thread_ends_iff\<close> says exactly when and how they return, in terms of what \<open>KVM_RUN\<close> reports
  (\<open>guest_goes_on\<close>, \<open>guest_stops\<close>). No definition of the program uses fuel.

  \<^bold>\<open>Concurrency.\<close> A turn of a virtual CPU (\<open>KVM_RUN\<close>, the exchange of a hypercall, the
  handler) and the handling of a signal are atomic in the process of theory \<open>Boot\<close>, and the
  events interleave in every order. With the one virtual CPU that the command creates, this is
  faithful for the container, which only that CPU's goroutine and, without writing, the signal
  goroutine use. A signal that arrives inside a turn does one ioctl on the interrupt controller,
  which changes the world, RAM and the run pages only; since every system call of a turn may change
  them in any way, such a turn is one with another host. Signals are considered from the boot on,
  after \<open>LoadKernel\<close>. The wait group is its counter (\<open>wg_Add\<close>, \<open>wg_Done\<close>): \<open>Wait\<close> returns when it is 0,
  and what the goroutines do reaches the main goroutine only through it, as in the source. The counter has no upper
  bound here; in Go it has 32 bits, far above the number of virtual CPUs that KVM creates.

  \<^bold>\<open>Not modelled.\<close> The example kernel under \<open>rekernel/\<close> (D, C, assembly): it is a guest, and the
  theorems quantify over guests. The parsers and libraries outside the repository: \<open>debug/elf\<close> is
  an argument (the entry point and program headers, with the \<open>ReadAt\<close> of a segment
  modelled, its errors included), \<open>x86asm\<close> is an operation of the host. The messages of package \<open>flag\<close> and the
  timing message after \<open>Boot\<close> returned: only the exit status of a refused command line is kept.
  The types \<open>dirent64\<close> and \<open>ArmDeviceAddr\<close>, which nothing uses. \<open>show\<close> and \<open>showone\<close> of \<open>machine.go\<close>, debugging
  printers over reflection that nothing calls. Symbolic links and other processes: a path is its
  string, and what the host does with it is up to the host. Garbage collection and finalizers:
  \<open>NewMachine\<close> keeps the number of the opened \<open>/dev/kvm\<close> and not the file object, so the
  collector may close it; the model has no collector.
\<close>

section \<open>The whole command\<close>

text \<open>What the specification sees of a fresh container.\<close>

definition initial_table :: table where
  "initial_table = \<lparr>names = [0 \<mapsto> ''/dev/stdin'', 1 \<mapsto> ''/dev/stdout'', 2 \<mapsto> ''/dev/stderr''], fresh = 3\<rparr>"

lemma fresh_container_table: "fresh_container h ds c \<Longrightarrow> table_of c = initial_table"
  by (auto simp: fresh_container_def table_of_def initial_table_def std_files_def fun_eq_iff word_of_nat_eq_iff)

text \<open>C2. The whole command, from its command line to any point of the guest's execution: if the command
  boots, then after every sequence of events, whatever guest and host do, the table of open
  files is one that the abstract table reaches from the three standard files, for a list of
  directories that are the absolute forms of the components of the directory flag, one for each in order; the machine still has
  its one virtual CPU and RAM of the size that the memory flag denotes; and if \<open>Boot\<close> has returned,
  the goroutine of that virtual CPU has ended.\<close>

theorem command_safe:
  assumes "main h (arch_of isa h) rekernel elf_NewFile cmdline w = Booted trace p0"
    and "run_schedule h (arch_of isa h) (Hypercall h (arch_of isa h)) trace evs p0 = Some p"
  shows "\<exists>f args ds sz. flag_Parse default_flags cmdline = Inr (f, args) \<and>
    list_all2 (abs_form h) (strings_Split (CHR '':'') (flag_dir f)) ds \<and> (rooted_getwd h \<longrightarrow> list_all clean_abs ds) \<and>
    dirs (handler (pst p)) = ds \<and> table_run ds initial_table (table_of (handler (pst p))) \<and>
    parseMem (flag_mem f) = Inr sz \<and> length (ram (pst p)) = unat sz \<and> length (vcpus (the_vm (pst p))) = 1 \<and>
    (pc p = Returned \<longrightarrow> (\<exists>err. threads p = [Exited err]))"
proof -
  from main_Booted [OF assms(1)] obtain f args s sz where fl: "flag_Parse default_flags cmdline = Inr (f, args)"
    and p0: "p0 = boot_proc s"
    and c: "fresh_container h (strings_Split (CHR '':'') (flag_dir f)) (handler s)"
    and m: "parseMem (flag_mem f) = Inr sz" "length (ram s) = unat sz" "length (vcpus (the_vm s)) = 1" by blast
  from assms(2) p0 have reach: "guest_reach isa h trace s p" by (auto simp: guest_reach_def reach_iff_schedule)
  from guest_explained [OF this] have ex: "explained (handler s) (handler (pst p))" and sh: "shape (pst p) = shape s" by simp_all
  from sh m have "length (ram (pst p)) = unat sz" "length (vcpus (the_vm (pst p))) = 1"
    by (auto simp: shape_def dest: arg_cong [where f = "\<lambda>v. length (mem v)"] arg_cong [where f = vcpus])
  moreover have "\<exists>err. threads p = [Exited err]" if "pc p = Returned"
  proof -
    from c have "legal (handler s)" by (simp add: fresh_container_def)
    from p_isa.reach_returned [OF reach [unfolded guest_reach_def] legal_sandboxed [OF this] that] m(3)
    have "length (threads p) = 1" "\<exists>err. threads p ! 0 = Exited err" by auto
    then show ?thesis by (cases "threads p") auto
  qed
  ultimately show ?thesis
    using fl ex c m(1) by (auto simp: explained_def fresh_container_table [OF c] fresh_container_def)
qed

text \<open>A run of the example up to the point where the virtual CPU runs and \<open>Boot\<close> waits for it.\<close>

lemma sample_start:
  assumes "length (vcpus (the_vm s)) = 1"
  shows "\<exists>p. run_schedule twelve_host A hyp False [EvMain, EvMain] (boot_proc s) = Some p \<and> threads p = [Running] \<and> pc p = Waiting"
proof -
  from assms obtain v where "vcpus (the_vm s) = [v]" by (auto simp: length_Suc_conv)
  then show ?thesis
    by (simp add: proc_step_def boot_proc_def resume_def start_vcpu_def SingleStep_def vcpu_SingleStep_def setup_defs go_simps)
qed

theorem command_safe_witness:
  "\<exists>p0 p. main twelve_host (arch_of ARM64 twelve_host) (Inr sample_kernel) (\<lambda>fd. Inl EOF) sample_cmdline () =
     Booted False p0 \<and> threads p = [Running] \<and> length (ram (pst p)) = 64 \<and>
     run_schedule twelve_host (arch_of ARM64 twelve_host) (Hypercall twelve_host (arch_of ARM64 twelve_host)) False
       [EvMain, EvMain] p0 = Some p"
proof -
  from sample_main obtain p0 where p0: "main twelve_host (arch_of ARM64 twelve_host) (Inr sample_kernel) (\<lambda>fd. Inl EOF)
      sample_cmdline () = Booted False p0" by blast
  from main_Booted [OF p0] obtain s where "p0 = boot_proc s" "length (vcpus (the_vm s)) = 1" by blast
  with sample_start obtain p where p: "run_schedule twelve_host (arch_of ARM64 twelve_host)
      (Hypercall twelve_host (arch_of ARM64 twelve_host)) False [EvMain, EvMain] p0 = Some p" "threads p = [Running]" by blast
  from command_safe [OF p0 p(1)] have "length (ram (pst p)) = 64" by (auto simp: sample_Parse sample_flags)
  with p0 p show ?thesis by blast
qed

section \<open>The sizes of ioctl arguments\<close>

lemma guarded_main: "main (guarded other h) A rekernel elf_NewFile cmdline w = main h A rekernel elf_NewFile cmdline w"
  unfolding main_def main_run_def main_setup_def fits_simps ..

text \<open>C17. No ioctl announces more bytes than the hypervisor passes, except the identity map request: if
  what the kernel does on every other oversized request is replaced by anything at all, then the set-up
  of the command and every schedule of the booted process stay exactly as they were, on either
  architecture. So the kernel has no occasion to read or write beyond the structures that it is
  handed.\<close>

theorem ioctl_sizes_safe:
  "main (guarded other h) (arch_of isa (guarded other h)) rekernel elf_NewFile cmdline w =
     main h (arch_of isa h) rekernel elf_NewFile cmdline w \<and>
   run_schedule (guarded other h) (arch_of isa (guarded other h)) (Hypercall (guarded other h) (arch_of isa (guarded other h)))
     trace evs p =
     run_schedule h (arch_of isa h) (Hypercall h (arch_of isa h)) trace evs p"
  by (simp add: fits_simps guarded_main)

end
